(* ===== verification/Prelude.thy ===== *)
theory Prelude
  imports Main "HOL-Library.Word" "HOL-Library.Sublist"
begin

text \<open>
  What every component shares: machine integer names, the operations of the C++ standard
  string that the sources use, the error monad, and the record of the library code the
  program calls but does not contain (Boost string algorithms, \<open>lexical_cast\<close>, the stream
  translators of the property tree, floating-point arithmetic).
\<close>

named_theorems str_simps \<open>equations of the std::string operations\<close>
named_theorems err_simps \<open>equations of the error monad\<close>

section \<open>Machine integers\<close>

type_synonym int32 = "32 word"
type_synonym int64 = "64 word"

text \<open>\<open>std::string::operator+=(char)\<close> applied to an integer: the implicit conversion keeps the low byte.\<close>

definition char_of_word :: "'w::len word \<Rightarrow> char" where
  "char_of_word w = char_of (unat w mod 256)"

section \<open>Errors as values\<close>

definition bindE :: "'e + 'a \<Rightarrow> ('a \<Rightarrow> 'e + 'b) \<Rightarrow> 'e + 'b" where
  "bindE m f = (case m of Inl e \<Rightarrow> Inl e | Inr x \<Rightarrow> f x)"

lemma bindE_Inl [simp, err_simps]: "bindE (Inl e) f = Inl e"
  by (simp add: bindE_def)

lemma bindE_Inr [simp, err_simps]: "bindE (Inr x) f = f x"
  by (simp add: bindE_def)

lemma bindE_eq_Inr [err_simps]: "bindE m f = Inr y \<longleftrightarrow> (\<exists>x. m = Inr x \<and> f x = Inr y)"
  by (cases m) auto

lemma bindE_eq_Inl [err_simps]: "bindE m f = Inl e \<longleftrightarrow> m = Inl e \<or> (\<exists>x. m = Inr x \<and> f x = Inl e)"
  by (cases m) auto

lemma bindE_cong [fundef_cong]:
  "m = m' \<Longrightarrow> (\<And>x. m' = Inr x \<Longrightarrow> f x = f' x) \<Longrightarrow> bindE m f = bindE m' f'"
  by (cases m') auto

fun mapE :: "('a \<Rightarrow> 'e + 'b) \<Rightarrow> 'a list \<Rightarrow> 'e + 'b list" where
  "mapE f [] = Inr []"
| "mapE f (x # xs) = bindE (f x) (\<lambda>y. bindE (mapE f xs) (\<lambda>ys. Inr (y # ys)))"

lemma mapE_cong [fundef_cong]:
  "xs = ys \<Longrightarrow> (\<And>x. x \<in> set ys \<Longrightarrow> f x = g x) \<Longrightarrow> mapE f xs = mapE g ys"
  by (induction xs arbitrary: ys) (auto intro!: bindE_cong)

lemma mapE_Inr_length: "mapE f xs = Inr ys \<Longrightarrow> length ys = length xs"
  by (induction xs arbitrary: ys) (auto simp: err_simps)

lemma mapE_map_Inr: "(\<And>x. x \<in> set xs \<Longrightarrow> f (g x) = Inr x) \<Longrightarrow> mapE f (map g xs) = Inr xs"
  by (induction xs) auto

definition throw_unless :: "bool \<Rightarrow> 'e \<Rightarrow> 'e + unit" where
  "throw_unless b e = (if b then Inr () else Inl e)"

section \<open>std::string\<close>

text \<open>\<open>find\<close>: the lowest position not below the start where the pattern occurs; \<open>npos\<close> is \<open>None\<close>.\<close>

primrec find_sub :: "string \<Rightarrow> string \<Rightarrow> nat option" where
  "find_sub p [] = (if p = [] then Some 0 else None)"
| "find_sub p (c # s) = (if prefix p (c # s) then Some 0 else map_option Suc (find_sub p s))"

definition str_find :: "string \<Rightarrow> string \<Rightarrow> nat \<Rightarrow> nat option" where
  "str_find s p pos =
     (if pos \<le> length s then map_option (\<lambda>i. pos + i) (find_sub p (drop pos s)) else None)"

definition str_find_first_not_of :: "string \<Rightarrow> string \<Rightarrow> nat option" where
  "str_find_first_not_of s cs =
     (let n = length (takeWhile (\<lambda>c. c \<in> set cs) s) in if n < length s then Some n else None)"

text \<open>\<open>substr(pos, n)\<close> and \<open>substr(pos)\<close>; the callers keep \<open>pos \<le> size()\<close>, else it throws.\<close>

definition str_substr :: "string \<Rightarrow> nat \<Rightarrow> nat \<Rightarrow> string option" where
  "str_substr s pos n = (if pos \<le> length s then Some (take n (drop pos s)) else None)"

text \<open>\<open>s.erase(s.length() - 1)\<close>: drops the last character (the serialisers call it on non-empty strings).\<close>

definition erase_last :: "string \<Rightarrow> string" where
  "erase_last s = butlast s"

definition str_contains :: "string \<Rightarrow> string \<Rightarrow> bool" where
  "str_contains s p = (find_sub p s \<noteq> None)"

definition CR :: char where "CR = CHR 0x0D"
definition LF :: char where "LF = CHR 0x0A"
definition DQ :: char where "DQ = CHR 0x22"
definition crlf :: string where "crlf = [CR, LF]"

lemma CR_neq_LF [simp]: "CR \<noteq> LF" "LF \<noteq> CR"
  by (simp_all add: CR_def LF_def)

lemma find_sub_Nil [simp, str_simps]: "find_sub [] s = Some 0"
  by (cases s) auto

lemma find_sub_Some:
  "find_sub p s = Some i \<Longrightarrow> i + length p \<le> length s \<and> prefix p (drop i s)"
proof (induction s arbitrary: i)
  case Nil
  then show ?case by (auto split: if_splits)
next
  case (Cons c s)
  then show ?case by (fastforce split: if_splits dest: prefix_length_le)
qed

lemma find_sub_least: "find_sub p s = Some i \<Longrightarrow> j < i \<Longrightarrow> \<not> prefix p (drop j s)"
proof (induction s arbitrary: i j)
  case Nil
  then show ?case by (auto split: if_splits)
next
  case (Cons c s)
  then show ?case by (cases j) (auto split: if_splits)
qed

lemma find_sub_None_iff: "find_sub p s = None \<longleftrightarrow> (\<forall>i\<le>length s. \<not> prefix p (drop i s))"
proof (induction s)
  case Nil
  then show ?case by (cases p) auto
next
  case (Cons c s)
  show ?case
  proof
    assume n: "find_sub p (c # s) = None"
    show "\<forall>i\<le>length (c # s). \<not> prefix p (drop i (c # s))"
    proof (intro allI impI)
      fix i assume "i \<le> length (c # s)"
      with n Cons show "\<not> prefix p (drop i (c # s))"
        by (cases i) (auto split: if_splits)
    qed
  next
    assume a: "\<forall>i\<le>length (c # s). \<not> prefix p (drop i (c # s))"
    then have "\<not> prefix p (c # s)" by (metis drop0 le0)
    moreover from a have "\<forall>i\<le>length s. \<not> prefix p (drop i s)"
      by (metis Suc_le_mono drop_Suc_Cons length_Cons)
    ultimately show "find_sub p (c # s) = None" using Cons by simp
  qed
qed

lemma find_sub_char: "find_sub [c] s = (if c \<in> set s then Some (length (takeWhile (\<lambda>x. x \<noteq> c) s)) else None)"
  by (induction s) auto

lemma str_find_0 [str_simps]: "str_find s p 0 = find_sub p s"
  by (cases "find_sub p s") (simp_all add: str_find_def)

lemma find_sub_0_iff: "find_sub p s = Some 0 \<longleftrightarrow> prefix p s"
  by (cases s) auto

section \<open>Library code the program calls\<close>

text \<open>
  Code that is not in the repository is a parameter of the model, bundled in one record so
  that every definition that needs it takes the same argument. \<open>'d\<close> is the type
  \<open>double\<close>, \<open>'f\<close> the type \<open>float\<close>.
\<close>

record ('d, 'f) lib =
  \<comment> \<open>boost/algorithm/string\<close>
  erase_all :: "string \<Rightarrow> string \<Rightarrow> string"
  split_any :: "string \<Rightarrow> string \<Rightarrow> string list"
  iequals :: "string \<Rightarrow> string \<Rightarrow> bool"
  join_with :: "string list \<Rightarrow> string \<Rightarrow> string"
  to_lower_copy :: "string \<Rightarrow> string"
  trim_copy :: "string \<Rightarrow> string"
  \<comment> \<open>boost/lexical\_cast\<close>
  lc_int :: "int \<Rightarrow> string"
  lc_bool :: "bool \<Rightarrow> string"
  lc_double :: "'d \<Rightarrow> string"
  lc_to_double :: "string \<Rightarrow> 'd option"
  \<comment> \<open>the stream translators behind \<open>ptree::get\<close>\<close>
  tr_int32 :: "string \<Rightarrow> int32 option"
  tr_int64 :: "string \<Rightarrow> int64 option"
  tr_bool :: "string \<Rightarrow> bool option"
  tr_float :: "string \<Rightarrow> 'f option"
  \<comment> \<open>IEEE arithmetic\<close>
  d_zero :: "'d"
  d_sixty :: "'d"
  d_minus_one :: "'d"
  d_add :: "'d \<Rightarrow> 'd \<Rightarrow> 'd"
  d_div :: "'d \<Rightarrow> 'd \<Rightarrow> 'd"
  d_mul :: "'d \<Rightarrow> 'd \<Rightarrow> 'd"
  f_zero :: "'f"
  f_1000 :: "'f"
  f_eq :: "'f \<Rightarrow> 'f \<Rightarrow> bool"
  f_to_char :: "'f \<Rightarrow> char"

text \<open>
  The documented behaviour of the string algorithms that properties rely on:
  \<open>erase_all\<close> with a one-character pattern removes that character; \<open>split\<close> with
  \<open>token_compress_off\<close> cuts at every separator; \<open>join\<close> is its inverse for one
  separator; \<open>iequals\<close> is reflexive on the ASCII command names.
\<close>

primrec split_off :: "string \<Rightarrow> string \<Rightarrow> string list" where
  "split_off seps [] = [[]]"
| "split_off seps (c # s) =
     (if c \<in> set seps then [] # split_off seps s
      else (case split_off seps s of [] \<Rightarrow> [[c]] | w # ws \<Rightarrow> (c # w) # ws))"

fun join_off :: "string list \<Rightarrow> string \<Rightarrow> string" where
  "join_off [] sep = []"
| "join_off [w] sep = w"
| "join_off (w # v # ws) sep = w @ sep @ join_off (v # ws) sep"

definition ascii_lower :: "char \<Rightarrow> char" where
  "ascii_lower c =
     (let n = (of_char c :: nat) in if 65 \<le> n \<and> n \<le> 90 then char_of (n + 32) else c)"

definition is_space :: "char \<Rightarrow> bool" where
  "is_space c = (let n = (of_char c :: nat) in n = 32 \<or> (9 \<le> n \<and> n \<le> 13))"

definition erase_all_ok :: "('d, 'f, 'z) lib_scheme \<Rightarrow> bool" where
  "erase_all_ok L \<longleftrightarrow> (\<forall>s c. erase_all L s [c] = filter (\<lambda>x. x \<noteq> c) s)"

definition split_ok :: "('d, 'f, 'z) lib_scheme \<Rightarrow> bool" where
  "split_ok L \<longleftrightarrow> (\<forall>s seps. split_any L s seps = split_off seps s)"

definition join_ok :: "('d, 'f, 'z) lib_scheme \<Rightarrow> bool" where
  "join_ok L \<longleftrightarrow> (\<forall>ws sep. join_with L ws sep = join_off ws sep)"

definition iequals_ok :: "('d, 'f, 'z) lib_scheme \<Rightarrow> bool" where
  "iequals_ok L \<longleftrightarrow> (\<forall>s t. iequals L s t = (map ascii_lower s = map ascii_lower t))"

lemma split_off_not_Nil [simp]: "split_off seps s \<noteq> []"
  by (cases s) (auto split: list.splits)

lemma join_split_off: "join_off (split_off [c] s) [c] = s"
proof (induction s)
  case (Cons d s)
  obtain w ws where w: "split_off [c] s = w # ws"
    by (cases "split_off [c] s") auto
  with Cons show ?case by (cases ws) auto
qed simp

lemma split_off_single: "set s \<inter> set seps = {} \<Longrightarrow> split_off seps s = [s]"
  by (induction s) auto

lemma split_off_no_sep: "w \<in> set (split_off seps s) \<Longrightarrow> c \<in> set seps \<Longrightarrow> c \<notin> set w"
  by (induction s arbitrary: w) (auto split: list.splits if_splits)

lemma split_off_join:
  "ws \<noteq> [] \<Longrightarrow> (\<And>w. w \<in> set ws \<Longrightarrow> c \<notin> set w) \<Longrightarrow> split_off [c] (join_off ws [c]) = ws"
proof (induction ws rule: induct_list012)
  case (2 w)
  then show ?case by (simp add: split_off_single)
next
  case (3 w v ws)
  from 3 have IH: "split_off [c] (join_off (v # ws) [c]) = v # ws" and "c \<notin> set w" by auto
  from \<open>c \<notin> set w\<close> have "split_off [c] (w @ c # t) = w # split_off [c] t" for t
    by (induction w) auto
  with IH show ?case by simp
qed simp

section \<open>A concrete library for witnesses\<close>

text \<open>
  One library that satisfies the documented behaviour, on which the witnesses evaluate: the
  string algorithms as above, decimal printing and reading, and integers in place of the
  floating-point types.
\<close>

definition dec_digit :: "nat \<Rightarrow> char" where
  "dec_digit n = ''0123456789'' ! n"

fun dec_nat :: "nat \<Rightarrow> string" where
  "dec_nat n = (if n < 10 then [dec_digit n] else dec_nat (n div 10) @ [dec_digit (n mod 10)])"

declare dec_nat.simps [simp del]

definition ref_int :: "int \<Rightarrow> string" where
  "ref_int i = (if i < 0 then CHR ''-'' # dec_nat (nat (- i)) else dec_nat (nat i))"

lemma dec_digit_set: "n < 10 \<Longrightarrow> dec_digit n \<in> set ''0123456789''"
  unfolding dec_digit_def by (rule nth_mem) simp

lemma dec_nat_chars: "c \<in> set (dec_nat n) \<Longrightarrow> c \<in> set ''0123456789''"
proof (induction n rule: dec_nat.induct)
  case (1 n)
  show ?case
  proof (cases "n < 10")
    case True
    with "1.prems" have "c = dec_digit n" by (simp add: dec_nat.simps [of n])
    with True show ?thesis by (simp only: dec_digit_set)
  next
    case False
    with "1.prems" consider "c \<in> set (dec_nat (n div 10))" | "c = dec_digit (n mod 10)"
      by (auto simp: dec_nat.simps [of n])
    then show ?thesis
    proof cases
      case 1
      with False "1.IH" show ?thesis by blast
    next
      case 2
      then show ?thesis by (simp only: dec_digit_set mod_less_divisor zero_less_numeral)
    qed
  qed
qed

lemma ref_int_chars: "c \<in> set (ref_int i) \<Longrightarrow> c \<in> set ''-0123456789''"
  by (auto simp: ref_int_def dest: dec_nat_chars split: if_splits)

definition nat_of_dec :: "string \<Rightarrow> nat option" where
  "nat_of_dec s =
     (if s \<noteq> [] \<and> list_all (\<lambda>c. c \<in> set ''0123456789'') s
      then Some (foldl (\<lambda>n c. 10 * n + (of_char c - 48)) 0 s) else None)"

definition ref_trim :: "string \<Rightarrow> string" where
  "ref_trim s = dropWhile is_space (rev (dropWhile is_space (rev s)))"

definition ref_lib :: "(int, int) lib" where
  "ref_lib = \<lparr>erase_all = (\<lambda>s p. case p of [c] \<Rightarrow> filter (\<lambda>x. x \<noteq> c) s | _ \<Rightarrow> s),
     split_any = (\<lambda>s seps. split_off seps s),
     iequals = (\<lambda>s t. map ascii_lower s = map ascii_lower t),
     join_with = join_off,
     to_lower_copy = map ascii_lower,
     trim_copy = ref_trim,
     lc_int = ref_int,
     lc_bool = (\<lambda>b. if b then ''1'' else ''0''),
     lc_double = ref_int,
     lc_to_double = (\<lambda>s. map_option int (nat_of_dec s)),
     tr_int32 = (\<lambda>s. map_option of_nat (nat_of_dec s)),
     tr_int64 = (\<lambda>s. map_option of_nat (nat_of_dec s)),
     tr_bool = (\<lambda>s. if s = ''true'' then Some True else if s = ''false'' then Some False else None),
     tr_float = (\<lambda>s. map_option int (nat_of_dec s)),
     d_zero = 0, d_sixty = 60, d_minus_one = -1,
     d_add = (+), d_div = (div), d_mul = (*),
     f_zero = 0, f_1000 = 1000, f_eq = (=),
     f_to_char = (\<lambda>x. char_of (nat (x mod 256)))\<rparr>"

lemma ref_lib_ok [simp]:
  "erase_all_ok ref_lib" "split_ok ref_lib" "join_ok ref_lib" "iequals_ok ref_lib"
  by (simp_all add: erase_all_ok_def split_ok_def join_ok_def iequals_ok_def ref_lib_def)

lemma ref_lc_int_no_CR: "CR \<notin> set (lc_int ref_lib n)"
proof
  assume "CR \<in> set (lc_int ref_lib n)"
  then have "CR \<in> set ''-0123456789''" by (intro ref_int_chars) (simp add: ref_lib_def)
  then show False by (simp add: CR_def)
qed

end
