(* ===== verification/TcpClientModel.thy ===== *)
theory TcpClientModel
  imports Prelude "HOL-Library.Multiset"
begin

text \<open>
  \<open>src/TcpClient.cpp\<close> and \<open>src/TcpClientHandler.h\<close>: the asynchronous client as a state
  machine. The members are the record's fields; \<open>tc\_pending\<close> lists the asynchronous
  operations that were started and whose handler has not run, and \<open>tc\_open\<close> says whether the
  socket is open. An event handler works on the client and on its own object together, since
  the code's callbacks may call back into the client: it is a record of functions on the pair.
\<close>

section \<open>State, events and handlers\<close>

datatype tcp_status = TDisconnected | TResolve | TConnecting | TConnected | TDisconnecting

datatype errc = Eof | OperationAborted | OtherError int

datatype reason = ClosedByUser | ClosedByPeer

datatype tcp_op = OpResolve string string | OpConnect | OpRead | OpWrite string

record tcp_client =
  tc_status :: tcp_status
  tc_ioCount :: int
  tc_writeBuffer :: "string list"
  tc_pending :: "tcp_op list"
  tc_open :: bool

text \<open>\<open>TcpClientHandler<T>\<close> for a client of type \<open>'c\<close> and a handler object of type \<open>'u\<close>.\<close>

record ('c, 'u) client_handler =
  hConnect :: "'c \<times> 'u \<Rightarrow> 'c \<times> 'u"
  hDisconnect :: "reason \<Rightarrow> 'c \<times> 'u \<Rightarrow> 'c \<times> 'u"
  hError :: "errc option \<Rightarrow> 'c \<times> 'u \<Rightarrow> 'c \<times> 'u"
  hReceived :: "string \<Rightarrow> 'c \<times> 'u \<Rightarrow> 'c \<times> 'u"

type_synonym 'u tcp_handler = "(tcp_client, 'u) client_handler"

definition tcp_init :: tcp_client where
  "tcp_init = \<lparr>tc_status = TDisconnected, tc_ioCount = 0, tc_writeBuffer = [], tc_pending = [], tc_open = False\<rparr>"

section \<open>Operations\<close>

definition tcp_start :: "tcp_op \<Rightarrow> tcp_client \<Rightarrow> tcp_client" where
  "tcp_start x c = c\<lparr>tc_ioCount := tc_ioCount c + 1, tc_pending := tc_pending c @ [x]\<rparr>"

definition tcp_connect :: "string \<Rightarrow> string \<Rightarrow> tcp_client \<Rightarrow> tcp_client" where
  "tcp_connect server protocol c =
     (if tc_status c \<noteq> TDisconnected then c
      else tcp_start (OpResolve server protocol) (c\<lparr>tc_status := TResolve\<rparr>))"

definition tcp_connect_port :: "('d, 'f) lib \<Rightarrow> string \<Rightarrow> nat \<Rightarrow> tcp_client \<Rightarrow> tcp_client" where
  "tcp_connect_port L server port c = tcp_connect server (lc_int L (int port)) c"

definition tcp_disconnect :: "tcp_client \<Rightarrow> tcp_client" where
  "tcp_disconnect c =
     (case tc_status c of
        TDisconnected \<Rightarrow> c
      | TDisconnecting \<Rightarrow> c
      | TResolve \<Rightarrow> c\<lparr>tc_status := TDisconnecting\<rparr>
      | _ \<Rightarrow> c\<lparr>tc_status := TDisconnecting, tc_open := False\<rparr>)"

definition tcp_send :: "string \<Rightarrow> tcp_client \<Rightarrow> tcp_client" where
  "tcp_send d c =
     (if tc_status c \<noteq> TConnected then c
      else
        (let inProgress = tc_writeBuffer c \<noteq> [];
             c = c\<lparr>tc_writeBuffer := tc_writeBuffer c @ [d]\<rparr>
         in if \<not> inProgress then tcp_start (OpWrite (hd (tc_writeBuffer c))) c else c))"

section \<open>Completion handlers\<close>

definition tcp_handleAnything ::
  "'u tcp_handler option \<Rightarrow> tcp_status \<Rightarrow> errc option \<Rightarrow> tcp_client \<times> 'u \<Rightarrow> bool \<times> (tcp_client \<times> 'u)" where
  "tcp_handleAnything H handleStatus error s =
     (let c = (fst s)\<lparr>tc_ioCount := tc_ioCount (fst s) - 1\<rparr>; u = snd s
      in if tc_status c = TDisconnected then (False, (c, u))
         else if tc_status c = TDisconnecting \<or> error \<noteq> None then
           (let c = c\<lparr>tc_open := False\<rparr>
            in if tc_ioCount c > 0 then (False, (c, u))
               else
                 (let status = tc_status c;
                      c = c\<lparr>tc_writeBuffer := [], tc_status := TDisconnected, tc_ioCount := 0\<rparr>
                  in case H of
                       None \<Rightarrow> (False, (c, u))
                     | Some h \<Rightarrow>
                        (False,
                         if handleStatus = TConnected
                         then hDisconnect h (if status = TDisconnecting then ClosedByUser else ClosedByPeer) (c, u)
                         else hError h (if status = TDisconnecting then Some OperationAborted else error) (c, u))))
         else (True, (c, u)))"

definition tcp_handleResolve :: "'u tcp_handler option \<Rightarrow> errc option \<Rightarrow> tcp_client \<times> 'u \<Rightarrow> tcp_client \<times> 'u" where
  "tcp_handleResolve H error s =
     (case tcp_handleAnything H TResolve error s of
        (False, s) \<Rightarrow> s
      | (True, (c, u)) \<Rightarrow> (tcp_start OpConnect (c\<lparr>tc_status := TConnecting, tc_open := True\<rparr>), u))"

definition tcp_notify :: "('c, 'u) client_handler option \<Rightarrow> (('c, 'u) client_handler \<Rightarrow> 'c \<times> 'u \<Rightarrow> 'c \<times> 'u) \<Rightarrow> 'c \<times> 'u \<Rightarrow> 'c \<times> 'u" where
  "tcp_notify H f s = (case H of None \<Rightarrow> s | Some h \<Rightarrow> f h s)"

definition tcp_handleConnect :: "'u tcp_handler option \<Rightarrow> errc option \<Rightarrow> tcp_client \<times> 'u \<Rightarrow> tcp_client \<times> 'u" where
  "tcp_handleConnect H error s =
     (case tcp_handleAnything H TConnecting error s of
        (False, s) \<Rightarrow> s
      | (True, (c, u)) \<Rightarrow>
          (case tcp_notify H hConnect (c\<lparr>tc_status := TConnected\<rparr>, u) of
             (c, u) \<Rightarrow> (tcp_start OpRead c, u)))"

text \<open>A transfer of no bytes without an error counts as end of file.\<close>

definition io_error :: "nat \<Rightarrow> errc option \<Rightarrow> errc option" where
  "io_error n error = (if error = None \<and> n = 0 then Some Eof else error)"

definition tcp_handleRead :: "'u tcp_handler option \<Rightarrow> string \<Rightarrow> errc option \<Rightarrow> tcp_client \<times> 'u \<Rightarrow> tcp_client \<times> 'u" where
  "tcp_handleRead H d error s =
     (case tcp_handleAnything H TConnected (io_error (length d) error) s of
        (False, s) \<Rightarrow> s
      | (True, s) \<Rightarrow>
          (case tcp_notify H (\<lambda>h. hReceived h d) s of (c, u) \<Rightarrow> (tcp_start OpRead c, u)))"

definition tcp_handleWrite :: "'u tcp_handler option \<Rightarrow> nat \<Rightarrow> errc option \<Rightarrow> tcp_client \<times> 'u \<Rightarrow> tcp_client \<times> 'u" where
  "tcp_handleWrite H n error s =
     (case tcp_handleAnything H TConnected (io_error n error) s of
        (False, s) \<Rightarrow> s
      | (True, (c, u)) \<Rightarrow>
          (let c = c\<lparr>tc_writeBuffer := tl (tc_writeBuffer c)\<rparr>
           in (if tc_writeBuffer c \<noteq> [] then tcp_start (OpWrite (hd (tc_writeBuffer c))) c else c, u)))"

text \<open>The event loop takes a pending operation that has finished and runs its handler.\<close>

datatype tcp_result =
    ResolveDone string string "errc option"
  | ConnectDone "errc option"
  | ReadDone string "errc option"
  | WriteDone string nat "errc option"

fun result_op :: "tcp_result \<Rightarrow> tcp_op" where
  "result_op (ResolveDone s p e) = OpResolve s p"
| "result_op (ConnectDone e) = OpConnect"
| "result_op (ReadDone d e) = OpRead"
| "result_op (WriteDone d n e) = OpWrite d"

definition tcp_done :: "tcp_op \<Rightarrow> tcp_client \<Rightarrow> tcp_client" where
  "tcp_done x c = c\<lparr>tc_pending := remove1 x (tc_pending c)\<rparr>"

fun tcp_complete :: "'u tcp_handler option \<Rightarrow> tcp_result \<Rightarrow> tcp_client \<times> 'u \<Rightarrow> tcp_client \<times> 'u" where
  "tcp_complete H (ResolveDone s p e) (c, u) = tcp_handleResolve H e (tcp_done (OpResolve s p) c, u)"
| "tcp_complete H (ConnectDone e) (c, u) = tcp_handleConnect H e (tcp_done OpConnect c, u)"
| "tcp_complete H (ReadDone d e) (c, u) = tcp_handleRead H d e (tcp_done OpRead c, u)"
| "tcp_complete H (WriteDone d n e) (c, u) = tcp_handleWrite H n e (tcp_done (OpWrite d) c, u)"

section \<open>Steps\<close>

text \<open>What a user of the client may do with it: any sequence of calls of its public members.\<close>

inductive tcp_api :: "tcp_client \<Rightarrow> tcp_client \<Rightarrow> bool" where
  api_refl: "tcp_api c c"
| api_connect: "tcp_api c c' \<Longrightarrow> tcp_api c (tcp_connect s p c')"
| api_disconnect: "tcp_api c c' \<Longrightarrow> tcp_api c (tcp_disconnect c')"
| api_send: "tcp_api c c' \<Longrightarrow> tcp_api c (tcp_send d c')"

lemma tcp_api_trans: "tcp_api b c \<Longrightarrow> tcp_api a b \<Longrightarrow> tcp_api a c"
  by (induction rule: tcp_api.induct) (auto intro: tcp_api.intros)

lemma tcp_api_steps [intro, simp]:
  "tcp_api c c" "tcp_api c (tcp_connect s p c)" "tcp_api c (tcp_disconnect c)" "tcp_api c (tcp_send d c)"
  by (auto intro: tcp_api.intros)

text \<open>
  The runs of a client with its handler: calls from outside (with any change of the user's own
  object) and completions of pending operations, in any order and with any result.
\<close>

inductive tcp_reach :: "'u tcp_handler option \<Rightarrow> tcp_client \<times> 'u \<Rightarrow> bool" for H where
  reach_init: "tcp_reach H (tcp_init, u)"
| reach_call: "tcp_reach H (c, u) \<Longrightarrow> tcp_api c c' \<Longrightarrow> tcp_reach H (c', u')"
| reach_complete: "tcp_reach H s \<Longrightarrow> result_op r \<in> set (tc_pending (fst s)) \<Longrightarrow> tcp_reach H (tcp_complete H r s)"

section \<open>The invariant\<close>

definition is_write :: "tcp_op \<Rightarrow> bool" where
  "is_write x \<longleftrightarrow> (\<exists>d. x = OpWrite d)"

lemma is_write_simps [simp]:
  "is_write (OpWrite d)" "\<not> is_write OpRead" "\<not> is_write OpConnect" "\<not> is_write (OpResolve s p)"
  by (simp_all add: is_write_def)

text \<open>
  While connected at most one read and one write are in flight, and the write carries the head
  of the write buffer. While the socket is open a read is in flight, and a write if the write
  buffer holds anything.
\<close>

definition rw_shape :: "tcp_client \<Rightarrow> tcp_op list \<Rightarrow> bool" where
  "rw_shape c ops \<longleftrightarrow>
     (\<forall>x\<in>set ops. x = OpRead \<or> (tc_writeBuffer c \<noteq> [] \<and> x = OpWrite (hd (tc_writeBuffer c)))) \<and>
     length (filter (\<lambda>x. x = OpRead) ops) \<le> 1 \<and> length (filter is_write ops) \<le> 1 \<and>
     (tc_open c \<longrightarrow> OpRead \<in> set ops \<and> (tc_writeBuffer c \<noteq> [] \<longrightarrow> OpWrite (hd (tc_writeBuffer c)) \<in> set ops))"

text \<open>
  \<open>owed\<close> counts a read that the running handler will start when its callback returns.
\<close>

definition all_ops :: "bool \<Rightarrow> tcp_client \<Rightarrow> tcp_op list" where
  "all_ops owed c = (if owed then OpRead # tc_pending c else tc_pending c)"

fun status_shape :: "tcp_status \<Rightarrow> tcp_client \<Rightarrow> tcp_op list \<Rightarrow> bool" where
  "status_shape TDisconnected c ops = (ops = [] \<and> tc_writeBuffer c = [] \<and> \<not> tc_open c)"
| "status_shape TResolve c ops = ((\<exists>s p. ops = [OpResolve s p]) \<and> tc_writeBuffer c = [] \<and> \<not> tc_open c)"
| "status_shape TConnecting c ops = (ops = [OpConnect] \<and> tc_writeBuffer c = [])"
| "status_shape TConnected c ops = rw_shape c ops"
| "status_shape TDisconnecting c ops =
     (\<not> tc_open c \<and> ((\<exists>s p. ops = [OpResolve s p]) \<or> ops = [OpConnect] \<or> rw_shape c ops))"

definition tcp_inv0 :: "bool \<Rightarrow> tcp_client \<Rightarrow> bool" where
  "tcp_inv0 owed c \<longleftrightarrow>
     tc_ioCount c = int (length (tc_pending c)) \<and> status_shape (tc_status c) c (all_ops owed c)"

abbreviation tcp_inv :: "tcp_client \<Rightarrow> bool" where
  "tcp_inv \<equiv> tcp_inv0 False"

lemma rw_shape_irrel [simp]:
  "rw_shape (c\<lparr>tc_status := st\<rparr>) ops = rw_shape c ops"
  "rw_shape (c\<lparr>tc_ioCount := n\<rparr>) ops = rw_shape c ops"
  "rw_shape (c\<lparr>tc_pending := xs\<rparr>) ops = rw_shape c ops"
  by (simp_all add: rw_shape_def)

lemma rw_shape_close [intro]: "rw_shape c ops \<Longrightarrow> rw_shape (c\<lparr>tc_open := False\<rparr>) ops"
  by (simp add: rw_shape_def)

lemma status_shape_irrel [simp]:
  "status_shape st (c\<lparr>tc_status := st'\<rparr>) ops = status_shape st c ops"
  "status_shape st (c\<lparr>tc_ioCount := n\<rparr>) ops = status_shape st c ops"
  "status_shape st (c\<lparr>tc_pending := xs\<rparr>) ops = status_shape st c ops"
  by (cases st; simp)+

lemma all_ops_start: "set (all_ops owed (tcp_start x c)) = insert x (set (all_ops owed c))"
  by (auto simp: all_ops_def tcp_start_def)

lemma connect_inv: "tcp_inv0 owed c \<Longrightarrow> tcp_inv0 owed (tcp_connect s p c)"
  by (auto simp: tcp_inv0_def tcp_connect_def tcp_start_def all_ops_def split: if_splits)

lemma disconnect_inv: "tcp_inv0 owed c \<Longrightarrow> tcp_inv0 owed (tcp_disconnect c)"
  by (cases "tc_status c")
     (auto simp: tcp_inv0_def tcp_disconnect_def all_ops_def rw_shape_def split: if_splits)

lemma send_inv: "tcp_inv0 owed c \<Longrightarrow> tcp_inv0 owed (tcp_send d c)"
  by (cases "tc_status c"; cases "tc_writeBuffer c = []")
     (auto simp: tcp_inv0_def tcp_send_def tcp_start_def all_ops_def rw_shape_def Let_def filter_empty_conv
        split: if_splits)

lemma api_inv: "tcp_api c c' \<Longrightarrow> tcp_inv0 owed c \<Longrightarrow> tcp_inv0 owed c'"
  by (induction rule: tcp_api.induct) (auto intro: connect_inv disconnect_inv send_inv)


section \<open>Completions preserve the invariant\<close>

text \<open>The status in which the handler of an operation runs.\<close>

fun op_status :: "tcp_op \<Rightarrow> tcp_status" where
  "op_status (OpResolve s p) = TResolve"
| "op_status OpConnect = TConnecting"
| "op_status OpRead = TConnected"
| "op_status (OpWrite d) = TConnected"

lemma tcp_done_fields [simp]:
  "tc_status (tcp_done x c) = tc_status c" "tc_ioCount (tcp_done x c) = tc_ioCount c"
  "tc_writeBuffer (tcp_done x c) = tc_writeBuffer c" "tc_open (tcp_done x c) = tc_open c"
  "tc_pending (tcp_done x c) = remove1 x (tc_pending c)"
  by (simp_all add: tcp_done_def)

lemma filter_remove1_le: "length (filter P (remove1 x xs)) \<le> length (filter P xs)"
  by (induction xs) auto

lemma rw_shape_remove1: "rw_shape c ops \<Longrightarrow> \<not> tc_open c \<Longrightarrow> rw_shape c (remove1 x ops)"
  by (auto simp: rw_shape_def dest: notin_set_remove1 set_remove1_subset[THEN subsetD]
      intro: order_trans[OF filter_remove1_le])

lemma rw_shape_cong:
  "tc_writeBuffer c = tc_writeBuffer c' \<Longrightarrow> tc_open c = tc_open c' \<Longrightarrow> rw_shape c ops = rw_shape c' ops"
  by (simp add: rw_shape_def)

lemma inv_pending_length: "tcp_inv c \<Longrightarrow> tc_ioCount c = int (length (tc_pending c))"
  by (simp add: tcp_inv0_def)

lemma ioCount_done:
  assumes "tcp_inv c" "x \<in> set (tc_pending c)"
  shows "tc_ioCount c - 1 = int (length (remove1 x (tc_pending c)))"
  using length_pos_if_in_set[OF assms(2)] assms(2) inv_pending_length[OF assms(1)]
  by (simp add: length_remove1 of_nat_diff Suc_leI)

lemma closing_inv:
  assumes "tcp_inv c" "x \<in> set (tc_pending c)" "length (tc_pending c) > 1" "tc_status c \<noteq> TDisconnected"
  shows "tcp_inv ((tcp_done x c)\<lparr>tc_ioCount := tc_ioCount c - 1, tc_open := False\<rparr>)"
proof -
  have sh: "status_shape (tc_status c) c (tc_pending c)"
    using assms(1) by (simp add: tcp_inv0_def all_ops_def)
  hence rw: "rw_shape c (tc_pending c) \<and> (tc_status c = TConnected \<or> tc_status c = TDisconnecting)"
    using assms(3,4) by (cases "tc_status c") auto
  hence "rw_shape (c\<lparr>tc_open := False\<rparr>) (remove1 x (tc_pending c))"
    by (intro rw_shape_remove1) (auto intro: rw_shape_close)
  hence "rw_shape ((tcp_done x c)\<lparr>tc_ioCount := tc_ioCount c - 1, tc_open := False\<rparr>) (remove1 x (tc_pending c))"
    by (subst rw_shape_cong[where c' = "c\<lparr>tc_open := False\<rparr>"]) simp_all
  moreover have "tc_ioCount c - 1 = int (length (remove1 x (tc_pending c)))"
    by (rule ioCount_done[OF assms(1,2)])
  moreover have "\<not> tc_open c" if "tc_status c = TDisconnecting" using that sh by simp
  ultimately show ?thesis using rw by (elim conjE disjE) (simp_all add: tcp_inv0_def all_ops_def)
qed

lemma tcp_inv_disconnected:
  "tcp_inv c \<longleftrightarrow> tc_ioCount c = 0 \<and> tc_pending c = [] \<and> tc_writeBuffer c = [] \<and> \<not> tc_open c"
  if "tc_status c = TDisconnected"
  using that by (auto simp: tcp_inv0_def all_ops_def)

lemma inv_pending_status: "tcp_inv c \<Longrightarrow> x \<in> set (tc_pending c) \<Longrightarrow> tc_status c \<noteq> TDisconnected"
  by (auto simp: tcp_inv_disconnected)

lemma count_one_remove:
  "length (filter P xs) \<le> 1 \<Longrightarrow> x \<in> set xs \<Longrightarrow> P x \<Longrightarrow> filter P (remove1 x xs) = []"
  by (induction xs) (auto simp: filter_empty_conv split: if_splits)

lemma read_taken_inv:
  assumes "tcp_inv c" "OpRead \<in> set (tc_pending c)" "tc_status c = TConnected"
  shows "tcp_inv0 True ((tcp_done OpRead c)\<lparr>tc_ioCount := tc_ioCount c - 1\<rparr>)"
proof -
  have rw: "rw_shape c (tc_pending c)" using assms by (simp add: tcp_inv0_def all_ops_def)
  hence "filter (\<lambda>x. x = OpRead) (remove1 OpRead (tc_pending c)) = []"
    using assms(2) by (intro count_one_remove) (auto simp: rw_shape_def)
  moreover have "length (filter is_write (remove1 OpRead (tc_pending c))) \<le> 1"
    using rw by (auto simp: rw_shape_def intro: order_trans[OF filter_remove1_le])
  ultimately have "rw_shape c (OpRead # remove1 OpRead (tc_pending c))"
    using rw assms(2) by (auto simp: rw_shape_def dest: notin_set_remove1)
  hence "rw_shape ((tcp_done OpRead c)\<lparr>tc_ioCount := tc_ioCount c - 1\<rparr>) (OpRead # remove1 OpRead (tc_pending c))"
    by (subst rw_shape_cong[where c' = c]) simp_all
  moreover have "tc_ioCount c - 1 = int (length (remove1 OpRead (tc_pending c)))"
    by (rule ioCount_done[OF assms(1,2)])
  ultimately show ?thesis using assms(3) by (simp add: tcp_inv0_def all_ops_def)
qed

lemma write_taken_inv:
  assumes "tcp_inv c" "OpWrite d \<in> set (tc_pending c)" "tc_status c = TConnected"
  shows "tcp_inv (let c = ((tcp_done (OpWrite d) c)\<lparr>tc_ioCount := tc_ioCount c - 1\<rparr>)
                           \<lparr>tc_writeBuffer := tl (tc_writeBuffer c)\<rparr>
                  in if tc_writeBuffer c \<noteq> [] then tcp_start (OpWrite (hd (tc_writeBuffer c))) c else c)"
proof -
  let ?r = "remove1 (OpWrite d) (tc_pending c)"
  have rw: "rw_shape c (tc_pending c)" using assms by (simp add: tcp_inv0_def all_ops_def)
  hence w: "filter is_write ?r = []"
    using assms(2) by (intro count_one_remove) (auto simp: rw_shape_def)
  have rd: "\<forall>x\<in>set ?r. x = OpRead"
  proof
    fix x assume x: "x \<in> set ?r"
    hence "x = OpRead \<or> is_write x" using rw by (auto simp: rw_shape_def dest: notin_set_remove1)
    thus "x = OpRead" using w x by (auto simp: filter_empty_conv)
  qed
  have r1: "length (filter (\<lambda>x. x = OpRead) ?r) \<le> 1"
    using rw by (auto simp: rw_shape_def intro: order_trans[OF filter_remove1_le])
  have op: "tc_open c \<Longrightarrow> OpRead \<in> set ?r" using rw by (auto simp: rw_shape_def)
  have n: "tc_ioCount c - 1 = int (length ?r)"
    by (rule ioCount_done[OF assms(1,2)])
  show ?thesis using rd r1 op n w assms(3)
    by (auto simp: Let_def tcp_inv0_def all_ops_def rw_shape_def tcp_start_def)
qed

lemma inv_op_status:
  assumes "tcp_inv c" "x \<in> set (tc_pending c)" "tc_status c \<noteq> TDisconnecting"
  shows "tc_status c = op_status x"
proof (cases "tc_status c = TConnected")
  case True
  hence "rw_shape c (tc_pending c)" using assms(1) by (simp add: tcp_inv0_def all_ops_def)
  hence "x = OpRead \<or> x = OpWrite (hd (tc_writeBuffer c))" using assms(2) by (auto simp: rw_shape_def)
  thus ?thesis using True by auto
next
  case False
  thus ?thesis using assms by (cases "tc_status c") (auto simp: tcp_inv0_def all_ops_def)
qed

text \<open>
  The contract of a user of the client: whatever its callbacks do, they change the client only
  by calls of its public members.
\<close>

locale tcp_user =
  fixes H :: "'u tcp_handler"
  assumes connect_api: "tcp_api c (fst (hConnect H (c, u)))"
    and disconnect_api: "tcp_api c (fst (hDisconnect H r (c, u)))"
    and error_api: "tcp_api c (fst (hError H e (c, u)))"
    and received_api: "tcp_api c (fst (hReceived H d (c, u)))"
begin

lemma handleAnything_stop:
  assumes inv: "tcp_inv c" and x: "x \<in> set (tc_pending c)"
    and res: "tcp_handleAnything (Some H) hs e (tcp_done x c, u) = (False, s)"
  shows "tcp_inv (fst s)"
proof -
  have n: "tc_ioCount c = int (length (tc_pending c))" and st: "tc_status c \<noteq> TDisconnected"
    using inv_pending_length[OF inv] inv_pending_status[OF inv x] by simp_all
  show ?thesis
  proof (cases "tc_ioCount c > 1")
    case True
    thus ?thesis using res st n closing_inv[OF inv x]
      by (auto simp: tcp_handleAnything_def Let_def split: if_splits)
  next
    case False
    let ?c = "(tcp_done x c)\<lparr>tc_open := False, tc_writeBuffer := [], tc_status := TDisconnected, tc_ioCount := 0\<rparr>"
    have "length (tc_pending c) = 1" using False n x by (cases "tc_pending c") auto
    hence "tc_pending c = [x]" using x by (cases "tc_pending c") auto
    hence "tcp_inv ?c" by (simp add: tcp_inv0_def all_ops_def)
    thus ?thesis using res st False
      by (auto simp: tcp_handleAnything_def Let_def split: if_splits
          intro!: api_inv[OF disconnect_api] api_inv[OF error_api])
  qed
qed

lemma handleAnything_go:
  "tcp_handleAnything (Some H) hs e (c, u) = (True, s) \<longleftrightarrow>
     s = (c\<lparr>tc_ioCount := tc_ioCount c - 1\<rparr>, u) \<and> e = None \<and>
     tc_status c \<noteq> TDisconnected \<and> tc_status c \<noteq> TDisconnecting"
  by (auto simp: tcp_handleAnything_def Let_def)

lemma resolve_inv:
  assumes "tcp_inv c" "OpResolve sv p \<in> set (tc_pending c)"
  shows "tcp_inv (fst (tcp_handleResolve (Some H) e (tcp_done (OpResolve sv p) c, u)))"
proof -
  obtain b s where Pair: "tcp_handleAnything (Some H) TResolve e (tcp_done (OpResolve sv p) c, u) = (b, s)"
    by (meson surj_pair)
  show ?thesis
  proof (cases b)
    case False
    thus ?thesis using Pair assms handleAnything_stop by (auto simp: tcp_handleResolve_def)
  next
    case True
    hence st: "tc_status c \<noteq> TDisconnected" "tc_status c \<noteq> TDisconnecting"
      and s: "s = ((tcp_done (OpResolve sv p) c)\<lparr>tc_ioCount := tc_ioCount c - 1\<rparr>, u)"
      using Pair by (auto simp: handleAnything_go)
    hence "tc_pending c = [OpResolve sv p] \<and> tc_writeBuffer c = [] \<and> tc_ioCount c = 1"
      using assms by (cases "tc_status c") (auto simp: tcp_inv0_def all_ops_def rw_shape_def)
    thus ?thesis using Pair True s
      by (auto simp: tcp_handleResolve_def tcp_inv0_def all_ops_def tcp_start_def)
  qed
qed

lemma start_read_inv: "tcp_inv0 True c \<Longrightarrow> tcp_inv (tcp_start OpRead c)"
  by (cases "tc_status c") (auto simp: tcp_inv0_def all_ops_def tcp_start_def rw_shape_def)

lemma connected_inv:
  assumes "tcp_inv c" "OpConnect \<in> set (tc_pending c)"
  shows "tcp_inv (fst (tcp_handleConnect (Some H) e (tcp_done OpConnect c, u)))"
proof -
  obtain b s where Pair: "tcp_handleAnything (Some H) TConnecting e (tcp_done OpConnect c, u) = (b, s)"
    by (meson surj_pair)
  show ?thesis
  proof (cases b)
    case False
    thus ?thesis using Pair assms handleAnything_stop by (auto simp: tcp_handleConnect_def)
  next
    case True
    let ?c = "(tcp_done OpConnect c)\<lparr>tc_ioCount := tc_ioCount c - 1, tc_status := TConnected\<rparr>"
    from True have st: "tc_status c \<noteq> TDisconnected" "tc_status c \<noteq> TDisconnecting"
      and s: "s = ((tcp_done OpConnect c)\<lparr>tc_ioCount := tc_ioCount c - 1\<rparr>, u)"
      using Pair by (auto simp: handleAnything_go)
    hence "tc_pending c = [OpConnect] \<and> tc_writeBuffer c = [] \<and> tc_ioCount c = 1"
      using assms by (cases "tc_status c") (auto simp: tcp_inv0_def all_ops_def rw_shape_def)
    hence "tcp_inv0 True ?c" by (simp add: tcp_inv0_def all_ops_def rw_shape_def)
    hence "tcp_inv0 True (fst (hConnect H (?c, u)))" by (rule api_inv[OF connect_api])
    thus ?thesis using Pair True s start_read_inv
      by (auto simp: tcp_handleConnect_def tcp_notify_def split: prod.splits)
  qed
qed

lemma received_inv:
  assumes "tcp_inv c" "OpRead \<in> set (tc_pending c)"
  shows "tcp_inv (fst (tcp_handleRead (Some H) d e (tcp_done OpRead c, u)))"
proof -
  obtain b s where Pair: "tcp_handleAnything (Some H) TConnected (io_error (length d) e) (tcp_done OpRead c, u) = (b, s)"
    by (meson surj_pair)
  show ?thesis
  proof (cases b)
    case False
    thus ?thesis using Pair assms handleAnything_stop by (auto simp: tcp_handleRead_def)
  next
    case True
    let ?c = "(tcp_done OpRead c)\<lparr>tc_ioCount := tc_ioCount c - 1\<rparr>"
    from True have st: "tc_status c \<noteq> TDisconnected" "tc_status c \<noteq> TDisconnecting" and s: "s = (?c, u)"
      using Pair by (auto simp: handleAnything_go)
    hence "tc_status c = TConnected"
      using assms by (cases "tc_status c") (auto simp: tcp_inv0_def all_ops_def)
    hence "tcp_inv0 True ?c" by (rule read_taken_inv[OF assms])
    hence "tcp_inv0 True (fst (hReceived H d (?c, u)))" by (rule api_inv[OF received_api])
    thus ?thesis using Pair True s start_read_inv
      by (auto simp: tcp_handleRead_def tcp_notify_def split: prod.splits)
  qed
qed

lemma written_inv:
  assumes "tcp_inv c" "OpWrite d \<in> set (tc_pending c)"
  shows "tcp_inv (fst (tcp_handleWrite (Some H) n e (tcp_done (OpWrite d) c, u)))"
proof -
  obtain b s where Pair: "tcp_handleAnything (Some H) TConnected (io_error n e) (tcp_done (OpWrite d) c, u) = (b, s)"
    by (meson surj_pair)
  show ?thesis
  proof (cases b)
    case False
    thus ?thesis using Pair assms handleAnything_stop by (auto simp: tcp_handleWrite_def)
  next
    case True
    let ?c = "(tcp_done (OpWrite d) c)\<lparr>tc_ioCount := tc_ioCount c - 1\<rparr>"
    from True have st: "tc_status c \<noteq> TDisconnected" "tc_status c \<noteq> TDisconnecting" and s: "s = (?c, u)"
      using Pair by (auto simp: handleAnything_go)
    hence "tc_status c = TConnected"
      using assms by (cases "tc_status c") (auto simp: tcp_inv0_def all_ops_def)
    thus ?thesis using Pair True s write_taken_inv[OF assms]
      by (auto simp: tcp_handleWrite_def Let_def)
  qed
qed

theorem user_reach_inv: "tcp_reach (Some H) s \<Longrightarrow> tcp_inv (fst s)"
proof (induction rule: tcp_reach.induct)
  case (reach_init u)
  show ?case by (simp add: tcp_inv0_def tcp_init_def all_ops_def)
next
  case (reach_call c u c' u')
  thus ?case by (auto intro: api_inv)
next
  case (reach_complete s r)
  thus ?case by (cases s; cases r) (auto intro: resolve_inv connected_inv received_inv written_inv)
qed

end

section \<open>Closing and sending\<close>

lemma tcp_inv_elim:
  assumes "tcp_inv c"
  obtains "tc_status c = TDisconnected" "c = tcp_init"
  | "tc_status c \<noteq> TDisconnected"
proof (cases "tc_status c = TDisconnected")
  case True
  moreover from this assms have "c = tcp_init"
    by (cases c) (simp add: tcp_inv0_def all_ops_def tcp_init_def)
  ultimately show ?thesis by (rule that(1))
qed (rule that(2))

lemma tcp_complete_disconnecting:
  assumes "tc_status c = TDisconnecting"
  shows "tcp_complete H r (c, u) =
    snd (tcp_handleAnything H (op_status (result_op r))
           (case r of ResolveDone s p e \<Rightarrow> e | ConnectDone e \<Rightarrow> e | ReadDone d e \<Rightarrow> io_error (length d) e
                    | WriteDone d n e \<Rightarrow> io_error n e) (tcp_done (result_op r) c, u))"
  using assms
  by (cases r) (auto simp: tcp_handleResolve_def tcp_handleConnect_def tcp_handleRead_def tcp_handleWrite_def
      tcp_handleAnything_def Let_def split: option.splits)

lemma disconnecting_step_more:
  assumes "tc_status c = TDisconnecting" "tcp_inv c" "result_op r \<in> set (tc_pending c)" "length (tc_pending c) > 1"
  shows "\<exists>c'. tcp_complete H r (c, u) = (c', u) \<and> tc_status c' = TDisconnecting \<and> tcp_inv c' \<and>
              tc_pending c' = remove1 (result_op r) (tc_pending c)"
proof -
  let ?c = "(tcp_done (result_op r) c)\<lparr>tc_ioCount := tc_ioCount c - 1, tc_open := False\<rparr>"
  have "tcp_complete H r (c, u) = (?c, u)"
    using assms(1,4) inv_pending_length[OF assms(2)]
    by (simp add: tcp_complete_disconnecting tcp_handleAnything_def Let_def)
  thus ?thesis using closing_inv[OF assms(2,3,4)] assms(1) by simp
qed

lemma disconnecting_step_last:
  assumes "tc_status c = TDisconnecting" "tcp_inv c" "tc_pending c = [result_op r]"
  shows "tcp_complete (Some h) r (c, u) =
           (if op_status (result_op r) = TConnected then hDisconnect h ClosedByUser (tcp_init, u)
            else hError h (Some OperationAborted) (tcp_init, u))"
proof -
  have "(tcp_done (result_op r) c)\<lparr>tc_ioCount := 0, tc_open := False, tc_writeBuffer := [],
           tc_status := TDisconnected, tc_ioCount := 0\<rparr> = tcp_init"
    using assms(3) by (cases c) (simp add: tcp_init_def tcp_done_def)
  thus ?thesis using assms inv_pending_length[OF assms(2)]
    by (simp add: tcp_complete_disconnecting tcp_handleAnything_def Let_def)
qed

lemma disconnecting_drain:
  "tc_status c = TDisconnecting \<Longrightarrow> tcp_inv c \<Longrightarrow> mset (map result_op rs) = mset (tc_pending c) \<Longrightarrow> rs \<noteq> [] \<Longrightarrow>
   fold (tcp_complete (Some h)) rs (c, u) =
     (if op_status (result_op (last rs)) = TConnected then hDisconnect h ClosedByUser (tcp_init, u)
      else hError h (Some OperationAborted) (tcp_init, u))"
proof (induction rs arbitrary: c)
  case (Cons r rs)
  have mem: "result_op r \<in> set (tc_pending c)"
    using mset_eq_setD[OF Cons.prems(3)] by auto
  have rest: "mset (map result_op rs) = mset (remove1 (result_op r) (tc_pending c))"
    using Cons.prems(3)[symmetric] by simp
  have len: "length (tc_pending c) = Suc (length rs)"
    using mset_eq_length[OF Cons.prems(3)] by simp
  show ?case
  proof (cases "rs = []")
    case True
    with len mem have "tc_pending c = [result_op r]" by (cases "tc_pending c") auto
    hence "tcp_complete (Some h) r (c, u) =
           (if op_status (result_op r) = TConnected then hDisconnect h ClosedByUser (tcp_init, u)
            else hError h (Some OperationAborted) (tcp_init, u))"
      by (rule disconnecting_step_last[OF Cons.prems(1,2)])
    thus ?thesis using True by simp
  next
    case False
    with len have "length (tc_pending c) > 1" by simp
    then obtain c' where c': "tcp_complete (Some h) r (c, u) = (c', u)" "tc_status c' = TDisconnecting"
        "tcp_inv c'" "tc_pending c' = remove1 (result_op r) (tc_pending c)"
      using disconnecting_step_more[OF Cons.prems(1,2) mem] by metis
    have "mset (map result_op rs) = mset (tc_pending c')" by (simp only: rest c'(4))
    from Cons.IH[OF c'(2,3) this False] show ?thesis
      using False by (simp only: fold.simps comp_apply c'(1) last.simps if_False)
  qed
qed simp

text \<open>Property C22. Closing is clean: when the user closes a client that has operations in
  flight, then whatever those operations return and in whatever order they complete, exactly one
  callback runs, at the last completion; at that moment the client is back in its initial state
  (so it can connect again), and the callback is a disconnection by the user when the last
  operation was a transfer and the error \<open>operation_aborted\<close> when it was a resolve or connect.\<close>

theorem tcp_disconnect_drains:
  assumes "tcp_inv c" and "tc_pending c \<noteq> []"
    and "mset (map result_op rs) = mset (tc_pending c)"
  shows "fold (tcp_complete (Some h)) rs (tcp_disconnect c, u) =
           (if op_status (result_op (last rs)) = TConnected then hDisconnect h ClosedByUser (tcp_init, u)
            else hError h (Some OperationAborted) (tcp_init, u))"
proof (rule disconnecting_drain)
  have "tc_status c \<noteq> TDisconnected" using assms(1,2) by (auto simp: tcp_inv_disconnected)
  thus "tc_status (tcp_disconnect c) = TDisconnecting"
    by (cases "tc_status c") (simp_all add: tcp_disconnect_def)
  have "tc_pending (tcp_disconnect c) = tc_pending c"
    by (cases "tc_status c") (simp_all add: tcp_disconnect_def)
  thus "mset (map result_op rs) = mset (tc_pending (tcp_disconnect c))" using assms(3) by simp
  show "tcp_inv (tcp_disconnect c)" by (rule disconnect_inv[OF assms(1)])
  show "rs \<noteq> []" using assms(2,3) by auto
qed

definition demo_client :: tcp_client where
  "demo_client = \<lparr>tc_status = TConnected, tc_ioCount = 2, tc_writeBuffer = [''a'', ''b''],
     tc_pending = [OpRead, OpWrite ''a''], tc_open = True\<rparr>"

definition quiet_handler :: "string list tcp_handler" where
  "quiet_handler = \<lparr>hConnect = id, hDisconnect = (\<lambda>r (c, u). (c, u @ [''closed''])),
     hError = (\<lambda>e (c, u). (c, u @ [''error''])), hReceived = (\<lambda>d (c, u). (c, u @ [d]))\<rparr>"

theorem tcp_disconnect_drains_witness:
  "fold (tcp_complete (Some quiet_handler)) [WriteDone ''a'' 1 None, ReadDone [] (Some OperationAborted)]
     (tcp_disconnect demo_client, []) = (tcp_init, [''closed''])"
proof -
  have "tcp_inv demo_client"
    by (simp add: tcp_inv0_def all_ops_def demo_client_def rw_shape_def is_write_def)
  moreover have "tc_pending demo_client \<noteq> []"
      "mset (map result_op [WriteDone ''a'' 1 None, ReadDone [] (Some OperationAborted)]) = mset (tc_pending demo_client)"
    by (simp_all add: demo_client_def)
  ultimately show ?thesis
    by (subst tcp_disconnect_drains) (simp_all add: quiet_handler_def)
qed

text \<open>
  Outgoing traffic: \<open>Some d\<close> is a call of \<open>send\<close>, \<open>None\<close> the complete transfer of the write in
  flight. The first component collects what went out.
\<close>

fun tcp_pump :: "'u tcp_handler option \<Rightarrow> string option list \<Rightarrow> string list \<times> tcp_client \<times> 'u \<Rightarrow> string list \<times> tcp_client \<times> 'u" where
  "tcp_pump H [] s = s"
| "tcp_pump H (Some d # es) (w, c, u) = tcp_pump H es (w, tcp_send d c, u)"
| "tcp_pump H (None # es) (w, c, u) =
     (case filter is_write (tc_pending c) of
        OpWrite d # _ \<Rightarrow> tcp_pump H es (w @ [d], tcp_complete H (WriteDone d (length d) None) (c, u))
      | _ \<Rightarrow> tcp_pump H es (w, c, u))"

definition sent_of :: "string option list \<Rightarrow> string list" where
  "sent_of es = concat (map (\<lambda>x. case x of None \<Rightarrow> [] | Some d \<Rightarrow> [d]) es)"

lemma sent_of_simps [simp]:
  "sent_of [] = []" "sent_of (Some d # es) = d # sent_of es" "sent_of (None # es) = sent_of es"
  by (simp_all add: sent_of_def)

lemma pump_send:
  assumes "tcp_inv c" "tc_status c = TConnected"
  shows "tcp_inv (tcp_send d c)" "tc_status (tcp_send d c) = TConnected"
    "tc_open (tcp_send d c) = tc_open c" "tc_writeBuffer (tcp_send d c) = tc_writeBuffer c @ [d]"
  by (rule send_inv[OF assms(1)]) (use assms(2) in \<open>auto simp: tcp_send_def tcp_start_def Let_def\<close>)

lemma pump_write:
  assumes "tcp_inv c" "tc_status c = TConnected" "tc_open c" "filter is_write (tc_pending c) = x # xs"
    and "[] \<notin> set (tc_writeBuffer c)"
  shows "\<exists>d c'. x = OpWrite d \<and> tc_writeBuffer c = d # tc_writeBuffer c' \<and>
           tcp_complete H (WriteDone d (length d) None) (c, u) = (c', u) \<and>
           tcp_inv c' \<and> tc_status c' = TConnected \<and> tc_open c'"
proof -
  have "x \<in> set (filter is_write (tc_pending c))" using assms(4) by simp
  hence x: "x \<in> set (tc_pending c)" "is_write x" by auto
  moreover have "rw_shape c (tc_pending c)" using assms by (simp add: tcp_inv0_def all_ops_def)
  ultimately have wb: "tc_writeBuffer c \<noteq> []" "x = OpWrite (hd (tc_writeBuffer c))"
    by (auto simp: rw_shape_def)
  then obtain d ds where d: "tc_writeBuffer c = d # ds" "x = OpWrite d" by (cases "tc_writeBuffer c") auto
  hence "d \<noteq> []" using assms(5) by auto
  hence go: "tcp_handleAnything H TConnected (io_error (length d) None) (tcp_done (OpWrite d) c, u) =
      (True, (tcp_done (OpWrite d) c)\<lparr>tc_ioCount := tc_ioCount c - 1\<rparr>, u)"
    using assms(2) by (simp add: tcp_handleAnything_def io_error_def Let_def)
  define c0 where "c0 = ((tcp_done (OpWrite d) c)\<lparr>tc_ioCount := tc_ioCount c - 1\<rparr>)\<lparr>tc_writeBuffer := ds\<rparr>"
  define c1 where "c1 = (if ds \<noteq> [] then tcp_start (OpWrite (hd ds)) c0 else c0)"
  have "tcp_complete H (WriteDone d (length d) None) (c, u) = (c1, u)"
    using d by (simp add: tcp_handleWrite_def go c0_def c1_def Let_def)
  moreover have "tcp_inv c1"
    using write_taken_inv[OF assms(1) _ assms(2), of d] x d
    by (cases "ds = []") (simp_all add: c0_def c1_def Let_def)
  moreover have "tc_status c1 = TConnected \<and> tc_open c1 \<and> tc_writeBuffer c1 = ds"
    using assms(2,3) by (simp add: c0_def c1_def tcp_start_def)
  ultimately show ?thesis using d by blast
qed

lemma pump_fifo:
  "tcp_inv c \<Longrightarrow> tc_status c = TConnected \<Longrightarrow> tc_open c \<Longrightarrow> [] \<notin> set (tc_writeBuffer c) \<Longrightarrow>
   [] \<notin> set (sent_of es) \<Longrightarrow> tcp_pump H es (w, c, u) = (w', c', u') \<Longrightarrow>
   w' @ tc_writeBuffer c' = w @ tc_writeBuffer c @ sent_of es \<and> u' = u \<and> tcp_inv c'"
proof (induction es arbitrary: w c)
  case (Cons e es)
  show ?case
  proof (cases e)
    case (Some d)
    show ?thesis using Cons.IH[of "tcp_send d c" w] Cons.prems pump_send[OF Cons.prems(1,2)] Some by simp
  next
    case None
    show ?thesis
    proof (cases "filter is_write (tc_pending c)")
      case Nil
      thus ?thesis using Cons.IH[of c w] Cons.prems None by simp
    next
      case w: (Cons x xs)
      then obtain d c1 where d: "x = OpWrite d" "tc_writeBuffer c = d # tc_writeBuffer c1"
          "tcp_complete H (WriteDone d (length d) None) (c, u) = (c1, u)"
          "tcp_inv c1" "tc_status c1 = TConnected" "tc_open c1"
        using pump_write[OF Cons.prems(1-3) w Cons.prems(4)] by metis
      have "tcp_pump H es (w @ [d], c1, u) = (w', c', u')"
        using Cons.prems(6) None w d(1,3) by simp
      moreover have "[] \<notin> set (tc_writeBuffer c1)" "[] \<notin> set (sent_of es)"
        using Cons.prems(4,5) d(2) None by simp_all
      ultimately show ?thesis using Cons.IH[of c1 "w @ [d]"] d None by simp
    qed
  qed
qed simp

text \<open>Property C23. Sending is a queue: while the connection is up, the data of all calls of
  \<open>send\<close> go out one buffer at a time, each exactly once and in the order of the calls; what has gone
  out followed by what the write buffer still holds is always what had been queued followed by
  what was sent.\<close>

theorem tcp_send_fifo:
  assumes "tcp_inv c" and "tc_status c = TConnected" and "tc_open c"
    and "[] \<notin> set (tc_writeBuffer c)" and "[] \<notin> set (sent_of es)"
    and "tcp_pump H es ([], c, u) = (w, c', u')"
  shows "w @ tc_writeBuffer c' = tc_writeBuffer c @ sent_of es \<and> u' = u"
  using pump_fifo[OF assms] by simp

theorem tcp_send_fifo_witness:
  "\<exists>w c' u'. tcp_pump (Some quiet_handler) [None, Some ''c'', None] ([], demo_client, []) = (w, c', u') \<and>
     w = [''a'', ''b''] \<and> w @ tc_writeBuffer c' = [''a'', ''b'', ''c''] \<and> u' = []"
proof -
  have "tcp_inv demo_client"
    by (simp add: tcp_inv0_def all_ops_def demo_client_def rw_shape_def is_write_def)
  moreover obtain w c' u' where p: "tcp_pump (Some quiet_handler) [None, Some ''c'', None] ([], demo_client, []) = (w, c', u')"
    by (metis prod_cases3)
  ultimately have "w @ tc_writeBuffer c' = tc_writeBuffer demo_client @ sent_of [None, Some ''c'', None] \<and> u' = []"
    by (intro tcp_send_fifo[OF _ _ _ _ _ p]) (simp_all add: demo_client_def)
  moreover have "w = [''a'', ''b'']"
    using p by (simp add: demo_client_def is_write_def tcp_handleWrite_def tcp_handleAnything_def io_error_def
        Let_def tcp_start_def tcp_done_def tcp_send_def)
  ultimately show ?thesis using p by (simp add: demo_client_def)
qed

end
