(* ===== verification/SslClientModel.thy ===== *)
theory SslClientModel
  imports TcpClientModel
begin

text \<open>
  \<open>src/SslClient.cpp\<close>: TLS over the TCP client. mbedTLS is a parameter: a record of its functions
  on an abstract context. A call that does I/O is an interaction tree, whose nodes are the calls
  of the two BIO callbacks that mbedTLS makes before it returns. The client of this layer is the
  TCP client together with the members of \<open>SslClient\<close>; its handler object has type \<open>'v\<close>.
\<close>

section \<open>mbedTLS\<close>

datatype 'r tls_io =
    IoDone 'r
  | IoRecv nat "int \<times> string \<Rightarrow> 'r tls_io"
  | IoSend string "int \<Rightarrow> 'r tls_io"

record 'm mbedtls =
  mb_seed :: "'m \<Rightarrow> int \<times> 'm"
  mb_parse_cas :: "'m \<Rightarrow> int \<times> 'm"
  mb_config_defaults :: "'m \<Rightarrow> int \<times> 'm"
  mb_setup :: "'m \<Rightarrow> int \<times> 'm"
  mb_free :: "'m \<Rightarrow> 'm"
  mb_session_reset :: "'m \<Rightarrow> int \<times> 'm"
  mb_hostname :: "'m \<Rightarrow> string option"
  mb_set_hostname :: "string \<Rightarrow> 'm \<Rightarrow> int \<times> 'm"
  mb_handshake :: "'m \<Rightarrow> (int \<times> 'm) tls_io"
  mb_read :: "nat \<Rightarrow> 'm \<Rightarrow> (int \<times> string \<times> 'm) tls_io"
  mb_write :: "string \<Rightarrow> 'm \<Rightarrow> (int \<times> 'm) tls_io"

definition WANT_READ :: int where "WANT_READ = - 0x6900"
definition WANT_WRITE :: int where "WANT_WRITE = - 0x6880"

definition wants_io :: "int \<Rightarrow> bool" where
  "wants_io r \<longleftrightarrow> r = WANT_READ \<or> r = WANT_WRITE"

lemma wants_io_neg: "wants_io r \<Longrightarrow> r < 0"
  by (auto simp: wants_io_def WANT_READ_def WANT_WRITE_def)

section \<open>State\<close>

datatype ssl_status = SDisconnected | SConnecting | SHandshake | SConnected | SDisconnecting | SError

record 'm ssl_state =
  ss_status :: ssl_status
  ss_ioCount :: int
  ss_sslBuffer :: string
  ss_writeBuffer :: "string list"
  ss_initialized :: bool
  ss_wasConnected :: bool
  ss_ctx :: 'm
  ss_timers :: nat

type_synonym 'm ssl_client = "tcp_client \<times> 'm ssl_state"
type_synonym ('m, 'v) ssl_handler = "('m ssl_client, 'v) client_handler"

definition ssl_init :: "'m \<Rightarrow> 'm ssl_state" where
  "ssl_init m = \<lparr>ss_status = SDisconnected, ss_ioCount = 0, ss_sslBuffer = [], ss_writeBuffer = [],
     ss_initialized = False, ss_wasConnected = False, ss_ctx = m, ss_timers = 0\<rparr>"

definition isConnected :: "'m ssl_client \<Rightarrow> bool" where
  "isConnected c \<longleftrightarrow> ss_status (snd c) = SConnected"

definition isConnecting :: "'m ssl_client \<Rightarrow> bool" where
  "isConnecting c \<longleftrightarrow> ss_status (snd c) = SConnecting \<or> ss_status (snd c) = SHandshake"

definition isDisconnecting :: "'m ssl_client \<Rightarrow> bool" where
  "isDisconnecting c \<longleftrightarrow> ss_status (snd c) = SDisconnecting \<or> ss_status (snd c) = SError"

section \<open>The BIO callbacks\<close>

definition transfers :: "ssl_status \<Rightarrow> bool" where
  "transfers st \<longleftrightarrow> st = SHandshake \<or> st = SConnected"

definition sslReadCallback :: "nat \<Rightarrow> 'm ssl_state \<Rightarrow> (int \<times> string) \<times> 'm ssl_state" where
  "sslReadCallback n c =
     (if n = 0 then ((0, []), c)
      else if \<not> transfers (ss_status c) then ((0, []), c)
      else if ss_sslBuffer c = [] then ((WANT_READ, []), c)
      else
        (let size = min (length (ss_sslBuffer c)) n
         in ((int size, take size (ss_sslBuffer c)), c\<lparr>ss_sslBuffer := drop size (ss_sslBuffer c)\<rparr>)))"

definition sslWriteCallback :: "string \<Rightarrow> 'm ssl_client \<Rightarrow> int \<times> 'm ssl_client" where
  "sslWriteCallback b c =
     (if b = [] then (0, c)
      else if \<not> transfers (ss_status (snd c)) then (0, c)
      else (int (length b), (tcp_send b (fst c), snd c)))"

text \<open>A call of mbedTLS runs its tree against the callbacks.\<close>

primrec run_tls :: "'r tls_io \<Rightarrow> 'm ssl_client \<Rightarrow> 'r \<times> 'm ssl_client" where
  "run_tls (IoDone r) = (\<lambda>c. (r, c))"
| "run_tls (IoRecv n k) = (\<lambda>c. case sslReadCallback n (snd c) of (x, s) \<Rightarrow> run_tls (k x) (fst c, s))"
| "run_tls (IoSend b k) = (\<lambda>c. case sslWriteCallback b c of (x, c) \<Rightarrow> run_tls (k x) c)"

definition set_ctx :: "'m \<Rightarrow> 'm ssl_client \<Rightarrow> 'm ssl_client" where
  "set_ctx m c = (fst c, (snd c)\<lparr>ss_ctx := m\<rparr>)"

section \<open>Set-up\<close>

definition sslFree :: "'m mbedtls \<Rightarrow> 'm ssl_state \<Rightarrow> 'm ssl_state" where
  "sslFree M s = (if ss_initialized s then s\<lparr>ss_ctx := mb_free M (ss_ctx s), ss_initialized := False\<rparr> else s)"

definition sslInitialize :: "'m mbedtls \<Rightarrow> 'm ssl_state \<Rightarrow> bool \<times> 'm ssl_state" where
  "sslInitialize M s =
     (if ss_initialized s then (True, s)
      else
        (let (result, m) = mb_seed M (ss_ctx s); s = s\<lparr>ss_ctx := m\<rparr>
         in if result \<noteq> 0 then (False, sslFree M s)
         else
        (let (result, m) = mb_parse_cas M (ss_ctx s); s = s\<lparr>ss_ctx := m\<rparr>
         in if result < 0 then (False, sslFree M s)
         else
        (let (result, m) = mb_config_defaults M (ss_ctx s); s = s\<lparr>ss_ctx := m\<rparr>
         in if result \<noteq> 0 then (False, sslFree M s)
         else
        (let (result, m) = mb_setup M (ss_ctx s); s = s\<lparr>ss_ctx := m\<rparr>
         in if result \<noteq> 0 then (False, sslFree M s)
         else (True, s\<lparr>ss_initialized := True\<rparr>))))))"

definition ssl_connect :: "'m mbedtls \<Rightarrow> string \<Rightarrow> string \<Rightarrow> 'm ssl_client \<Rightarrow> 'm ssl_client" where
  "ssl_connect M server protocol c =
     (case sslInitialize M (snd c) of
        (False, s) \<Rightarrow> (fst c, s)
      | (True, s) \<Rightarrow>
          if ss_status s \<noteq> SDisconnected then (fst c, s)
          else
            (let (result, m) = mb_session_reset M (ss_ctx s); s = s\<lparr>ss_ctx := m\<rparr>
             in if result \<noteq> 0 then (fst c, s)
             else
               (let (result, m) = (if mb_hostname M (ss_ctx s) \<noteq> Some server
                                   then mb_set_hostname M server (ss_ctx s) else (0, ss_ctx s));
                    s = s\<lparr>ss_ctx := m\<rparr>
                in if result \<noteq> 0 then (fst c, s)
                else (tcp_connect server protocol (fst c),
                      s\<lparr>ss_sslBuffer := [], ss_writeBuffer := [], ss_status := SConnecting\<rparr>))))"

definition ssl_connect_port :: "('d, 'f) lib \<Rightarrow> 'm mbedtls \<Rightarrow> string \<Rightarrow> nat \<Rightarrow> 'm ssl_client \<Rightarrow> 'm ssl_client" where
  "ssl_connect_port L M server port c = ssl_connect M server (lc_int L (int port)) c"

definition ssl_disconnect :: "'m ssl_client \<Rightarrow> 'm ssl_client" where
  "ssl_disconnect c =
     (if ss_status (snd c) \<noteq> SDisconnected \<and> ss_status (snd c) \<noteq> SDisconnecting \<and> ss_status (snd c) \<noteq> SError
      then (tcp_disconnect (fst c), (snd c)\<lparr>ss_status := SDisconnecting\<rparr>)
      else c)"

section \<open>Handlers\<close>

definition ssl_handleAnything ::
  "('m, 'v) ssl_handler option \<Rightarrow> ssl_status \<Rightarrow> errc option \<Rightarrow> 'm ssl_client \<times> 'v \<Rightarrow> bool \<times> ('m ssl_client \<times> 'v)" where
  "ssl_handleAnything H handleStatus error x =
     (let t = fst (fst x); s = (snd (fst x))\<lparr>ss_ioCount := ss_ioCount (snd (fst x)) - 1\<rparr>; v = snd x
      in if ss_status s = SDisconnected then (False, ((t, s), v))
         else if ss_status s = SDisconnecting \<or> ss_status s = SError \<or> error \<noteq> None then
           (let s = (if ss_status s \<noteq> SDisconnecting then s\<lparr>ss_status := SError\<rparr> else s);
                t = tcp_disconnect t
            in if ss_ioCount s > 0 then (False, ((t, s), v))
               else
                 (let status = ss_status s;
                      s = s\<lparr>ss_writeBuffer := [], ss_status := SDisconnected, ss_ioCount := 0, ss_wasConnected := False\<rparr>
                  in case H of
                       None \<Rightarrow> (False, ((t, s), v))
                     | Some h \<Rightarrow>
                        (False,
                         if handleStatus = SConnected
                         then hDisconnect h (if status = SDisconnecting then ClosedByUser else ClosedByPeer) ((t, s), v)
                         else hError h (if status = SDisconnecting then Some OperationAborted else error) ((t, s), v))))
         else (True, ((t, s), v)))"

definition count_io :: "'m ssl_client \<times> 'v \<Rightarrow> 'm ssl_client \<times> 'v" where
  "count_io x = ((fst (fst x), (snd (fst x))\<lparr>ss_ioCount := ss_ioCount (snd (fst x)) + 1\<rparr>), snd x)"

definition tls_error :: "int \<Rightarrow> errc" where
  "tls_error r = (if r = 0 then Eof else OtherError r)"

text \<open>
  After a handshake the code reads the verification flags and logs them; they change nothing
  (the session is configured with \<open>MBEDTLS\_SSL\_VERIFY\_OPTIONAL\<close>).
\<close>

definition handleHandshake :: "'m mbedtls \<Rightarrow> ('m, 'v) ssl_handler option \<Rightarrow> 'm ssl_client \<times> 'v \<Rightarrow> 'm ssl_client \<times> 'v" where
  "handleHandshake M H x =
     (case run_tls (mb_handshake M (ss_ctx (snd (fst x)))) (fst x) of
        ((result, m), c) \<Rightarrow>
          (let x = (set_ctx m c, snd x);
               error = (if result \<noteq> 0 \<and> \<not> wants_io result then Some (OtherError result) else None)
           in case ssl_handleAnything H SHandshake error x of
                (False, x) \<Rightarrow> x
              | (True, ((t, s), v)) \<Rightarrow>
                  if wants_io result then ((t, s), v)
                  else tcp_notify H hConnect ((t, s\<lparr>ss_status := SConnected, ss_wasConnected := True\<rparr>), v)))"

definition ssl_handleRead :: "'m mbedtls \<Rightarrow> ('m, 'v) ssl_handler option \<Rightarrow> 'm ssl_client \<times> 'v \<Rightarrow> bool \<times> ('m ssl_client \<times> 'v)" where
  "ssl_handleRead M H x =
     (case run_tls (mb_read M 32768 (ss_ctx (snd (fst x)))) (fst x) of
        ((result, d, m), c) \<Rightarrow>
          (let x = (set_ctx m c, snd x);
               error = (if result \<le> 0 \<and> \<not> wants_io result then Some (tls_error result) else None)
           in case ssl_handleAnything H SConnected error x of
                (False, x) \<Rightarrow> (False, x)
              | (True, x) \<Rightarrow>
                  (result > 0, if result > 0 then tcp_notify H (\<lambda>h. hReceived h (take (nat result) d)) x else x)))"

text \<open>
  \<open>ss\_timers\<close> counts the waits started by \<open>handleWrite\<close> whose handler has not run. Setting
  the timer again cancels a running wait, but its handler then runs too: it ignores the error code.
\<close>

definition ssl_handleWrite :: "'m mbedtls \<Rightarrow> ('m, 'v) ssl_handler option \<Rightarrow> 'm ssl_client \<times> 'v \<Rightarrow> 'm ssl_client \<times> 'v" where
  "ssl_handleWrite M H x =
     (let ((t, s), v) = x
      in if ss_writeBuffer s = [] then ((t, s\<lparr>ss_ioCount := ss_ioCount s - 1\<rparr>), v)
         else
           (case run_tls (mb_write M (hd (ss_writeBuffer s)) (ss_ctx s)) (t, s) of
              ((result, m), c) \<Rightarrow>
                (let x = (set_ctx m c, v);
                     error = (if result \<le> 0 \<and> \<not> wants_io result then Some (tls_error result) else None)
                 in case ssl_handleAnything H SConnected error x of
                      (False, x) \<Rightarrow> x
                    | (True, ((t, s), v)) \<Rightarrow>
                        (let s = (if \<not> wants_io result then s\<lparr>ss_writeBuffer := tl (ss_writeBuffer s)\<rparr> else s)
                         in ((t, s\<lparr>ss_timers := ss_timers s + 1, ss_ioCount := ss_ioCount s + 1\<rparr>), v)))))"

text \<open>\<open>send\<close> may complete the client's closing inside the call, and so run a callback.\<close>

definition ssl_send :: "'m mbedtls \<Rightarrow> ('m, 'v) ssl_handler option \<Rightarrow> string \<Rightarrow> 'm ssl_client \<times> 'v \<Rightarrow> 'm ssl_client \<times> 'v" where
  "ssl_send M H d x =
     (let ((t, s), v) = x
      in if ss_status s \<noteq> SConnected then x
         else
           (let inProgress = ss_writeBuffer s \<noteq> [];
                x = ((t, s\<lparr>ss_writeBuffer := ss_writeBuffer s @ [d]\<rparr>), v)
            in if \<not> inProgress then ssl_handleWrite M H (count_io x) else x))"

text \<open>
  The loop that reads all records of a packet. \<open>n\<close> bounds its rounds; how many are enough is
  shown below.
\<close>

fun ssl_read_loop :: "nat \<Rightarrow> 'm mbedtls \<Rightarrow> ('m, 'v) ssl_handler option \<Rightarrow> 'm ssl_client \<times> 'v \<Rightarrow> 'm ssl_client \<times> 'v" where
  "ssl_read_loop 0 M H x = x"
| "ssl_read_loop (Suc n) M H x =
     (if ss_status (snd (fst x)) \<noteq> SConnected then x
      else (case ssl_handleRead M H (count_io x) of
              (False, x) \<Rightarrow> x
            | (True, x) \<Rightarrow> ssl_read_loop n M H x))"

definition ssl_handleTcpClientConnect :: "'m mbedtls \<Rightarrow> ('m, 'v) ssl_handler option \<Rightarrow> 'm ssl_client \<times> 'v \<Rightarrow> 'm ssl_client \<times> 'v" where
  "ssl_handleTcpClientConnect M H x =
     (let ((t, s), v) = x in handleHandshake M H (count_io ((t, s\<lparr>ss_status := SHandshake\<rparr>), v)))"

definition ssl_handleTcpClientDisconnect :: "('m, 'v) ssl_handler option \<Rightarrow> reason \<Rightarrow> 'm ssl_client \<times> 'v \<Rightarrow> 'm ssl_client \<times> 'v" where
  "ssl_handleTcpClientDisconnect H r x =
     snd (ssl_handleAnything H (if ss_wasConnected (snd (fst x)) then SConnected else SHandshake) (Some Eof) (count_io x))"

definition ssl_handleTcpClientError :: "('m, 'v) ssl_handler option \<Rightarrow> errc option \<Rightarrow> 'm ssl_client \<times> 'v \<Rightarrow> 'm ssl_client \<times> 'v" where
  "ssl_handleTcpClientError H e x = snd (ssl_handleAnything H SConnecting e (count_io x))"

definition ssl_handleTcpClientReceivedData ::
  "nat \<Rightarrow> 'm mbedtls \<Rightarrow> ('m, 'v) ssl_handler option \<Rightarrow> string \<Rightarrow> 'm ssl_client \<times> 'v \<Rightarrow> 'm ssl_client \<times> 'v" where
  "ssl_handleTcpClientReceivedData n M H d x =
     (let ((t, s), v) = x; s = s\<lparr>ss_sslBuffer := ss_sslBuffer s @ d\<rparr>; x = ((t, s), v)
      in if ss_status s = SHandshake then handleHandshake M H (count_io x) else ssl_read_loop n M H x)"

text \<open>\<open>SslClient\<close> as the event handler of its TCP client.\<close>

definition on_ssl :: "('m ssl_client \<times> 'v \<Rightarrow> 'm ssl_client \<times> 'v) \<Rightarrow> tcp_client \<times> ('m ssl_state \<times> 'v) \<Rightarrow> tcp_client \<times> ('m ssl_state \<times> 'v)" where
  "on_ssl f x = (case f ((fst x, fst (snd x)), snd (snd x)) of ((t, s), v) \<Rightarrow> (t, (s, v)))"

lemma on_ssl_fst: "fst (on_ssl f (c, (s, v))) = fst (fst (f ((c, s), v)))"
  by (simp add: on_ssl_def split: prod.splits)

definition ssl_tcp_handler :: "nat \<Rightarrow> 'm mbedtls \<Rightarrow> ('m, 'v) ssl_handler option \<Rightarrow> ('m ssl_state \<times> 'v) tcp_handler" where
  "ssl_tcp_handler n M H =
     \<lparr>hConnect = on_ssl (ssl_handleTcpClientConnect M H),
      hDisconnect = (\<lambda>r. on_ssl (ssl_handleTcpClientDisconnect H r)),
      hError = (\<lambda>e. on_ssl (ssl_handleTcpClientError H e)),
      hReceived = (\<lambda>d. on_ssl (ssl_handleTcpClientReceivedData n M H d))\<rparr>"

text \<open>The two kinds of events of the event loop: a TCP operation completes, a wait ends.\<close>

definition ssl_complete :: "nat \<Rightarrow> 'm mbedtls \<Rightarrow> ('m, 'v) ssl_handler option \<Rightarrow> tcp_result \<Rightarrow> 'm ssl_client \<times> 'v \<Rightarrow> 'm ssl_client \<times> 'v" where
  "ssl_complete n M H r x =
     (case tcp_complete (Some (ssl_tcp_handler n M H)) r (fst (fst x), (snd (fst x), snd x)) of
        (t, (s, v)) \<Rightarrow> ((t, s), v))"

definition ssl_timer :: "'m mbedtls \<Rightarrow> ('m, 'v) ssl_handler option \<Rightarrow> 'm ssl_client \<times> 'v \<Rightarrow> 'm ssl_client \<times> 'v" where
  "ssl_timer M H x =
     (let ((t, s), v) = x in ssl_handleWrite M H ((t, s\<lparr>ss_timers := ss_timers s - 1\<rparr>), v))"

section \<open>The contract of the client's user\<close>

text \<open>
  \<open>ssl\_ctl\<close>: the calls a user may make in a closing callback. \<open>ssl\_api\<close>: those it may make in the
  other two and from outside, \<open>send\<close> included. Both let the user's object change freely.
\<close>

inductive ssl_ctl :: "'m mbedtls \<Rightarrow> 'm ssl_client \<times> 'v \<Rightarrow> 'm ssl_client \<times> 'v \<Rightarrow> bool" for M where
  ctl_user: "ssl_ctl M (c, v) (c, v')"
| ctl_connect: "ssl_ctl M x (c, v) \<Longrightarrow> ssl_ctl M x (ssl_connect M sv p c, v')"
| ctl_disconnect: "ssl_ctl M x (c, v) \<Longrightarrow> ssl_ctl M x (ssl_disconnect c, v')"

inductive ssl_api :: "'m mbedtls \<Rightarrow> ('m, 'v) ssl_handler option \<Rightarrow> 'm ssl_client \<times> 'v \<Rightarrow> 'm ssl_client \<times> 'v \<Rightarrow> bool" for M H where
  sapi_user: "ssl_api M H (c, v) (c, v')"
| sapi_connect: "ssl_api M H x (c, v) \<Longrightarrow> ssl_api M H x (ssl_connect M sv p c, v')"
| sapi_disconnect: "ssl_api M H x (c, v) \<Longrightarrow> ssl_api M H x (ssl_disconnect c, v')"
| sapi_send: "ssl_api M H x (c, v) \<Longrightarrow> ssl_api M H x (ssl_send M H d (c, v'))"

inductive ssl_reach :: "nat \<Rightarrow> 'm mbedtls \<Rightarrow> ('m, 'v) ssl_handler option \<Rightarrow> 'm ssl_client \<times> 'v \<Rightarrow> bool" for n M H where
  sreach_init: "ssl_reach n M H ((tcp_init, ssl_init m), v)"
| sreach_call: "ssl_reach n M H x \<Longrightarrow> ssl_api M H x x' \<Longrightarrow> ssl_reach n M H x'"
| sreach_complete: "ssl_reach n M H x \<Longrightarrow> result_op r \<in> set (tc_pending (fst (fst x))) \<Longrightarrow> ssl_reach n M H (ssl_complete n M H r x)"
| sreach_timer: "ssl_reach n M H x \<Longrightarrow> ss_timers (snd (fst x)) > 0 \<Longrightarrow> ssl_reach n M H (ssl_timer M H x)"

section \<open>The TCP client under the TLS client\<close>

lemma sslReadCallback_state [simp]:
  "ss_status (snd (sslReadCallback n s)) = ss_status s" "ss_timers (snd (sslReadCallback n s)) = ss_timers s"
  "ss_ioCount (snd (sslReadCallback n s)) = ss_ioCount s" "ss_writeBuffer (snd (sslReadCallback n s)) = ss_writeBuffer s"
  "ss_wasConnected (snd (sslReadCallback n s)) = ss_wasConnected s" "ss_initialized (snd (sslReadCallback n s)) = ss_initialized s"
  by (simp_all add: sslReadCallback_def Let_def)

text \<open>A call of mbedTLS changes the TCP client by sends, and of the TLS client only the read buffer.\<close>

lemma tcp_send_status [simp]: "tc_status (tcp_send d t) = tc_status t"
  by (simp add: tcp_send_def tcp_start_def Let_def)

definition tls_frame :: "'m ssl_client \<Rightarrow> 'm ssl_client \<Rightarrow> bool" where
  "tls_frame c c' \<longleftrightarrow> tcp_api (fst c) (fst c') \<and> tc_status (fst c') = tc_status (fst c) \<and> (\<exists>b. snd c' = (snd c)\<lparr>ss_sslBuffer := b\<rparr>)"

lemma tls_frame_refl [simp]: "tls_frame c c"
  by (auto simp: tls_frame_def intro: exI[of _ "ss_sslBuffer (snd c)"])

lemma tls_frame_trans: "tls_frame a b \<Longrightarrow> tls_frame b c \<Longrightarrow> tls_frame a c"
  by (auto simp: tls_frame_def intro: tcp_api_trans)

lemma tls_frame_recv: "tls_frame c (fst c, snd (sslReadCallback n (snd c)))"
  by (auto simp: tls_frame_def sslReadCallback_def Let_def
      intro: exI[of _ "ss_sslBuffer (snd c)"] exI[of _ "drop k (ss_sslBuffer (snd c))" for k])

lemma tls_frame_send: "tls_frame c (snd (sslWriteCallback b c))"
  by (auto simp: tls_frame_def sslWriteCallback_def intro: exI[of _ "ss_sslBuffer (snd c)"])

lemma run_tls_frame: "tls_frame c (snd (run_tls io c))"
proof (induction io arbitrary: c)
  case (IoRecv n k)
  show ?case using tls_frame_trans[OF tls_frame_recv IoRecv.IH[OF rangeI]]
    by (simp split: prod.splits) (metis fst_conv snd_conv)
next
  case (IoSend b k)
  show ?case using tls_frame_trans[OF tls_frame_send IoSend.IH[OF rangeI]]
    by (simp split: prod.splits) (metis snd_conv)
qed simp

section \<open>The invariant of the TLS client\<close>

text \<open>How the status of the TLS client goes with that of the TCP client, outside of callbacks.\<close>

fun linked :: "tcp_status \<Rightarrow> ssl_status \<Rightarrow> bool" where
  "linked TDisconnected st = (st = SDisconnected \<or> st = SDisconnecting \<or> st = SError)"
| "linked TResolve st = (st = SConnecting)"
| "linked TConnecting st = (st = SConnecting)"
| "linked TConnected st = (st = SHandshake \<or> st = SConnected)"
| "linked TDisconnecting st = (st \<noteq> SHandshake \<and> st \<noteq> SConnected)"

text \<open>\<open>k\<close> is the number of operations counted by the handler that runs.\<close>

definition ssl_counts :: "int \<Rightarrow> 'm ssl_state \<Rightarrow> bool" where
  "ssl_counts k s \<longleftrightarrow>
     ss_ioCount s = int (ss_timers s) + k \<and>
     (ss_status s = SDisconnected \<longrightarrow> ss_timers s = 0 \<and> ss_writeBuffer s = [])"

definition ssl_inv :: "'m ssl_client \<Rightarrow> bool" where
  "ssl_inv c \<longleftrightarrow> ssl_counts 0 (snd c) \<and> linked (tc_status (fst c)) (ss_status (snd c))"

lemma ssl_counts_irrel [simp]:
  "ssl_counts k (s\<lparr>ss_sslBuffer := b\<rparr>) = ssl_counts k s"
  "ssl_counts k (s\<lparr>ss_ctx := m\<rparr>) = ssl_counts k s"
  "ssl_counts k (s\<lparr>ss_initialized := i\<rparr>) = ssl_counts k s"
  "ssl_counts k (s\<lparr>ss_wasConnected := i\<rparr>) = ssl_counts k s"
  by (simp_all add: ssl_counts_def)

lemma sslFree_frame: "ssl_counts k (sslFree M s) = ssl_counts k s" "ss_status (sslFree M s) = ss_status s"
  by (simp_all add: sslFree_def)

lemma sslInitialize_frame:
  "ssl_counts k (snd (sslInitialize M s)) = ssl_counts k s" "ss_status (snd (sslInitialize M s)) = ss_status s"
  by (auto simp: sslInitialize_def Let_def sslFree_frame split: prod.splits)

lemma tcp_connect_linked: "linked (tc_status t) SDisconnected \<Longrightarrow> linked (tc_status (tcp_connect sv p t)) SConnecting"
  by (cases "tc_status t") (auto simp: tcp_connect_def tcp_start_def)

lemma ssl_connect_inv: "ssl_inv c \<Longrightarrow> ssl_inv (ssl_connect M sv p c)"
proof -
  assume inv: "ssl_inv c"
  obtain b s where i: "sslInitialize M (snd c) = (b, s)" by (metis surj_pair)
  have s: "ssl_counts 0 s" "ss_status s = ss_status (snd c)"
    using sslInitialize_frame(1)[of 0 M "snd c"] sslInitialize_frame(2)[of M "snd c"] i inv by (simp_all add: ssl_inv_def)
  hence "linked (tc_status (fst c)) (ss_status s)" using inv by (simp add: ssl_inv_def)
  thus ?thesis using s i tcp_connect_linked[of "fst c" sv p]
    by (auto simp: ssl_connect_def Let_def ssl_inv_def ssl_counts_def split: bool.splits prod.splits)
qed

lemma ssl_disconnect_inv: "ssl_inv c \<Longrightarrow> ssl_inv (ssl_disconnect c)"
  by (cases "tc_status (fst c)")
     (auto simp: ssl_disconnect_def ssl_inv_def ssl_counts_def tcp_disconnect_def)

lemma ssl_ctl_inv: "ssl_ctl M x y \<Longrightarrow> ssl_inv (fst x) \<Longrightarrow> ssl_inv (fst y)"
  by (induction rule: ssl_ctl.induct) (auto intro: ssl_connect_inv ssl_disconnect_inv)

lemma ssl_connect_tcp: "tcp_api (fst c) (fst (ssl_connect M sv p c))"
  by (auto simp: ssl_connect_def Let_def split: bool.splits prod.splits)

lemma ssl_disconnect_tcp: "tcp_api (fst c) (fst (ssl_disconnect c))"
  by (auto simp: ssl_disconnect_def)

lemma ssl_ctl_tcp: "ssl_ctl M x y \<Longrightarrow> tcp_api (fst (fst x)) (fst (fst y))"
  by (induction rule: ssl_ctl.induct)
     (auto intro: tcp_api_trans[OF ssl_connect_tcp] tcp_api_trans[OF ssl_disconnect_tcp])

lemma tcp_disconnect_status: "tc_status (tcp_disconnect t) = (if tc_status t = TDisconnected then TDisconnected else TDisconnecting)"
  by (cases "tc_status t") (simp_all add: tcp_disconnect_def)

locale ssl_user =
  fixes M :: "'m mbedtls" and H :: "('m, 'v) ssl_handler"
  assumes disconnect_ctl: "ssl_ctl M x (hDisconnect H r x)"
    and error_ctl: "ssl_ctl M x (hError H e x)"
    and connect_sapi: "ssl_api M (Some H) x (hConnect H x)"
    and received_sapi: "ssl_api M (Some H) x (hReceived H d x)"
begin

lemma anything_stop:
  assumes "ssl_handleAnything (Some H) hs e ((t, s), v) = (False, y)"
    and "ssl_counts 1 s" and "tc_status t = TDisconnected \<or> linked (tc_status t) (ss_status s)"
  shows "tcp_api t (fst (fst y)) \<and> ssl_inv (fst y)"
proof -
  let ?s = "s\<lparr>ss_ioCount := ss_ioCount s - 1\<rparr>"
  consider (off) "ss_status s = SDisconnected" "y = ((t, ?s), v)"
    | (wait) "ss_ioCount s > 1" "ss_status s \<noteq> SDisconnected"
        "y = ((tcp_disconnect t, if ss_status s = SDisconnecting then ?s else ?s\<lparr>ss_status := SError\<rparr>), v)"
    | (last) z where "ss_ioCount s \<le> 1" "ss_status s \<noteq> SDisconnected" "ssl_ctl M z y"
        "z = ((tcp_disconnect t, ?s\<lparr>ss_writeBuffer := [], ss_status := SDisconnected, ss_ioCount := 0, ss_wasConnected := False\<rparr>), v)"
    using assms(1) disconnect_ctl error_ctl
    by (cases "ss_status s") (auto simp: ssl_handleAnything_def Let_def split: if_splits)
  thus ?thesis
  proof cases
    case off
    thus ?thesis using assms by (auto simp: ssl_inv_def ssl_counts_def)
  next
    case wait
    thus ?thesis using assms by (auto simp: ssl_inv_def ssl_counts_def tcp_disconnect_status)
  next
    case last
    have "ssl_inv (fst z)" using last(1,4) assms(2) by (auto simp: ssl_inv_def ssl_counts_def tcp_disconnect_status)
    moreover have "tcp_api t (fst (fst z))" using last(4) by simp
    ultimately show ?thesis using ssl_ctl_inv[OF last(3)] tcp_api_trans[OF ssl_ctl_tcp[OF last(3)]] by blast
  qed
qed

lemma anything_go:
  "ssl_handleAnything (Some H) hs e ((t, s), v) = (True, y) \<Longrightarrow>
     y = ((t, s\<lparr>ss_ioCount := ss_ioCount s - 1\<rparr>), v) \<and> e = None \<and>
     ss_status s \<noteq> SDisconnected \<and> ss_status s \<noteq> SDisconnecting \<and> ss_status s \<noteq> SError"
  by (auto simp: ssl_handleAnything_def Let_def split: if_splits)

lemma anything_cases:
  assumes "ssl_counts 1 s" and "tc_status t = TDisconnected \<or> linked (tc_status t) (ss_status s)"
  obtains (stop) y where "ssl_handleAnything (Some H) hs e ((t, s), v) = (False, y)"
      "tcp_api t (fst (fst y))" "ssl_inv (fst y)"
  | (go) "ssl_handleAnything (Some H) hs e ((t, s), v) = (True, ((t, s\<lparr>ss_ioCount := ss_ioCount s - 1\<rparr>), v))"
      "e = None" "ss_status s \<noteq> SDisconnected" "ss_status s \<noteq> SDisconnecting" "ss_status s \<noteq> SError"
  using anything_stop[OF _ assms, of hs e v] anything_go[of hs e t s v]
  by (cases "ssl_handleAnything (Some H) hs e ((t, s), v)") (metis (full_types))

lemma handleWrite_ok:
  assumes "ssl_counts 1 s" "linked (tc_status t) (ss_status s)"
  shows "tcp_api t (fst (fst (ssl_handleWrite M (Some H) ((t, s), v)))) \<and> ssl_inv (fst (ssl_handleWrite M (Some H) ((t, s), v)))"
proof (cases "ss_writeBuffer s = []")
  case True
  thus ?thesis using assms by (auto simp: ssl_handleWrite_def ssl_inv_def ssl_counts_def)
next
  case False
  obtain r m t' s' where run: "run_tls (mb_write M (hd (ss_writeBuffer s)) (ss_ctx s)) (t, s) = ((r, m), (t', s'))"
    by (metis surj_pair)
  then obtain b where f: "tcp_api t t'" "tc_status t' = tc_status t" "s' = s\<lparr>ss_sslBuffer := b\<rparr>"
    using run_tls_frame[of "(t, s)" "mb_write M (hd (ss_writeBuffer s)) (ss_ctx s)"] by (auto simp: tls_frame_def)
  let ?s = "s'\<lparr>ss_ctx := m\<rparr>"
  let ?e = "if r \<le> 0 \<and> \<not> wants_io r then Some (tls_error r) else None"
  have pre: "ssl_counts 1 ?s" "tc_status t' = TDisconnected \<or> linked (tc_status t') (ss_status ?s)"
    using assms f by simp_all
  from pre show ?thesis
  proof (cases rule: anything_cases[where hs = SConnected and e = ?e and v = v])
    case (stop y)
    thus ?thesis using run f False by (auto simp: ssl_handleWrite_def set_ctx_def Let_def intro: tcp_api_trans)
  next
    case go
    thus ?thesis using run f False assms
      by (auto simp: ssl_handleWrite_def set_ctx_def Let_def ssl_inv_def ssl_counts_def)
  qed
qed

lemma send_ok:
  assumes "ssl_inv (fst x)"
  shows "tcp_api (fst (fst x)) (fst (fst (ssl_send M (Some H) d x))) \<and> ssl_inv (fst (ssl_send M (Some H) d x))"
proof -
  obtain t s v where x: "x = ((t, s), v)" by (metis surj_pair)
  show ?thesis
  proof (cases "ss_status s = SConnected \<and> ss_writeBuffer s = []")
    case True
    let ?s = "s\<lparr>ss_writeBuffer := [d], ss_ioCount := ss_ioCount s + 1\<rparr>"
    have "ssl_counts 1 ?s" "linked (tc_status t) (ss_status ?s)"
      using assms True x by (auto simp: ssl_inv_def ssl_counts_def)
    from handleWrite_ok[OF this] show ?thesis using True x
      by (simp add: ssl_send_def count_io_def Let_def)
  next
    case False
    thus ?thesis using assms x by (auto simp: ssl_send_def ssl_inv_def ssl_counts_def Let_def)
  qed
qed

lemma sapi_ok:
  "ssl_api M (Some H) x y \<Longrightarrow> ssl_inv (fst x) \<Longrightarrow> tcp_api (fst (fst x)) (fst (fst y)) \<and> ssl_inv (fst y)"
proof (induction rule: ssl_api.induct)
  case (sapi_connect x c v sv p v')
  thus ?case by (auto intro: ssl_connect_inv tcp_api_trans[OF ssl_connect_tcp])
next
  case (sapi_disconnect x c v v')
  thus ?case by (auto intro: ssl_disconnect_inv tcp_api_trans[OF ssl_disconnect_tcp])
next
  case (sapi_send x c v d v')
  thus ?case using send_ok[of "(c, v')" d] by (auto intro: tcp_api_trans)
qed simp

lemma handshake_ok:
  assumes "ssl_counts 1 s" "tc_status t = TConnected" "ss_status s = SHandshake"
  shows "tcp_api t (fst (fst (handleHandshake M (Some H) ((t, s), v)))) \<and> ssl_inv (fst (handleHandshake M (Some H) ((t, s), v)))"
proof -
  obtain r m t' s' where run: "run_tls (mb_handshake M (ss_ctx s)) (t, s) = ((r, m), (t', s'))"
    by (metis surj_pair)
  then obtain b where f: "tcp_api t t'" "tc_status t' = tc_status t" "s' = s\<lparr>ss_sslBuffer := b\<rparr>"
    using run_tls_frame[of "(t, s)" "mb_handshake M (ss_ctx s)"] by (auto simp: tls_frame_def)
  let ?s = "s'\<lparr>ss_ctx := m\<rparr>"
  let ?e = "if r \<noteq> 0 \<and> \<not> wants_io r then Some (OtherError r) else None"
  have pre: "ssl_counts 1 ?s" "tc_status t' = TDisconnected \<or> linked (tc_status t') (ss_status ?s)"
    using assms f by simp_all
  from pre show ?thesis
  proof (cases rule: anything_cases[where hs = SHandshake and e = ?e and v = v])
    case (stop y)
    thus ?thesis using run f by (auto simp: handleHandshake_def set_ctx_def Let_def intro: tcp_api_trans)
  next
    case go
    define s1 where "s1 = ?s\<lparr>ss_ioCount := ss_ioCount ?s - 1\<rparr>"
    show ?thesis
    proof (cases "wants_io r")
      case True
      hence "handleHandshake M (Some H) ((t, s), v) = ((t', s1), v)"
        using run go by (simp add: handleHandshake_def set_ctx_def Let_def s1_def)
      thus ?thesis using f assms by (simp add: s1_def ssl_inv_def ssl_counts_def)
    next
      case False
      define z where "z = ((t', s1\<lparr>ss_status := SConnected, ss_wasConnected := True\<rparr>), v)"
      have "handleHandshake M (Some H) ((t, s), v) = hConnect H z"
        using run go False by (simp add: handleHandshake_def set_ctx_def Let_def s1_def z_def tcp_notify_def)
      moreover have "ssl_inv (fst z)" "fst (fst z) = t'" using f assms
        by (simp_all add: s1_def z_def ssl_inv_def ssl_counts_def)
      ultimately show ?thesis using sapi_ok[OF connect_sapi, of z] f(1) tcp_api_trans by metis
    qed
  qed
qed

lemma handleRead_ok:
  assumes "ssl_counts 1 s" "linked (tc_status t) (ss_status s)" "ssl_handleRead M (Some H) ((t, s), v) = (b, y)"
  shows "tcp_api t (fst (fst y)) \<and> ssl_inv (fst y)"
proof -
  obtain r d m t' s' where run: "run_tls (mb_read M 32768 (ss_ctx s)) (t, s) = ((r, d, m), (t', s'))"
    by (metis surj_pair)
  then obtain bf where f: "tcp_api t t'" "tc_status t' = tc_status t" "s' = s\<lparr>ss_sslBuffer := bf\<rparr>"
    using run_tls_frame[of "(t, s)" "mb_read M 32768 (ss_ctx s)"] by (auto simp: tls_frame_def)
  let ?s = "s'\<lparr>ss_ctx := m\<rparr>"
  let ?e = "if r \<le> 0 \<and> \<not> wants_io r then Some (tls_error r) else None"
  have pre: "ssl_counts 1 ?s" "tc_status t' = TDisconnected \<or> linked (tc_status t') (ss_status ?s)"
    using assms f by simp_all
  from pre show ?thesis
  proof (cases rule: anything_cases[where hs = SConnected and e = ?e and v = v])
    case (stop y')
    thus ?thesis using run f assms(3) by (auto simp: ssl_handleRead_def set_ctx_def Let_def intro: tcp_api_trans)
  next
    case go
    define z where "z = ((t', ?s\<lparr>ss_ioCount := ss_ioCount ?s - 1\<rparr>), v)"
    have "y = (if r > 0 then hReceived H (take (nat r) d) z else z)"
      using run go assms(3)
      by (cases "r > 0") (auto simp: ssl_handleRead_def set_ctx_def Let_def z_def tcp_notify_def)
    moreover have "ssl_inv (fst z)" "fst (fst z) = t'" using f assms(1,2)
      by (auto simp: z_def ssl_inv_def ssl_counts_def)
    ultimately show ?thesis using sapi_ok[OF received_sapi, of z] f(1) tcp_api_trans by (metis (full_types))
  qed
qed

lemma read_loop_ok:
  "ssl_inv (fst x) \<Longrightarrow> tcp_api (fst (fst x)) (fst (fst (ssl_read_loop n M (Some H) x))) \<and> ssl_inv (fst (ssl_read_loop n M (Some H) x))"
proof (induction n arbitrary: x)
  case (Suc n)
  obtain t s v where x: "x = ((t, s), v)" by (metis surj_pair)
  show ?case
  proof (cases "ss_status s = SConnected")
    case True
    obtain b y where r: "ssl_handleRead M (Some H) (count_io x) = (b, y)" by (metis surj_pair)
    have "tcp_api t (fst (fst y)) \<and> ssl_inv (fst y)"
      using handleRead_ok[OF _ _ r[unfolded x count_io_def fst_conv snd_conv]] Suc.prems True x
      by (auto simp: ssl_inv_def ssl_counts_def)
    thus ?thesis using Suc.IH[of y] r x True by (cases b) (auto intro: tcp_api_trans)
  qed (use Suc.prems x in simp)
qed simp

text \<open>The same without the invariant: every handler changes the TCP client by its public members.\<close>

lemma anything_tcp: "tcp_api (fst (fst x)) (fst (fst (snd (ssl_handleAnything (Some H) hs e x))))"
proof -
  have "tcp_api t (fst (fst (hDisconnect H r ((tcp_disconnect t, s), v))))" for t s v r
    using ssl_ctl_tcp[OF disconnect_ctl, of "((tcp_disconnect t, s), v)" r] by (auto intro: tcp_api_trans)
  moreover have "tcp_api t (fst (fst (hError H r ((tcp_disconnect t, s), v))))" for t s v r
    using ssl_ctl_tcp[OF error_ctl, of "((tcp_disconnect t, s), v)" r] by (auto intro: tcp_api_trans)
  ultimately show ?thesis by (simp add: ssl_handleAnything_def Let_def)
qed

lemma tls_anything_tcp:
  assumes "run_tls io c = (r, c')"
  shows "tcp_api (fst c) (fst (fst (snd (ssl_handleAnything (Some H) hs e (set_ctx m c', v)))))"
  using run_tls_frame[of c io] anything_tcp[of "(set_ctx m c', v)" hs e] assms
  by (auto simp: tls_frame_def set_ctx_def intro: tcp_api_trans)

lemma handleWrite_tcp: "tcp_api (fst (fst x)) (fst (fst (ssl_handleWrite M (Some H) x)))"
proof -
  obtain t s v where x: "x = ((t, s), v)" by (metis surj_pair)
  obtain r m c' where run: "run_tls (mb_write M (hd (ss_writeBuffer s)) (ss_ctx s)) (t, s) = ((r, m), c')"
    by (metis surj_pair)
  show ?thesis
    using tls_anything_tcp[OF run, of SConnected "if r \<le> 0 \<and> \<not> wants_io r then Some (tls_error r) else None" m v] x run
    by (auto simp: ssl_handleWrite_def Let_def split: prod.splits bool.splits)
qed

lemma sapi_tcp: "ssl_api M (Some H) x y \<Longrightarrow> tcp_api (fst (fst x)) (fst (fst y))"
proof (induction rule: ssl_api.induct)
  case (sapi_send x c v d v')
  obtain t s where c: "c = (t, s)" by (metis surj_pair)
  have "tcp_api t (fst (fst (ssl_send M (Some H) d (c, v'))))"
    using handleWrite_tcp[of "count_io ((t, s\<lparr>ss_writeBuffer := ss_writeBuffer s @ [d]\<rparr>), v')"] c
    by (cases "ss_writeBuffer s = []") (simp_all add: ssl_send_def count_io_def Let_def)
  thus ?case using sapi_send c by (auto intro: tcp_api_trans)
qed (auto intro: tcp_api_trans[OF ssl_connect_tcp] tcp_api_trans[OF ssl_disconnect_tcp])

lemma handshake_tcp: "tcp_api (fst (fst x)) (fst (fst (handleHandshake M (Some H) x)))"
proof -
  obtain t s v where x: "x = ((t, s), v)" by (metis surj_pair)
  obtain r m c' where run: "run_tls (mb_handshake M (ss_ctx s)) (t, s) = ((r, m), c')"
    by (metis surj_pair)
  show ?thesis
    using tls_anything_tcp[OF run, of SHandshake "if r \<noteq> 0 \<and> \<not> wants_io r then Some (OtherError r) else None" m v] x run
    by (auto simp: handleHandshake_def Let_def tcp_notify_def split: prod.splits bool.splits
        intro!: tcp_api_trans[OF sapi_tcp[OF connect_sapi]])
qed

lemma handleRead_tcp: "tcp_api (fst (fst x)) (fst (fst (snd (ssl_handleRead M (Some H) x))))"
proof -
  obtain t s v where x: "x = ((t, s), v)" by (metis surj_pair)
  obtain r d m c' where run: "run_tls (mb_read M 32768 (ss_ctx s)) (t, s) = ((r, d, m), c')"
    by (metis surj_pair)
  show ?thesis
    using tls_anything_tcp[OF run, of SConnected "if r \<le> 0 \<and> \<not> wants_io r then Some (tls_error r) else None" m v] x run
    by (auto simp: ssl_handleRead_def Let_def tcp_notify_def split: prod.splits bool.splits
        intro!: tcp_api_trans[OF sapi_tcp[OF received_sapi]])
qed

lemma read_loop_tcp: "tcp_api (fst (fst x)) (fst (fst (ssl_read_loop n M (Some H) x)))"
proof (induction n arbitrary: x)
  case (Suc n)
  obtain b y where r: "ssl_handleRead M (Some H) (count_io x) = (b, y)" by (metis surj_pair)
  have "tcp_api (fst (fst x)) (fst (fst y))"
    using handleRead_tcp[of "count_io x"] r by (simp add: count_io_def)
  thus ?case using Suc.IH[of y] r by (cases b) (auto intro: tcp_api_trans)
qed simp

end

text \<open>So the TLS client is a user of its TCP client.\<close>

sublocale ssl_user \<subseteq> tcp: tcp_user "ssl_tcp_handler n M (Some H)" for n
proof
  fix c :: tcp_client and u :: "'m ssl_state \<times> 'v" and r e d
  obtain s v where u: "u = (s, v)" by (metis surj_pair)
  show "tcp_api c (fst (hConnect (ssl_tcp_handler n M (Some H)) (c, u)))"
    using handshake_tcp[of "count_io ((c, s\<lparr>ss_status := SHandshake\<rparr>), v)"] u
    by (simp add: ssl_tcp_handler_def on_ssl_fst ssl_handleTcpClientConnect_def count_io_def)
  show "tcp_api c (fst (hDisconnect (ssl_tcp_handler n M (Some H)) r (c, u)))"
    using anything_tcp[of "count_io ((c, s), v)" "if ss_wasConnected s then SConnected else SHandshake" "Some Eof"] u
    by (simp only: ssl_tcp_handler_def client_handler.simps on_ssl_fst ssl_handleTcpClientDisconnect_def count_io_def fst_conv snd_conv)
  show "tcp_api c (fst (hError (ssl_tcp_handler n M (Some H)) e (c, u)))"
    using anything_tcp[of "count_io ((c, s), v)" SConnecting e] u
    by (simp only: ssl_tcp_handler_def client_handler.simps on_ssl_fst ssl_handleTcpClientError_def count_io_def fst_conv snd_conv)
  show "tcp_api c (fst (hReceived (ssl_tcp_handler n M (Some H)) d (c, u)))"
    using handshake_tcp[of "count_io ((c, s\<lparr>ss_sslBuffer := ss_sslBuffer s @ d\<rparr>), v)"]
      read_loop_tcp[of "((c, s\<lparr>ss_sslBuffer := ss_sslBuffer s @ d\<rparr>), v)" n] u
    by (simp add: ssl_tcp_handler_def on_ssl_fst ssl_handleTcpClientReceivedData_def count_io_def Let_def)
qed

text \<open>The two layers together.\<close>

definition layers :: "tcp_client \<times> ('m ssl_state \<times> 'v) \<Rightarrow> 'm ssl_client" where
  "layers y = (fst y, fst (snd y))"

lemma layers_on_ssl: "layers (on_ssl f (c, (s, v))) = fst (f ((c, s), v))"
  by (simp add: layers_def on_ssl_def split: prod.splits)

lemma layers_pair [simp]: "layers (c, (s, v)) = (c, s)"
  by (simp add: layers_def)

lemma ssl_inv_status: "tc_status t = tc_status t' \<Longrightarrow> ssl_inv (t, s) \<Longrightarrow> ssl_inv (t', s)"
  by (simp add: ssl_inv_def)

context ssl_user
begin

lemma anything_error:
  assumes "ssl_counts 1 s" "tc_status t = TDisconnected"
  shows "ssl_inv (fst (snd (ssl_handleAnything (Some H) hs (Some e) ((t, s), v))))"
proof -
  have "tc_status t = TDisconnected \<or> linked (tc_status t) (ss_status s)" using assms(2) by simp
  with assms(1) show ?thesis by (cases rule: anything_cases[where hs = hs and e = "Some e" and v = v]) auto
qed

lemma layer_closing:
  assumes "ssl_counts 0 s" "tc_status c = TDisconnected"
  shows "ssl_inv (layers (hDisconnect (ssl_tcp_handler n M (Some H)) r (c, (s, v))))"
    "ssl_inv (layers (hError (ssl_tcp_handler n M (Some H)) (Some e) (c, (s, v))))"
proof -
  have *: "ssl_counts 1 (s\<lparr>ss_ioCount := ss_ioCount s + 1\<rparr>)" using assms by (simp add: ssl_counts_def)
  show "ssl_inv (layers (hDisconnect (ssl_tcp_handler n M (Some H)) r (c, (s, v))))"
    using anything_error[OF * assms(2)]
    by (simp only: ssl_tcp_handler_def client_handler.simps layers_on_ssl ssl_handleTcpClientDisconnect_def count_io_def fst_conv snd_conv)
  show "ssl_inv (layers (hError (ssl_tcp_handler n M (Some H)) (Some e) (c, (s, v))))"
    using anything_error[OF * assms(2)]
    by (simp only: ssl_tcp_handler_def client_handler.simps layers_on_ssl ssl_handleTcpClientError_def count_io_def fst_conv snd_conv)
qed

lemma layer_connect:
  assumes "ssl_counts 0 s" "tc_status c = TConnected"
  shows "ssl_inv (layers (hConnect (ssl_tcp_handler n M (Some H)) (c, (s, v))))"
proof -
  let ?s = "s\<lparr>ss_status := SHandshake, ss_ioCount := ss_ioCount s + 1\<rparr>"
  have "ssl_counts 1 ?s" "ss_status ?s = SHandshake" using assms by (simp_all add: ssl_counts_def)
  from handshake_ok[OF this(1) assms(2) this(2)] show ?thesis
    by (simp add: ssl_tcp_handler_def layers_on_ssl ssl_handleTcpClientConnect_def count_io_def)
qed

lemma layer_received:
  assumes "ssl_inv (c, s)" "tc_status c = TConnected"
  shows "ssl_inv (layers (hReceived (ssl_tcp_handler n M (Some H)) d (c, (s, v))))"
proof -
  let ?s = "s\<lparr>ss_sslBuffer := ss_sslBuffer s @ d\<rparr>"
  have "ssl_counts 1 (?s\<lparr>ss_ioCount := ss_ioCount s + 1\<rparr>)" "ssl_inv (c, ?s)"
    using assms(1) by (simp_all add: ssl_inv_def ssl_counts_def)
  thus ?thesis using handshake_ok[of "?s\<lparr>ss_ioCount := ss_ioCount s + 1\<rparr>" c] read_loop_ok[of "((c, ?s), v)" n] assms(2)
    by (simp add: ssl_tcp_handler_def layers_on_ssl ssl_handleTcpClientReceivedData_def count_io_def Let_def)
qed

lemma layer_anything:
  assumes "ssl_inv (c, s)" "tc_status c \<noteq> TDisconnected"
    and "tcp_handleAnything (Some (ssl_tcp_handler n M (Some H))) hs e (c, (s, v)) = (False, y)"
  shows "ssl_inv (layers y)"
proof (cases "tc_ioCount c - 1 > 0")
  case True
  hence "fst (snd y) = s" "tc_status (fst y) = tc_status c"
    using assms(2,3) by (auto simp: tcp_handleAnything_def Let_def split: if_splits)
  thus ?thesis using assms(1) by (simp add: layers_def ssl_inv_def)
next
  case False
  let ?c = "c\<lparr>tc_ioCount := tc_ioCount c - 1, tc_open := False, tc_writeBuffer := [], tc_status := TDisconnected, tc_ioCount := 0\<rparr>"
  have n: "ssl_counts 0 s" using assms(1) by (simp add: ssl_inv_def)
  show ?thesis using assms(2,3) False layer_closing[OF n, where c = ?c and v = v]
    by (auto simp: tcp_handleAnything_def Let_def split: if_splits)
qed

lemma layer_complete:
  assumes "tcp_inv c" "ssl_inv (c, s)" "result_op r \<in> set (tc_pending c)"
  shows "ssl_inv (layers (tcp_complete (Some (ssl_tcp_handler n M (Some H))) r (c, (s, v))))"
proof -
  let ?G = "ssl_tcp_handler n M (Some H)"
  let ?c = "tcp_done (result_op r) c"
  let ?c1 = "?c\<lparr>tc_ioCount := tc_ioCount ?c - 1\<rparr>"
  let ?e = "case r of ResolveDone s p e \<Rightarrow> e | ConnectDone e \<Rightarrow> e | ReadDone d e \<Rightarrow> io_error (length d) e | WriteDone d n e \<Rightarrow> io_error n e"
  have st: "tc_status ?c \<noteq> TDisconnected" using inv_pending_status[OF assms(1,3)] by simp
  have inv: "ssl_inv (?c, s)" using assms(2) by (rule ssl_inv_status[rotated]) simp
  obtain b y where a: "tcp_handleAnything (Some ?G) (op_status (result_op r)) ?e (?c, (s, v)) = (b, y)"
    by (metis surj_pair)
  show ?thesis
  proof (cases b)
    case False
    hence "tcp_complete (Some ?G) r (c, (s, v)) = y" using a
      by (cases r) (simp_all add: tcp_handleResolve_def tcp_handleConnect_def tcp_handleRead_def tcp_handleWrite_def)
    moreover have "ssl_inv (layers y)" using layer_anything[OF inv st] a False by simp
    ultimately show ?thesis by simp
  next
    case True
    hence y: "y = (?c1, (s, v))" "tc_status c \<noteq> TDisconnecting"
      using a by (auto simp: tcp.handleAnything_go)
    hence y: "y = (?c1, (s, v))" "tc_status c = op_status (result_op r)"
      using inv_op_status[OF assms(1,3)] by simp_all
    have l: "linked (tc_status c) (ss_status s)" "ssl_counts 0 s" using assms(2) by (simp_all add: ssl_inv_def)
    show ?thesis
    proof (cases r)
      case (ResolveDone sv p e)
      thus ?thesis using a True y l
        by (simp add: tcp_handleResolve_def tcp_start_def ssl_inv_def)
    next
      case (ConnectDone e)
      have "ssl_inv (layers (hConnect ?G (?c1\<lparr>tc_status := TConnected\<rparr>, (s, v))))"
        by (rule layer_connect[OF l(2)]) simp
      thus ?thesis using a True y ConnectDone
        by (auto simp: tcp_handleConnect_def tcp_notify_def tcp_start_def layers_def ssl_inv_def split: prod.splits)
    next
      case (ReadDone d e)
      have "ssl_inv (layers (hReceived ?G d (?c1, (s, v))))"
        by (rule layer_received) (use y ReadDone assms(2) in \<open>simp_all add: ssl_inv_def\<close>)
      thus ?thesis using a True y ReadDone
        by (auto simp: tcp_handleRead_def tcp_notify_def tcp_start_def layers_def ssl_inv_def split: prod.splits)
    next
      case (WriteDone d k e)
      thus ?thesis using a True y l
        by (simp add: tcp_handleWrite_def tcp_start_def ssl_inv_def Let_def)
    qed
  qed
qed

lemma ssl_complete_layers:
  "ssl_complete n M H' r ((c, s), v) =
     (let y = tcp_complete (Some (ssl_tcp_handler n M H')) r (c, (s, v)) in (layers y, snd (snd y)))"
  by (simp add: ssl_complete_def layers_def split: prod.splits)

lemma timer_counts:
  "ssl_inv (t, s) \<Longrightarrow> ss_timers s > 0 \<Longrightarrow> ssl_counts 1 (s\<lparr>ss_timers := ss_timers s - 1\<rparr>)"
  by (auto simp: ssl_inv_def ssl_counts_def)

theorem ssl_reach_inv: "ssl_reach n M (Some H) x \<Longrightarrow> tcp_inv (fst (fst x)) \<and> ssl_inv (fst x)"
proof (induction rule: ssl_reach.induct)
  case (sreach_init m v)
  show ?case by (simp add: tcp_inv0_def tcp_init_def all_ops_def ssl_inv_def ssl_counts_def ssl_init_def)
next
  case (sreach_call x x')
  thus ?case using sapi_ok[OF sreach_call(2)] sapi_tcp[OF sreach_call(2)] by (auto intro: api_inv)
next
  case (sreach_complete x r)
  obtain c s v where x: "x = ((c, s), v)" by (metis surj_pair)
  have "tcp_inv (fst (tcp_complete (Some (ssl_tcp_handler n M (Some H))) r (c, (s, v))))"
    using sreach_complete x
    by (cases r) (auto intro: tcp.resolve_inv tcp.connected_inv tcp.received_inv tcp.written_inv)
  thus ?case using layer_complete[of c s r n v] sreach_complete x
    by (simp add: ssl_complete_layers Let_def layers_def)
next
  case (sreach_timer x)
  obtain c s v where x: "x = ((c, s), v)" by (metis surj_pair)
  have "ssl_counts 1 (s\<lparr>ss_timers := ss_timers s - 1\<rparr>)" "linked (tc_status c) (ss_status s)"
    using sreach_timer x timer_counts[of c s] by (simp_all add: ssl_inv_def)
  thus ?case using handleWrite_ok[of "s\<lparr>ss_timers := ss_timers s - 1\<rparr>" c v]
      handleWrite_tcp[of "((c, s\<lparr>ss_timers := ss_timers s - 1\<rparr>), v)"] sreach_timer x
    by (auto simp: ssl_timer_def intro: api_inv)
qed

end

section \<open>Sessions\<close>

text \<open>
  A user whose object must satisfy \<open>Q\<close> while a session is set up or running, and \<open>R\<close> always. The
  closing callbacks run when the client is disconnected, on an object that satisfies both.
\<close>

locale ssl_closing =
  fixes H :: "('m, 'v) ssl_handler" and Q :: "'v \<Rightarrow> bool" and R :: "'v \<Rightarrow> bool"
  assumes disconnect_keeps: "ss_status s = SDisconnected \<Longrightarrow> Q v \<Longrightarrow> R v \<Longrightarrow> hDisconnect H r ((t, s), v) = x \<Longrightarrow>
      R (snd x) \<and> (ss_status (snd (fst x)) \<noteq> SDisconnected \<longrightarrow> Q (snd x))"
    and error_keeps: "ss_status s = SDisconnected \<Longrightarrow> Q v \<Longrightarrow> R v \<Longrightarrow> hError H e ((t, s), v) = x \<Longrightarrow>
      R (snd x) \<and> (ss_status (snd (fst x)) \<noteq> SDisconnected \<longrightarrow> Q (snd x))"
begin

definition session_ok :: "'m ssl_client \<times> 'v \<Rightarrow> bool" where
  "session_ok x \<longleftrightarrow> R (snd x) \<and> (ss_status (snd (fst x)) \<noteq> SDisconnected \<longrightarrow> Q (snd x))"

lemma anything_session:
  assumes "session_ok ((t, s), v)"
  shows "session_ok (snd (ssl_handleAnything (Some H) hs e ((t, s), v)))"
  using assms disconnect_keeps[OF _ _ _ refl] error_keeps[OF _ _ _ refl]
  by (simp add: ssl_handleAnything_def Let_def session_ok_def)

lemma anything_status:
  assumes "ssl_handleAnything (Some H) hs e ((t, s), v) = (True, y)"
  shows "y = ((t, s\<lparr>ss_ioCount := ss_ioCount s - 1\<rparr>), v) \<and> ss_status s \<noteq> SDisconnected"
  using assms by (auto simp: ssl_handleAnything_def Let_def split: if_splits)

lemma tls_session:
  assumes "run_tls io (t, s) = (r, c')" "session_ok ((t, s), v)"
  shows "session_ok (set_ctx m c', v)" "ss_status (snd (set_ctx m c')) = ss_status s"
  using run_tls_frame[of "(t, s)" io] assms by (auto simp: tls_frame_def session_ok_def set_ctx_def)

lemma handleWrite_session:
  assumes "session_ok ((t, s), v)"
  shows "session_ok (ssl_handleWrite M (Some H) ((t, s), v))"
proof (cases "ss_writeBuffer s = []")
  case True
  thus ?thesis using assms by (simp add: ssl_handleWrite_def session_ok_def)
next
  case False
  obtain r m t' s' where run: "run_tls (mb_write M (hd (ss_writeBuffer s)) (ss_ctx s)) (t, s) = ((r, m), (t', s'))"
    by (metis surj_pair)
  let ?e = "if r \<le> 0 \<and> \<not> wants_io r then Some (tls_error r) else None"
  obtain b y where a: "ssl_handleAnything (Some H) SConnected ?e ((t', s'\<lparr>ss_ctx := m\<rparr>), v) = (b, y)" by (metis surj_pair)
  have "session_ok ((t', s'\<lparr>ss_ctx := m\<rparr>), v)" using tls_session(1)[OF run assms, of m] by (simp add: set_ctx_def)
  from anything_session[OF this, of SConnected ?e] have y: "session_ok y" using a by simp
  show ?thesis
  proof (cases b)
    case False
    thus ?thesis using run a y \<open>ss_writeBuffer s \<noteq> []\<close> by (simp add: ssl_handleWrite_def set_ctx_def Let_def)
  next
    case True
    thus ?thesis using run a y \<open>ss_writeBuffer s \<noteq> []\<close> anything_status[of SConnected ?e t' "s'\<lparr>ss_ctx := m\<rparr>" v y]
      by (simp add: ssl_handleWrite_def set_ctx_def Let_def session_ok_def)
  qed
qed

lemma send_session:
  assumes "session_ok x"
  shows "session_ok (ssl_send M (Some H) d x)"
proof -
  obtain t s v where x: "x = ((t, s), v)" by (metis surj_pair)
  show ?thesis
    using assms handleWrite_session[of t "s\<lparr>ss_writeBuffer := [d], ss_ioCount := ss_ioCount s + 1\<rparr>" v M] x
    by (cases "ss_writeBuffer s = []") (simp_all add: ssl_send_def count_io_def Let_def session_ok_def)
qed

lemma timer_session:
  assumes "session_ok x"
  shows "session_ok (ssl_timer M (Some H) x)"
proof -
  obtain t s v where x: "x = ((t, s), v)" by (metis surj_pair)
  have "session_ok ((t, s\<lparr>ss_timers := ss_timers s - 1\<rparr>), v)" using assms x by (simp add: session_ok_def)
  from handleWrite_session[OF this, of M] show ?thesis using x by (simp add: ssl_timer_def)
qed

end

locale ssl_session = ssl_user M H + ssl_closing H Q R
  for M :: "'m mbedtls" and H :: "('m, 'v) ssl_handler" and Q R +
  assumes connect_session: "session_ok x \<Longrightarrow> session_ok (hConnect H x)"
    and received_session: "session_ok x \<Longrightarrow> session_ok (hReceived H d x)"
begin

lemma handshake_session:
  assumes "session_ok ((t, s), v)"
  shows "session_ok (handleHandshake M (Some H) ((t, s), v))"
proof -
  obtain r m t' s' where run: "run_tls (mb_handshake M (ss_ctx s)) (t, s) = ((r, m), (t', s'))"
    by (metis surj_pair)
  let ?e = "if r \<noteq> 0 \<and> \<not> wants_io r then Some (OtherError r) else None"
  obtain b y where a: "ssl_handleAnything (Some H) SHandshake ?e ((t', s'\<lparr>ss_ctx := m\<rparr>), v) = (b, y)" by (metis surj_pair)
  have "session_ok ((t', s'\<lparr>ss_ctx := m\<rparr>), v)" using tls_session(1)[OF run assms, of m] by (simp add: set_ctx_def)
  from anything_session[OF this, of SHandshake ?e] have y: "session_ok y" using a by simp
  show ?thesis
  proof (cases b)
    case False
    thus ?thesis using run a y by (simp add: handleHandshake_def set_ctx_def Let_def)
  next
    case True
    have "y = ((t', s'\<lparr>ss_ctx := m, ss_ioCount := ss_ioCount s' - 1\<rparr>), v)" "ss_status s' \<noteq> SDisconnected"
      using True a anything_status[of SHandshake ?e t' "s'\<lparr>ss_ctx := m\<rparr>" v y] by simp_all
    moreover from this y have
      "session_ok ((t', s'\<lparr>ss_ctx := m, ss_ioCount := ss_ioCount s' - 1, ss_status := SConnected, ss_wasConnected := True\<rparr>), v)"
      by (simp add: session_ok_def)
    ultimately show ?thesis using run a y True connect_session
      by (simp add: handleHandshake_def set_ctx_def Let_def tcp_notify_def)
  qed
qed

lemma handleRead_session:
  assumes "session_ok ((t, s), v)"
  shows "session_ok (snd (ssl_handleRead M (Some H) ((t, s), v)))"
proof -
  obtain r d m t' s' where run: "run_tls (mb_read M 32768 (ss_ctx s)) (t, s) = ((r, d, m), (t', s'))"
    by (metis surj_pair)
  let ?e = "if r \<le> 0 \<and> \<not> wants_io r then Some (tls_error r) else None"
  obtain b y where a: "ssl_handleAnything (Some H) SConnected ?e ((t', s'\<lparr>ss_ctx := m\<rparr>), v) = (b, y)" by (metis surj_pair)
  have "session_ok ((t', s'\<lparr>ss_ctx := m\<rparr>), v)" using tls_session(1)[OF run assms, of m] by (simp add: set_ctx_def)
  from anything_session[OF this, of SConnected ?e] have y: "session_ok y" using a by simp
  show ?thesis using run a y received_session
    by (cases b) (simp_all add: ssl_handleRead_def set_ctx_def Let_def tcp_notify_def)
qed

lemma read_loop_session: "session_ok x \<Longrightarrow> session_ok (ssl_read_loop n M (Some H) x)"
proof (induction n arbitrary: x)
  case (Suc n)
  obtain t s v where x: "x = ((t, s), v)" by (metis surj_pair)
  obtain b y where r: "ssl_handleRead M (Some H) (count_io x) = (b, y)" by (metis surj_pair)
  have "session_ok ((t, s\<lparr>ss_ioCount := ss_ioCount s + 1\<rparr>), v)" using Suc.prems x by (simp add: session_ok_def)
  hence "session_ok y" using handleRead_session r x by (metis count_io_def fst_conv snd_conv)
  thus ?case using Suc.IH[of y] Suc.prems r x by (cases b) simp_all
qed simp

definition stacked :: "tcp_client \<times> ('m ssl_state \<times> 'v) \<Rightarrow> 'm ssl_client \<times> 'v" where
  "stacked y = ((fst y, fst (snd y)), snd (snd y))"

lemma stacked_on_ssl: "stacked (on_ssl f (c, (s, v))) = f ((c, s), v)"
  by (simp add: stacked_def on_ssl_def split: prod.splits)

lemma closing_stacked:
  assumes "session_ok ((c, s), v)"
  shows "session_ok (stacked (hDisconnect (ssl_tcp_handler n M (Some H)) r (c, (s, v))))"
    "session_ok (stacked (hError (ssl_tcp_handler n M (Some H)) e (c, (s, v))))"
proof -
  have *: "session_ok ((c, s\<lparr>ss_ioCount := ss_ioCount s + 1\<rparr>), v)" using assms by (simp add: session_ok_def)
  show "session_ok (stacked (hDisconnect (ssl_tcp_handler n M (Some H)) r (c, (s, v))))"
    using anything_session[OF *]
    by (simp only: ssl_tcp_handler_def client_handler.simps stacked_on_ssl ssl_handleTcpClientDisconnect_def count_io_def fst_conv snd_conv)
  show "session_ok (stacked (hError (ssl_tcp_handler n M (Some H)) e (c, (s, v))))"
    using anything_session[OF *]
    by (simp only: ssl_tcp_handler_def client_handler.simps stacked_on_ssl ssl_handleTcpClientError_def count_io_def fst_conv snd_conv)
qed

lemma anything_stacked:
  assumes "session_ok ((c, s), v)" "tcp_handleAnything (Some (ssl_tcp_handler n M (Some H))) hs e (c, (s, v)) = (b, y)"
  shows "session_ok (stacked y)"
proof -
  let ?c = "c\<lparr>tc_ioCount := tc_ioCount c - 1, tc_open := False, tc_writeBuffer := [], tc_status := TDisconnected, tc_ioCount := 0\<rparr>"
  have "session_ok ((?c, s), v)" using assms(1) by (simp add: session_ok_def)
  from closing_stacked[OF this] assms show ?thesis
    by (auto simp: tcp_handleAnything_def Let_def stacked_def session_ok_def split: if_splits)
qed

lemma connect_stacked:
  assumes "session_ok ((c, s), v)" "ss_status s \<noteq> SDisconnected"
  shows "session_ok (stacked (hConnect (ssl_tcp_handler n M (Some H)) (c, (s, v))))"
proof -
  have "session_ok ((c, s\<lparr>ss_status := SHandshake, ss_ioCount := ss_ioCount s + 1\<rparr>), v)"
    using assms by (simp add: session_ok_def)
  from handshake_session[OF this] show ?thesis
    by (simp add: ssl_tcp_handler_def stacked_on_ssl ssl_handleTcpClientConnect_def count_io_def)
qed

lemma received_stacked:
  assumes "session_ok ((c, s), v)"
  shows "session_ok (stacked (hReceived (ssl_tcp_handler n M (Some H)) d (c, (s, v))))"
proof -
  let ?s = "s\<lparr>ss_sslBuffer := ss_sslBuffer s @ d\<rparr>"
  have "session_ok ((c, ?s), v)" "session_ok ((c, ?s\<lparr>ss_ioCount := ss_ioCount s + 1\<rparr>), v)"
    using assms by (simp_all add: session_ok_def)
  thus ?thesis using handshake_session[of c "?s\<lparr>ss_ioCount := ss_ioCount s + 1\<rparr>" v] read_loop_session[of "((c, ?s), v)" n]
    by (simp add: ssl_tcp_handler_def stacked_on_ssl ssl_handleTcpClientReceivedData_def count_io_def Let_def)
qed

lemma complete_session:
  assumes "tcp_inv (fst (fst x))" "ssl_inv (fst x)" "session_ok x" "result_op r \<in> set (tc_pending (fst (fst x)))"
  shows "session_ok (ssl_complete n M (Some H) r x)"
proof -
  obtain c s v where x: "x = ((c, s), v)" by (metis surj_pair)
  let ?G = "ssl_tcp_handler n M (Some H)"
  let ?c = "tcp_done (result_op r) c"
  let ?c1 = "?c\<lparr>tc_ioCount := tc_ioCount ?c - 1\<rparr>"
  let ?e = "case r of ResolveDone s p e \<Rightarrow> e | ConnectDone e \<Rightarrow> e | ReadDone d e \<Rightarrow> io_error (length d) e | WriteDone d n e \<Rightarrow> io_error n e"
  obtain b y where a: "tcp_handleAnything (Some ?G) (op_status (result_op r)) ?e (?c, (s, v)) = (b, y)"
    by (metis surj_pair)
  have s: "session_ok ((?c, s), v)" using assms(3) x by (simp add: session_ok_def)
  have "session_ok (stacked (tcp_complete (Some ?G) r (c, (s, v))))"
  proof (cases b)
    case False
    hence "tcp_complete (Some ?G) r (c, (s, v)) = y" using a
      by (cases r) (simp_all add: tcp_handleResolve_def tcp_handleConnect_def tcp_handleRead_def tcp_handleWrite_def)
    thus ?thesis using anything_stacked[OF s a] by simp
  next
    case True
    hence y: "y = (?c1, (s, v))" "tc_status c \<noteq> TDisconnecting"
      using a by (auto simp: tcp.handleAnything_go)
    have st: "tc_status c = op_status (result_op r)"
      using inv_op_status[OF _ _ y(2)] assms(1,4) x by simp
    have s1: "session_ok ((c', s), v)" for c' using s by (simp add: session_ok_def)
    show ?thesis
    proof (cases r)
      case (ConnectDone e)
      hence "ss_status s \<noteq> SDisconnected" using st assms(2) x by (simp add: ssl_inv_def)
      from connect_stacked[OF s1 this, of n "?c1\<lparr>tc_status := TConnected\<rparr>"] show ?thesis using a True y ConnectDone
        by (simp add: tcp_handleConnect_def tcp_notify_def tcp_start_def stacked_def session_ok_def case_prod_unfold)
    next
      case (ReadDone d e)
      from received_stacked[OF s1, of n d ?c1] show ?thesis using a True y ReadDone
        by (simp add: tcp_handleRead_def tcp_notify_def tcp_start_def stacked_def session_ok_def case_prod_unfold)
    qed (use a True y s1 in \<open>auto simp: tcp_handleResolve_def tcp_handleWrite_def stacked_def session_ok_def Let_def\<close>)
  qed
  thus ?thesis using x by (simp add: ssl_complete_def stacked_def case_prod_unfold)
qed

end

section \<open>Reading, writing, closing\<close>

text \<open>A user that collects what it is told and leaves the client alone.\<close>

definition collect_handler :: "('m, string list) ssl_handler" where
  "collect_handler = \<lparr>hConnect = id, hDisconnect = (\<lambda>r (c, u). (c, u @ [''closed''])),
     hError = (\<lambda>e (c, u). (c, u @ [''error''])), hReceived = (\<lambda>d (c, u). (c, u @ [d]))\<rparr>"

text \<open>
  The record layer of mbedTLS as its documentation describes it: \<open>recs m b\<close> are the records
  that the context \<open>m\<close> can decrypt from what it holds and the bytes \<open>b\<close>; a read returns the first
  of them, or asks for more bytes.
\<close>

definition reads_records :: "'m mbedtls \<Rightarrow> ('m \<Rightarrow> string \<Rightarrow> string list) \<Rightarrow> bool" where
  "reads_records M recs \<longleftrightarrow>
     (\<forall>t s. ss_status s = SConnected \<longrightarrow>
        (case run_tls (mb_read M 32768 (ss_ctx s)) (t, s) of
           ((r, d, m), (t', s')) \<Rightarrow>
             t' = t \<and>
             (case recs (ss_ctx s) (ss_sslBuffer s) of
                [] \<Rightarrow> r = WANT_READ \<and> recs m (ss_sslBuffer s') = []
              | p # ps \<Rightarrow> p \<noteq> [] \<and> r = int (length p) \<and> d = p \<and> recs m (ss_sslBuffer s') = ps)))"

lemma read_loop_delivers_aux:
  assumes "reads_records M recs"
  shows "ss_status s = SConnected \<Longrightarrow> n > length (recs (ss_ctx s) (ss_sslBuffer s)) \<Longrightarrow>
    \<exists>s'. ssl_read_loop n M (Some collect_handler) ((t, s), v) = ((t, s'), v @ recs (ss_ctx s) (ss_sslBuffer s)) \<and>
         ss_status s' = SConnected \<and> ss_ioCount s' = ss_ioCount s \<and> recs (ss_ctx s') (ss_sslBuffer s') = []"
proof (induction n arbitrary: s v)
  case (Suc n)
  let ?s = "s\<lparr>ss_ioCount := ss_ioCount s + 1\<rparr>"
  obtain r d m t' s1 where run: "run_tls (mb_read M 32768 (ss_ctx ?s)) (t, ?s) = ((r, d, m), (t', s1))"
    by (metis surj_pair)
  then obtain b where f: "s1 = ?s\<lparr>ss_sslBuffer := b\<rparr>"
    using run_tls_frame[of "(t, ?s)" "mb_read M 32768 (ss_ctx ?s)"] by (auto simp: tls_frame_def)
  let ?s2 = "s\<lparr>ss_sslBuffer := b, ss_ctx := m\<rparr>"
  have law: "t' = t" "case recs (ss_ctx s) (ss_sslBuffer s) of
                [] \<Rightarrow> r = WANT_READ \<and> recs m b = []
              | p # ps \<Rightarrow> p \<noteq> [] \<and> r = int (length p) \<and> d = p \<and> recs m b = ps"
    using assms[unfolded reads_records_def, rule_format, of ?s t] Suc.prems(1) run f
    by (auto split: list.splits)
  show ?case
  proof (cases "recs (ss_ctx s) (ss_sslBuffer s)")
    case Nil
    hence "ssl_handleRead M (Some collect_handler) (count_io ((t, s), v)) = (False, ((t, ?s2), v))"
      using run f law Suc.prems(1)
      by (simp add: ssl_handleRead_def count_io_def set_ctx_def ssl_handleAnything_def Let_def wants_io_def WANT_READ_def)
    thus ?thesis using Nil law Suc.prems(1) by simp
  next
    case (Cons p ps)
    have "ssl_handleRead M (Some collect_handler) (count_io ((t, s), v)) = (True, ((t, ?s2), v @ [p]))"
      using run f law Suc.prems(1) Cons
      by (simp add: ssl_handleRead_def count_io_def set_ctx_def ssl_handleAnything_def Let_def tcp_notify_def collect_handler_def)
    thus ?thesis using Suc.IH[of ?s2 "v @ [p]"] Suc.prems Cons law by simp
  qed
qed simp


text \<open>A session without encryption that reads one byte per call, for the witnesses. Writes take at
  most \<open>k\<close> bytes.\<close>

definition plain_tls :: "nat \<Rightarrow> string option mbedtls" where
  "plain_tls k =
     \<lparr>mb_seed = (\<lambda>m. (0, m)), mb_parse_cas = (\<lambda>m. (0, m)), mb_config_defaults = (\<lambda>m. (0, m)),
      mb_setup = (\<lambda>m. (0, m)), mb_free = (\<lambda>m. None), mb_session_reset = (\<lambda>m. (0, m)),
      mb_hostname = (\<lambda>m. m), mb_set_hostname = (\<lambda>h m. (0, Some h)),
      mb_handshake = (\<lambda>m. IoDone (0, m)),
      mb_read = (\<lambda>n m. IoRecv 1 (\<lambda>(r, d). IoDone (r, d, m))),
      mb_write = (\<lambda>d m. IoSend (take k d) (\<lambda>r. IoDone (r, m)))\<rparr>"

lemma plain_reads: "reads_records (plain_tls k) (\<lambda>m b. map (\<lambda>c. [c]) b)"
  by (auto simp: reads_records_def plain_tls_def sslReadCallback_def transfers_def split: list.splits)




text \<open>A client that can do nothing any more.\<close>

definition ssl_dead :: "'m ssl_client \<Rightarrow> bool" where
  "ssl_dead c \<longleftrightarrow> ss_status (snd c) = SError \<and> ss_timers (snd c) = 0 \<and> tc_status (fst c) = TDisconnected \<and> tc_pending (fst c) = []"


definition open_session :: "nat \<Rightarrow> string option ssl_state" where
  "open_session k = \<lparr>ss_status = SConnected, ss_ioCount = int k, ss_sslBuffer = [], ss_writeBuffer = [],
     ss_initialized = True, ss_wasConnected = True, ss_ctx = None, ss_timers = k\<rparr>"


end
