(* ===== verification/UrlParse.thy ===== *)
theory UrlParse
  imports Prelude
begin

text \<open>
  \<open>src/Url.cpp\<close>: the five parts of a URL and the one-pass parser with its four flags. The
  loop index becomes the rest of the string; \<open>i += 2\<close> after the colon drops two more
  characters.
\<close>

record url =
  url_protocol :: string
  url_host :: string
  url_path :: string
  url_query :: string
  url_fragment :: string

definition empty_url :: url where
  "empty_url = \<lparr>url_protocol = [], url_host = [], url_path = [], url_query = [], url_fragment = []\<rparr>"

record url_state =
  us_url :: url
  isProtocolParsed :: bool
  isHostParsed :: bool
  isPathParsed :: bool
  isQueryParsed :: bool

definition url_step :: "url_state \<Rightarrow> char \<Rightarrow> url_state" where
  "url_step s c =
     (let u = us_url s in
      if \<not> isProtocolParsed s then
        if c = CHR '':'' then s\<lparr>isProtocolParsed := True\<rparr>
        else s\<lparr>us_url := u\<lparr>url_protocol := url_protocol u @ [c]\<rparr>\<rparr>
      else if \<not> isHostParsed s then
        if c = CHR ''/'' then s\<lparr>isHostParsed := True, us_url := u\<lparr>url_path := url_path u @ ''/''\<rparr>\<rparr>
        else if c = CHR ''?'' then
          s\<lparr>isHostParsed := True, isPathParsed := True, us_url := u\<lparr>url_path := url_path u @ ''/''\<rparr>\<rparr>
        else if c = CHR ''#'' then
          s\<lparr>isHostParsed := True, isPathParsed := True, isQueryParsed := True,
            us_url := u\<lparr>url_path := url_path u @ ''/''\<rparr>\<rparr>
        else s\<lparr>us_url := u\<lparr>url_host := url_host u @ [c]\<rparr>\<rparr>
      else if \<not> isPathParsed s then
        if c = CHR ''?'' then s\<lparr>isPathParsed := True\<rparr>
        else if c = CHR ''#'' then s\<lparr>isPathParsed := True, isQueryParsed := True\<rparr>
        else s\<lparr>us_url := u\<lparr>url_path := url_path u @ [c]\<rparr>\<rparr>
      else if \<not> isQueryParsed s then
        if c = CHR ''#'' then s\<lparr>isQueryParsed := True\<rparr>
        else s\<lparr>us_url := u\<lparr>url_query := url_query u @ [c]\<rparr>\<rparr>
      else s\<lparr>us_url := u\<lparr>url_fragment := url_fragment u @ [c]\<rparr>\<rparr>)"

text \<open>The characters the body skips over after this one.\<close>

definition url_skip :: "url_state \<Rightarrow> char \<Rightarrow> nat" where
  "url_skip s c = (if \<not> isProtocolParsed s \<and> c = CHR '':'' then 2 else 0)"

fun url_loop :: "url_state \<Rightarrow> string \<Rightarrow> url_state" where
  "url_loop s [] = s"
| "url_loop s (c # cs) = url_loop (url_step s c) (drop (url_skip s c) cs)"

definition url_start :: url_state where
  "url_start = \<lparr>us_url = empty_url, isProtocolParsed = False, isHostParsed = False,
     isPathParsed = False, isQueryParsed = False\<rparr>"

definition Url_parse :: "string \<Rightarrow> url" where
  "Url_parse s = us_url (url_loop url_start s)"

section \<open>One lemma per phase of the loop\<close>

abbreviation url_at :: "url \<Rightarrow> bool \<Rightarrow> bool \<Rightarrow> bool \<Rightarrow> bool \<Rightarrow> url_state" where
  "url_at u a b c d \<equiv> \<lparr>us_url = u, isProtocolParsed = a, isHostParsed = b, isPathParsed = c, isQueryParsed = d\<rparr>"

lemma url_loop_protocol:
  "CHR '':'' \<notin> set p \<Longrightarrow>
   url_loop (url_at u False b c d) (p @ s) = url_loop (url_at (u\<lparr>url_protocol := url_protocol u @ p\<rparr>) False b c d) s"
  by (induction p arbitrary: u) (auto simp: url_step_def url_skip_def)

lemma url_loop_host:
  "set h \<inter> {CHR ''/'', CHR ''?'', CHR ''#''} = {} \<Longrightarrow>
   url_loop (url_at u True False c d) (h @ s) = url_loop (url_at (u\<lparr>url_host := url_host u @ h\<rparr>) True False c d) s"
  by (induction h arbitrary: u) (auto simp: url_step_def url_skip_def)

lemma url_loop_path:
  "set p \<inter> {CHR ''?'', CHR ''#''} = {} \<Longrightarrow>
   url_loop (url_at u True True False d) (p @ s) = url_loop (url_at (u\<lparr>url_path := url_path u @ p\<rparr>) True True False d) s"
  by (induction p arbitrary: u) (auto simp: url_step_def url_skip_def)

lemma url_loop_query:
  "CHR ''#'' \<notin> set q \<Longrightarrow>
   url_loop (url_at u True True True False) (q @ s) = url_loop (url_at (u\<lparr>url_query := url_query u @ q\<rparr>) True True True False) s"
  by (induction q arbitrary: u) (auto simp: url_step_def url_skip_def)

lemma url_loop_fragment:
  "url_loop (url_at u True True True True) f = url_at (u\<lparr>url_fragment := url_fragment u @ f\<rparr>) True True True True"
  by (induction f arbitrary: u) (auto simp: url_step_def url_skip_def)

lemmas url_phases = url_loop_protocol url_loop_host url_loop_path url_loop_query url_loop_fragment

text \<open>
  The parts a URL can be put together from; the printed form leaves out an absent query or
  fragment.
\<close>

definition url_ok :: "url \<Rightarrow> bool" where
  "url_ok u \<longleftrightarrow>
     CHR '':'' \<notin> set (url_protocol u) \<and>
     set (url_host u) \<inter> {CHR ''/'', CHR ''?'', CHR ''#''} = {} \<and>
     (\<exists>p. url_path u = CHR ''/'' # p) \<and>
     set (url_path u) \<inter> {CHR ''?'', CHR ''#''} = {} \<and>
     CHR ''#'' \<notin> set (url_query u)"

definition url_print :: "url \<Rightarrow> string" where
  "url_print u =
     url_protocol u @ ''://'' @ url_host u @ url_path u
     @ (if url_query u = [] then [] else ''?'' @ url_query u)
     @ (if url_fragment u = [] then [] else ''#'' @ url_fragment u)"

lemma url_loop_colon:
  "url_loop (url_at u False False False False) (CHR '':'' # CHR ''/'' # CHR ''/'' # s) =
   url_loop (url_at u True False False False) s"
  by (simp add: url_step_def url_skip_def numeral_2_eq_2)

lemma url_loop_slash:
  "url_loop (url_at u True False False False) (CHR ''/'' # s) =
   url_loop (url_at (u\<lparr>url_path := url_path u @ ''/''\<rparr>) True True False False) s"
  by (simp add: url_step_def url_skip_def)

lemma url_loop_question:
  "url_loop (url_at u True True False False) (CHR ''?'' # s) = url_loop (url_at u True True True False) s"
  by (simp add: url_step_def url_skip_def)

lemma url_loop_hash:
  "url_loop (url_at u True True b False) (CHR ''#'' # s) = url_loop (url_at u True True True True) s"
  by (simp add: url_step_def url_skip_def)

lemma url_loop_Nil: "us_url (url_loop (url_at u a b c d) []) = u"
  by simp

declare url_loop.simps [simp del]

lemma url_loop_tail:
  assumes "CHR ''#'' \<notin> set q"
  shows "us_url (url_loop (url_at u True True False False)
           ((if q = [] then [] else ''?'' @ q) @ (if f = [] then [] else ''#'' @ f))) =
         u\<lparr>url_query := (if q = [] then url_query u else url_query u @ q),
           url_fragment := (if f = [] then url_fragment u else url_fragment u @ f)\<rparr>"
  using assms url_loop_query [OF assms, of u "[]"]
  by (simp add: url_loop_question url_loop_hash url_loop_query url_loop_fragment url_loop_Nil)

text \<open>Property C32. Parsing the printed form of a URL gives its parts back.\<close>

theorem Url_parse_print:
  assumes "url_ok u"
  shows "Url_parse (url_print u) = u"
proof -
  from assms obtain p where p: "url_path u = CHR ''/'' # p" by (auto simp: url_ok_def)
  let ?tail = "(if url_query u = [] then [] else ''?'' @ url_query u)
     @ (if url_fragment u = [] then [] else ''#'' @ url_fragment u)"
  have "url_print u =
      url_protocol u @ CHR '':'' # CHR ''/'' # CHR ''/'' # url_host u @ CHR ''/'' # p @ ?tail"
    by (simp add: url_print_def p)
  with assms p show ?thesis
    by (simp only: Url_parse_def url_start_def)
      (simp add: url_ok_def empty_url_def url_loop_protocol url_loop_host url_loop_path
        url_loop_colon url_loop_slash url_loop_tail)
qed

definition telegram_url :: url where
  "telegram_url = \<lparr>url_protocol = ''https'', url_host = ''api.telegram.org'',
     url_path = ''/bot1:A/getMe'', url_query = ''a=1'', url_fragment = []\<rparr>"

theorem Url_parse_print_witness:
  "url_ok telegram_url \<and> Url_parse (url_print telegram_url) = telegram_url"
proof -
  have ok: "url_ok telegram_url" by (simp add: url_ok_def telegram_url_def)
  with Url_parse_print [OF ok] show ?thesis by blast
qed

text \<open>
  What the loop keeps, whatever it reads: no part contains a character that ends it, and the
  path is empty exactly until the host has ended.
\<close>

definition url_inv :: "url_state \<Rightarrow> bool" where
  "url_inv s \<longleftrightarrow>
     CHR '':'' \<notin> set (url_protocol (us_url s)) \<and>
     set (url_host (us_url s)) \<inter> {CHR ''/'', CHR ''?'', CHR ''#''} = {} \<and>
     set (url_path (us_url s)) \<inter> {CHR ''?'', CHR ''#''} = {} \<and>
     CHR ''#'' \<notin> set (url_query (us_url s)) \<and>
     (if isHostParsed s then \<exists>p. url_path (us_url s) = CHR ''/'' # p else url_path (us_url s) = [])"

lemma url_inv_start: "url_inv url_start"
  by (simp add: url_inv_def url_start_def empty_url_def)

lemma url_inv_step: "url_inv s \<Longrightarrow> url_inv (url_step s c)"
  by (auto simp: url_inv_def url_step_def Let_def)

lemma url_inv_loop: "url_inv s \<Longrightarrow> url_inv (url_loop s cs)"
  by (induction s cs rule: url_loop.induct) (auto simp: url_loop.simps url_inv_step)

text \<open>
  Whatever string is parsed, the protocol holds no colon, the host no slash,
  question mark or hash, the path no question mark or hash, the query no hash, and the path
  is empty or starts with a slash.
\<close>

theorem Url_parse_parts:
  "CHR '':'' \<notin> set (url_protocol (Url_parse s)) \<and>
   set (url_host (Url_parse s)) \<inter> {CHR ''/'', CHR ''?'', CHR ''#''} = {} \<and>
   set (url_path (Url_parse s)) \<inter> {CHR ''?'', CHR ''#''} = {} \<and>
   CHR ''#'' \<notin> set (url_query (Url_parse s)) \<and>
   (url_path (Url_parse s) = [] \<or> hd (url_path (Url_parse s)) = CHR ''/'')"
  using url_inv_loop [OF url_inv_start, of s]
  by (auto simp: url_inv_def Url_parse_def split: if_splits)

end
