(* ===== verification/HttpMessage.thy ===== *)
theory HttpMessage
  imports UrlParse
begin

text \<open>
  \<open>src/HttpReqArg.h\<close>, \<open>src/HttpRequest.cpp\<close> and \<open>src/HttpParser.cpp\<close>: request arguments, the
  request record, URL encoding, the multipart boundary search, the generated requests and
  responses, and the two parsers of a received message.
\<close>

section \<open>Arguments and requests\<close>

record req_arg =
  arg_name :: string
  arg_value :: string
  arg_isFile :: bool
  arg_mimeType :: string
  arg_fileName :: string

text \<open>The constructor with its default arguments; the value has gone through \<open>lexical_cast\<close>.\<close>

definition HttpReqArg :: "string \<Rightarrow> string \<Rightarrow> req_arg" where
  "HttpReqArg n v = \<lparr>arg_name = n, arg_value = v, arg_isFile = False,
     arg_mimeType = ''text/plain'', arg_fileName = []\<rparr>"

record http_request =
  req_url :: url
  req_data :: string
  req_tag :: nat
  req_longPoll :: bool

definition HttpRequest :: "url \<Rightarrow> string \<Rightarrow> bool \<Rightarrow> nat \<Rightarrow> http_request" where
  "HttpRequest u d longPoll tag = \<lparr>req_url = u, req_data = d, req_tag = tag, req_longPoll = longPoll\<rparr>"

section \<open>URL encoding\<close>

definition legitPunctuation :: string where
  "legitPunctuation = ''ABCDEFGHIJKLMNOPQRSTUVWXYZabcdefghijklmnopqrstuvwxyz0123456789_.-~:''"

definition hex_digit :: "nat \<Rightarrow> char" where
  "hex_digit n = ''0123456789ABCDEF'' ! n"

text \<open>\<open>uppercase << setfill('0') << setw(2) << hex << (unsigned char) c\<close>\<close>

definition hex_byte :: "char \<Rightarrow> string" where
  "hex_byte c = (let n = (of_char c :: nat) in [hex_digit (n div 16), hex_digit (n mod 16)])"

definition encode_char :: "string \<Rightarrow> char \<Rightarrow> string" where
  "encode_char extra c =
     (if c \<notin> set legitPunctuation \<and> c \<notin> set extra then CHR ''%'' # hex_byte c else [c])"

primrec urlEncode :: "string \<Rightarrow> string \<Rightarrow> string" where
  "urlEncode [] extra = []"
| "urlEncode (c # s) extra = encode_char extra c @ urlEncode s extra"

section \<open>The multipart boundary\<close>

definition boundary_chars :: string where
  "boundary_chars =
     ''qwertyuiopasdfghjklzxcvbnmQWERTYUIOPASDFGHJKLZXCVBNM1234567890-=[]'' @ [CHR 0x5C]
     @ '';'' @ [CHR 0x27] @ '',./!@#$%^&*()_+{}|:'' @ [DQ] @ ''<>?`~''"

text \<open>\<open>rand()\<close> is a stream of numbers; \<open>k\<close> counts the calls made so far.\<close>

fun generateRandomString :: "(nat \<Rightarrow> nat) \<Rightarrow> nat \<Rightarrow> nat \<Rightarrow> string" where
  "generateRandomString rnd k 0 = []"
| "generateRandomString rnd k (Suc n) =
     boundary_chars ! (rnd k mod length boundary_chars) # generateRandomString rnd (Suc k) n"

lemma length_generateRandomString [simp]: "length (generateRandomString rnd k n) = n"
  by (induction n arbitrary: k) auto

text \<open>The \<open>while\<close> of \<open>generateMultipartBoundary\<close> for one file argument.\<close>

function boundary_loop :: "(nat \<Rightarrow> nat) \<Rightarrow> string \<Rightarrow> nat \<Rightarrow> string \<Rightarrow> nat \<times> string" where
  "boundary_loop rnd v k r =
     (if r = [] \<or> str_contains v r
      then boundary_loop rnd v (k + 4) (r @ generateRandomString rnd k 4)
      else (k, r))"
  by pat_completeness auto
termination
proof (relation "measure (\<lambda>(rnd, v, k, r). Suc (length v) - length r)")
  show "wf (measure (\<lambda>(rnd :: nat \<Rightarrow> nat, v :: string, k :: nat, r :: string). Suc (length v) - length r))"
    by simp
next
  fix rnd :: "nat \<Rightarrow> nat" and v r :: string and k :: nat
  assume "r = [] \<or> str_contains v r"
  then have "length r \<le> length v"
    by (auto simp: str_contains_def dest: find_sub_Some)
  then show "((rnd, v, k + 4, r @ generateRandomString rnd k 4), rnd, v, k, r)
      \<in> measure (\<lambda>(rnd, v, k, r). Suc (length v) - length r)"
    by auto
qed

declare boundary_loop.simps [simp del]

fun boundary_items :: "(nat \<Rightarrow> nat) \<Rightarrow> req_arg list \<Rightarrow> nat \<Rightarrow> string \<Rightarrow> string" where
  "boundary_items rnd [] k r = r"
| "boundary_items rnd (a # args) k r =
     (if arg_isFile a
      then (case boundary_loop rnd (arg_value a) k r of (k', r') \<Rightarrow> boundary_items rnd args k' r')
      else boundary_items rnd args k r)"

definition generateMultipartBoundary :: "(nat \<Rightarrow> nat) \<Rightarrow> req_arg list \<Rightarrow> string" where
  "generateMultipartBoundary rnd args = boundary_items rnd args 0 []"

section \<open>Generated messages\<close>

definition multipart_item :: "string \<Rightarrow> req_arg \<Rightarrow> string" where
  "multipart_item bondary a =
     ''--'' @ bondary @ crlf @ ''Content-Disposition: form-data; name='' @ [DQ] @ arg_name a
     @ (if arg_isFile a then [DQ] @ ''; filename='' @ [DQ] @ arg_fileName a else [])
     @ [DQ] @ crlf
     @ (if arg_isFile a then ''Content-Type: '' @ arg_mimeType a @ crlf else [])
     @ crlf @ arg_value a @ crlf"

definition generateMultipartFormData :: "req_arg list \<Rightarrow> string \<Rightarrow> string" where
  "generateMultipartFormData args bondary =
     concat (map (multipart_item bondary) args) @ ''--'' @ bondary @ ''--'' @ crlf"

fun generateWwwFormUrlencoded :: "req_arg list \<Rightarrow> string" where
  "generateWwwFormUrlencoded [] = []"
| "generateWwwFormUrlencoded [a] = urlEncode (arg_name a) [] @ ''='' @ urlEncode (arg_value a) []"
| "generateWwwFormUrlencoded (a # b # args) =
     urlEncode (arg_name a) [] @ ''='' @ urlEncode (arg_value a) [] @ ''&''
     @ generateWwwFormUrlencoded (b # args)"

definition request_head :: "url \<Rightarrow> req_arg list \<Rightarrow> bool \<Rightarrow> string" where
  "request_head u args isKeepAlive =
     (if args = [] then ''GET '' else ''POST '') @ url_path u
     @ (if url_query u = [] then [] else ''?'' @ url_query u) @ '' HTTP/1.1'' @ crlf
     @ ''Host: '' @ url_host u @ crlf @ ''Connection: ''
     @ (if isKeepAlive then ''keep-alive'' else ''close'') @ crlf"

definition generateRequest :: "('d, 'f) lib \<Rightarrow> (nat \<Rightarrow> nat) \<Rightarrow> url \<Rightarrow> req_arg list \<Rightarrow> bool \<Rightarrow> string" where
  "generateRequest L rnd u args isKeepAlive =
     request_head u args isKeepAlive @
     (if args = [] then crlf
      else
        (let bondary = generateMultipartBoundary rnd args;
             requestData = (if bondary = [] then generateWwwFormUrlencoded args
                            else generateMultipartFormData args bondary)
         in (if bondary = [] then ''Content-Type: application/x-www-form-urlencoded'' @ crlf
             else ''Content-Type: multipart/form-data; boundary='' @ bondary @ crlf)
            @ ''Content-Length: '' @ lc_int L (int (length requestData)) @ crlf @ crlf @ requestData))"

definition generateResponse :: "('d, 'f) lib \<Rightarrow> string \<Rightarrow> string \<Rightarrow> nat \<Rightarrow> string \<Rightarrow> bool \<Rightarrow> string" where
  "generateResponse L d mimeType statusCode statusStr isKeepAlive =
     ''HTTP/1.1 '' @ lc_int L (int statusCode) @ '' '' @ statusStr @ crlf @ ''Content-Type: '' @ mimeType
     @ crlf @ ''Content-Length: '' @ lc_int L (int (length d)) @ crlf @ crlf @ d"

section \<open>The parser without headers\<close>

text \<open>\<open>parseHttp(isRequest, data)\<close>: what follows the first blank line, or everything.\<close>

definition parseHttp_body :: "bool \<Rightarrow> string \<Rightarrow> string" where
  "parseHttp_body isRequest d =
     (case find_sub (crlf @ crlf) d of
        Some i \<Rightarrow> drop (i + 4) d
      | None \<Rightarrow> (case find_sub [LF, LF] d of Some i \<Rightarrow> drop (i + 2) d | None \<Rightarrow> d))"

section \<open>The parser with headers\<close>

text \<open>
  \<open>size\_t\<close> arithmetic with its wrap-around: \<open>npos\<close> is the largest value, so \<open>npos + 1\<close> is 0
  and a subtraction may wrap to it.
\<close>

definition npos :: nat where "npos = 2 ^ 64 - 1"

definition sz_add :: "nat \<Rightarrow> nat \<Rightarrow> nat" where
  "sz_add a b = (a + b) mod 2 ^ 64"

definition sz_sub :: "nat \<Rightarrow> nat \<Rightarrow> nat" where
  "sz_sub a b = (a + 2 ^ 64 - b) mod 2 ^ 64"

definition sz_find :: "string \<Rightarrow> string \<Rightarrow> nat \<Rightarrow> nat" where
  "sz_find s p pos = (case str_find s p pos of None \<Rightarrow> npos | Some i \<Rightarrow> i)"

datatype http_error = OutOfRange

definition sz_substr :: "string \<Rightarrow> nat \<Rightarrow> nat \<Rightarrow> http_error + string" where
  "sz_substr s pos n = (case str_substr s pos n of None \<Rightarrow> Inl OutOfRange | Some t \<Rightarrow> Inr t)"

type_synonym headers = "string \<rightharpoonup> string"

text \<open>The first line: method and path of a request, status of a response.\<close>

definition first_line :: "bool \<Rightarrow> string \<Rightarrow> headers \<Rightarrow> http_error + headers" where
  "first_line isRequest d hs =
     (let sep = sz_find d '' '' 0;
          next_sp = sz_find d '' '' (sz_add sep 1);
          len = sz_sub (sz_sub next_sp sep) 1
      in if isRequest then
           bindE (sz_substr d 0 sep) (\<lambda>m.
           bindE (sz_substr d (sz_add sep 1) len) (\<lambda>p.
           Inr (hs(''method'' \<mapsto> m, ''path'' \<mapsto> p))))
         else
           bindE (sz_substr d (sz_add sep 1) len) (\<lambda>st. Inr (hs(''status'' \<mapsto> st))))"

text \<open>
  The end of the header block with the kind of line break it uses: the first blank line with
  \<open>CRLF\<close>, or else with \<open>LF\<close>, or \<open>npos\<close>.
\<close>

definition header_end :: "string \<Rightarrow> bool \<times> nat" where
  "header_end d =
     (let h = sz_find d (crlf @ crlf) 0
      in if h = npos then
           (let h' = sz_find d [LF, LF] 0
            in if h' \<noteq> npos then (True, sz_add h' 2) else (False, npos))
         else (False, sz_add h 4))"

definition line_break :: "string \<Rightarrow> string" where
  "line_break d = (if fst (header_end d) then [LF] else crlf)"

text \<open>
  One round of the \<open>while\<close> that does not start at position 0: \<open>None\<close> is the \<open>break\<close>,
  otherwise the new line end and the headers with one more entry.
\<close>

definition header_line ::
  "('d, 'f) lib \<Rightarrow> string \<Rightarrow> nat \<Rightarrow> headers \<Rightarrow> http_error + (nat \<times> headers) option" where
  "header_line L d lastLineEnd hs =
     (let lineStart = sz_add lastLineEnd (length (line_break d));
          lineEnd = sz_find d (line_break d) lineStart;
          sep = sz_find d '':'' lineStart
      in if lineEnd \<ge> snd (header_end d) \<or> lastLineEnd = lineEnd \<or> sep \<ge> snd (header_end d) then Inr None
         else
           bindE (sz_substr d lineStart (sz_sub sep lineStart)) (\<lambda>k.
           bindE (sz_substr d (sz_add sep 1) (sz_sub (sz_sub lineEnd sep) 1)) (\<lambda>v.
           Inr (Some (lineEnd, hs(to_lower_copy L k \<mapsto> trim_copy L v))))))"

text \<open>No \<open>std::string\<close> is as long as \<open>2 ^ 63\<close> (\<open>max\_size\<close>).\<close>

abbreviation fits :: "string \<Rightarrow> bool" where
  "fits d \<equiv> length d < 2 ^ 63"

lemma find_sub_bound: "find_sub p s = Some i \<Longrightarrow> i \<le> length s"
  by (auto dest: find_sub_Some)

lemma sz_find_cases:
  "sz_find s p pos = npos \<or> (pos \<le> sz_find s p pos \<and> sz_find s p pos + length p \<le> length s)"
proof (cases "str_find s p pos")
  case None
  then show ?thesis by (simp add: sz_find_def)
next
  case (Some i)
  then obtain j where "pos \<le> length s" "find_sub p (drop pos s) = Some j" "i = pos + j"
    by (auto simp: str_find_def split: if_splits)
  then show ?thesis
    using Some find_sub_Some [of p "drop pos s" j] by (auto simp: sz_find_def)
qed

lemma line_break_length: "0 < length (line_break d)" "length (line_break d) \<le> 2"
  by (simp_all add: line_break_def crlf_def)

lemma sz_add_fits: "a + b < 2 ^ 64 \<Longrightarrow> sz_add a b = a + b"
  by (simp add: sz_add_def)

lemma header_end_bound:
  assumes "fits d" shows "snd (header_end d) = npos \<or> snd (header_end d) \<le> length d"
  using assms sz_find_cases [of d "crlf @ crlf" 0] sz_find_cases [of d "[LF, LF]" 0]
  by (auto simp: header_end_def Let_def crlf_def sz_add_fits)

text \<open>A round that continues moves the line end strictly forward.\<close>

lemma header_line_forward:
  assumes "header_line L d e hs = Inr (Some (e', hs'))" and "fits d"
  shows "e' \<le> length d \<and> (e \<le> length d \<longrightarrow> e < e')"
proof -
  let ?ls = "sz_add e (length (line_break d))"
  from assms have lt: "sz_find d (line_break d) ?ls < snd (header_end d)"
    and e': "e' = sz_find d (line_break d) ?ls"
    by (auto simp: header_line_def Let_def err_simps split: if_splits)
  with header_end_bound [OF assms(2)] assms(2) have ne: "sz_find d (line_break d) ?ls \<noteq> npos"
    by (auto simp: npos_def)
  with sz_find_cases [of d "line_break d" ?ls] e' have *: "?ls \<le> e'" "e' \<le> length d" by auto
  moreover have "?ls = e + length (line_break d)" if "e \<le> length d"
    using that assms(2) line_break_length [of d] by (simp add: sz_add_fits)
  ultimately show ?thesis using line_break_length(1) [of d] by linarith
qed

function header_loop :: "('d, 'f) lib \<Rightarrow> string \<Rightarrow> nat \<Rightarrow> headers \<Rightarrow> http_error + headers" where
  "header_loop L d e hs =
     (if \<not> fits d then Inr hs
      else
        (case header_line L d e hs of
           Inl x \<Rightarrow> Inl x
         | Inr None \<Rightarrow> Inr hs
         | Inr (Some (e', hs')) \<Rightarrow> header_loop L d e' hs'))"
  by pat_completeness auto
termination
proof (relation "measure (\<lambda>(L, d, e, hs). if e \<le> length d then Suc (length d) - e else length d + 2)")
  fix L :: "('d, 'f) lib" and d :: string and e e' :: nat and hs hs' :: headers and y z
  assume "\<not> \<not> fits d" "header_line L d e hs = Inr y" "y = Some z" "(e', hs') = z"
  then have "e' \<le> length d \<and> (e \<le> length d \<longrightarrow> e < e')"
    using header_line_forward [of L d e hs e' hs'] by blast
  then show "((L, d, e', hs'), L, d, e, hs)
      \<in> measure (\<lambda>(L, d, e, hs). if e \<le> length d then Suc (length d) - e else length d + 2)"
    by auto
qed simp

declare header_loop.simps [simp del]

definition parseHttp :: "('d, 'f) lib \<Rightarrow> bool \<Rightarrow> string \<Rightarrow> headers \<Rightarrow> http_error + headers \<times> string" where
  "parseHttp L isRequest d hs =
     bindE (first_line isRequest d hs) (\<lambda>hs1.
     bindE (let lineEnd = sz_find d (line_break d) 0
            in if lineEnd = 0 then Inr hs1 else header_loop L d lineEnd hs1) (\<lambda>hs2.
     bindE (if snd (header_end d) = npos then Inr [] else sz_substr d (snd (header_end d)) npos) (\<lambda>body.
     Inr (hs2, body))))"

section \<open>URL encoding: output alphabet and round trip\<close>

text \<open>The decoder a server applies: two hexadecimal digits after a percent sign.\<close>

definition hex_value :: "char \<Rightarrow> nat" where
  "hex_value c = (let n = (of_char c :: nat) in if n \<le> 57 then n - 48 else n - 55)"

fun url_decode :: "string \<Rightarrow> string" where
  "url_decode [] = []"
| "url_decode (c # s) =
     (if c = CHR ''%'' then
        (case s of a # b # r \<Rightarrow> char_of (hex_value a * 16 + hex_value b) # url_decode r | _ \<Rightarrow> s)
      else c # url_decode s)"

lemma hex_value_digit: "n < 16 \<Longrightarrow> hex_value (hex_digit n) = n"
proof -
  assume "n < 16"
  moreover have "\<forall>k \<in> set [0..<16]. hex_value (hex_digit k) = k" by code_simp
  ultimately show ?thesis by simp
qed

lemma hex_byte_decode:
  "hex_byte c = [a, b] \<Longrightarrow> char_of (hex_value a * 16 + hex_value b) = c"
proof -
  assume "hex_byte c = [a, b]"
  moreover have "(of_char c :: nat) < 256" by (rule nat_of_char_less_256)
  ultimately have "hex_value a = of_char c div 16" "hex_value b = of_char c mod 16"
    by (auto simp: hex_byte_def Let_def hex_value_digit less_mult_imp_div_less)
  then show ?thesis by simp
qed

lemma url_decode_append:
  assumes "CHR ''%'' \<notin> set extra"
  shows "url_decode (encode_char extra c @ s) = c # url_decode s"
proof (cases "c \<notin> set legitPunctuation \<and> c \<notin> set extra")
  case True
  moreover obtain a b where "hex_byte c = [a, b]" by (simp add: hex_byte_def Let_def)
  ultimately show ?thesis by (simp add: encode_char_def hex_byte_decode)
next
  case False
  moreover have "CHR ''%'' \<notin> set legitPunctuation" by (simp add: legitPunctuation_def)
  ultimately show ?thesis using assms by (auto simp: encode_char_def)
qed

lemma url_decode_urlEncode: "url_decode (urlEncode s []) = s"
  by (induction s) (simp_all add: url_decode_append)

definition url_safe :: "char \<Rightarrow> bool" where
  "url_safe c \<longleftrightarrow> c \<in> set legitPunctuation \<or> c = CHR ''%''"

lemma hex_digit_safe: "n < 16 \<Longrightarrow> hex_digit n \<in> set legitPunctuation"
proof -
  assume "n < 16"
  moreover have "list_all (\<lambda>k. hex_digit k \<in> set legitPunctuation) [0..<16]" by code_simp
  ultimately show ?thesis by (simp add: list_all_iff)
qed

lemma hex_byte_safe: "set (hex_byte c) \<subseteq> set legitPunctuation"
proof -
  have "(of_char c :: nat) < 256" by (rule nat_of_char_less_256)
  then show ?thesis
    by (auto simp: hex_byte_def Let_def less_mult_imp_div_less intro!: hex_digit_safe)
qed

lemma encode_char_safe: "x \<in> set (encode_char [] c) \<Longrightarrow> url_safe x"
  using hex_byte_safe [of c] by (auto simp: encode_char_def url_safe_def split: if_splits)

lemma urlEncode_safe: "x \<in> set (urlEncode s []) \<Longrightarrow> url_safe x"
  by (induction s) (auto dest: encode_char_safe)

text \<open>The separators of a form body never come from a name or a value.\<close>

fun form_pairs :: "req_arg list \<Rightarrow> string list" where
  "form_pairs args = map (\<lambda>a. urlEncode (arg_name a) [] @ ''='' @ urlEncode (arg_value a) []) args"

lemma generateWwwFormUrlencoded_join: "generateWwwFormUrlencoded args = join_off (form_pairs args) ''&''"
  by (induction args rule: generateWwwFormUrlencoded.induct) auto

lemma form_pair_no_amp: "CHR ''&'' \<notin> set (urlEncode s [])" "CHR ''='' \<notin> set (urlEncode s [])"
  using urlEncode_safe [of "CHR ''&''" s] urlEncode_safe [of "CHR ''=''" s]
  by (auto simp: url_safe_def legitPunctuation_def)

definition decode_pair :: "string \<Rightarrow> string \<times> string" where
  "decode_pair p = (case split_off ''='' p of [n, v] \<Rightarrow> (url_decode n, url_decode v) | _ \<Rightarrow> (p, []))"

lemma decode_pair_form:
  "decode_pair (urlEncode n [] @ ''='' @ urlEncode v []) = (n, v)"
proof -
  have "split_off ''='' (join_off [urlEncode n [], urlEncode v []] ''='') = [urlEncode n [], urlEncode v []]"
    by (rule split_off_join) (auto simp: form_pair_no_amp)
  then show ?thesis by (simp add: decode_pair_def url_decode_urlEncode)
qed

text \<open>
  Property C33. A url-encoded form body can be cut at its ampersands and equals signs and decoded
  to exactly the names and values it was made from, whatever bytes they hold.
\<close>

theorem generateWwwFormUrlencoded_roundtrip:
  assumes "args \<noteq> []"
  shows "map decode_pair (split_off ''&'' (generateWwwFormUrlencoded args)) =
         map (\<lambda>a. (arg_name a, arg_value a)) args"
proof -
  have "split_off ''&'' (join_off (form_pairs args) ''&'') = form_pairs args"
    by (rule split_off_join) (use assms in \<open>auto simp: form_pair_no_amp\<close>)
  then show ?thesis by (simp add: generateWwwFormUrlencoded_join decode_pair_form [simplified])
qed

theorem generateWwwFormUrlencoded_roundtrip_witness:
  "map decode_pair (split_off ''&'' (generateWwwFormUrlencoded [HttpReqArg ''text'' ''a=b&c'', HttpReqArg ''k'' []])) =
     [(''text'', ''a=b&c''), (''k'', [])]"
proof -
  have ne: "[HttpReqArg ''text'' ''a=b&c'', HttpReqArg ''k'' []] \<noteq> []" by simp
  show ?thesis using generateWwwFormUrlencoded_roundtrip [OF ne] by (simp add: HttpReqArg_def)
qed

section \<open>The boundary occurs in no file\<close>

lemma str_contains_iff: "str_contains s p \<longleftrightarrow> sublist p s"
proof
  assume "str_contains s p"
  then obtain i where "prefix p (drop i s)" by (auto simp: str_contains_def dest: find_sub_Some)
  then show "sublist p s"
    by (metis append_take_drop_id prefix_def sublist_def)
next
  assume "sublist p s"
  then obtain a b where s: "s = a @ p @ b" by (auto simp: sublist_def)
  have "find_sub p s \<noteq> None"
    unfolding find_sub_None_iff not_all
    by (rule exI [of _ "length a"]) (simp add: s)
  then show "str_contains s p" by (simp add: str_contains_def)
qed

lemma boundary_loop_grows:
  "boundary_loop rnd v k r = (k', r') \<Longrightarrow> prefix r r' \<and> r' \<noteq> [] \<and> \<not> sublist r' v"
proof (induction rnd v k r rule: boundary_loop.induct)
  case (1 rnd v k r)
  show ?case
  proof (cases "r = [] \<or> str_contains v r")
    case True
    with "1.prems" have "boundary_loop rnd v (k + 4) (r @ generateRandomString rnd k 4) = (k', r')"
      by (simp add: boundary_loop.simps [of rnd v k r])
    with "1.IH" [OF True] show ?thesis by (meson append_prefixD)
  next
    case False
    with "1.prems" show ?thesis
      by (auto simp: boundary_loop.simps [of rnd v k r] str_contains_iff)
  qed
qed

lemma boundary_items_grows: "prefix r (boundary_items rnd args k r)"
proof (induction rnd args k r rule: boundary_items.induct)
  case (2 rnd a args k r)
  show ?case
  proof (cases "arg_isFile a")
    case True
    obtain k' r' where b: "boundary_loop rnd (arg_value a) k r = (k', r')" by fastforce
    with 2 True have "prefix r' (boundary_items rnd args k' r')" by auto
    with True b boundary_loop_grows [OF b] show ?thesis by (auto intro: prefix_order.trans)
  next
    case False
    with 2 show ?thesis by simp
  qed
qed simp

lemma boundary_items_fresh:
  "a \<in> set args \<Longrightarrow> arg_isFile a \<Longrightarrow> \<not> sublist (boundary_items rnd args k r) (arg_value a)"
proof (induction rnd args k r rule: boundary_items.induct)
  case (2 rnd b args k r)
  obtain k' r' where b: "boundary_loop rnd (arg_value b) k r = (k', r')" by fastforce
  from boundary_loop_grows [OF b] boundary_items_grows [of r' rnd args k']
  have "\<not> sublist (boundary_items rnd args k' r') (arg_value b)"
    by (meson prefix_imp_sublist sublist_order.order_trans)
  with 2 b show ?case by auto
qed simp

lemma boundary_items_Nil_iff:
  "boundary_items rnd args k r = [] \<longleftrightarrow> r = [] \<and> (\<forall>a\<in>set args. \<not> arg_isFile a)"
proof (induction rnd args k r rule: boundary_items.induct)
  case (2 rnd b args k r)
  obtain k' r' where b: "boundary_loop rnd (arg_value b) k r = (k', r')" by fastforce
  with boundary_loop_grows [OF b] 2 show ?case by auto
qed simp

text \<open>
  Property C34. The search for a multipart boundary ends for every random source, and the
  boundary it returns occurs in the contents of none of the files of the request, also when
  a later file made it longer.
\<close>

theorem generateMultipartBoundary_fresh:
  assumes "a \<in> set args" and "arg_isFile a"
  shows "generateMultipartBoundary rnd args \<noteq> [] \<and> \<not> sublist (generateMultipartBoundary rnd args) (arg_value a)"
  using boundary_items_fresh [OF assms] boundary_items_Nil_iff [of rnd args 0 "[]"] assms
  by (auto simp: generateMultipartBoundary_def)

definition file_arg :: req_arg where
  "file_arg = (HttpReqArg ''photo'' ''qqqqqqqq'')\<lparr>arg_isFile := True\<rparr>"

theorem generateMultipartBoundary_fresh_witness:
  "generateMultipartBoundary (\<lambda>_. 0) [file_arg] \<noteq> [] \<and>
   \<not> sublist (generateMultipartBoundary (\<lambda>_. 0) [file_arg]) ''qqqqqqqq''"
proof -
  have f: "file_arg \<in> set [file_arg]" "arg_isFile file_arg" by (simp_all add: file_arg_def)
  have "arg_value file_arg = ''qqqqqqqq''" by (simp add: file_arg_def HttpReqArg_def)
  with generateMultipartBoundary_fresh [OF f, of "\<lambda>_. 0"] show ?thesis by simp
qed

section \<open>Length and separation of the body\<close>

lemma find_sub_skip_char:
  "c \<notin> set a \<Longrightarrow> find_sub (c # p) (a @ s) = map_option (\<lambda>i. length a + i) (find_sub (c # p) s)"
proof (induction a)
  case Nil
  then show ?case by (cases "find_sub (c # p) s") auto
next
  case (Cons x a)
  then show ?case by (cases "find_sub (c # p) s") auto
qed

lemma find_blank_line_skip:
  "s \<noteq> [] \<Longrightarrow> hd s \<noteq> CR \<Longrightarrow>
   find_sub (crlf @ crlf) (crlf @ s) = map_option (\<lambda>i. 2 + i) (find_sub (crlf @ crlf) s)"
  by (cases s; cases "find_sub (crlf @ crlf) s") (auto simp: crlf_def)

lemma find_blank_line_here: "find_sub (crlf @ crlf) (crlf @ crlf @ s) = Some 0"
  by (simp add: crlf_def)

lemma find_blank_line_text:
  "CR \<notin> set a \<Longrightarrow> find_sub (crlf @ crlf) (a @ s) = map_option (\<lambda>i. length a + i) (find_sub (crlf @ crlf) s)"
  unfolding crlf_def append.simps by (rule find_sub_skip_char)

definition header_text :: "string \<Rightarrow> bool" where
  "header_text l \<longleftrightarrow> l \<noteq> [] \<and> CR \<notin> set l"

text \<open>The first blank line of a message is the one after its header lines.\<close>

lemma find_blank_line_after:
  "ls \<noteq> [] \<Longrightarrow> list_all header_text ls \<Longrightarrow>
   find_sub (crlf @ crlf) (join_off ls crlf @ crlf @ crlf @ d) = Some (length (join_off ls crlf))"
proof (induction ls rule: induct_list012)
  case (2 l)
  then show ?case by (simp add: header_text_def find_blank_line_text find_blank_line_here)
next
  case (3 l m ls)
  let ?s = "join_off (m # ls) crlf @ crlf @ crlf @ d"
  from "3.prems" have l: "CR \<notin> set l" and m: "m \<noteq> []" "hd m \<noteq> CR"
    by (cases m; auto simp: header_text_def)+
  from m have h: "?s \<noteq> []" "hd ?s \<noteq> CR" by (cases ls; simp)+
  from "3.prems" have "find_sub (crlf @ crlf) ?s = Some (length (join_off (m # ls) crlf))"
    by (intro "3.IH") simp_all
  then have "find_sub (crlf @ crlf) (l @ crlf @ ?s) = Some (length l + (2 + length (join_off (m # ls) crlf)))"
    by (simp add: find_blank_line_text [OF l] find_blank_line_skip [OF h])
  then show ?case by (simp add: crlf_def)
qed simp

lemma drop_blank_line: "drop (length h + 4) (h @ crlf @ crlf @ d) = d"
  by (simp add: crlf_def)

lemma parseHttp_body_lines:
  "ls \<noteq> [] \<Longrightarrow> list_all header_text ls \<Longrightarrow> parseHttp_body b (join_off ls crlf @ crlf @ crlf @ d) = d"
  by (simp only: parseHttp_body_def find_blank_line_after option.case drop_blank_line not_False_eq_True)

definition response_lines :: "('d, 'f) lib \<Rightarrow> string \<Rightarrow> string \<Rightarrow> nat \<Rightarrow> string \<Rightarrow> string list" where
  "response_lines L d mime code status =
     [''HTTP/1.1 '' @ lc_int L (int code) @ '' '' @ status, ''Content-Type: '' @ mime,
      ''Content-Length: '' @ lc_int L (int (length d))]"



lemma generateRandomString_chars: "c \<in> set (generateRandomString rnd k n) \<Longrightarrow> c \<in> set boundary_chars"
proof (induction n arbitrary: k)
  case (Suc n)
  have "0 < length boundary_chars" by (simp add: boundary_chars_def)
  then have "boundary_chars ! (rnd k mod length boundary_chars) \<in> set boundary_chars" by simp
  with Suc show ?case by auto
qed simp

lemma boundary_loop_chars:
  "boundary_loop rnd v k r = (k', r') \<Longrightarrow> set r \<subseteq> set boundary_chars \<Longrightarrow> set r' \<subseteq> set boundary_chars"
proof (induction rnd v k r rule: boundary_loop.induct)
  case (1 rnd v k r)
  show ?case
  proof (cases "r = [] \<or> str_contains v r")
    case True
    with "1.prems" have "boundary_loop rnd v (k + 4) (r @ generateRandomString rnd k 4) = (k', r')"
      by (simp add: boundary_loop.simps [of rnd v k r])
    moreover have "set (r @ generateRandomString rnd k 4) \<subseteq> set boundary_chars"
      using "1.prems"(2) generateRandomString_chars by auto
    ultimately show ?thesis by (rule "1.IH" [OF True])
  next
    case False
    with "1.prems" show ?thesis by (simp add: boundary_loop.simps [of rnd v k r])
  qed
qed

lemma boundary_items_chars:
  "set r \<subseteq> set boundary_chars \<Longrightarrow> set (boundary_items rnd args k r) \<subseteq> set boundary_chars"
proof (induction rnd args k r rule: boundary_items.induct)
  case (2 rnd b args k r)
  obtain k' r' where b: "boundary_loop rnd (arg_value b) k r = (k', r')" by fastforce
  with boundary_loop_chars [OF b] 2 show ?case by auto
qed simp

lemma boundary_no_CR: "CR \<notin> set (generateMultipartBoundary rnd args)"
proof -
  have "set (generateMultipartBoundary rnd args) \<subseteq> set boundary_chars"
    unfolding generateMultipartBoundary_def by (rule boundary_items_chars) simp
  moreover have "CR \<notin> set boundary_chars" by (simp add: boundary_chars_def CR_def DQ_def)
  ultimately show ?thesis by blast
qed

definition request_body :: "(nat \<Rightarrow> nat) \<Rightarrow> req_arg list \<Rightarrow> string" where
  "request_body rnd args =
     (if args = [] then []
      else if list_ex arg_isFile args
      then generateMultipartFormData args (generateMultipartBoundary rnd args)
      else generateWwwFormUrlencoded args)"

definition request_lines :: "('d, 'f) lib \<Rightarrow> (nat \<Rightarrow> nat) \<Rightarrow> url \<Rightarrow> req_arg list \<Rightarrow> bool \<Rightarrow> string list" where
  "request_lines L rnd u args keep =
     [(if args = [] then ''GET '' else ''POST '') @ url_path u
        @ (if url_query u = [] then [] else ''?'' @ url_query u) @ '' HTTP/1.1'',
      ''Host: '' @ url_host u, ''Connection: '' @ (if keep then ''keep-alive'' else ''close'')]
     @ (if args = [] then []
        else [if list_ex arg_isFile args
              then ''Content-Type: multipart/form-data; boundary='' @ generateMultipartBoundary rnd args
              else ''Content-Type: application/x-www-form-urlencoded'',
              ''Content-Length: '' @ lc_int L (int (length (request_body rnd args)))])"

lemma boundary_Nil_iff: "generateMultipartBoundary rnd args = [] \<longleftrightarrow> \<not> list_ex arg_isFile args"
  by (auto simp: generateMultipartBoundary_def boundary_items_Nil_iff list_ex_iff)

lemma generateRequest_lines:
  "generateRequest L rnd u args keep =
   join_off (request_lines L rnd u args keep) crlf @ crlf @ crlf @ request_body rnd args"
  by (simp add: generateRequest_def request_head_def request_lines_def request_body_def
      boundary_Nil_iff Let_def)


definition bot_url :: url where
  "bot_url = \<lparr>url_protocol = ''https'', url_host = ''h'', url_path = ''/m'', url_query = [], url_fragment = []\<rparr>"


section \<open>The parser with headers is safe and agrees on the body\<close>

lemma sz_substr_ok: "pos \<le> length s \<Longrightarrow> sz_substr s pos n = Inr (take n (drop pos s))"
  by (simp add: sz_substr_def str_substr_def)

lemma sz_find_le: "sz_find s p pos = npos \<or> sz_find s p pos \<le> length s"
  using sz_find_cases [of s p pos] by auto

lemma sz_add_find: "fits s \<Longrightarrow> p \<noteq> [] \<Longrightarrow> sz_add (sz_find s p pos) 1 \<le> length s"
  using sz_find_cases [of s p pos] by (cases p) (auto simp: sz_add_def npos_def)

lemma first_line_safe: "fits d \<Longrightarrow> \<exists>hs'. first_line r d hs = Inr hs'"
  using sz_add_find [of d "'' ''" 0] by (simp add: first_line_def Let_def sz_substr_ok)

lemma header_line_safe: "fits d \<Longrightarrow> \<exists>r. header_line L d e hs = Inr r"
proof -
  assume d: "fits d"
  let ?ls = "sz_add e (length (line_break d))"
  have ls: "?ls \<le> length d" if "\<not> sz_find d (line_break d) ?ls \<ge> snd (header_end d)"
  proof -
    from that header_end_bound [OF d] d have "sz_find d (line_break d) ?ls \<noteq> npos"
      by (auto simp: npos_def)
    with sz_find_cases [of d "line_break d" ?ls] show ?thesis by linarith
  qed
  have sep: "sz_add (sz_find d '':'' ?ls) 1 \<le> length d" using sz_add_find [OF d] by simp
  show ?thesis
  proof (cases "sz_find d (line_break d) ?ls \<ge> snd (header_end d)")
    case True
    then show ?thesis by (simp add: header_line_def Let_def)
  next
    case False
    then show ?thesis using sz_substr_ok [OF ls [OF False]] sz_substr_ok [OF sep]
      by (simp add: header_line_def Let_def)
  qed
qed

lemma header_loop_safe: "\<exists>hs'. header_loop L d e hs = Inr hs'"
proof (induction L d e hs rule: header_loop.induct)
  case (1 L d e hs)
  then show ?case
    using header_line_safe [of d L e hs]
    by (subst header_loop.simps) (fastforce split: option.splits)
qed

lemma str_find_npos: "fits d \<Longrightarrow> p \<noteq> [] \<Longrightarrow> sz_find d p 0 = npos \<longleftrightarrow> find_sub p d = None"
  using find_sub_bound [of p d] by (fastforce simp: sz_find_def str_find_0 npos_def split: option.splits)

lemma header_end_None:
  "fits d \<Longrightarrow> find_sub (crlf @ crlf) d = None \<Longrightarrow> find_sub [LF, LF] d = None \<Longrightarrow> header_end d = (False, npos)"
  by (simp add: header_end_def str_find_npos crlf_def)

lemma header_end_Some:
  assumes d: "fits d" and "find_sub (crlf @ crlf) d \<noteq> None \<or> find_sub [LF, LF] d \<noteq> None"
  shows "snd (header_end d) \<le> length d \<and> drop (snd (header_end d)) d = parseHttp_body b d"
proof (cases "find_sub (crlf @ crlf) d")
  case (Some i)
  then have "i + 4 \<le> length d" using find_sub_Some [OF Some] by (simp add: crlf_def)
  with Some d show ?thesis
    by (simp add: header_end_def parseHttp_body_def sz_find_def str_find_0 sz_add_def npos_def)
next
  case None
  with assms obtain i where i: "find_sub [LF, LF] d = Some i" by auto
  then have "i + 2 \<le> length d" using find_sub_Some [OF i] by simp
  with None i d show ?thesis
    by (simp add: header_end_def parseHttp_body_def sz_find_def str_find_0 sz_add_def npos_def)
qed

text \<open>
  Property C37. For every message that fits a string, the parser with headers terminates without
  the out-of-range exception of \<open>substr\<close> (also when a separator is missing and its position
  \<open>npos\<close> wraps around), and the body it returns is the one the parser without headers returns,
  or empty when the message has no blank line.
\<close>

theorem parseHttp_safe:
  assumes "fits d"
  shows "\<exists>hs'. parseHttp L isRequest d hs = Inr (hs',
    if find_sub (crlf @ crlf) d = None \<and> find_sub [LF, LF] d = None then [] else parseHttp_body isRequest d)"
proof -
  obtain hs1 where 1: "first_line isRequest d hs = Inr hs1" using first_line_safe [OF assms] by blast
  obtain hs2 where 2: "(let lineEnd = sz_find d (line_break d) 0
      in if lineEnd = 0 then Inr hs1 else header_loop L d lineEnd hs1) = Inr hs2"
    using header_loop_safe by (metis (full_types))
  show ?thesis
  proof (cases "find_sub (crlf @ crlf) d = None \<and> find_sub [LF, LF] d = None")
    case True
    with 1 2 header_end_None [OF assms] show ?thesis by (simp add: parseHttp_def)
  next
    case False
    with header_end_Some [OF assms, of isRequest]
    have "snd (header_end d) \<le> length d" "drop (snd (header_end d)) d = parseHttp_body isRequest d" by auto
    moreover from this have "length (parseHttp_body isRequest d) \<le> length d"
      by (metis diff_le_self length_drop)
    ultimately show ?thesis using 1 2 assms False
      by (auto simp: parseHttp_def sz_substr_def str_substr_def npos_def)
  qed
qed

theorem parseHttp_safe_witness:
  "\<exists>hs'. parseHttp ref_lib False ''x'' (\<lambda>_. None) = Inr (hs', [])"
proof -
  have f: "fits ''x''" by simp
  show ?thesis
    using parseHttp_safe [OF f, of ref_lib False "\<lambda>_. None"] by (simp add: crlf_def)
qed

end
