(* ===== verification/HttpsClientModel.thy ===== *)
theory HttpsClientModel
  imports SslClientModel HttpMessage
begin

text \<open>
  \<open>src/HttpsClient.cpp\<close>: a queue of requests over the TLS client. One session serves one request:
  the head of the queue is sent when the session opens, and the response is what arrived until the
  peer closes it. \<open>hc\_timers\<close> counts the waits of \<open>pushQueue\<close> whose handler has not run (setting
  the timer again cancels a wait, but its handler runs all the same). \<open>hc\_fault\<close> records that
  the code read or popped an empty \<open>std::deque\<close>, or that an exception left a callback (nothing
  catches it, the process ends); what follows a fault is not meant to be looked at.
\<close>

section \<open>State\<close>

datatype fault = EmptyDeque | Escaped | NullPointer

record https_state =
  hc_queue :: "http_request list"
  hc_response :: string
  hc_timers :: nat
  hc_fault :: "fault option"

definition https_init :: https_state where
  "https_init = \<lparr>hc_queue = [], hc_response = [], hc_timers = 0, hc_fault = None\<rparr>"

type_synonym ('m, 'b) https_world = "'m ssl_client \<times> (https_state \<times> 'b)"

text \<open>\<open>HttpClientHandler\<close>.\<close>

record ('m, 'b) http_handler =
  hhError :: "errc option \<Rightarrow> ('m, 'b) https_world \<Rightarrow> ('m, 'b) https_world"
  hhIdle :: "('m, 'b) https_world \<Rightarrow> ('m, 'b) https_world"
  hhResponse :: "http_request \<Rightarrow> string \<Rightarrow> ('m, 'b) https_world \<Rightarrow> ('m, 'b) https_world"

definition hc_of :: "('m, 'b) https_world \<Rightarrow> https_state" where
  "hc_of x = fst (snd x)"

definition hc_upd :: "(https_state \<Rightarrow> https_state) \<Rightarrow> ('m, 'b) https_world \<Rightarrow> ('m, 'b) https_world" where
  "hc_upd f x = (fst x, (f (fst (snd x)), snd (snd x)))"

lemma hc_upd_simps [simp]:
  "fst (hc_upd f x) = fst x" "hc_of (hc_upd f x) = f (hc_of x)" "snd (snd (hc_upd f x)) = snd (snd x)"
  "fst (snd (hc_upd f x)) = f (hc_of x)"
  by (simp_all add: hc_upd_def hc_of_def)

section \<open>Operations\<close>

definition pushQueue :: "('m, 'b) https_world \<Rightarrow> ('m, 'b) https_world" where
  "pushQueue = hc_upd (\<lambda>h. h\<lparr>hc_timers := hc_timers h + 1\<rparr>)"

definition sendRequest :: "http_request \<Rightarrow> ('m, 'b) https_world \<Rightarrow> ('m, 'b) https_world" where
  "sendRequest r x = pushQueue (hc_upd (\<lambda>h. h\<lparr>hc_queue := hc_queue h @ [r]\<rparr>) x)"

text \<open>
  \<open>stop\<close> hides the handler while it calls \<open>disconnect\<close>; closing is asynchronous, so no callback
  runs in between and the change of the pointer has no effect.
\<close>

definition https_stop :: "bool \<Rightarrow> ('m, 'b) https_world \<Rightarrow> ('m, 'b) https_world" where
  "https_stop clear x =
     (let x = (ssl_disconnect (fst x), snd x)
      in if clear then hc_upd (\<lambda>h. h\<lparr>hc_queue := [], hc_response := []\<rparr>) x else x)"

definition https_fault :: "fault \<Rightarrow> ('m, 'b) https_world \<Rightarrow> ('m, 'b) https_world" where
  "https_fault f = hc_upd (\<lambda>h. h\<lparr>hc_fault := Some f\<rparr>)"

definition https_pop :: "('m, 'b) https_world \<Rightarrow> ('m, 'b) https_world" where
  "https_pop x =
     (if hc_queue (hc_of x) = [] then https_fault EmptyDeque x
      else hc_upd (\<lambda>h. h\<lparr>hc_queue := tl (hc_queue h)\<rparr>) x)"

section \<open>Callbacks of the TLS client\<close>

definition https_handleDisconnect :: "('m, 'b) http_handler option \<Rightarrow> reason \<Rightarrow> ('m, 'b) https_world \<Rightarrow> ('m, 'b) https_world" where
  "https_handleDisconnect Hb r x =
     (let y = (case Hb of
                 Some h \<Rightarrow>
                   if r \<noteq> ClosedByUser then
                     (case hc_queue (hc_of x) of
                        [] \<Rightarrow> https_fault EmptyDeque x
                      | q # _ \<Rightarrow> hhResponse h q (hc_response (hc_of x)) x)
                   else x
               | None \<Rightarrow> x)
      in if hc_fault (hc_of y) \<noteq> None then y
         else pushQueue (hc_upd (\<lambda>h. h\<lparr>hc_response := []\<rparr>) (https_pop y)))"

definition https_handleError :: "('m, 'b) http_handler option \<Rightarrow> errc option \<Rightarrow> ('m, 'b) https_world \<Rightarrow> ('m, 'b) https_world" where
  "https_handleError Hb e x =
     (let x = hc_upd (\<lambda>h. h\<lparr>hc_response := []\<rparr>) x
      in if e = Some OperationAborted then pushQueue (https_pop x)
         else (case Hb of Some h \<Rightarrow> hhError h e x | None \<Rightarrow> x))"

definition https_handleReceived :: "string \<Rightarrow> ('m, 'b) https_world \<Rightarrow> ('m, 'b) https_world" where
  "https_handleReceived d = hc_upd (\<lambda>h. h\<lparr>hc_response := hc_response h @ d\<rparr>)"

text \<open>
  The callback of an opened session sends, and a send that fails at once runs a closing callback
  inside; the opening callback itself cannot run there.
\<close>

definition https_closing :: "('m, 'b) http_handler option \<Rightarrow> ('m, https_state \<times> 'b) ssl_handler" where
  "https_closing Hb =
     \<lparr>hConnect = id, hDisconnect = https_handleDisconnect Hb, hError = https_handleError Hb, hReceived = https_handleReceived\<rparr>"

definition https_handleConnect :: "'m mbedtls \<Rightarrow> ('m, 'b) http_handler option \<Rightarrow> ('m, 'b) https_world \<Rightarrow> ('m, 'b) https_world" where
  "https_handleConnect M Hb x =
     (let x = hc_upd (\<lambda>h. h\<lparr>hc_response := []\<rparr>) x
      in case hc_queue (hc_of x) of
           [] \<Rightarrow> x
         | q # _ \<Rightarrow> ssl_send M (Some (https_closing Hb)) (req_data q) x)"

definition https_handler :: "'m mbedtls \<Rightarrow> ('m, 'b) http_handler option \<Rightarrow> ('m, https_state \<times> 'b) ssl_handler" where
  "https_handler M Hb =
     \<lparr>hConnect = https_handleConnect M Hb, hDisconnect = https_handleDisconnect Hb,
      hError = https_handleError Hb, hReceived = https_handleReceived\<rparr>"

section \<open>The timer\<close>

definition https_handleTimerEvent :: "'m mbedtls \<Rightarrow> ('m, 'b) http_handler option \<Rightarrow> ('m, 'b) https_world \<Rightarrow> ('m, 'b) https_world" where
  "https_handleTimerEvent M Hb x =
     (if isDisconnecting (fst x) then x
      else if isConnecting (fst x) \<or> isConnected (fst x) then
        (case hc_queue (hc_of x) of
           [] \<Rightarrow> https_fault EmptyDeque x
         | q # _ \<Rightarrow>
             if req_longPoll q \<and> hc_response (hc_of x) = [] then (ssl_disconnect (fst x), snd x) else x)
      else
        (case hc_queue (hc_of x) of
           [] \<Rightarrow> (case Hb of Some h \<Rightarrow> hhIdle h x | None \<Rightarrow> x)
         | q # _ \<Rightarrow> (ssl_connect M (url_host (req_url q)) (url_protocol (req_url q)) (fst x), snd x)))"

definition https_timer :: "'m mbedtls \<Rightarrow> ('m, 'b) http_handler option \<Rightarrow> ('m, 'b) https_world \<Rightarrow> ('m, 'b) https_world" where
  "https_timer M Hb x = https_handleTimerEvent M Hb (hc_upd (\<lambda>h. h\<lparr>hc_timers := hc_timers h - 1\<rparr>) x)"

section \<open>The contract of the client's handler\<close>

text \<open>
  A handler of the client may queue requests, set the timer, change its own object, and fail.
  (\<open>stop\<close> is not among them: no handler of the program calls it.)
\<close>

inductive https_ctl :: "('m, 'b) https_world \<Rightarrow> ('m, 'b) https_world \<Rightarrow> bool" where
  hctl_user: "https_ctl (c, (h, b)) (c, (h, b'))"
| hctl_send: "https_ctl x (c, (h, b)) \<Longrightarrow> https_ctl x (sendRequest r (c, (h, b')))"
| hctl_push: "https_ctl x (c, (h, b)) \<Longrightarrow> https_ctl x (pushQueue (c, (h, b')))"
| hctl_throw: "https_ctl x (c, (h, b)) \<Longrightarrow> f \<noteq> EmptyDeque \<Longrightarrow> https_ctl x (https_fault f (c, (h, b')))"

lemma https_ctl_effect:
  "https_ctl x y \<Longrightarrow> fst y = fst x \<and> (\<exists>rs. hc_queue (hc_of y) = hc_queue (hc_of x) @ rs) \<and>
     (hc_fault (hc_of x) \<noteq> Some EmptyDeque \<longrightarrow> hc_fault (hc_of y) \<noteq> Some EmptyDeque)"
  by (induction rule: https_ctl.induct)
     (auto simp: hc_of_def sendRequest_def pushQueue_def https_fault_def hc_upd_def)

lemma ssl_send_closing:
  assumes "hDisconnect h = hDisconnect h'" "hError h = hError h'"
  shows "ssl_send M (Some h) d x = ssl_send M (Some h') d x"
proof -
  have "ssl_handleAnything (Some h) = ssl_handleAnything (Some h')"
    using assms by (intro ext) (simp add: ssl_handleAnything_def Let_def)
  hence "ssl_handleWrite M (Some h) = ssl_handleWrite M (Some h')"
    by (intro ext) (simp only: ssl_handleWrite_def)
  thus ?thesis by (simp only: ssl_send_def)
qed

text \<open>A session needs a request; an empty queue is never read.\<close>

definition has_request :: "https_state \<times> 'b \<Rightarrow> bool" where
  "has_request v \<longleftrightarrow> hc_queue (fst v) \<noteq> []"

definition no_empty_read :: "https_state \<times> 'b \<Rightarrow> bool" where
  "no_empty_read v \<longleftrightarrow> hc_fault (fst v) \<noteq> Some EmptyDeque"

locale http_user =
  fixes Hb :: "('m, 'b) http_handler"
  assumes response_ctl: "https_ctl x (hhResponse Hb q d x)"
    and http_error_ctl: "https_ctl x (hhError Hb e x)"
    and idle_ctl: "https_ctl x (hhIdle Hb x)"
begin

lemma handleDisconnect_keeps:
  assumes "has_request (snd x)" "no_empty_read (snd x)"
  shows "fst (https_handleDisconnect (Some Hb) r x) = fst x \<and> no_empty_read (snd (https_handleDisconnect (Some Hb) r x))"
proof -
  obtain q qs where q: "hc_queue (hc_of x) = q # qs"
    using assms(1) by (cases "hc_queue (hc_of x)") (auto simp: has_request_def hc_of_def)
  define y where "y = (if r \<noteq> ClosedByUser then hhResponse Hb q (hc_response (hc_of x)) x else x)"
  have "fst y = fst x \<and> (\<exists>rs. hc_queue (hc_of y) = q # qs @ rs) \<and> hc_fault (hc_of y) \<noteq> Some EmptyDeque"
    using https_ctl_effect[OF response_ctl[of x q "hc_response (hc_of x)"]] q assms(2)
    by (cases "r = ClosedByUser") (auto simp: y_def no_empty_read_def hc_of_def)
  then obtain rs where y: "fst y = fst x" "hc_queue (hc_of y) = q # qs @ rs" "hc_fault (hc_of y) \<noteq> Some EmptyDeque"
    by blast
  have "https_handleDisconnect (Some Hb) r x =
      (if hc_fault (hc_of y) \<noteq> None then y else pushQueue (hc_upd (\<lambda>h. h\<lparr>hc_response := []\<rparr>) (https_pop y)))"
    using q by (simp add: https_handleDisconnect_def y_def)
  thus ?thesis using y by (auto simp: no_empty_read_def pushQueue_def https_pop_def hc_of_def[symmetric])
qed

lemma handleError_keeps:
  assumes "has_request (snd x)" "no_empty_read (snd x)"
  shows "fst (https_handleError (Some Hb) e x) = fst x \<and> no_empty_read (snd (https_handleError (Some Hb) e x))"
  using assms https_ctl_effect[OF http_error_ctl[of "hc_upd (\<lambda>h. h\<lparr>hc_response := []\<rparr>) x" e]]
  by (auto simp: https_handleError_def Let_def no_empty_read_def has_request_def pushQueue_def https_pop_def hc_of_def[symmetric])

lemma handleDisconnect_client: "fst (https_handleDisconnect (Some Hb) r x) = fst x"
  using https_ctl_effect[OF response_ctl]
  by (auto simp: https_handleDisconnect_def Let_def https_fault_def pushQueue_def https_pop_def split: list.splits)

lemma handleError_client: "fst (https_handleError (Some Hb) e x) = fst x"
  using https_ctl_effect[OF http_error_ctl[of "hc_upd (\<lambda>h. h\<lparr>hc_response := []\<rparr>) x" e]]
  by (auto simp: https_handleError_def Let_def pushQueue_def https_pop_def https_fault_def)

lemma client_ctl: "fst y = fst x \<Longrightarrow> ssl_ctl M x y"
  by (cases x; cases y) (auto intro: ssl_ctl.intros)

lemma client_sapi: "fst y = fst x \<Longrightarrow> ssl_api M H x y"
  by (cases x; cases y) (auto intro: ssl_api.intros)

lemma handleConnect_send:
  "https_handleConnect M (Some Hb) x =
     (let x = hc_upd (\<lambda>h. h\<lparr>hc_response := []\<rparr>) x
      in case hc_queue (hc_of x) of [] \<Rightarrow> x | q # _ \<Rightarrow> ssl_send M (Some (https_handler M (Some Hb))) (req_data q) x)"
proof -
  have "ssl_send M (Some (https_closing (Some Hb))) d y = ssl_send M (Some (https_handler M (Some Hb))) d y" for d y
    by (rule ssl_send_closing) (simp_all add: https_closing_def https_handler_def)
  thus ?thesis by (simp only: https_handleConnect_def)
qed

lemma handleConnect_sapi: "ssl_api M (Some (https_handler M (Some Hb))) x (https_handleConnect M (Some Hb) x)"
proof -
  define y where "y = hc_upd (\<lambda>h. h\<lparr>hc_response := []\<rparr>) x"
  have y: "ssl_api M (Some (https_handler M (Some Hb))) x y" by (rule client_sapi) (simp add: y_def)
  hence "ssl_api M (Some (https_handler M (Some Hb))) x (ssl_send M (Some (https_handler M (Some Hb))) d y)" for d
    using ssl_api.sapi_send[of M _ x "fst y" "snd y" d "snd y"] by simp
  thus ?thesis using y by (auto simp: handleConnect_send Let_def y_def split: list.splits)
qed

text \<open>The callbacks that go on with a session keep any contract on the queue.\<close>

lemma session_goes_on:
  assumes c: "ssl_closing (https_handler M (Some Hb)) Q R"
    and keep: "\<And>v w. hc_queue (fst w) = hc_queue (fst v) \<Longrightarrow> hc_fault (fst w) = hc_fault (fst v) \<Longrightarrow> (Q v \<longrightarrow> Q w) \<and> (R v \<longrightarrow> R w)"
    and x: "ssl_closing.session_ok Q R x"
  shows "ssl_closing.session_ok Q R (hConnect (https_handler M (Some Hb)) x)"
    "ssl_closing.session_ok Q R (hReceived (https_handler M (Some Hb)) data x)"
proof -
  note def = ssl_closing.session_ok_def[OF c]
  have upd: "ssl_closing.session_ok Q R (hc_upd (hc_response_update f) x)" for f
    using x keep[of "snd (hc_upd (hc_response_update f) x)" "snd x"] by (auto simp: def hc_of_def)
  show "ssl_closing.session_ok Q R (hConnect (https_handler M (Some Hb)) x)"
    using upd ssl_closing.send_session[OF c] by (simp add: https_handler_def handleConnect_send Let_def split: list.splits)
  have "hReceived (https_handler M (Some Hb)) data x = hc_upd (hc_response_update (\<lambda>r. r @ data)) x"
    by (simp add: https_handler_def https_handleReceived_def hc_upd_def)
  thus "ssl_closing.session_ok Q R (hReceived (https_handler M (Some Hb)) data x)" using upd by simp
qed

end

text \<open>So the client meets the contract of the TLS layer, for every handler that meets its own.\<close>

sublocale http_user \<subseteq> ssl: ssl_closing "https_handler M (Some Hb)" has_request no_empty_read for M
proof
  fix s :: "'m ssl_state" and v :: "https_state \<times> 'b" and r e and t :: tcp_client and x
  assume s: "ss_status s = SDisconnected" and "has_request v" "no_empty_read v"
  hence v: "has_request (snd ((t, s), v))" "no_empty_read (snd ((t, s), v))" by simp_all
  show "hDisconnect (https_handler M (Some Hb)) r ((t, s), v) = x \<Longrightarrow>
      no_empty_read (snd x) \<and> (ss_status (snd (fst x)) \<noteq> SDisconnected \<longrightarrow> has_request (snd x))"
    using handleDisconnect_keeps[OF v, of r] s by (auto simp: https_handler_def)
  show "hError (https_handler M (Some Hb)) e ((t, s), v) = x \<Longrightarrow>
      no_empty_read (snd x) \<and> (ss_status (snd (fst x)) \<noteq> SDisconnected \<longrightarrow> has_request (snd x))"
    using handleError_keeps[OF v, of e] s by (auto simp: https_handler_def)
qed

sublocale http_user \<subseteq> ssl: ssl_session M "https_handler M (Some Hb)" has_request no_empty_read for M
proof
  fix x r e d
  show "ssl_ctl M x (hDisconnect (https_handler M (Some Hb)) r x)"
    by (rule client_ctl) (simp add: https_handler_def handleDisconnect_client)
  show "ssl_ctl M x (hError (https_handler M (Some Hb)) e x)"
    by (rule client_ctl) (simp add: https_handler_def handleError_client)
  show "ssl_api M (Some (https_handler M (Some Hb))) x (hConnect (https_handler M (Some Hb)) x)"
    using handleConnect_sapi by (simp add: https_handler_def)
  show "ssl_api M (Some (https_handler M (Some Hb))) x (hReceived (https_handler M (Some Hb)) d x)"
    by (rule client_sapi) (simp add: https_handler_def https_handleReceived_def)
  have c: "ssl_closing (https_handler M (Some Hb)) has_request no_empty_read" by unfold_locales
  show "ssl.session_ok x \<Longrightarrow> ssl.session_ok (hReceived (https_handler M (Some Hb)) d x)"
    "ssl.session_ok x \<Longrightarrow> ssl.session_ok (hConnect (https_handler M (Some Hb)) x)"
    using session_goes_on[OF c, of x] by (simp_all add: has_request_def no_empty_read_def)
qed

section \<open>The order of the requests\<close>

text \<open>
  The sessions serve the queue in order. With \<open>q\<close> the queue at the start of an event: while the session lives, only new
  requests are added behind \<open>q\<close>, and its end removes at most the head of \<open>q\<close>; without a session
  nothing is removed. Both are session contracts of the TLS layer (the second with no session at all).
\<close>

definition grown :: "http_request list \<Rightarrow> https_state \<times> 'b \<Rightarrow> bool" where
  "grown q v \<longleftrightarrow> (\<exists>rs. hc_queue (fst v) = q @ rs)"

definition served :: "http_request list \<Rightarrow> https_state \<times> 'b \<Rightarrow> bool" where
  "served q v \<longleftrightarrow> grown q v \<or> grown (tl q) v"

definition no_session :: "https_state \<times> 'b \<Rightarrow> bool" where
  "no_session v \<longleftrightarrow> False"

lemma grown_queue: "hc_queue (fst w) = hc_queue (fst v) @ rs \<Longrightarrow> grown q v \<Longrightarrow> grown q w"
  by (auto simp: grown_def)

lemma grown_pop: "grown q (snd x) \<Longrightarrow> served q (snd (https_pop x))"
  by (cases q) (auto simp: grown_def served_def https_pop_def https_fault_def hc_upd_def hc_of_def)

lemma served_state [simp]:
  "grown q (snd (hc_upd (\<lambda>h. h\<lparr>hc_response := d h\<rparr>) x)) = grown q (snd x)"
  "served q (snd (hc_upd (\<lambda>h. h\<lparr>hc_response := d h\<rparr>) x)) = served q (snd x)"
  "grown q (snd (pushQueue x)) = grown q (snd x)" "served q (snd (pushQueue x)) = served q (snd x)"
  "grown q (snd (https_fault f x)) = grown q (snd x)"
  by (simp_all add: grown_def served_def hc_upd_def pushQueue_def https_fault_def hc_of_def)

lemma ctl_grown: "https_ctl x y \<Longrightarrow> grown q (snd x) \<Longrightarrow> grown q (snd y)"
  using https_ctl_effect[of x y] by (auto simp: hc_of_def intro: grown_queue)

context http_user
begin

lemma handleDisconnect_served:
  assumes "grown q (snd x)"
  shows "served q (snd (https_handleDisconnect (Some Hb) r x))"
proof -
  define y where "y = (if r \<noteq> ClosedByUser then
      (case hc_queue (hc_of x) of [] \<Rightarrow> https_fault EmptyDeque x | q # _ \<Rightarrow> hhResponse Hb q (hc_response (hc_of x)) x) else x)"
  have y: "grown q (snd y)"
    using assms ctl_grown[OF response_ctl assms] by (simp add: y_def split: list.split)
  have "https_handleDisconnect (Some Hb) r x =
      (if hc_fault (hc_of y) \<noteq> None then y else pushQueue (hc_upd (\<lambda>h. h\<lparr>hc_response := []\<rparr>) (https_pop y)))"
    by (simp add: https_handleDisconnect_def y_def Let_def)
  thus ?thesis using grown_pop[OF y] y by (auto simp: served_def)
qed

lemma handleError_served: "grown q (snd x) \<Longrightarrow> served q (snd (https_handleError (Some Hb) e x))"
  using ctl_grown[OF http_error_ctl, of q "hc_upd (\<lambda>h. h\<lparr>hc_response := []\<rparr>) x" e]
    grown_pop[of q "hc_upd (\<lambda>h. h\<lparr>hc_response := []\<rparr>) x"]
  by (simp add: https_handleError_def Let_def) (simp add: served_def)

end

sublocale http_user \<subseteq> order: ssl_closing "https_handler M (Some Hb)" "grown q" "served q" for M q
proof
  fix s :: "'m ssl_state" and v :: "https_state \<times> 'b" and r e and t :: tcp_client and x
  assume s: "ss_status s = SDisconnected" and "grown q v"
  hence v: "grown q (snd ((t, s), v))" by simp
  show "hDisconnect (https_handler M (Some Hb)) r ((t, s), v) = x \<Longrightarrow>
      served q (snd x) \<and> (ss_status (snd (fst x)) \<noteq> SDisconnected \<longrightarrow> grown q (snd x))"
    using handleDisconnect_served[OF v, of r] handleDisconnect_client[of r "((t, s), v)"] s by (auto simp: https_handler_def)
  show "hError (https_handler M (Some Hb)) e ((t, s), v) = x \<Longrightarrow>
      served q (snd x) \<and> (ss_status (snd (fst x)) \<noteq> SDisconnected \<longrightarrow> grown q (snd x))"
    using handleError_served[OF v, of e] handleError_client[of e "((t, s), v)"] s by (auto simp: https_handler_def)
qed

sublocale http_user \<subseteq> order: ssl_session M "https_handler M (Some Hb)" "grown q" "served q" for M q
proof
  fix x d
  have c: "ssl_closing (https_handler M (Some Hb)) (grown q) (served q)" by unfold_locales
  show "order.session_ok q x \<Longrightarrow> order.session_ok q (hReceived (https_handler M (Some Hb)) d x)"
    "order.session_ok q x \<Longrightarrow> order.session_ok q (hConnect (https_handler M (Some Hb)) x)"
    using session_goes_on[OF c, of x] by (simp_all add: grown_def served_def)
qed

sublocale http_user \<subseteq> rest: ssl_closing "https_handler M (Some Hb)" no_session "grown q" for M q
  by unfold_locales (simp_all add: no_session_def)

sublocale http_user \<subseteq> rest: ssl_session M "https_handler M (Some Hb)" no_session "grown q" for M q
proof
  fix x d
  have c: "ssl_closing (https_handler M (Some Hb)) no_session (grown q)" by unfold_locales
  show "rest.session_ok q x \<Longrightarrow> rest.session_ok q (hReceived (https_handler M (Some Hb)) d x)"
    "rest.session_ok q x \<Longrightarrow> rest.session_ok q (hConnect (https_handler M (Some Hb)) x)"
    using session_goes_on[OF c, of x] by (simp_all add: grown_def no_session_def)
qed

text \<open>What an event may do to the queue.\<close>

definition live :: "('m, 'b) https_world \<Rightarrow> bool" where
  "live x \<longleftrightarrow> ss_status (snd (fst x)) \<noteq> SDisconnected"

definition in_order :: "('m, 'b) https_world \<Rightarrow> ('m, 'b) https_world \<Rightarrow> bool" where
  "in_order x y \<longleftrightarrow>
     (\<exists>rs. hc_queue (hc_of y) = hc_queue (hc_of x) @ rs) \<or>
     (live x \<and> \<not> live y \<and> (\<exists>rs. hc_queue (hc_of y) = tl (hc_queue (hc_of x)) @ rs))"

lemma grown_self [simp]: "grown (hc_queue (hc_of x)) (snd x)"
  by (simp add: grown_def hc_of_def)

lemma ctl_in_order: "https_ctl x y \<Longrightarrow> in_order x y"
  using https_ctl_effect[of x y] by (simp add: in_order_def)

context http_user
begin

lemma timerEvent_split:
  "(let y = https_handleTimerEvent M (Some Hb) x
    in y = x \<or>
       (y = https_fault EmptyDeque x \<and> hc_queue (hc_of x) = [] \<and> ss_status (snd (fst x)) \<noteq> SDisconnected) \<or>
       (y = (ssl_disconnect (fst x), snd x) \<and> hc_queue (hc_of x) \<noteq> []) \<or>
       (y = hhIdle Hb x \<and> hc_queue (hc_of x) = []) \<or>
       (\<exists>sv p. y = (ssl_connect M sv p (fst x), snd x) \<and> hc_queue (hc_of x) \<noteq> []))"
  by (cases "ss_status (snd (fst x))"; cases "hc_queue (hc_of x)")
     (auto simp: https_handleTimerEvent_def isDisconnecting_def isConnecting_def isConnected_def Let_def)

lemma timerEvent_cases:
  obtains (same) "https_handleTimerEvent M (Some Hb) x = x"
  | (fault) "https_handleTimerEvent M (Some Hb) x = https_fault EmptyDeque x" "hc_queue (hc_of x) = []"
      "ss_status (snd (fst x)) \<noteq> SDisconnected"
  | (abort) "https_handleTimerEvent M (Some Hb) x = (ssl_disconnect (fst x), snd x)" "hc_queue (hc_of x) \<noteq> []"
  | (idle) "https_handleTimerEvent M (Some Hb) x = hhIdle Hb x" "hc_queue (hc_of x) = []"
  | (start) sv p where "https_handleTimerEvent M (Some Hb) x = (ssl_connect M sv p (fst x), snd x)" "hc_queue (hc_of x) \<noteq> []"
  using timerEvent_split[of M x] unfolding Let_def by blast

lemma sessions_in_order:
  assumes "order.session_ok (hc_queue (hc_of x)) x \<Longrightarrow> order.session_ok (hc_queue (hc_of x)) y"
    and "rest.session_ok (hc_queue (hc_of x)) x \<Longrightarrow> rest.session_ok (hc_queue (hc_of x)) y"
  shows "in_order x y"
  using assms
  by (auto simp: order.session_ok_def rest.session_ok_def no_session_def in_order_def live_def served_def grown_def hc_of_def)

lemma complete_in_order:
  assumes "tcp_inv (fst (fst x))" "ssl_inv (fst x)" "result_op r \<in> set (tc_pending (fst (fst x)))"
  shows "in_order x (ssl_complete n M (Some (https_handler M (Some Hb))) r x)"
  using assms by (blast intro: sessions_in_order order.complete_session rest.complete_session)

lemma write_in_order: "in_order x (ssl_timer M (Some (https_handler M (Some Hb))) x)"
  by (rule sessions_in_order) (erule order.timer_session rest.timer_session)+

lemma timer_in_order: "in_order x (https_timer M (Some Hb) x)"
proof -
  let ?x = "hc_upd (\<lambda>h. h\<lparr>hc_timers := hc_timers h - 1\<rparr>) x"
  have "\<exists>rs. hc_queue (hc_of (https_handleTimerEvent M (Some Hb) ?x)) = hc_queue (hc_of x) @ rs"
  proof (cases rule: timerEvent_cases[of M ?x])
    case idle
    thus ?thesis using https_ctl_effect[OF idle_ctl[of ?x]] by simp
  qed (simp_all add: https_fault_def hc_of_def)
  thus ?thesis by (simp add: in_order_def https_timer_def)
qed

end

section \<open>Runs\<close>

text \<open>
  The events of the client: calls of its user, completions of TCP operations, and the two timers.
\<close>

inductive https_reach :: "nat \<Rightarrow> 'm mbedtls \<Rightarrow> ('m, 'b) http_handler \<Rightarrow> ('m, 'b) https_world \<Rightarrow> bool" for n M Hb where
  hreach_init: "https_reach n M Hb ((tcp_init, ssl_init m), (https_init, b))"
| hreach_call: "https_reach n M Hb x \<Longrightarrow> https_ctl x y \<Longrightarrow> https_reach n M Hb y"
| hreach_complete: "https_reach n M Hb x \<Longrightarrow> result_op r \<in> set (tc_pending (fst (fst x))) \<Longrightarrow>
    https_reach n M Hb (ssl_complete n M (Some (https_handler M (Some Hb))) r x)"
| hreach_write: "https_reach n M Hb x \<Longrightarrow> ss_timers (snd (fst x)) > 0 \<Longrightarrow>
    https_reach n M Hb (ssl_timer M (Some (https_handler M (Some Hb))) x)"
| hreach_timer: "https_reach n M Hb x \<Longrightarrow> hc_timers (hc_of x) > 0 \<Longrightarrow> https_reach n M Hb (https_timer M (Some Hb) x)"

context http_user
begin

lemma session_iff:
  "ssl.session_ok x \<longleftrightarrow> hc_fault (hc_of x) \<noteq> Some EmptyDeque \<and>
     (ss_status (snd (fst x)) \<noteq> SDisconnected \<longrightarrow> hc_queue (hc_of x) \<noteq> [])"
  unfolding ssl.session_ok_def by (simp add: has_request_def no_empty_read_def hc_of_def)

lemma timerEvent_sapi: "ssl_api M H x (https_handleTimerEvent M (Some Hb) x)"
proof (cases rule: timerEvent_cases[of M x])
  case fault
  thus ?thesis by (auto intro: client_sapi simp: https_fault_def)
next
  case abort
  thus ?thesis using ssl_api.sapi_disconnect[OF client_sapi[OF refl], where c = "fst x" and v = "snd x"] by simp
next
  case idle
  thus ?thesis using https_ctl_effect[OF idle_ctl[of x]] by (metis client_sapi)
next
  case (start sv p)
  thus ?thesis using ssl_api.sapi_connect[OF client_sapi[OF refl], where c = "fst x" and v = "snd x"] by simp
qed (auto intro: client_sapi)

lemma https_ctl_session: "https_ctl x y \<Longrightarrow> ssl.session_ok x \<Longrightarrow> ssl.session_ok y"
  using https_ctl_effect[of x y] by (auto simp: session_iff)

lemma timerEvent_session:
  assumes "ssl.session_ok x"
  shows "ssl.session_ok (https_handleTimerEvent M (Some Hb) x)"
proof (cases rule: timerEvent_cases[of M x])
  case idle
  thus ?thesis using https_ctl_session[OF idle_ctl] assms by simp
qed (use assms in \<open>auto simp: session_iff hc_of_def\<close>)

theorem reach_sound:
  "https_reach n M Hb x \<Longrightarrow> ssl_reach n M (Some (https_handler M (Some Hb))) x \<and> ssl.session_ok x"
proof (induction rule: https_reach.induct)
  case (hreach_init m b)
  have "ssl.session_ok ((tcp_init, ssl_init m), (https_init, b))"
    by (simp add: session_iff hc_of_def ssl_init_def https_init_def)
  thus ?case using ssl_reach.sreach_init[of n M "Some (https_handler M (Some Hb))" m "(https_init, b)"] by simp
next
  case (hreach_call x y)
  have "ssl_api M (Some (https_handler M (Some Hb))) x y"
    using https_ctl_effect[OF hreach_call(2)] by (auto intro: client_sapi)
  thus ?case using hreach_call https_ctl_session by (auto intro: ssl_reach.sreach_call)
next
  case (hreach_complete x r)
  thus ?case using ssl.ssl_reach_inv[of n M x] by (auto intro: ssl_reach.sreach_complete ssl.complete_session)
next
  case (hreach_write x)
  thus ?case by (auto intro: ssl_reach.sreach_timer ssl.timer_session)
next
  case (hreach_timer x)
  let ?y = "hc_upd (\<lambda>h. h\<lparr>hc_timers := hc_timers h - 1\<rparr>) x"
  have "ssl_api M (Some (https_handler M (Some Hb))) x ?y" by (rule client_sapi) simp
  hence "ssl_reach n M (Some (https_handler M (Some Hb))) ?y" using hreach_timer by (blast intro: ssl_reach.sreach_call)
  moreover have "ssl.session_ok ?y" using hreach_timer.IH
    by (simp add: session_iff)
  ultimately show ?case unfolding https_timer_def
    by (blast intro: ssl_reach.sreach_call timerEvent_sapi timerEvent_session)
qed

text \<open>The deque of requests is never read or popped when empty, and every session has its request.\<close>

theorem reach_queue:
  assumes "https_reach n M Hb x"
  shows "tcp_inv (fst (fst x)) \<and> ssl_inv (fst x) \<and> hc_fault (hc_of x) \<noteq> Some EmptyDeque \<and>
    (ss_status (snd (fst x)) \<noteq> SDisconnected \<longrightarrow> hc_queue (hc_of x) \<noteq> [])"
  using reach_sound[OF assms] ssl.ssl_reach_inv[of n M x]
  by (auto simp: session_iff)

end

end
