(* ===== verification/TgTypes.thy ===== *)
theory TgTypes
  imports Prelude
begin

text \<open>
  The Telegram objects of \<open>src/tgbot/types\<close>: one record per class, in the order the parser
  needs them, with the class's fields in the class's order. A \<open>shared\_ptr\<close> is an option
  (\<open>None\<close> is the null pointer), a vector of pointers a list of options, a \<open>float\<close> a value of
  the type parameter. \<open>Message\<close> refers to itself, so it is a datatype with named fields;
  the class hierarchies below \<open>GenericReply\<close>, \<open>InputMessageContent\<close> and
  \<open>InlineQueryResult\<close> are datatypes with one constructor per subclass.
\<close>

text \<open>\<open>Chat::Type\<close>; the field holds \<open>None\<close> while no assignment has reached it.\<close>

datatype chat_type = Private | Group | Supergroup | Channel

record tg_user =
  usr_id :: "int64"
  usr_firstName :: "string"
  usr_lastName :: "string"
  usr_username :: "string"

record chat =
  chat_id :: "int64"
  chat_type :: "chat_type option"
  chat_title :: "string"
  chat_username :: "string"
  chat_firstName :: "string"
  chat_lastName :: "string"
  chat_allMembersAreAdministrators :: "bool"

record message_entity =
  ent_type :: "string"
  ent_offset :: "int32"
  ent_length :: "int32"
  ent_url :: "string"
  ent_user :: "tg_user option"

record photo_size =
  ps_fileId :: "string"
  ps_width :: "int32"
  ps_height :: "int32"
  ps_fileSize :: "int32"

record audio =
  aud_fileId :: "string"
  aud_duration :: "int32"
  aud_performer :: "string"
  aud_title :: "string"
  aud_mimeType :: "string"
  aud_fileSize :: "int32"

record document =
  doc_fileId :: "string"
  doc_thumb :: "photo_size option"
  doc_fileName :: "string"
  doc_mimeType :: "string"
  doc_fileSize :: "int32"

record sticker =
  stk_fileId :: "string"
  stk_width :: "int32"
  stk_height :: "int32"
  stk_thumb :: "photo_size option"
  stk_emoji :: "string"
  stk_fileSize :: "int32"

record video =
  vid_fileId :: "string"
  vid_width :: "int32"
  vid_height :: "int32"
  vid_duration :: "int32"
  vid_thumb :: "photo_size option"
  vid_mimeType :: "string"
  vid_fileSize :: "int32"

record voice =
  voice_file_id :: "string"
  voice_duration :: "int32"
  voice_mime_type :: "string"
  voice_file_size :: "int32"

record contact =
  con_phoneNumber :: "string"
  con_firstName :: "string"
  con_lastName :: "string"
  con_userId :: "string"

record 'f location =
  loc_longitude :: "'f"
  loc_latitude :: "'f"

record 'f venue =
  ven_location :: "'f location option"
  ven_title :: "string"
  ven_address :: "string"
  ven_foursquare_id :: "string"

datatype 'f message = Message
  (msg_messageId: "int32")
  (msg_from: "tg_user option")
  (msg_date: "int32")
  (msg_chat: "chat option")
  (msg_forwardFrom: "tg_user option")
  (msg_forwardFromChat: "chat option")
  (msg_forwardFromMessageId: "int32")
  (msg_forwardDate: "int32")
  (msg_replyToMessage: "'f message option")
  (msg_editDate: "int32")
  (msg_text: "string")
  (msg_entities: "message_entity option list")
  (msg_audio: "audio option")
  (msg_document: "document option")
  (msg_photo: "photo_size option list")
  (msg_sticker: "sticker option")
  (msg_video: "video option")
  (msg_voice: "voice option")
  (msg_caption: "string")
  (msg_contact: "contact option")
  (msg_location: "'f location option")
  (msg_venue: "'f venue option")
  (msg_newChatMember: "tg_user option")
  (msg_leftChatMember: "tg_user option")
  (msg_newChatTitle: "string")
  (msg_newChatPhoto: "photo_size option list")
  (msg_deleteChatPhoto: "bool")
  (msg_groupChatCreated: "bool")
  (msg_supergroupChatCreated: "bool")
  (msg_channelChatCreated: "bool")
  (msg_migrateToChatId: "int64")
  (msg_migrateFromChatId: "int64")
  (msg_pinnedMessage: "'f message option")

record tg_file =
  file_fileId :: "string"
  file_fileSize :: "int32"
  file_filePath :: "string"

record user_profile_photos =
  upp_totalCount :: "int32"
  upp_photos :: "photo_size option list list"

record keyboard_button =
  kb_text :: "string"
  kb_requestContact :: "bool"
  kb_requestLocation :: "bool"

record reply_keyboard_markup =
  rkm_keyboard :: "keyboard_button option list list"
  rkm_resizeKeyboard :: "bool"
  rkm_oneTimeKeyboard :: "bool"
  rkm_selective :: "bool"

text \<open>\<open>removeKeyboard\<close> and \<open>forceReply\<close> are constants of the class, true in every object.\<close>

record reply_keyboard_remove =
  rkr_selective :: "bool"

record force_reply =
  fr_selective :: "bool"

record chat_member =
  cm_user :: "tg_user option"
  cm_status :: "string"

record response_parameters =
  rp_migrateToChatId :: "int32"
  rp_retryAfter :: "int32"

record inline_keyboard_button =
  ikb_text :: "string"
  ikb_url :: "string"
  ikb_callbackData :: "string"
  ikb_switchInlineQuery :: "string"
  ikb_switchInlineQueryCurrentChat :: "string"

record inline_keyboard_markup =
  ikm_inlineKeyboard :: "inline_keyboard_button option list list"

record 'f inline_query =
  iq_id :: "string"
  iq_from :: "tg_user option"
  iq_location :: "'f location option"
  iq_query :: "string"
  iq_offset :: "string"

record 'f chosen_inline_result =
  cir_resultId :: "string"
  cir_from :: "tg_user option"
  cir_location :: "'f location option"
  cir_inlineMessageId :: "string"
  cir_query :: "string"

record 'f callback_query =
  cbq_id :: "string"
  cbq_from :: "tg_user option"
  cbq_message :: "'f message option"
  cbq_inlineMessageId :: "string"
  cbq_chatInstance :: "string"
  cbq_data :: "string"
  cbq_gameShortName :: "string"

record 'f update =
  upd_updateId :: "int32"
  upd_message :: "'f message option"
  upd_editedMessage :: "'f message option"
  upd_channelPost :: "'f message option"
  upd_editedChannelPost :: "'f message option"
  upd_inlineQuery :: "'f inline_query option"
  upd_chosenInlineResult :: "'f chosen_inline_result option"
  upd_callbackQuery :: "'f callback_query option"

record webhook_info =
  whi_url :: "string"
  whi_hasCustomCertificate :: "bool"
  whi_pendingUpdateCount :: "int32"
  whi_lastErrorDate :: "int32"
  whi_lastErrorMessage :: "string"
  whi_maxConnections :: "int32"
  whi_allowedUpdates :: "string list"

record input_file =
  inf_data :: "string"
  inf_mimeType :: "string"
  inf_fileName :: "string"

text \<open>The dynamic class behind a \<open>GenericReply::Ptr\<close>.\<close>

datatype generic_reply =
    PlainReply
  | IsForceReply force_reply
  | IsReplyKeyboardRemove reply_keyboard_remove
  | IsReplyKeyboardMarkup reply_keyboard_markup
  | IsInlineKeyboardMarkup inline_keyboard_markup

record input_text_message_content =
  itm_messageText :: "string"
  itm_parseMode :: "string"
  itm_disableWebPagePreview :: "bool"

record 'f input_location_message_content =
  ilm_latitude :: "'f"
  ilm_longitude :: "'f"

record 'f input_venue_message_content =
  ivm_latitude :: "'f"
  ivm_longitude :: "'f"
  ivm_title :: "string"
  ivm_address :: "string"
  ivm_foursquareId :: "string"

record input_contact_message_content =
  icm_phoneNumber :: "string"
  icm_firstName :: "string"
  icm_lastName :: "string"

text \<open>The base field \<open>type\<close> is set by each subclass's constructor and never reassigned.\<close>

datatype 'f input_message_content =
    IsInputText input_text_message_content
  | IsInputLocation "'f input_location_message_content"
  | IsInputVenue "'f input_venue_message_content"
  | IsInputContact input_contact_message_content

record inline_query_result_cached_audio =
  rca_audioFileId :: "string"

record inline_query_result_cached_document =
  rcd_documentFileId :: "string"
  rcd_description :: "string"

record inline_query_result_cached_gif =
  rcg_gifFileId :: "string"

record inline_query_result_cached_mpeg4_gif =
  rcm_mpeg4FileId :: "string"

record inline_query_result_cached_photo =
  rcp_photoFileId :: "string"
  rcp_description :: "string"

record inline_query_result_cached_sticker =
  rcs_stickerFileId :: "string"

record inline_query_result_cached_video =
  rcv_videoFileId :: "string"
  rcv_description :: "string"

record inline_query_result_cached_voice =
  rco_voiceFileId :: "string"

record inline_query_result_article =
  rar_url :: "string"
  rar_hideUrl :: "bool"
  rar_description :: "string"
  rar_thumbUrl :: "string"
  rar_thumbWidth :: "int32"
  rar_thumbHeight :: "int32"

record inline_query_result_audio =
  rau_audioUrl :: "string"
  rau_performer :: "string"
  rau_audioDuration :: "int32"

record inline_query_result_contact =
  rct_phoneNumber :: "string"
  rct_firstName :: "string"
  rct_lastName :: "string"
  rct_thumbUrl :: "string"
  rct_thumbWidth :: "int32"
  rct_thumbHeight :: "int32"

record inline_query_result_game =
  rga_gameShortName :: "string"

record inline_query_result_document =
  rdo_documentUrl :: "string"
  rdo_mimeType :: "string"
  rdo_description :: "string"
  rdo_thumbUrl :: "string"
  rdo_thumbWidth :: "int32"
  rdo_thumbHeight :: "int32"

record 'f inline_query_result_location =
  rlo_latitude :: "'f"
  rlo_longitude :: "'f"
  rlo_thumbUrl :: "string"
  rlo_thumbWidth :: "int32"
  rlo_thumbHeight :: "int32"

record 'f inline_query_result_venue =
  rve_latitude :: "'f"
  rve_longitude :: "'f"
  rve_address :: "string"
  rve_foursquareId :: "string"
  rve_thumbUrl :: "string"
  rve_thumbWidth :: "int32"
  rve_thumbHeight :: "int32"

record inline_query_result_voice =
  rvo_voiceUrl :: "string"
  rvo_voiceDuration :: "int32"

record inline_query_result_photo =
  rph_photoUrl :: "string"
  rph_thumbUrl :: "string"
  rph_photoWidth :: "int32"
  rph_photoHeight :: "int32"
  rph_description :: "string"

record inline_query_result_gif =
  rgi_gifUrl :: "string"
  rgi_gifWidth :: "int32"
  rgi_gifHeight :: "int32"
  rgi_thumbUrl :: "string"

record inline_query_result_mpeg4_gif =
  rmp_mpeg4Url :: "string"
  rmp_mpeg4Width :: "int32"
  rmp_mpeg4Height :: "int32"
  rmp_thumbUrl :: "string"

record inline_query_result_video =
  rvi_videoUrl :: "string"
  rvi_mimeType :: "string"
  rvi_thumbUrl :: "string"
  rvi_videoWidth :: "int32"
  rvi_videoHeight :: "int32"
  rvi_videoDuration :: "int32"
  rvi_description :: "string"

datatype 'f iqr_payload =
    PlainResult
  | IsCachedAudio "inline_query_result_cached_audio"
  | IsCachedDocument "inline_query_result_cached_document"
  | IsCachedGif "inline_query_result_cached_gif"
  | IsCachedMpeg4Gif "inline_query_result_cached_mpeg4_gif"
  | IsCachedPhoto "inline_query_result_cached_photo"
  | IsCachedSticker "inline_query_result_cached_sticker"
  | IsCachedVideo "inline_query_result_cached_video"
  | IsCachedVoice "inline_query_result_cached_voice"
  | IsArticle "inline_query_result_article"
  | IsAudio "inline_query_result_audio"
  | IsContact "inline_query_result_contact"
  | IsGame "inline_query_result_game"
  | IsDocument "inline_query_result_document"
  | IsLocation "'f inline_query_result_location"
  | IsVenue "'f inline_query_result_venue"
  | IsVoice "inline_query_result_voice"
  | IsPhoto "inline_query_result_photo"
  | IsGif "inline_query_result_gif"
  | IsMpeg4Gif "inline_query_result_mpeg4_gif"
  | IsVideo "inline_query_result_video"

record 'f inline_query_result =
  iqr_type :: "string"
  iqr_id :: "string"
  iqr_title :: "string"
  iqr_caption :: "string"
  iqr_replyMarkup :: "inline_keyboard_markup option"
  iqr_inputMessageContent :: "'f input_message_content option"
  iqr_derived :: "'f iqr_payload"

text \<open>The \<open>TYPE\<close> constants of \<open>InlineQueryResult.cpp\<close>, which the constructors store in \<open>type\<close>.\<close>

fun payload_TYPE :: "'f iqr_payload \<Rightarrow> string" where
  "payload_TYPE PlainResult = []"
| "payload_TYPE (IsCachedAudio _) = ''cached_audio''"
| "payload_TYPE (IsCachedDocument _) = ''cached_document''"
| "payload_TYPE (IsCachedGif _) = ''cached_gif''"
| "payload_TYPE (IsCachedMpeg4Gif _) = ''cached_mpeg4gif''"
| "payload_TYPE (IsCachedPhoto _) = ''cached_photo''"
| "payload_TYPE (IsCachedSticker _) = ''cached_sticker''"
| "payload_TYPE (IsCachedVideo _) = ''cached_video''"
| "payload_TYPE (IsCachedVoice _) = ''cached_voice''"
| "payload_TYPE (IsArticle _) = ''article''"
| "payload_TYPE (IsAudio _) = ''audio''"
| "payload_TYPE (IsContact _) = ''contact''"
| "payload_TYPE (IsGame _) = ''game''"
| "payload_TYPE (IsDocument _) = ''document''"
| "payload_TYPE (IsLocation _) = ''location''"
| "payload_TYPE (IsVenue _) = ''venue''"
| "payload_TYPE (IsVoice _) = ''voice''"
| "payload_TYPE (IsPhoto _) = ''photo''"
| "payload_TYPE (IsGif _) = ''gif''"
| "payload_TYPE (IsMpeg4Gif _) = ''mpeg4_gif''"
| "payload_TYPE (IsVideo _) = ''video''"

end
