(* ===== verification/Ptree.thy ===== *)
theory Ptree
  imports Prelude
begin

text \<open>
  The property tree the program reads its configuration and the decoded JSON from. Boost
  documents the structure as a node with a data string and an ordered list of keyed
  children; \<open>find\<close> returns a child with the key, \<open>get\<close> walks a path separated by dots
  and converts the data of the node it reaches. The conversions to numbers and booleans are
  the stream translators of the library record.
\<close>

datatype ptree = PT (pt_data: string) (pt_kids: "(string \<times> ptree) list")

text \<open>\<open>ptree\_bad\_path\<close>, \<open>ptree\_bad\_data\<close>, and reading through \<open>find\<close>'s end iterator.\<close>

datatype perror = BadPath string | BadData string | DerefEnd string | BadCast

definition pt_find :: "ptree \<Rightarrow> string \<Rightarrow> ptree option" where
  "pt_find t k = map_of (pt_kids t) k"

definition pt_has :: "ptree \<Rightarrow> string \<Rightarrow> bool" where
  "pt_has t k \<longleftrightarrow> pt_find t k \<noteq> None"

text \<open>\<open>ptree::empty()\<close>: no children.\<close>

definition pt_empty :: "ptree \<Rightarrow> bool" where
  "pt_empty t \<longleftrightarrow> pt_kids t = []"

fun walk_path :: "ptree \<Rightarrow> string list \<Rightarrow> ptree option" where
  "walk_path t [] = Some t"
| "walk_path t (k # ks) = (case pt_find t k of None \<Rightarrow> None | Some c \<Rightarrow> walk_path c ks)"

text \<open>The parts of a path; a separator at its end begins no further part.\<close>

definition path_parts :: "string \<Rightarrow> string list" where
  "path_parts path = (let ps = split_off ''.'' path in if last ps = [] then butlast ps else ps)"

definition get_child :: "ptree \<Rightarrow> string \<Rightarrow> ptree option" where
  "get_child t path = walk_path t (path_parts path)"

text \<open>\<open>get<T>(path)\<close> throws; \<open>get(path, default)\<close> falls back on a missing node or a failed conversion.\<close>

definition get_conv :: "(string \<Rightarrow> 'a option) \<Rightarrow> ptree \<Rightarrow> string \<Rightarrow> perror + 'a" where
  "get_conv tr t k =
     (case get_child t k of
        None \<Rightarrow> Inl (BadPath k)
      | Some c \<Rightarrow> (case tr (pt_data c) of None \<Rightarrow> Inl (BadData k) | Some x \<Rightarrow> Inr x))"

definition get_conv_d :: "(string \<Rightarrow> 'a option) \<Rightarrow> ptree \<Rightarrow> string \<Rightarrow> 'a \<Rightarrow> 'a" where
  "get_conv_d tr t k d =
     (case get_child t k of
        None \<Rightarrow> d
      | Some c \<Rightarrow> (case tr (pt_data c) of None \<Rightarrow> d | Some x \<Rightarrow> x))"

abbreviation get_str :: "ptree \<Rightarrow> string \<Rightarrow> perror + string" where
  "get_str \<equiv> get_conv Some"
abbreviation get_str_d :: "ptree \<Rightarrow> string \<Rightarrow> string \<Rightarrow> string" where
  "get_str_d \<equiv> get_conv_d Some"
abbreviation get_int32 :: "('d, 'f) lib \<Rightarrow> ptree \<Rightarrow> string \<Rightarrow> perror + int32" where
  "get_int32 L \<equiv> get_conv (tr_int32 L)"
abbreviation get_int32_d :: "('d, 'f) lib \<Rightarrow> ptree \<Rightarrow> string \<Rightarrow> int32 \<Rightarrow> int32" where
  "get_int32_d L \<equiv> get_conv_d (tr_int32 L)"
abbreviation get_int64 :: "('d, 'f) lib \<Rightarrow> ptree \<Rightarrow> string \<Rightarrow> perror + int64" where
  "get_int64 L \<equiv> get_conv (tr_int64 L)"
abbreviation get_int64_d :: "('d, 'f) lib \<Rightarrow> ptree \<Rightarrow> string \<Rightarrow> int64 \<Rightarrow> int64" where
  "get_int64_d L \<equiv> get_conv_d (tr_int64 L)"
abbreviation get_bool :: "('d, 'f) lib \<Rightarrow> ptree \<Rightarrow> string \<Rightarrow> perror + bool" where
  "get_bool L \<equiv> get_conv (tr_bool L)"
abbreviation get_bool_d :: "('d, 'f) lib \<Rightarrow> ptree \<Rightarrow> string \<Rightarrow> bool \<Rightarrow> bool" where
  "get_bool_d L \<equiv> get_conv_d (tr_bool L)"
abbreviation get_float :: "('d, 'f) lib \<Rightarrow> ptree \<Rightarrow> string \<Rightarrow> perror + 'f" where
  "get_float L \<equiv> get_conv (tr_float L)"
abbreviation get_float_d :: "('d, 'f) lib \<Rightarrow> ptree \<Rightarrow> string \<Rightarrow> 'f \<Rightarrow> 'f" where
  "get_float_d L \<equiv> get_conv_d (tr_float L)"

lemma pt_find_smaller: "pt_find t k = Some c \<Longrightarrow> size c < size t"
proof -
  assume "pt_find t k = Some c"
  then have "(k, c) \<in> set (pt_kids t)" by (auto simp: pt_find_def dest: map_of_SomeD)
  moreover obtain d ks where "t = PT d ks" by (cases t)
  moreover have "(k, c) \<in> set ks \<Longrightarrow> size c < Suc (size_list (size_prod (\<lambda>_. 0) size) ks)" for ks :: "(string \<times> ptree) list"
    by (induction ks) auto
  ultimately show ?thesis by fastforce
qed

lemma last_split_off: "last (split_off [c] s) = [] \<longleftrightarrow> s = [] \<or> last s = c"
proof (induction s)
  case (Cons a s)
  obtain w ws where "split_off [c] s = w # ws" by (cases "split_off [c] s") auto
  thus ?case using Cons.IH join_split_off[of c s] by (cases ws) auto
qed simp

lemma path_parts_full: "key \<noteq> [] \<Longrightarrow> last key \<noteq> CHR ''.'' \<Longrightarrow> path_parts key = split_off ''.'' key"
  by (simp add: path_parts_def last_split_off)

lemma get_child_plain: "k \<noteq> [] \<Longrightarrow> CHR ''.'' \<notin> set k \<Longrightarrow> get_child t k = pt_find t k"
proof -
  assume k: "k \<noteq> []" "CHR ''.'' \<notin> set k"
  hence "path_parts k = [k]" by (simp add: path_parts_def split_off_single)
  thus ?thesis by (simp add: get_child_def split: option.splits)
qed

lemma get_conv_Inr: "get_conv tr t k = Inr x \<longleftrightarrow> (\<exists>c. get_child t k = Some c \<and> tr (pt_data c) = Some x)"
  by (auto simp: get_conv_def split: option.splits)

lemma get_conv_Inl:
  "get_conv tr t k = Inl e \<longleftrightarrow>
     (get_child t k = None \<and> e = BadPath k) \<or>
     (\<exists>c. get_child t k = Some c \<and> tr (pt_data c) = None \<and> e = BadData k)"
  by (auto simp: get_conv_def split: option.splits)

end
