(* ===== verification/TgReader.thy ===== *)
theory TgReader
  imports TgTypes Ptree
begin

text \<open>
  \<open>TgTypeParser\<close>'s reading half: from the property tree of a JSON text to the Telegram
  objects, one definition per \<open>parseJsonAndGet...\<close> member, with the required and the optional
  fields in the code's order, so that the error returned is the first exception the code
  throws. A reader returns the object behind the non-null pointer the code returns.
\<close>

section \<open>The generic members\<close>

definition tryParseJson :: "(ptree \<Rightarrow> perror + 'a) \<Rightarrow> ptree \<Rightarrow> string \<Rightarrow> perror + 'a option" where
  "tryParseJson f t k =
     (case pt_find t k of None \<Rightarrow> Inr None | Some c \<Rightarrow> bindE (f c) (\<lambda>x. Inr (Some x)))"

definition parseJsonAndGetArray :: "(ptree \<Rightarrow> perror + 'a) \<Rightarrow> ptree \<Rightarrow> perror + 'a option list" where
  "parseJsonAndGetArray f t = mapE (\<lambda>kv. bindE (f (snd kv)) (\<lambda>x. Inr (Some x))) (pt_kids t)"

definition parseJsonAndGetArrayAt :: "(ptree \<Rightarrow> perror + 'a) \<Rightarrow> ptree \<Rightarrow> string \<Rightarrow> perror + 'a option list" where
  "parseJsonAndGetArrayAt f t k =
     (case pt_find t k of
        None \<Rightarrow> Inr []
      | Some c \<Rightarrow> mapE (\<lambda>kv. bindE (f (snd kv)) (\<lambda>x. Inr (Some x))) (pt_kids c))"

definition parseJsonAndGetArrayFn :: "(ptree \<Rightarrow> perror + 'a) \<Rightarrow> ptree \<Rightarrow> string \<Rightarrow> perror + 'a list" where
  "parseJsonAndGetArrayFn f t k =
     (case pt_find t k of None \<Rightarrow> Inr [] | Some c \<Rightarrow> mapE (\<lambda>kv. f (snd kv)) (pt_kids c))"

definition parseJsonAndGet2DArray :: "(ptree \<Rightarrow> perror + 'a) \<Rightarrow> ptree \<Rightarrow> string \<Rightarrow> perror + 'a option list list" where
  "parseJsonAndGet2DArray f t k =
     (case pt_find t k of
        None \<Rightarrow> Inr []
      | Some c \<Rightarrow> mapE (\<lambda>kv. mapE (\<lambda>kw. bindE (f (snd kw)) (\<lambda>x. Inr (Some x))) (pt_kids (snd kv))) (pt_kids c))"

lemma tryParseJson_cong [fundef_cong]:
  "t = t' \<Longrightarrow> k = k' \<Longrightarrow> (\<And>c. pt_find t' k' = Some c \<Longrightarrow> f c = g c) \<Longrightarrow>
   tryParseJson f t k = tryParseJson g t' k'"
  by (auto simp: tryParseJson_def split: option.splits)

section \<open>One reader per object\<close>

definition parseJsonAndGetChat :: "('d, 'f) lib \<Rightarrow> ptree \<Rightarrow> perror + chat" where
  "parseJsonAndGetChat L t =
     bindE (get_int64 L t ''id'') (\<lambda>id'.
     bindE (get_str t ''type'') (\<lambda>ty.
     Inr \<lparr>chat_id = id',
       chat_type =
         (if ty = ''private'' then Some Private
          else if ty = ''group'' then Some Group
          else if ty = ''supergroup'' then Some Supergroup
          else if ty = ''channel'' then Some Channel
          else None),
       chat_title = get_str_d t ''title'' [],
       chat_username = get_str_d t ''username'' [],
       chat_firstName = get_str_d t ''first_name'' [],
       chat_lastName = get_str_d t ''last_name'' [],
       chat_allMembersAreAdministrators = get_bool_d L t ''all_members_are_administrators'' False\<rparr>))"

definition parseJsonAndGetUser :: "('d, 'f) lib \<Rightarrow> ptree \<Rightarrow> perror + tg_user" where
  "parseJsonAndGetUser L t =
     bindE (get_int64 L t ''id'') (\<lambda>id'.
     bindE (get_str t ''first_name'') (\<lambda>firstName.
     Inr \<lparr>usr_id = id',
       usr_firstName = firstName,
       usr_lastName = get_str_d t ''last_name'' [],
       usr_username = get_str_d t ''username'' []\<rparr>))"

definition parseJsonAndGetEntity :: "('d, 'f) lib \<Rightarrow> ptree \<Rightarrow> perror + message_entity" where
  "parseJsonAndGetEntity L t =
     bindE (get_str t ''type'') (\<lambda>type'.
     bindE (get_int32 L t ''offset'') (\<lambda>offset.
     bindE (get_int32 L t ''length'') (\<lambda>length'.
     bindE (tryParseJson (parseJsonAndGetUser L) t ''user'') (\<lambda>user'.
     Inr \<lparr>ent_type = type',
       ent_offset = offset,
       ent_length = length',
       ent_url = get_str_d t ''url'' [],
       ent_user = user'\<rparr>))))"

definition parseJsonAndGetPhotoSize :: "('d, 'f) lib \<Rightarrow> ptree \<Rightarrow> perror + photo_size" where
  "parseJsonAndGetPhotoSize L t =
     bindE (get_str t ''file_id'') (\<lambda>fileId.
     bindE (get_int32 L t ''width'') (\<lambda>width.
     bindE (get_int32 L t ''height'') (\<lambda>height.
     Inr \<lparr>ps_fileId = fileId,
       ps_width = width,
       ps_height = height,
       ps_fileSize = get_int32_d L t ''file_size'' 0\<rparr>)))"

definition parseJsonAndGetAudio :: "('d, 'f) lib \<Rightarrow> ptree \<Rightarrow> perror + audio" where
  "parseJsonAndGetAudio L t =
     bindE (get_str t ''file_id'') (\<lambda>fileId.
     bindE (get_int32 L t ''duration'') (\<lambda>duration.
     Inr \<lparr>aud_fileId = fileId,
       aud_duration = duration,
       aud_performer = get_str_d t ''performer'' [],
       aud_title = get_str_d t ''title'' [],
       aud_mimeType = get_str_d t ''mime_type'' [],
       aud_fileSize = get_int32_d L t ''file_size'' 0\<rparr>))"

definition parseJsonAndGetDocument :: "('d, 'f) lib \<Rightarrow> ptree \<Rightarrow> perror + document" where
  "parseJsonAndGetDocument L t =
     bindE (get_str t ''file_id'') (\<lambda>fileId.
     bindE (tryParseJson (parseJsonAndGetPhotoSize L) t ''thumb'') (\<lambda>thumb.
     Inr \<lparr>doc_fileId = fileId,
       doc_thumb = thumb,
       doc_fileName = get_str_d t ''file_name'' [],
       doc_mimeType = get_str_d t ''mime_type'' [],
       doc_fileSize = get_int32_d L t ''file_size'' 0\<rparr>))"

definition parseJsonAndGetSticker :: "('d, 'f) lib \<Rightarrow> ptree \<Rightarrow> perror + sticker" where
  "parseJsonAndGetSticker L t =
     bindE (get_str t ''file_id'') (\<lambda>fileId.
     bindE (get_int32 L t ''width'') (\<lambda>width.
     bindE (get_int32 L t ''height'') (\<lambda>height.
     bindE (tryParseJson (parseJsonAndGetPhotoSize L) t ''thumb'') (\<lambda>thumb.
     bindE (get_str t ''emoji'') (\<lambda>emoji.
     Inr \<lparr>stk_fileId = fileId,
       stk_width = width,
       stk_height = height,
       stk_thumb = thumb,
       stk_emoji = emoji,
       stk_fileSize = get_int32_d L t ''file_size'' 0\<rparr>)))))"

definition parseJsonAndGetVideo :: "('d, 'f) lib \<Rightarrow> ptree \<Rightarrow> perror + video" where
  "parseJsonAndGetVideo L t =
     bindE (get_str t ''file_id'') (\<lambda>fileId.
     bindE (get_int32 L t ''width'') (\<lambda>width.
     bindE (get_int32 L t ''height'') (\<lambda>height.
     bindE (get_int32 L t ''duration'') (\<lambda>duration.
     bindE (tryParseJson (parseJsonAndGetPhotoSize L) t ''thumb'') (\<lambda>thumb.
     Inr \<lparr>vid_fileId = fileId,
       vid_width = width,
       vid_height = height,
       vid_duration = duration,
       vid_thumb = thumb,
       vid_mimeType = get_str_d t ''mime_type'' [],
       vid_fileSize = get_int32_d L t ''file_size'' 0\<rparr>)))))"

definition parseJsonAndGetContact :: "('d, 'f) lib \<Rightarrow> ptree \<Rightarrow> perror + contact" where
  "parseJsonAndGetContact L t =
     bindE (get_str t ''phone_number'') (\<lambda>phoneNumber.
     bindE (get_str t ''first_name'') (\<lambda>firstName.
     Inr \<lparr>con_phoneNumber = phoneNumber,
       con_firstName = firstName,
       con_lastName = get_str_d t ''last_name'' [],
       con_userId = get_str_d t ''user_id'' []\<rparr>))"

definition parseJsonAndGetLocation :: "('d, 'f) lib \<Rightarrow> ptree \<Rightarrow> perror + 'f location" where
  "parseJsonAndGetLocation L t =
     Inr \<lparr>loc_longitude = get_float_d L t ''longitude'' (f_zero L),
       loc_latitude = get_float_d L t ''latitude'' (f_zero L)\<rparr>"

text \<open>
  \<open>result->caption = data.get("caption", false)\<close> assigns a \<open>bool\<close> to a string: the overload
  is \<open>operator=(char)\<close>, so the caption becomes the one character with code 0 or 1.
\<close>

definition char_of_bool :: "bool \<Rightarrow> char" where
  "char_of_bool b = char_of (of_bool b :: nat)"

text \<open>
  \<open>data.find("chat")->second\<close> is read without a test; a message without a chat reads through
  the end iterator. \<open>voice\<close>, \<open>venue\<close> and \<open>pinnedMessage\<close> keep their null defaults.
\<close>

function parseJsonAndGetMessage :: "('d, 'f) lib \<Rightarrow> ptree \<Rightarrow> perror + 'f message" where
  "parseJsonAndGetMessage L t =
     bindE (get_int32 L t ''message_id'') (\<lambda>messageId'.
     bindE (tryParseJson (parseJsonAndGetUser L) t ''from'') (\<lambda>from'.
     bindE (get_int32 L t ''date'') (\<lambda>date'.
     bindE (case pt_find t ''chat'' of None \<Rightarrow> Inl (DerefEnd ''chat'') | Some c \<Rightarrow> parseJsonAndGetChat L c) (\<lambda>cht.
     bindE (tryParseJson (parseJsonAndGetUser L) t ''forward_from'') (\<lambda>forwardFrom'.
     bindE (tryParseJson (parseJsonAndGetChat L) t ''forward_from_chat'') (\<lambda>forwardFromChat'.
     bindE (tryParseJson (parseJsonAndGetMessage L) t ''reply_to_message'') (\<lambda>replyToMessage'.
     bindE (parseJsonAndGetArrayAt (parseJsonAndGetEntity L) t ''entities'') (\<lambda>entities'.
     bindE (tryParseJson (parseJsonAndGetAudio L) t ''audio'') (\<lambda>audio'.
     bindE (tryParseJson (parseJsonAndGetDocument L) t ''document'') (\<lambda>document'.
     bindE (parseJsonAndGetArrayAt (parseJsonAndGetPhotoSize L) t ''photo'') (\<lambda>photo'.
     bindE (tryParseJson (parseJsonAndGetSticker L) t ''sticker'') (\<lambda>sticker'.
     bindE (tryParseJson (parseJsonAndGetVideo L) t ''video'') (\<lambda>video'.
     bindE (tryParseJson (parseJsonAndGetContact L) t ''contact'') (\<lambda>contact'.
     bindE (tryParseJson (parseJsonAndGetLocation L) t ''location'') (\<lambda>location'.
     bindE (tryParseJson (parseJsonAndGetUser L) t ''new_chat_participant'') (\<lambda>newChatMember'.
     bindE (tryParseJson (parseJsonAndGetUser L) t ''left_chat_participant'') (\<lambda>leftChatMember'.
     bindE (parseJsonAndGetArrayAt (parseJsonAndGetPhotoSize L) t ''new_chat_photo'') (\<lambda>newChatPhoto'.
     Inr (Message messageId'
       from'
       date'
       (Some cht)
       forwardFrom'
       forwardFromChat'
       (get_int32_d L t ''forward_from_message_id'' 0)
       (get_int32_d L t ''forward_date'' 0)
       replyToMessage'
       (get_int32_d L t ''edit_date'' 0)
       (get_str_d t ''text'' [])
       entities'
       audio'
       document'
       photo'
       sticker'
       video'
       None
       [char_of_bool (get_bool_d L t ''caption'' False)]
       contact'
       location'
       None
       newChatMember'
       leftChatMember'
       (get_str_d t ''new_chat_title'' [])
       newChatPhoto'
       (get_bool_d L t ''delete_chat_photo'' False)
       (get_bool_d L t ''group_chat_created'' False)
       (get_bool_d L t ''supergroup_chat_created'' False)
       (get_bool_d L t ''channel_chat_created'' False)
       (get_int64_d L t ''migrate_to_chat_id'' 0)
       (get_int64_d L t ''migrate_from_chat_id'' 0)
       None)))))))))))))))))))"
  by pat_completeness auto
termination
  by (relation "measure (\<lambda>(L, t). size t)") (auto dest: pt_find_smaller)

declare parseJsonAndGetMessage.simps [simp del]

definition parseJsonAndGetInlineQuery :: "('d, 'f) lib \<Rightarrow> ptree \<Rightarrow> perror + 'f inline_query" where
  "parseJsonAndGetInlineQuery L t =
     bindE (get_str t ''id'') (\<lambda>id'.
     bindE (tryParseJson (parseJsonAndGetUser L) t ''from'') (\<lambda>from'.
     bindE (tryParseJson (parseJsonAndGetLocation L) t ''location'') (\<lambda>location'.
     bindE (get_str t ''query'') (\<lambda>query.
     bindE (get_str t ''offset'') (\<lambda>offset.
     Inr \<lparr>iq_id = id',
       iq_from = from',
       iq_location = location',
       iq_query = query,
       iq_offset = offset\<rparr>)))))"

definition parseJsonAndGetChosenInlineResult :: "('d, 'f) lib \<Rightarrow> ptree \<Rightarrow> perror + 'f chosen_inline_result" where
  "parseJsonAndGetChosenInlineResult L t =
     bindE (get_str t ''result_id'') (\<lambda>resultId.
     bindE (tryParseJson (parseJsonAndGetUser L) t ''from'') (\<lambda>from'.
     bindE (tryParseJson (parseJsonAndGetLocation L) t ''location'') (\<lambda>location'.
     bindE (get_str t ''query'') (\<lambda>query.
     Inr \<lparr>cir_resultId = resultId,
       cir_from = from',
       cir_location = location',
       cir_inlineMessageId = get_str_d t ''inline_message_id'' [],
       cir_query = query\<rparr>))))"

definition parseJsonAndGetCallbackQuery :: "('d, 'f) lib \<Rightarrow> ptree \<Rightarrow> perror + 'f callback_query" where
  "parseJsonAndGetCallbackQuery L t =
     bindE (get_str t ''id'') (\<lambda>id'.
     bindE (tryParseJson (parseJsonAndGetUser L) t ''from'') (\<lambda>from'.
     bindE (tryParseJson (parseJsonAndGetMessage L) t ''message'') (\<lambda>message'.
     bindE (get_str t ''chat_instance'') (\<lambda>chatInstance.
     Inr \<lparr>cbq_id = id',
       cbq_from = from',
       cbq_message = message',
       cbq_inlineMessageId = get_str_d t ''inline_message_id'' [],
       cbq_chatInstance = chatInstance,
       cbq_data = get_str_d t ''data'' [],
       cbq_gameShortName = get_str_d t ''game_short_name'' []\<rparr>))))"

definition parseJsonAndGetUpdate :: "('d, 'f) lib \<Rightarrow> ptree \<Rightarrow> perror + 'f update" where
  "parseJsonAndGetUpdate L t =
     bindE (get_int32 L t ''update_id'') (\<lambda>updateId.
     bindE (tryParseJson (parseJsonAndGetMessage L) t ''message'') (\<lambda>message'.
     bindE (tryParseJson (parseJsonAndGetMessage L) t ''edited_message'') (\<lambda>editedMessage.
     bindE (tryParseJson (parseJsonAndGetMessage L) t ''channel_post'') (\<lambda>channelPost.
     bindE (tryParseJson (parseJsonAndGetMessage L) t ''edited_channel_post'') (\<lambda>editedChannelPost.
     bindE (tryParseJson (parseJsonAndGetInlineQuery L) t ''inline_query'') (\<lambda>inlineQuery.
     bindE (tryParseJson (parseJsonAndGetChosenInlineResult L) t ''chosen_inline_result'') (\<lambda>chosenInlineResult.
     bindE (tryParseJson (parseJsonAndGetCallbackQuery L) t ''callback_query'') (\<lambda>callbackQuery.
     Inr \<lparr>upd_updateId = updateId,
       upd_message = message',
       upd_editedMessage = editedMessage,
       upd_channelPost = channelPost,
       upd_editedChannelPost = editedChannelPost,
       upd_inlineQuery = inlineQuery,
       upd_chosenInlineResult = chosenInlineResult,
       upd_callbackQuery = callbackQuery\<rparr>))))))))"

definition parseJsonAndGetUserProfilePhotos :: "('d, 'f) lib \<Rightarrow> ptree \<Rightarrow> perror + user_profile_photos" where
  "parseJsonAndGetUserProfilePhotos L t =
     bindE (get_int32 L t ''total_count'') (\<lambda>totalCount.
     bindE (parseJsonAndGet2DArray (parseJsonAndGetPhotoSize L) t ''photos'') (\<lambda>photos.
     Inr \<lparr>upp_totalCount = totalCount,
       upp_photos = photos\<rparr>))"

definition parseJsonAndGetFile :: "('d, 'f) lib \<Rightarrow> ptree \<Rightarrow> perror + tg_file" where
  "parseJsonAndGetFile L t =
     bindE (get_str t ''file_id'') (\<lambda>fileId.
     Inr \<lparr>file_fileId = fileId,
       file_fileSize = get_int32_d L t ''file_size'' 0,
       file_filePath = get_str_d t ''file_path'' []\<rparr>)"

definition parseJsonAndGetKeyboardButton :: "('d, 'f) lib \<Rightarrow> ptree \<Rightarrow> perror + keyboard_button" where
  "parseJsonAndGetKeyboardButton L t =
     bindE (get_str t ''text'') (\<lambda>text'.
     Inr \<lparr>kb_text = text',
       kb_requestContact = get_bool_d L t ''request_contact'' False,
       kb_requestLocation = get_bool_d L t ''request_location'' False\<rparr>)"

definition parseJsonAndGetReplyKeyboardMarkup :: "('d, 'f) lib \<Rightarrow> ptree \<Rightarrow> perror + reply_keyboard_markup" where
  "parseJsonAndGetReplyKeyboardMarkup L t =
     bindE (case pt_find t ''keyboard'' of
              None \<Rightarrow> Inl (DerefEnd ''keyboard'')
            | Some c \<Rightarrow> mapE (\<lambda>kv. parseJsonAndGetArray (parseJsonAndGetKeyboardButton L) (snd kv)) (pt_kids c)) (\<lambda>rows.
     Inr \<lparr>rkm_keyboard = rows,
       rkm_resizeKeyboard = get_bool_d L t ''resize_keyboard'' False,
       rkm_oneTimeKeyboard = get_bool_d L t ''one_time_keyboard'' False,
       rkm_selective = get_bool_d L t ''selective'' False\<rparr>)"

definition parseJsonAndGetReplyKeyboardRemove :: "('d, 'f) lib \<Rightarrow> ptree \<Rightarrow> perror + reply_keyboard_remove" where
  "parseJsonAndGetReplyKeyboardRemove L t =
     Inr \<lparr>rkr_selective = get_bool_d L t ''selective'' False\<rparr>"

definition parseJsonAndGetForceReply :: "('d, 'f) lib \<Rightarrow> ptree \<Rightarrow> perror + force_reply" where
  "parseJsonAndGetForceReply L t =
     bindE (get_bool L t ''selective'') (\<lambda>selective.
     Inr \<lparr>fr_selective = selective\<rparr>)"

definition parseJsonAndGetChatMember :: "('d, 'f) lib \<Rightarrow> ptree \<Rightarrow> perror + chat_member" where
  "parseJsonAndGetChatMember L t =
     bindE (tryParseJson (parseJsonAndGetUser L) t ''user'') (\<lambda>user'.
     bindE (get_str t ''status'') (\<lambda>status.
     Inr \<lparr>cm_user = user',
       cm_status = status\<rparr>))"

definition parseJsonAndGetResponseParameters :: "('d, 'f) lib \<Rightarrow> ptree \<Rightarrow> perror + response_parameters" where
  "parseJsonAndGetResponseParameters L t =
     Inr \<lparr>rp_migrateToChatId = get_int32_d L t ''migrate_to_chat_id'' 0,
       rp_retryAfter = get_int32_d L t ''retry_after'' 0\<rparr>"

definition parseJsonAndGetInlineKeyboardButton :: "('d, 'f) lib \<Rightarrow> ptree \<Rightarrow> perror + inline_keyboard_button" where
  "parseJsonAndGetInlineKeyboardButton L t =
     bindE (get_str t ''text'') (\<lambda>text'.
     Inr \<lparr>ikb_text = text',
       ikb_url = get_str_d t ''url'' [],
       ikb_callbackData = get_str_d t ''callback_data'' [],
       ikb_switchInlineQuery = get_str_d t ''switch_inline_query'' [],
       ikb_switchInlineQueryCurrentChat = get_str_d t ''switch_inline_query_current_chat'' []\<rparr>)"

definition parseJsonAndGetInlineKeyboardMarkup :: "('d, 'f) lib \<Rightarrow> ptree \<Rightarrow> perror + inline_keyboard_markup" where
  "parseJsonAndGetInlineKeyboardMarkup L t =
     bindE (case pt_find t ''inline_keyboard'' of
              None \<Rightarrow> Inl (DerefEnd ''inline_keyboard'')
            | Some c \<Rightarrow> mapE (\<lambda>kv. parseJsonAndGetArray (parseJsonAndGetInlineKeyboardButton L) (snd kv)) (pt_kids c)) (\<lambda>rows.
     Inr \<lparr>ikm_inlineKeyboard = rows\<rparr>)"

definition parseJsonAndGetGenericReply :: "('d, 'f) lib \<Rightarrow> ptree \<Rightarrow> perror + generic_reply" where
  "parseJsonAndGetGenericReply L t =
     (if pt_has t ''force_reply'' then bindE (parseJsonAndGetForceReply L t) (\<lambda>r. Inr (IsForceReply r))
      else if pt_has t ''remove_keyboard'' then bindE (parseJsonAndGetReplyKeyboardRemove L t) (\<lambda>r. Inr (IsReplyKeyboardRemove r))
      else if pt_has t ''keyboard'' then bindE (parseJsonAndGetReplyKeyboardMarkup L t) (\<lambda>r. Inr (IsReplyKeyboardMarkup r))
      else if pt_has t ''inline_keyboard'' then bindE (parseJsonAndGetInlineKeyboardMarkup L t) (\<lambda>r. Inr (IsInlineKeyboardMarkup r))
      else Inr PlainReply)"

definition parseJsonAndGetInputTextMessageContent :: "('d, 'f) lib \<Rightarrow> ptree \<Rightarrow> perror + input_text_message_content" where
  "parseJsonAndGetInputTextMessageContent L t =
     bindE (get_str t ''message_text'') (\<lambda>messageText.
     Inr \<lparr>itm_messageText = messageText,
       itm_parseMode = get_str_d t ''parse_mode'' [],
       itm_disableWebPagePreview = get_bool_d L t ''disable_web_page_preview'' False\<rparr>)"

definition parseJsonAndGetInputLocationMessageContent :: "('d, 'f) lib \<Rightarrow> ptree \<Rightarrow> perror + 'f input_location_message_content" where
  "parseJsonAndGetInputLocationMessageContent L t =
     bindE (get_float L t ''latitude'') (\<lambda>latitude.
     bindE (get_float L t ''longitude'') (\<lambda>longitude.
     Inr \<lparr>ilm_latitude = latitude,
       ilm_longitude = longitude\<rparr>))"

definition parseJsonAndGetInputVenueMessageContent :: "('d, 'f) lib \<Rightarrow> ptree \<Rightarrow> perror + 'f input_venue_message_content" where
  "parseJsonAndGetInputVenueMessageContent L t =
     bindE (get_float L t ''latitude'') (\<lambda>latitude.
     bindE (get_float L t ''longitude'') (\<lambda>longitude.
     bindE (get_str t ''title'') (\<lambda>title.
     bindE (get_str t ''address'') (\<lambda>address.
     Inr \<lparr>ivm_latitude = latitude,
       ivm_longitude = longitude,
       ivm_title = title,
       ivm_address = address,
       ivm_foursquareId = get_str_d t ''foursquare_id'' []\<rparr>))))"

definition parseJsonAndGetInputContactMessageContent :: "('d, 'f) lib \<Rightarrow> ptree \<Rightarrow> perror + input_contact_message_content" where
  "parseJsonAndGetInputContactMessageContent L t =
     bindE (get_str t ''phone_number'') (\<lambda>phoneNumber.
     bindE (get_str t ''first_name'') (\<lambda>firstName.
     Inr \<lparr>icm_phoneNumber = phoneNumber,
       icm_firstName = firstName,
       icm_lastName = get_str_d t ''last_name'' []\<rparr>))"

text \<open>A content object that fits no subclass is a null pointer.\<close>

definition parseJsonAndGetInputMessageContent :: "('d, 'f) lib \<Rightarrow> ptree \<Rightarrow> perror + 'f input_message_content option" where
  "parseJsonAndGetInputMessageContent L t =
     bindE (get_str t ''message_text'') (\<lambda>tMessageText.
     (let tLatitude = get_float_d L t ''latitude'' (f_1000 L);
          tTitle = get_str_d t ''title'' [];
          tPnoneNumber = get_str_d t ''phone_number'' []
      in if tMessageText \<noteq> [] then bindE (parseJsonAndGetInputTextMessageContent L t) (\<lambda>r. Inr (Some (IsInputText r)))
         else if tTitle \<noteq> [] then bindE (parseJsonAndGetInputVenueMessageContent L t) (\<lambda>r. Inr (Some (IsInputVenue r)))
         else if \<not> f_eq L tLatitude (f_1000 L) then bindE (parseJsonAndGetInputLocationMessageContent L t) (\<lambda>r. Inr (Some (IsInputLocation r)))
         else if tPnoneNumber \<noteq> [] then bindE (parseJsonAndGetInputContactMessageContent L t) (\<lambda>r. Inr (Some (IsInputContact r)))
         else Inr None))"

definition parseJsonAndGetInlineQueryResultCachedAudio :: "('d, 'f) lib \<Rightarrow> ptree \<Rightarrow> perror + inline_query_result_cached_audio" where
  "parseJsonAndGetInlineQueryResultCachedAudio L t =
     bindE (get_str t ''audio_file_id'') (\<lambda>audioFileId.
     Inr \<lparr>rca_audioFileId = audioFileId\<rparr>)"

definition parseJsonAndGetInlineQueryResultCachedDocument :: "('d, 'f) lib \<Rightarrow> ptree \<Rightarrow> perror + inline_query_result_cached_document" where
  "parseJsonAndGetInlineQueryResultCachedDocument L t =
     bindE (get_str t ''document_file_id'') (\<lambda>documentFileId.
     Inr \<lparr>rcd_documentFileId = documentFileId,
       rcd_description = get_str_d t ''description'' []\<rparr>)"

definition parseJsonAndGetInlineQueryResultCachedGif :: "('d, 'f) lib \<Rightarrow> ptree \<Rightarrow> perror + inline_query_result_cached_gif" where
  "parseJsonAndGetInlineQueryResultCachedGif L t =
     bindE (get_str t ''gif_file_id'') (\<lambda>gifFileId.
     Inr \<lparr>rcg_gifFileId = gifFileId\<rparr>)"

definition parseJsonAndGetInlineQueryResultCachedMpeg4Gif :: "('d, 'f) lib \<Rightarrow> ptree \<Rightarrow> perror + inline_query_result_cached_mpeg4_gif" where
  "parseJsonAndGetInlineQueryResultCachedMpeg4Gif L t =
     bindE (get_str t ''mpeg4_file_id'') (\<lambda>mpeg4FileId.
     Inr \<lparr>rcm_mpeg4FileId = mpeg4FileId\<rparr>)"

definition parseJsonAndGetInlineQueryResultCachedPhoto :: "('d, 'f) lib \<Rightarrow> ptree \<Rightarrow> perror + inline_query_result_cached_photo" where
  "parseJsonAndGetInlineQueryResultCachedPhoto L t =
     bindE (get_str t ''photo_file_id'') (\<lambda>photoFileId.
     Inr \<lparr>rcp_photoFileId = photoFileId,
       rcp_description = get_str_d t ''description'' []\<rparr>)"

definition parseJsonAndGetInlineQueryResultCachedSticker :: "('d, 'f) lib \<Rightarrow> ptree \<Rightarrow> perror + inline_query_result_cached_sticker" where
  "parseJsonAndGetInlineQueryResultCachedSticker L t =
     bindE (get_str t ''sticker_file_id'') (\<lambda>stickerFileId.
     Inr \<lparr>rcs_stickerFileId = stickerFileId\<rparr>)"

definition parseJsonAndGetInlineQueryResultCachedVideo :: "('d, 'f) lib \<Rightarrow> ptree \<Rightarrow> perror + inline_query_result_cached_video" where
  "parseJsonAndGetInlineQueryResultCachedVideo L t =
     bindE (get_str t ''video_file_id'') (\<lambda>videoFileId.
     Inr \<lparr>rcv_videoFileId = videoFileId,
       rcv_description = get_str_d t ''description'' []\<rparr>)"

definition parseJsonAndGetInlineQueryResultCachedVoice :: "('d, 'f) lib \<Rightarrow> ptree \<Rightarrow> perror + inline_query_result_cached_voice" where
  "parseJsonAndGetInlineQueryResultCachedVoice L t =
     bindE (get_str t ''voice_file_id'') (\<lambda>voiceFileId.
     Inr \<lparr>rco_voiceFileId = voiceFileId\<rparr>)"

definition parseJsonAndGetInlineQueryResultArticle :: "('d, 'f) lib \<Rightarrow> ptree \<Rightarrow> perror + inline_query_result_article" where
  "parseJsonAndGetInlineQueryResultArticle L t =
     Inr \<lparr>rar_url = get_str_d t ''url'' [],
       rar_hideUrl = get_bool_d L t ''hide_url'' False,
       rar_description = get_str_d t ''description'' [],
       rar_thumbUrl = get_str_d t ''thumb_url'' [],
       rar_thumbWidth = get_int32_d L t ''thumb_width'' 0,
       rar_thumbHeight = get_int32_d L t ''thumb_height'' 0\<rparr>"

definition parseJsonAndGetInlineQueryResultAudio :: "('d, 'f) lib \<Rightarrow> ptree \<Rightarrow> perror + inline_query_result_audio" where
  "parseJsonAndGetInlineQueryResultAudio L t =
     bindE (get_str t ''audio_url'') (\<lambda>audioUrl.
     Inr \<lparr>rau_audioUrl = audioUrl,
       rau_performer = get_str_d t ''performer'' [],
       rau_audioDuration = get_int32_d L t ''audio_duration'' 0\<rparr>)"

definition parseJsonAndGetInlineQueryResultContact :: "('d, 'f) lib \<Rightarrow> ptree \<Rightarrow> perror + inline_query_result_contact" where
  "parseJsonAndGetInlineQueryResultContact L t =
     bindE (get_str t ''phone_number'') (\<lambda>phoneNumber.
     bindE (get_str t ''first_name'') (\<lambda>firstName.
     Inr \<lparr>rct_phoneNumber = phoneNumber,
       rct_firstName = firstName,
       rct_lastName = get_str_d t ''last_name'' [],
       rct_thumbUrl = get_str_d t ''thumb_url'' [],
       rct_thumbWidth = get_int32_d L t ''thumb_width'' 0,
       rct_thumbHeight = get_int32_d L t ''thumb_height'' 0\<rparr>))"

definition parseJsonAndGetInlineQueryResultGame :: "('d, 'f) lib \<Rightarrow> ptree \<Rightarrow> perror + inline_query_result_game" where
  "parseJsonAndGetInlineQueryResultGame L t =
     bindE (get_str t ''game_short_name'') (\<lambda>gameShortName.
     Inr \<lparr>rga_gameShortName = gameShortName\<rparr>)"

definition parseJsonAndGetInlineQueryResultDocument :: "('d, 'f) lib \<Rightarrow> ptree \<Rightarrow> perror + inline_query_result_document" where
  "parseJsonAndGetInlineQueryResultDocument L t =
     bindE (get_str t ''document_url'') (\<lambda>documentUrl.
     bindE (get_str t ''mime_type'') (\<lambda>mimeType.
     Inr \<lparr>rdo_documentUrl = documentUrl,
       rdo_mimeType = mimeType,
       rdo_description = get_str_d t ''description'' [],
       rdo_thumbUrl = get_str_d t ''thumb_url'' [],
       rdo_thumbWidth = get_int32_d L t ''thumb_width'' 0,
       rdo_thumbHeight = get_int32_d L t ''thumb_height'' 0\<rparr>))"

definition parseJsonAndGetInlineQueryResultLocation :: "('d, 'f) lib \<Rightarrow> ptree \<Rightarrow> perror + 'f inline_query_result_location" where
  "parseJsonAndGetInlineQueryResultLocation L t =
     bindE (get_float L t ''latitude'') (\<lambda>latitude.
     bindE (get_float L t ''longitude'') (\<lambda>longitude.
     Inr \<lparr>rlo_latitude = latitude,
       rlo_longitude = longitude,
       rlo_thumbUrl = get_str_d t ''thumb_url'' [],
       rlo_thumbWidth = get_int32_d L t ''thumb_width'' 0,
       rlo_thumbHeight = get_int32_d L t ''thumb_height'' 0\<rparr>))"

definition parseJsonAndGetInlineQueryResultVenue :: "('d, 'f) lib \<Rightarrow> ptree \<Rightarrow> perror + 'f inline_query_result_venue" where
  "parseJsonAndGetInlineQueryResultVenue L t =
     bindE (get_float L t ''latitude'') (\<lambda>latitude.
     bindE (get_float L t ''longitude'') (\<lambda>longitude.
     bindE (get_str t ''address'') (\<lambda>address.
     Inr \<lparr>rve_latitude = latitude,
       rve_longitude = longitude,
       rve_address = address,
       rve_foursquareId = get_str_d t ''foursquare_id'' [],
       rve_thumbUrl = get_str_d t ''thumb_url'' [],
       rve_thumbWidth = get_int32_d L t ''thumb_width'' 0,
       rve_thumbHeight = get_int32_d L t ''thumb_height'' 0\<rparr>)))"

definition parseJsonAndGetInlineQueryResultVoice :: "('d, 'f) lib \<Rightarrow> ptree \<Rightarrow> perror + inline_query_result_voice" where
  "parseJsonAndGetInlineQueryResultVoice L t =
     bindE (get_str t ''voice_url'') (\<lambda>voiceUrl.
     Inr \<lparr>rvo_voiceUrl = voiceUrl,
       rvo_voiceDuration = get_int32_d L t ''voice_duration'' 0\<rparr>)"

definition parseJsonAndGetInlineQueryResultPhoto :: "('d, 'f) lib \<Rightarrow> ptree \<Rightarrow> perror + inline_query_result_photo" where
  "parseJsonAndGetInlineQueryResultPhoto L t =
     bindE (get_str t ''thumb_url'') (\<lambda>thumbUrl.
     Inr \<lparr>rph_photoUrl = get_str_d t ''photo_url'' [],
       rph_thumbUrl = thumbUrl,
       rph_photoWidth = get_int32_d L t ''photo_width'' 0,
       rph_photoHeight = get_int32_d L t ''photo_height'' 0,
       rph_description = get_str_d t ''description'' []\<rparr>)"

definition parseJsonAndGetInlineQueryResultGif :: "('d, 'f) lib \<Rightarrow> ptree \<Rightarrow> perror + inline_query_result_gif" where
  "parseJsonAndGetInlineQueryResultGif L t =
     bindE (get_str t ''thumb_url'') (\<lambda>thumbUrl.
     Inr \<lparr>rgi_gifUrl = get_str_d t ''gif_url'' [],
       rgi_gifWidth = get_int32_d L t ''gif_width'' 0,
       rgi_gifHeight = get_int32_d L t ''gif_height'' 0,
       rgi_thumbUrl = thumbUrl\<rparr>)"

definition parseJsonAndGetInlineQueryResultMpeg4Gif :: "('d, 'f) lib \<Rightarrow> ptree \<Rightarrow> perror + inline_query_result_mpeg4_gif" where
  "parseJsonAndGetInlineQueryResultMpeg4Gif L t =
     bindE (get_str t ''mpeg4_url'') (\<lambda>mpeg4Url.
     bindE (get_str t ''thumb_url'') (\<lambda>thumbUrl.
     Inr \<lparr>rmp_mpeg4Url = mpeg4Url,
       rmp_mpeg4Width = get_int32_d L t ''mpeg4_width'' 0,
       rmp_mpeg4Height = get_int32_d L t ''mpeg4_height'' 0,
       rmp_thumbUrl = thumbUrl\<rparr>))"

definition parseJsonAndGetInlineQueryResultVideo :: "('d, 'f) lib \<Rightarrow> ptree \<Rightarrow> perror + inline_query_result_video" where
  "parseJsonAndGetInlineQueryResultVideo L t =
     bindE (get_str t ''video_url'') (\<lambda>videoUrl.
     bindE (get_str t ''mime_type'') (\<lambda>mimeType.
     bindE (get_str t ''thumb_url'') (\<lambda>thumbUrl.
     Inr \<lparr>rvi_videoUrl = videoUrl,
       rvi_mimeType = mimeType,
       rvi_thumbUrl = thumbUrl,
       rvi_videoWidth = get_int32_d L t ''video_width'' 0,
       rvi_videoHeight = get_int32_d L t ''video_height'' 0,
       rvi_videoDuration = get_int32_d L t ''video_duration'' 0,
       rvi_description = get_str_d t ''description'' []\<rparr>)))"

text \<open>The dispatch on \<open>type\<close>, then the base fields over the object it made.\<close>

definition parseIqrPayload :: "('d, 'f) lib \<Rightarrow> string \<Rightarrow> ptree \<Rightarrow> perror + 'f iqr_payload" where
  "parseIqrPayload L ty t =
     (if ty = ''cached_audio'' then bindE (parseJsonAndGetInlineQueryResultCachedAudio L t) (\<lambda>r. Inr (IsCachedAudio r))
      else if ty = ''cached_document'' then bindE (parseJsonAndGetInlineQueryResultCachedDocument L t) (\<lambda>r. Inr (IsCachedDocument r))
      else if ty = ''cached_gif'' then bindE (parseJsonAndGetInlineQueryResultCachedGif L t) (\<lambda>r. Inr (IsCachedGif r))
      else if ty = ''cached_mpeg4gif'' then bindE (parseJsonAndGetInlineQueryResultCachedMpeg4Gif L t) (\<lambda>r. Inr (IsCachedMpeg4Gif r))
      else if ty = ''cached_photo'' then bindE (parseJsonAndGetInlineQueryResultCachedPhoto L t) (\<lambda>r. Inr (IsCachedPhoto r))
      else if ty = ''cached_sticker'' then bindE (parseJsonAndGetInlineQueryResultCachedSticker L t) (\<lambda>r. Inr (IsCachedSticker r))
      else if ty = ''cached_video'' then bindE (parseJsonAndGetInlineQueryResultCachedVideo L t) (\<lambda>r. Inr (IsCachedVideo r))
      else if ty = ''cached_voice'' then bindE (parseJsonAndGetInlineQueryResultCachedVoice L t) (\<lambda>r. Inr (IsCachedVoice r))
      else if ty = ''article'' then bindE (parseJsonAndGetInlineQueryResultArticle L t) (\<lambda>r. Inr (IsArticle r))
      else if ty = ''audio'' then bindE (parseJsonAndGetInlineQueryResultAudio L t) (\<lambda>r. Inr (IsAudio r))
      else if ty = ''contact'' then bindE (parseJsonAndGetInlineQueryResultContact L t) (\<lambda>r. Inr (IsContact r))
      else if ty = ''game'' then bindE (parseJsonAndGetInlineQueryResultGame L t) (\<lambda>r. Inr (IsGame r))
      else if ty = ''document'' then bindE (parseJsonAndGetInlineQueryResultDocument L t) (\<lambda>r. Inr (IsDocument r))
      else if ty = ''location'' then bindE (parseJsonAndGetInlineQueryResultLocation L t) (\<lambda>r. Inr (IsLocation r))
      else if ty = ''venue'' then bindE (parseJsonAndGetInlineQueryResultVenue L t) (\<lambda>r. Inr (IsVenue r))
      else if ty = ''voice'' then bindE (parseJsonAndGetInlineQueryResultVoice L t) (\<lambda>r. Inr (IsVoice r))
      else if ty = ''photo'' then bindE (parseJsonAndGetInlineQueryResultPhoto L t) (\<lambda>r. Inr (IsPhoto r))
      else if ty = ''gif'' then bindE (parseJsonAndGetInlineQueryResultGif L t) (\<lambda>r. Inr (IsGif r))
      else if ty = ''mpeg4_gif'' then bindE (parseJsonAndGetInlineQueryResultMpeg4Gif L t) (\<lambda>r. Inr (IsMpeg4Gif r))
      else if ty = ''video'' then bindE (parseJsonAndGetInlineQueryResultVideo L t) (\<lambda>r. Inr (IsVideo r))
      else Inr PlainResult)"

definition parseJsonAndGetInlineQueryResult :: "('d, 'f) lib \<Rightarrow> ptree \<Rightarrow> perror + 'f inline_query_result" where
  "parseJsonAndGetInlineQueryResult L t =
     bindE (get_str t ''type'') (\<lambda>ty.
     bindE (parseIqrPayload L ty t) (\<lambda>p.
     bindE (get_str t ''id'') (\<lambda>id'.
     bindE (tryParseJson (parseJsonAndGetInlineKeyboardMarkup L) t ''reply_markup'') (\<lambda>markup.
     bindE (tryParseJson (parseJsonAndGetInputMessageContent L) t ''input_message_content'') (\<lambda>content.
     Inr \<lparr>iqr_type = payload_TYPE p,
       iqr_id = id',
       iqr_title = get_str_d t ''title'' [],
       iqr_caption = get_str_d t ''caption'' [],
       iqr_replyMarkup = markup,
       iqr_inputMessageContent = Option.bind content (\<lambda>c. c),
       iqr_derived = p\<rparr>)))))"

definition parseJsonAndGetWebhookInfo :: "('d, 'f) lib \<Rightarrow> ptree \<Rightarrow> perror + webhook_info" where
  "parseJsonAndGetWebhookInfo L t =
     bindE (get_str t ''url'') (\<lambda>url.
     bindE (get_bool L t ''has_custom_certificate'') (\<lambda>cert.
     bindE (get_int32 L t ''pending_update_count'') (\<lambda>pending.
     bindE (parseJsonAndGetArrayFn (\<lambda>c. get_str c []) t ''allowed_updates'') (\<lambda>allowed.
     Inr \<lparr>whi_url = url,
       whi_hasCustomCertificate = cert,
       whi_pendingUpdateCount = pending,
       whi_lastErrorDate = get_int32_d L t ''last_error_date'' 0,
       whi_lastErrorMessage = get_str_d t ''last_error_message'' [],
       whi_maxConnections = get_int32_d L t ''max_connections'' 0,
       whi_allowedUpdates = allowed\<rparr>))))"

end
