(* ===== verification/TgWriter.thy ===== *)
theory TgWriter
  imports TgTypes Ptree
begin

text \<open>
  \<open>TgTypeParser\<close>'s writing half: from a Telegram object to JSON text. A member takes the
  pointer the code takes (\<open>None\<close> is null). \<open>appendToJson\<close> is overloaded: a
  \<open>std::string\<close> and a \<open>bool\<close> have their own version, every other type goes to the template,
  whose \<open>json += value\<close> appends a number as one character and a string literal unquoted.
\<close>

section \<open>appendToJson\<close>

definition append_str :: "string \<Rightarrow> string \<Rightarrow> string \<Rightarrow> string" where
  "append_str json varName value =
     (if value = [] then json
      else json @ [DQ] @ varName @ [DQ] @ '':''
             @ (if hd value \<noteq> CHR ''{'' then [DQ] else []) @ value
             @ (if last value \<noteq> CHR ''}'' then [DQ] else []) @ '','')"

definition append_bool :: "string \<Rightarrow> string \<Rightarrow> bool \<Rightarrow> string" where
  "append_bool json varName value =
     json @ [DQ] @ varName @ [DQ] @ '':'' @ (if value then ''true'' else ''false'') @ '',''"

text \<open>The template at an integer type, at \<open>float\<close> and at a string literal (a non-null array).\<close>

definition append_int :: "string \<Rightarrow> string \<Rightarrow> 'w::len word \<Rightarrow> string" where
  "append_int json varName value =
     (if value = 0 then json
      else json @ [DQ] @ varName @ [DQ] @ '':'' @ [char_of_word value] @ '','')"

definition append_float :: "('d, 'f) lib \<Rightarrow> string \<Rightarrow> string \<Rightarrow> 'f \<Rightarrow> string" where
  "append_float L json varName value =
     (if f_eq L value (f_zero L) then json
      else json @ [DQ] @ varName @ [DQ] @ '':'' @ [f_to_char L value] @ '','')"

definition append_lit :: "string \<Rightarrow> string \<Rightarrow> string \<Rightarrow> string" where
  "append_lit json varName value = json @ [DQ] @ varName @ [DQ] @ '':'' @ value @ '',''"

section \<open>Arrays\<close>

definition parseArray :: "('a \<Rightarrow> string) \<Rightarrow> 'a list \<Rightarrow> string" where
  "parseArray f objects =
     (if objects = [] then []
      else erase_last (''['' @ concat (map (\<lambda>x. f x @ '','') objects)) @ '']'')"

definition parse2DArray :: "('a \<Rightarrow> string) \<Rightarrow> 'a list list \<Rightarrow> string" where
  "parse2DArray f objects =
     (if objects = [] then []
      else erase_last (''['' @ concat (map (\<lambda>x. parseArray f x @ '','') objects)) @ '']'')"

text \<open>
  The nested loops of the two keyboards: a row is closed by erasing the last character, the
  comma of a non-empty row and the opening bracket of an empty one.
\<close>

definition keyboard_row :: "('a \<Rightarrow> string) \<Rightarrow> 'a list \<Rightarrow> string" where
  "keyboard_row f row = erase_last (''['' @ concat (map (\<lambda>x. f x @ '','') row)) @ ''],''"

definition keyboard_rows :: "string \<Rightarrow> ('a \<Rightarrow> string) \<Rightarrow> 'a list list \<Rightarrow> string" where
  "keyboard_rows key f rows =
     (let r = ''{'' @ [DQ] @ key @ [DQ] @ '':['' @ concat (map (keyboard_row f) rows)
      in if rows \<noteq> [] then erase_last r else r)"

section \<open>One writer per object\<close>

definition parseChat :: "('d, 'f) lib \<Rightarrow> chat option \<Rightarrow> string" where
  "parseChat L p =
     (case p of None \<Rightarrow> []
      | Some x \<Rightarrow>
         let r = ''{'';
             r = append_int r ''id'' (chat_id x);
             r = (case chat_type x of
                    Some Private \<Rightarrow> append_lit r ''type'' ''private''
                  | Some Group \<Rightarrow> append_lit r ''type'' ''group''
                  | Some Supergroup \<Rightarrow> append_lit r ''type'' ''supergroup''
                  | Some Channel \<Rightarrow> append_lit r ''type'' ''channel''
                  | None \<Rightarrow> r);
             r = append_str r ''title'' (chat_title x);
             r = append_str r ''username'' (chat_username x);
             r = append_str r ''first_name'' (chat_firstName x);
             r = append_str r ''last_name'' (chat_lastName x)
         in erase_last r @ ''}'')"

definition parseUser :: "('d, 'f) lib \<Rightarrow> tg_user option \<Rightarrow> string" where
  "parseUser L p =
     (case p of None \<Rightarrow> []
      | Some x \<Rightarrow>
         let r = ''{'';
             r = append_int r ''id'' (usr_id x);
             r = append_str r ''first_name'' (usr_firstName x);
             r = append_str r ''last_name'' (usr_lastName x);
             r = append_str r ''username'' (usr_username x)
         in erase_last r @ ''}'')"

definition parsePhotoSize :: "('d, 'f) lib \<Rightarrow> photo_size option \<Rightarrow> string" where
  "parsePhotoSize L p =
     (case p of None \<Rightarrow> []
      | Some x \<Rightarrow>
         let r = ''{'';
             r = append_str r ''file_id'' (ps_fileId x);
             r = append_int r ''width'' (ps_width x);
             r = append_int r ''height'' (ps_height x);
             r = append_int r ''file_size'' (ps_fileSize x)
         in erase_last r @ ''}'')"

definition parseAudio :: "('d, 'f) lib \<Rightarrow> audio option \<Rightarrow> string" where
  "parseAudio L p =
     (case p of None \<Rightarrow> []
      | Some x \<Rightarrow>
         let r = ''{'';
             r = append_str r ''file_id'' (aud_fileId x);
             r = append_int r ''duration'' (aud_duration x);
             r = append_str r ''mime_type'' (aud_mimeType x);
             r = append_int r ''file_size'' (aud_fileSize x)
         in erase_last r @ ''}'')"

definition parseDocument :: "('d, 'f) lib \<Rightarrow> document option \<Rightarrow> string" where
  "parseDocument L p =
     (case p of None \<Rightarrow> []
      | Some x \<Rightarrow>
         let r = ''{'';
             r = append_str r ''file_id'' (doc_fileId x);
             r = append_str r ''thumb'' (parsePhotoSize L (doc_thumb x));
             r = append_str r ''file_name'' (doc_fileName x);
             r = append_str r ''mime_type'' (doc_mimeType x);
             r = append_int r ''file_size'' (doc_fileSize x)
         in erase_last r @ ''}'')"

definition parseSticker :: "('d, 'f) lib \<Rightarrow> sticker option \<Rightarrow> string" where
  "parseSticker L p =
     (case p of None \<Rightarrow> []
      | Some x \<Rightarrow>
         let r = ''{'';
             r = append_str r ''file_id'' (stk_fileId x);
             r = append_int r ''width'' (stk_width x);
             r = append_int r ''height'' (stk_height x);
             r = append_str r ''thumb'' (parsePhotoSize L (stk_thumb x));
             r = append_str r ''emoji'' (stk_emoji x);
             r = append_int r ''file_size'' (stk_fileSize x)
         in erase_last r @ ''}'')"

definition parseVideo :: "('d, 'f) lib \<Rightarrow> video option \<Rightarrow> string" where
  "parseVideo L p =
     (case p of None \<Rightarrow> []
      | Some x \<Rightarrow>
         let r = ''{'';
             r = append_str r ''file_id'' (vid_fileId x);
             r = append_int r ''width'' (vid_width x);
             r = append_int r ''height'' (vid_height x);
             r = append_int r ''duration'' (vid_duration x);
             r = append_str r ''thumb'' (parsePhotoSize L (vid_thumb x));
             r = append_str r ''mime_type'' (vid_mimeType x);
             r = append_int r ''file_size'' (vid_fileSize x)
         in erase_last r @ ''}'')"

definition parseContact :: "('d, 'f) lib \<Rightarrow> contact option \<Rightarrow> string" where
  "parseContact L p =
     (case p of None \<Rightarrow> []
      | Some x \<Rightarrow>
         let r = ''{'';
             r = append_str r ''phone_number'' (con_phoneNumber x);
             r = append_str r ''first_name'' (con_firstName x);
             r = append_str r ''last_name'' (con_lastName x);
             r = append_str r ''user_id'' (con_userId x)
         in erase_last r @ ''}'')"

definition parseLocation :: "('d, 'f) lib \<Rightarrow> 'f location option \<Rightarrow> string" where
  "parseLocation L p =
     (case p of None \<Rightarrow> []
      | Some x \<Rightarrow>
         let r = ''{'';
             r = append_float L r ''longitude'' (loc_longitude x);
             r = append_float L r ''latitude'' (loc_latitude x)
         in erase_last r @ ''}'')"

lemma message_reply_smaller [termination_simp]: "msg_replyToMessage m = Some m' \<Longrightarrow> size m' < size m"
  by (cases m) auto

text \<open>\<open>parseMessage\<close> on a non-null pointer; the null test of the recursive call is the inner case.\<close>

function parseMessageAt :: "('d, 'f) lib \<Rightarrow> 'f message \<Rightarrow> string" where
  "parseMessageAt L x =
     (let r = ''{'';
          r = append_int r ''message_id'' (msg_messageId x);
          r = append_str r ''from'' (parseUser L (msg_from x));
          r = append_int r ''date'' (msg_date x);
          r = append_str r ''chat'' (parseChat L (msg_chat x));
          r = append_str r ''forward_from'' (parseUser L (msg_forwardFrom x));
          r = append_str r ''forward_from_chat'' (parseChat L (msg_forwardFromChat x));
          r = append_int r ''forward_from_message_id'' (msg_forwardFromMessageId x);
          r = append_int r ''forward_date'' (msg_forwardDate x);
          r = append_str r ''reply_to_message'' (case msg_replyToMessage x of None \<Rightarrow> [] | Some y \<Rightarrow> parseMessageAt L y);
          r = append_int r ''edit_date'' (msg_editDate x);
          r = append_str r ''text'' (msg_text x);
          r = append_str r ''audio'' (parseAudio L (msg_audio x));
          r = append_str r ''document'' (parseDocument L (msg_document x));
          r = append_str r ''photo'' (parseArray (parsePhotoSize L) (msg_photo x));
          r = append_str r ''sticker'' (parseSticker L (msg_sticker x));
          r = append_str r ''video'' (parseVideo L (msg_video x));
          r = append_str r ''contact'' (parseContact L (msg_contact x));
          r = append_str r ''location'' (parseLocation L (msg_location x));
          r = append_str r ''new_chat_member'' (parseUser L (msg_newChatMember x));
          r = append_str r ''left_chat_member'' (parseUser L (msg_leftChatMember x));
          r = append_str r ''new_chat_title'' (msg_newChatTitle x);
          r = append_str r ''new_chat_photo'' (parseArray (parsePhotoSize L) (msg_newChatPhoto x));
          r = append_bool r ''delete_chat_photo'' (msg_deleteChatPhoto x);
          r = append_bool r ''group_chat_created'' (msg_groupChatCreated x);
          r = append_str r ''caption'' (msg_caption x);
          r = append_bool r ''supergroup_chat_created'' (msg_supergroupChatCreated x);
          r = append_bool r ''channel_chat_created'' (msg_channelChatCreated x);
          r = append_int r ''migrate_to_chat_id'' (msg_migrateToChatId x);
          r = append_int r ''migrate_from_chat_id'' (msg_migrateFromChatId x)
      in erase_last r @ ''}'')"
  by pat_completeness auto
termination
  by (relation "measure (\<lambda>(L, x). size x)") (auto simp: message_reply_smaller)

declare parseMessageAt.simps [simp del]

definition parseMessage :: "('d, 'f) lib \<Rightarrow> 'f message option \<Rightarrow> string" where
  "parseMessage L p = (case p of None \<Rightarrow> [] | Some x \<Rightarrow> parseMessageAt L x)"

definition parseInlineQuery :: "('d, 'f) lib \<Rightarrow> 'f inline_query option \<Rightarrow> string" where
  "parseInlineQuery L p =
     (case p of None \<Rightarrow> []
      | Some x \<Rightarrow>
         let r = ''{'';
             r = append_str r ''id'' (iq_id x);
             r = append_str r ''from'' (parseUser L (iq_from x));
             r = append_str r ''location'' (parseLocation L (iq_location x));
             r = append_str r ''query'' (iq_query x);
             r = append_str r ''offset'' (iq_offset x)
         in erase_last r @ ''}'')"

definition parseChosenInlineResult :: "('d, 'f) lib \<Rightarrow> 'f chosen_inline_result option \<Rightarrow> string" where
  "parseChosenInlineResult L p =
     (case p of None \<Rightarrow> []
      | Some x \<Rightarrow>
         let r = ''{'';
             r = append_str r ''result_id'' (cir_resultId x);
             r = append_str r ''from'' (parseUser L (cir_from x));
             r = append_str r ''query'' (cir_query x)
         in erase_last r @ ''}'')"

definition parseCallbackQuery :: "('d, 'f) lib \<Rightarrow> 'f callback_query option \<Rightarrow> string" where
  "parseCallbackQuery L p =
     (case p of None \<Rightarrow> []
      | Some x \<Rightarrow>
         let r = ''{'';
             r = append_str r ''id'' (cbq_id x);
             r = append_str r ''from'' (parseUser L (cbq_from x));
             r = append_str r ''message'' (parseMessage L (cbq_message x));
             r = append_str r ''inline_message_id'' (cbq_inlineMessageId x);
             r = append_str r ''chat_instance'' (cbq_chatInstance x);
             r = append_str r ''game_short_name'' (cbq_gameShortName x);
             r = append_str r ''data'' (cbq_data x)
         in erase_last r @ ''}'')"

definition parseUpdate :: "('d, 'f) lib \<Rightarrow> 'f update option \<Rightarrow> string" where
  "parseUpdate L p =
     (case p of None \<Rightarrow> []
      | Some x \<Rightarrow>
         let r = ''{'';
             r = append_int r ''update_id'' (upd_updateId x);
             r = append_str r ''message'' (parseMessage L (upd_message x));
             r = append_str r ''edited_message'' (parseMessage L (upd_editedMessage x));
             r = append_str r ''channel_post'' (parseMessage L (upd_channelPost x));
             r = append_str r ''edited_channel_post'' (parseMessage L (upd_editedChannelPost x));
             r = append_str r ''inline_query'' (parseInlineQuery L (upd_inlineQuery x));
             r = append_str r ''chosen_inline_result'' (parseChosenInlineResult L (upd_chosenInlineResult x));
             r = append_str r ''callback_query'' (parseCallbackQuery L (upd_callbackQuery x))
         in erase_last r @ ''}'')"

definition parseUserProfilePhotos :: "('d, 'f) lib \<Rightarrow> user_profile_photos option \<Rightarrow> string" where
  "parseUserProfilePhotos L p =
     (case p of None \<Rightarrow> []
      | Some x \<Rightarrow>
         let r = ''{'';
             r = append_int r ''total_count'' (upp_totalCount x);
             r = append_str r ''photos'' (parse2DArray (parsePhotoSize L) (upp_photos x))
         in erase_last r @ ''}'')"

definition parseFile :: "('d, 'f) lib \<Rightarrow> tg_file option \<Rightarrow> string" where
  "parseFile L p =
     (case p of None \<Rightarrow> []
      | Some x \<Rightarrow>
         let r = ''{'';
             r = append_str r ''file_id'' (file_fileId x);
             r = append_int r ''file_size'' (file_fileSize x);
             r = append_str r ''file_path'' (file_filePath x)
         in erase_last r @ ''}'')"

definition parseKeyboardButton :: "('d, 'f) lib \<Rightarrow> keyboard_button option \<Rightarrow> string" where
  "parseKeyboardButton L p =
     (case p of None \<Rightarrow> []
      | Some x \<Rightarrow>
         let r = ''{'';
             r = append_str r ''text'' (kb_text x);
             r = append_bool r ''request_contact'' (kb_requestContact x);
             r = append_bool r ''request_location'' (kb_requestLocation x)
         in erase_last r @ ''}'')"

definition parseReplyKeyboardMarkup :: "('d, 'f) lib \<Rightarrow> reply_keyboard_markup option \<Rightarrow> string" where
  "parseReplyKeyboardMarkup L p =
     (case p of None \<Rightarrow> []
      | Some x \<Rightarrow>
         let r = keyboard_rows ''keyboard'' (parseKeyboardButton L) (rkm_keyboard x) @ ''],'';
             r = append_bool r ''resize_keyboard'' (rkm_resizeKeyboard x);
             r = append_bool r ''one_time_keyboard'' (rkm_oneTimeKeyboard x);
             r = append_bool r ''selective'' (rkm_selective x)
         in erase_last r @ ''}'')"

definition parseReplyKeyboardRemove :: "('d, 'f) lib \<Rightarrow> reply_keyboard_remove option \<Rightarrow> string" where
  "parseReplyKeyboardRemove L p =
     (case p of None \<Rightarrow> []
      | Some x \<Rightarrow>
         let r = ''{'';
             r = append_bool r ''remove_keyboard'' True;
             r = append_bool r ''selective'' (rkr_selective x)
         in erase_last r @ ''}'')"

definition parseForceReply :: "('d, 'f) lib \<Rightarrow> force_reply option \<Rightarrow> string" where
  "parseForceReply L p =
     (case p of None \<Rightarrow> []
      | Some x \<Rightarrow>
         let r = ''{'';
             r = append_bool r ''force_reply'' True;
             r = append_bool r ''selective'' (fr_selective x)
         in erase_last r @ ''}'')"

definition parseChatMember :: "('d, 'f) lib \<Rightarrow> chat_member option \<Rightarrow> string" where
  "parseChatMember L p =
     (case p of None \<Rightarrow> []
      | Some x \<Rightarrow>
         let r = ''{'';
             r = append_str r ''user'' (parseUser L (cm_user x));
             r = append_str r ''status'' (cm_status x)
         in erase_last r @ ''}'')"

definition parseResponseParameters :: "('d, 'f) lib \<Rightarrow> response_parameters option \<Rightarrow> string" where
  "parseResponseParameters L p =
     (case p of None \<Rightarrow> []
      | Some x \<Rightarrow>
         let r = ''{'';
             r = append_int r ''migrate_to_chat_id'' (rp_migrateToChatId x);
             r = append_int r ''retry_after'' (rp_retryAfter x)
         in erase_last r @ ''}'')"

definition parseInlineKeyboardButton :: "('d, 'f) lib \<Rightarrow> inline_keyboard_button option \<Rightarrow> string" where
  "parseInlineKeyboardButton L p =
     (case p of None \<Rightarrow> []
      | Some x \<Rightarrow>
         let r = ''{'';
             r = append_str r ''text'' (ikb_text x);
             r = append_str r ''url'' (ikb_url x);
             r = append_str r ''callback_data'' (ikb_callbackData x);
             r = append_str r ''switch_inline_query'' (ikb_switchInlineQuery x);
             r = append_str r ''switch_inline_query_current_chat'' (ikb_switchInlineQueryCurrentChat x)
         in erase_last r @ ''}'')"

definition parseInlineKeyboardMarkup :: "('d, 'f) lib \<Rightarrow> inline_keyboard_markup option \<Rightarrow> string" where
  "parseInlineKeyboardMarkup L p =
     (case p of None \<Rightarrow> []
      | Some x \<Rightarrow>
         keyboard_rows ''inline_keyboard'' (parseInlineKeyboardButton L) (ikm_inlineKeyboard x) @ '']}'')"

definition parseGenericReply :: "('d, 'f) lib \<Rightarrow> generic_reply option \<Rightarrow> string" where
  "parseGenericReply L p =
     (case p of
        None \<Rightarrow> []
      | Some (IsForceReply r) \<Rightarrow> parseForceReply L (Some r)
      | Some (IsReplyKeyboardRemove r) \<Rightarrow> parseReplyKeyboardRemove L (Some r)
      | Some (IsReplyKeyboardMarkup r) \<Rightarrow> parseReplyKeyboardMarkup L (Some r)
      | Some (IsInlineKeyboardMarkup r) \<Rightarrow> parseInlineKeyboardMarkup L (Some r)
      | Some PlainReply \<Rightarrow> [])"

definition parseWebhookInfo :: "('d, 'f) lib \<Rightarrow> webhook_info option \<Rightarrow> string" where
  "parseWebhookInfo L p =
     (case p of None \<Rightarrow> []
      | Some x \<Rightarrow>
         let r = ''{'';
             r = append_str r ''url'' (whi_url x);
             r = append_bool r ''has_custom_certificate'' (whi_hasCustomCertificate x);
             r = append_int r ''pending_update_count'' (whi_pendingUpdateCount x);
             r = append_int r ''last_error_date'' (whi_lastErrorDate x);
             r = append_str r ''last_error_message'' (whi_lastErrorMessage x);
             r = append_int r ''max_connections'' (whi_maxConnections x);
             r = append_str r ''allowed_updates'' (parseArray (\<lambda>s. s) (whi_allowedUpdates x))
         in erase_last r @ ''}'')"

definition parseInputTextMessageContent :: "('d, 'f) lib \<Rightarrow> input_text_message_content option \<Rightarrow> string" where
  "parseInputTextMessageContent L p =
     (case p of None \<Rightarrow> '' ''
      | Some x \<Rightarrow>
         let r = [];
             r = append_str r ''message_text'' (itm_messageText x);
             r = append_str r ''parse_mode'' (itm_parseMode x);
             r = append_bool r ''disable_web_page_preview'' (itm_disableWebPagePreview x)
         in r)"

definition parseInputLocationMessageContent :: "('d, 'f) lib \<Rightarrow> 'f input_location_message_content option \<Rightarrow> string" where
  "parseInputLocationMessageContent L p =
     (case p of None \<Rightarrow> '' ''
      | Some x \<Rightarrow>
         let r = [];
             r = append_float L r ''latitude'' (ilm_latitude x);
             r = append_float L r ''longitude'' (ilm_longitude x)
         in r)"

definition parseInputVenueMessageContent :: "('d, 'f) lib \<Rightarrow> 'f input_venue_message_content option \<Rightarrow> string" where
  "parseInputVenueMessageContent L p =
     (case p of None \<Rightarrow> '' ''
      | Some x \<Rightarrow>
         let r = [];
             r = append_float L r ''latitude'' (ivm_latitude x);
             r = append_float L r ''longitude'' (ivm_longitude x);
             r = append_str r ''title'' (ivm_title x);
             r = append_str r ''address'' (ivm_address x);
             r = append_str r ''foursquare_id'' (ivm_foursquareId x)
         in r)"

definition parseInputContactMessageContent :: "('d, 'f) lib \<Rightarrow> input_contact_message_content option \<Rightarrow> string" where
  "parseInputContactMessageContent L p =
     (case p of None \<Rightarrow> '' ''
      | Some x \<Rightarrow>
         let r = [];
             r = append_str r ''phone_number'' (icm_phoneNumber x);
             r = append_str r ''first_name'' (icm_firstName x);
             r = append_str r ''last_name'' (icm_lastName x)
         in r)"

definition parseInputMessageContent :: "('d, 'f) lib \<Rightarrow> 'f input_message_content option \<Rightarrow> string" where
  "parseInputMessageContent L p =
     (case p of None \<Rightarrow> []
      | Some x \<Rightarrow>
         let r = ''{'' @
               (case x of
                  IsInputText c \<Rightarrow> parseInputTextMessageContent L (Some c)
                | IsInputLocation c \<Rightarrow> parseInputLocationMessageContent L (Some c)
                | IsInputVenue c \<Rightarrow> parseInputVenueMessageContent L (Some c)
                | IsInputContact c \<Rightarrow> parseInputContactMessageContent L (Some c))
         in erase_last r @ ''}'')"

definition parseInlineQueryResultCachedAudio :: "('d, 'f) lib \<Rightarrow> inline_query_result_cached_audio option \<Rightarrow> string" where
  "parseInlineQueryResultCachedAudio L p =
     (case p of None \<Rightarrow> '' ''
      | Some x \<Rightarrow>
         let r = [];
             r = append_str r ''audio_file_id'' (rca_audioFileId x)
         in r)"

definition parseInlineQueryResultCachedDocument :: "('d, 'f) lib \<Rightarrow> inline_query_result_cached_document option \<Rightarrow> string" where
  "parseInlineQueryResultCachedDocument L p =
     (case p of None \<Rightarrow> '' ''
      | Some x \<Rightarrow>
         let r = [];
             r = append_str r ''document_file_id'' (rcd_documentFileId x);
             r = append_str r ''description'' (rcd_description x)
         in r)"

definition parseInlineQueryResultCachedGif :: "('d, 'f) lib \<Rightarrow> inline_query_result_cached_gif option \<Rightarrow> string" where
  "parseInlineQueryResultCachedGif L p =
     (case p of None \<Rightarrow> '' ''
      | Some x \<Rightarrow>
         let r = [];
             r = append_str r ''gif_file_id'' (rcg_gifFileId x)
         in r)"

definition parseInlineQueryResultCachedMpeg4Gif :: "('d, 'f) lib \<Rightarrow> inline_query_result_cached_mpeg4_gif option \<Rightarrow> string" where
  "parseInlineQueryResultCachedMpeg4Gif L p =
     (case p of None \<Rightarrow> '' ''
      | Some x \<Rightarrow>
         let r = [];
             r = append_str r ''mpeg4_file_id'' (rcm_mpeg4FileId x)
         in r)"

definition parseInlineQueryResultCachedPhoto :: "('d, 'f) lib \<Rightarrow> inline_query_result_cached_photo option \<Rightarrow> string" where
  "parseInlineQueryResultCachedPhoto L p =
     (case p of None \<Rightarrow> '' ''
      | Some x \<Rightarrow>
         let r = [];
             r = append_str r ''photo_file_id'' (rcp_photoFileId x);
             r = append_str r ''description'' (rcp_description x)
         in r)"

definition parseInlineQueryResultCachedSticker :: "('d, 'f) lib \<Rightarrow> inline_query_result_cached_sticker option \<Rightarrow> string" where
  "parseInlineQueryResultCachedSticker L p =
     (case p of None \<Rightarrow> '' ''
      | Some x \<Rightarrow>
         let r = [];
             r = append_str r ''sticker_file_id'' (rcs_stickerFileId x)
         in r)"

definition parseInlineQueryResultCachedVideo :: "('d, 'f) lib \<Rightarrow> inline_query_result_cached_video option \<Rightarrow> string" where
  "parseInlineQueryResultCachedVideo L p =
     (case p of None \<Rightarrow> '' ''
      | Some x \<Rightarrow>
         let r = [];
             r = append_str r ''video_file_id'' (rcv_videoFileId x);
             r = append_str r ''description'' (rcv_description x)
         in r)"

definition parseInlineQueryResultCachedVoice :: "('d, 'f) lib \<Rightarrow> inline_query_result_cached_voice option \<Rightarrow> string" where
  "parseInlineQueryResultCachedVoice L p =
     (case p of None \<Rightarrow> '' ''
      | Some x \<Rightarrow>
         let r = [];
             r = append_str r ''voice_file_id'' (rco_voiceFileId x)
         in r)"

definition parseInlineQueryResultArticle :: "('d, 'f) lib \<Rightarrow> inline_query_result_article option \<Rightarrow> string" where
  "parseInlineQueryResultArticle L p =
     (case p of None \<Rightarrow> '' ''
      | Some x \<Rightarrow>
         let r = [];
             r = append_str r ''url'' (rar_url x);
             r = append_bool r ''hide_url'' (rar_hideUrl x);
             r = append_str r ''description'' (rar_description x);
             r = append_str r ''thumb_url'' (rar_thumbUrl x);
             r = append_int r ''thumb_width'' (rar_thumbWidth x);
             r = append_int r ''thumb_height'' (rar_thumbHeight x)
         in r)"

definition parseInlineQueryResultAudio :: "('d, 'f) lib \<Rightarrow> inline_query_result_audio option \<Rightarrow> string" where
  "parseInlineQueryResultAudio L p =
     (case p of None \<Rightarrow> '' ''
      | Some x \<Rightarrow>
         let r = [];
             r = append_str r ''audio_url'' (rau_audioUrl x);
             r = append_str r ''performer'' (rau_performer x);
             r = append_int r ''audio_duration'' (rau_audioDuration x)
         in r)"

definition parseInlineQueryResultContact :: "('d, 'f) lib \<Rightarrow> inline_query_result_contact option \<Rightarrow> string" where
  "parseInlineQueryResultContact L p =
     (case p of None \<Rightarrow> '' ''
      | Some x \<Rightarrow>
         let r = [];
             r = append_str r ''phone_number'' (rct_phoneNumber x);
             r = append_str r ''first_name'' (rct_firstName x);
             r = append_str r ''last_name'' (rct_lastName x);
             r = append_str r ''thumb_url'' (rct_thumbUrl x);
             r = append_int r ''thumb_width'' (rct_thumbWidth x);
             r = append_int r ''thumb_height'' (rct_thumbHeight x)
         in r)"

definition parseInlineQueryResultGame :: "('d, 'f) lib \<Rightarrow> inline_query_result_game option \<Rightarrow> string" where
  "parseInlineQueryResultGame L p =
     (case p of None \<Rightarrow> '' ''
      | Some x \<Rightarrow>
         let r = [];
             r = append_str r ''game_short_name'' (rga_gameShortName x)
         in r)"

definition parseInlineQueryResultDocument :: "('d, 'f) lib \<Rightarrow> inline_query_result_document option \<Rightarrow> string" where
  "parseInlineQueryResultDocument L p =
     (case p of None \<Rightarrow> '' ''
      | Some x \<Rightarrow>
         let r = [];
             r = append_str r ''document_url'' (rdo_documentUrl x);
             r = append_str r ''mime_type'' (rdo_mimeType x);
             r = append_str r ''description'' (rdo_description x);
             r = append_str r ''thumb_url'' (rdo_thumbUrl x);
             r = append_int r ''thumb_width'' (rdo_thumbWidth x);
             r = append_int r ''thumb_height'' (rdo_thumbHeight x)
         in r)"

definition parseInlineQueryResultLocation :: "('d, 'f) lib \<Rightarrow> 'f inline_query_result_location option \<Rightarrow> string" where
  "parseInlineQueryResultLocation L p =
     (case p of None \<Rightarrow> '' ''
      | Some x \<Rightarrow>
         let r = [];
             r = append_float L r ''latitude'' (rlo_latitude x);
             r = append_float L r ''longitude'' (rlo_longitude x);
             r = append_str r ''thumb_url'' (rlo_thumbUrl x);
             r = append_int r ''thumb_width'' (rlo_thumbWidth x);
             r = append_int r ''thumb_height'' (rlo_thumbHeight x)
         in r)"

definition parseInlineQueryResultVenue :: "('d, 'f) lib \<Rightarrow> 'f inline_query_result_venue option \<Rightarrow> string" where
  "parseInlineQueryResultVenue L p =
     (case p of None \<Rightarrow> '' ''
      | Some x \<Rightarrow>
         let r = [];
             r = append_float L r ''latitude'' (rve_latitude x);
             r = append_float L r ''longitude'' (rve_longitude x);
             r = append_str r ''address'' (rve_address x);
             r = append_str r ''foursquare_id'' (rve_foursquareId x);
             r = append_str r ''thumb_url'' (rve_thumbUrl x);
             r = append_int r ''thumb_width'' (rve_thumbWidth x);
             r = append_int r ''thumb_height'' (rve_thumbHeight x)
         in r)"

definition parseInlineQueryResultVoice :: "('d, 'f) lib \<Rightarrow> inline_query_result_voice option \<Rightarrow> string" where
  "parseInlineQueryResultVoice L p =
     (case p of None \<Rightarrow> '' ''
      | Some x \<Rightarrow>
         let r = [];
             r = append_str r ''voice_url'' (rvo_voiceUrl x);
             r = append_int r ''voice_duration'' (rvo_voiceDuration x)
         in r)"

definition parseInlineQueryResultPhoto :: "('d, 'f) lib \<Rightarrow> inline_query_result_photo option \<Rightarrow> string" where
  "parseInlineQueryResultPhoto L p =
     (case p of None \<Rightarrow> '' ''
      | Some x \<Rightarrow>
         let r = [];
             r = append_str r ''photo_url'' (rph_photoUrl x);
             r = append_str r ''thumb_url'' (rph_thumbUrl x);
             r = append_int r ''photo_width'' (rph_photoWidth x);
             r = append_int r ''photo_height'' (rph_photoHeight x);
             r = append_str r ''description'' (rph_description x)
         in r)"

definition parseInlineQueryResultGif :: "('d, 'f) lib \<Rightarrow> inline_query_result_gif option \<Rightarrow> string" where
  "parseInlineQueryResultGif L p =
     (case p of None \<Rightarrow> '' ''
      | Some x \<Rightarrow>
         let r = [];
             r = append_str r ''gif_url'' (rgi_gifUrl x);
             r = append_int r ''gif_width'' (rgi_gifWidth x);
             r = append_int r ''gif_height'' (rgi_gifHeight x);
             r = append_str r ''thumb_url'' (rgi_thumbUrl x)
         in r)"

definition parseInlineQueryResultMpeg4Gif :: "('d, 'f) lib \<Rightarrow> inline_query_result_mpeg4_gif option \<Rightarrow> string" where
  "parseInlineQueryResultMpeg4Gif L p =
     (case p of None \<Rightarrow> '' ''
      | Some x \<Rightarrow>
         let r = [];
             r = append_str r ''mpeg4_url'' (rmp_mpeg4Url x);
             r = append_int r ''mpeg4_width'' (rmp_mpeg4Width x);
             r = append_int r ''mpeg4_height'' (rmp_mpeg4Height x);
             r = append_str r ''thumb_url'' (rmp_thumbUrl x)
         in r)"

definition parseInlineQueryResultVideo :: "('d, 'f) lib \<Rightarrow> inline_query_result_video option \<Rightarrow> string" where
  "parseInlineQueryResultVideo L p =
     (case p of None \<Rightarrow> '' ''
      | Some x \<Rightarrow>
         let r = [];
             r = append_str r ''video_url'' (rvi_videoUrl x);
             r = append_str r ''mime_type'' (rvi_mimeType x);
             r = append_str r ''thumb_url'' (rvi_thumbUrl x);
             r = append_int r ''video_width'' (rvi_videoWidth x);
             r = append_int r ''video_height'' (rvi_videoHeight x);
             r = append_int r ''video_duration'' (rvi_videoDuration x);
             r = append_str r ''description'' (rvi_description x)
         in r)"

text \<open>
  The dispatch on the base field \<open>type\<close> with a \<open>static\_pointer\_cast\<close>: undefined when the
  object is of another class.
\<close>

definition parseIqrDerived :: "('d, 'f) lib \<Rightarrow> string \<Rightarrow> 'f iqr_payload \<Rightarrow> perror + string" where
  "parseIqrDerived L ty d =
     (if ty = ''cached_audio'' then (case d of IsCachedAudio c \<Rightarrow> Inr (parseInlineQueryResultCachedAudio L (Some c)) | _ \<Rightarrow> Inl BadCast)
      else if ty = ''cached_document'' then (case d of IsCachedDocument c \<Rightarrow> Inr (parseInlineQueryResultCachedDocument L (Some c)) | _ \<Rightarrow> Inl BadCast)
      else if ty = ''cached_gif'' then (case d of IsCachedGif c \<Rightarrow> Inr (parseInlineQueryResultCachedGif L (Some c)) | _ \<Rightarrow> Inl BadCast)
      else if ty = ''cached_mpeg4gif'' then (case d of IsCachedMpeg4Gif c \<Rightarrow> Inr (parseInlineQueryResultCachedMpeg4Gif L (Some c)) | _ \<Rightarrow> Inl BadCast)
      else if ty = ''cached_photo'' then (case d of IsCachedPhoto c \<Rightarrow> Inr (parseInlineQueryResultCachedPhoto L (Some c)) | _ \<Rightarrow> Inl BadCast)
      else if ty = ''cached_sticker'' then (case d of IsCachedSticker c \<Rightarrow> Inr (parseInlineQueryResultCachedSticker L (Some c)) | _ \<Rightarrow> Inl BadCast)
      else if ty = ''cached_video'' then (case d of IsCachedVideo c \<Rightarrow> Inr (parseInlineQueryResultCachedVideo L (Some c)) | _ \<Rightarrow> Inl BadCast)
      else if ty = ''cached_voice'' then (case d of IsCachedVoice c \<Rightarrow> Inr (parseInlineQueryResultCachedVoice L (Some c)) | _ \<Rightarrow> Inl BadCast)
      else if ty = ''article'' then (case d of IsArticle c \<Rightarrow> Inr (parseInlineQueryResultArticle L (Some c)) | _ \<Rightarrow> Inl BadCast)
      else if ty = ''audio'' then (case d of IsAudio c \<Rightarrow> Inr (parseInlineQueryResultAudio L (Some c)) | _ \<Rightarrow> Inl BadCast)
      else if ty = ''contact'' then (case d of IsContact c \<Rightarrow> Inr (parseInlineQueryResultContact L (Some c)) | _ \<Rightarrow> Inl BadCast)
      else if ty = ''game'' then (case d of IsGame c \<Rightarrow> Inr (parseInlineQueryResultGame L (Some c)) | _ \<Rightarrow> Inl BadCast)
      else if ty = ''document'' then (case d of IsDocument c \<Rightarrow> Inr (parseInlineQueryResultDocument L (Some c)) | _ \<Rightarrow> Inl BadCast)
      else if ty = ''location'' then (case d of IsLocation c \<Rightarrow> Inr (parseInlineQueryResultLocation L (Some c)) | _ \<Rightarrow> Inl BadCast)
      else if ty = ''venue'' then (case d of IsVenue c \<Rightarrow> Inr (parseInlineQueryResultVenue L (Some c)) | _ \<Rightarrow> Inl BadCast)
      else if ty = ''voice'' then (case d of IsVoice c \<Rightarrow> Inr (parseInlineQueryResultVoice L (Some c)) | _ \<Rightarrow> Inl BadCast)
      else if ty = ''photo'' then (case d of IsPhoto c \<Rightarrow> Inr (parseInlineQueryResultPhoto L (Some c)) | _ \<Rightarrow> Inl BadCast)
      else if ty = ''gif'' then (case d of IsGif c \<Rightarrow> Inr (parseInlineQueryResultGif L (Some c)) | _ \<Rightarrow> Inl BadCast)
      else if ty = ''mpeg4_gif'' then (case d of IsMpeg4Gif c \<Rightarrow> Inr (parseInlineQueryResultMpeg4Gif L (Some c)) | _ \<Rightarrow> Inl BadCast)
      else if ty = ''video'' then (case d of IsVideo c \<Rightarrow> Inr (parseInlineQueryResultVideo L (Some c)) | _ \<Rightarrow> Inl BadCast)
      else Inr [])"

definition parseInlineQueryResult :: "('d, 'f) lib \<Rightarrow> 'f inline_query_result option \<Rightarrow> perror + string" where
  "parseInlineQueryResult L p =
     (case p of None \<Rightarrow> Inr []
      | Some x \<Rightarrow>
         let r = ''{'';
             r = append_str r ''id'' (iqr_id x);
             r = append_str r ''type'' (iqr_type x);
             r = append_str r ''title'' (iqr_title x);
             r = append_str r ''caption'' (iqr_caption x);
             r = append_str r ''reply_markup'' (parseInlineKeyboardMarkup L (iqr_replyMarkup x));
             r = append_str r ''input_message_content'' (parseInputMessageContent L (iqr_inputMessageContent x))
         in bindE (parseIqrDerived L (iqr_type x) (iqr_derived x)) (\<lambda>d.
            Inr (erase_last (r @ d) @ ''}'')))"

end
