(* ===== verification/TelegramBotModel.thy ===== *)
theory TelegramBotModel
  imports HttpsClientModel TgReader TgWriter
begin

text \<open>
  \<open>src/TelegramBot.cpp\<close>: requests of the Telegram API and the dispatch of their responses. The
  object is the handler of its \<open>HttpsClient\<close>; its own handler (the application) has an object of type
  \<open>'u\<close>. \<open>tb\_timers\<close> counts the waits of the reconnection timer whose handler has not run. The JSON
  reader of Boost is the parameter \<open>J\<close> (None: it throws), the source of randomness of the multipart
  boundary is \<open>rnd\<close>.
\<close>

section \<open>State and handler\<close>

datatype parse_mode = NoMode | Markdown | Html

record bot_state =
  tb_apiUrl :: string
  tb_token :: string
  tb_lastUpdateId :: int32
  tb_timerDelay :: int64
  tb_enabled :: bool
  tb_timers :: nat

type_synonym ('m, 'u) bot_world = "('m, bot_state \<times> 'u) https_world"

record ('f, 'm, 'u) bot_handler =
  thInlineQuery :: "'f inline_query \<Rightarrow> ('m, 'u) bot_world \<Rightarrow> ('m, 'u) bot_world"
  thChosenInlineResult :: "'f chosen_inline_result \<Rightarrow> ('m, 'u) bot_world \<Rightarrow> ('m, 'u) bot_world"
  thCallbackQuery :: "'f callback_query \<Rightarrow> ('m, 'u) bot_world \<Rightarrow> ('m, 'u) bot_world"
  thMessage :: "'f message \<Rightarrow> ('m, 'u) bot_world \<Rightarrow> ('m, 'u) bot_world"
  thOwnMessage :: "'f message \<Rightarrow> ('m, 'u) bot_world \<Rightarrow> ('m, 'u) bot_world"
  thGetMe :: "tg_user \<Rightarrow> ('m, 'u) bot_world \<Rightarrow> ('m, 'u) bot_world"

definition bot_init :: bot_state where
  "bot_init = \<lparr>tb_apiUrl = [], tb_token = [], tb_lastUpdateId = 0, tb_timerDelay = 0, tb_enabled = False, tb_timers = 0\<rparr>"

definition bot_of :: "('m, 'u) bot_world \<Rightarrow> bot_state" where
  "bot_of x = fst (snd (snd x))"

definition bot_upd :: "(bot_state \<Rightarrow> bot_state) \<Rightarrow> ('m, 'u) bot_world \<Rightarrow> ('m, 'u) bot_world" where
  "bot_upd f x = (fst x, (fst (snd x), (f (fst (snd (snd x))), snd (snd (snd x)))))"

lemma bot_upd_simps [simp]:
  "fst (bot_upd f x) = fst x" "hc_of (bot_upd f x) = hc_of x" "bot_of (bot_upd f x) = f (bot_of x)"
  "bot_of (hc_upd g x) = bot_of x" "snd (snd (snd (bot_upd f x))) = snd (snd (snd x))"
  "snd (snd (snd (hc_upd g x))) = snd (snd (snd x))"
  by (simp_all add: bot_upd_def hc_upd_def hc_of_def bot_of_def)

definition setApiUrl :: "string \<Rightarrow> ('m, 'u) bot_world \<Rightarrow> ('m, 'u) bot_world" where
  "setApiUrl u = bot_upd (\<lambda>b. b\<lparr>tb_apiUrl := u\<rparr>)"

definition setToken :: "string \<Rightarrow> ('m, 'u) bot_world \<Rightarrow> ('m, 'u) bot_world" where
  "setToken t = bot_upd (\<lambda>b. b\<lparr>tb_token := t\<rparr>)"

definition setReconnectDelay :: "int64 \<Rightarrow> ('m, 'u) bot_world \<Rightarrow> ('m, 'u) bot_world" where
  "setReconnectDelay d = bot_upd (\<lambda>b. b\<lparr>tb_timerDelay := d\<rparr>)"

section \<open>Requests\<close>

definition TAG_GET_UPDATES :: nat where "TAG_GET_UPDATES = 1"
definition TAG_GET_ME :: nat where "TAG_GET_ME = 2"
definition TAG_SEND_MESSAGE :: nat where "TAG_SEND_MESSAGE = 3"
definition TAG_SEND_LOCATION :: nat where "TAG_SEND_LOCATION = 4"
definition TAG_SEND_VENUE :: nat where "TAG_SEND_VENUE = 5"
definition TAG_SEND_CONTACT :: nat where "TAG_SEND_CONTACT = 6"

lemmas tags = TAG_GET_UPDATES_def TAG_GET_ME_def TAG_SEND_MESSAGE_def TAG_SEND_LOCATION_def
  TAG_SEND_VENUE_def TAG_SEND_CONTACT_def

definition makeRequest ::
  "('d, 'f) lib \<Rightarrow> (nat \<Rightarrow> nat) \<Rightarrow> string \<Rightarrow> req_arg list \<Rightarrow> nat \<Rightarrow> bool \<Rightarrow> ('m, 'u) bot_world \<Rightarrow> ('m, 'u) bot_world" where
  "makeRequest L rnd method args tag longPoll x =
     (let b = bot_of x
      in if \<not> tb_enabled b \<or> tb_apiUrl b = [] \<or> tb_token b = [] \<or> method = [] then x
         else
           (let u = Url_parse (tb_apiUrl b @ tb_token b @ ''/'' @ method);
                d = generateRequest L rnd u args False
            in sendRequest (HttpRequest u d longPoll tag) x))"

definition arg_int :: "('d, 'f) lib \<Rightarrow> string \<Rightarrow> 'w::len word \<Rightarrow> req_arg" where
  "arg_int L n i = HttpReqArg n (lc_int L (sint i))"

definition arg_if :: "bool \<Rightarrow> req_arg \<Rightarrow> req_arg list" where
  "arg_if b a = (if b then [a] else [])"

text \<open>The optional arguments that all messages share.\<close>

definition common_args :: "('d, 'f) lib \<Rightarrow> bool \<Rightarrow> int32 \<Rightarrow> generic_reply option \<Rightarrow> req_arg list" where
  "common_args L disableNotification replyTo markup =
     arg_if disableNotification (HttpReqArg ''disable_notification'' (lc_bool L disableNotification)) @
     arg_if (replyTo \<noteq> 0) (arg_int L ''reply_to_message_id'' replyTo) @
     arg_if (markup \<noteq> None) (HttpReqArg ''reply_markup'' (parseGenericReply L markup))"

definition getMe :: "('d, 'f) lib \<Rightarrow> (nat \<Rightarrow> nat) \<Rightarrow> ('m, 'u) bot_world \<Rightarrow> ('m, 'u) bot_world" where
  "getMe L rnd = makeRequest L rnd ''getMe'' [] TAG_GET_ME False"

definition parse_mode_args :: "parse_mode \<Rightarrow> req_arg list" where
  "parse_mode_args m =
     (case m of Markdown \<Rightarrow> [HttpReqArg ''parse_mode'' ''Markdown'']
              | Html \<Rightarrow> [HttpReqArg ''parse_mode'' ''HTML'']
              | NoMode \<Rightarrow> [])"

definition sendMessage ::
  "('d, 'f) lib \<Rightarrow> (nat \<Rightarrow> nat) \<Rightarrow> int64 \<Rightarrow> string \<Rightarrow> parse_mode \<Rightarrow> bool \<Rightarrow> bool \<Rightarrow> int32 \<Rightarrow> generic_reply option \<Rightarrow>
   ('m, 'u) bot_world \<Rightarrow> ('m, 'u) bot_world" where
  "sendMessage L rnd chatId txt mode disablePreview disableNotification replyTo markup =
     makeRequest L rnd ''sendMessage''
       ([arg_int L ''chat_id'' chatId, HttpReqArg ''text'' txt] @ parse_mode_args mode @
        arg_if disablePreview (HttpReqArg ''disable_web_page_preview'' (lc_bool L disablePreview)) @
        common_args L disableNotification replyTo markup)
       TAG_SEND_MESSAGE False"

definition sendLocation ::
  "('d, 'f) lib \<Rightarrow> (nat \<Rightarrow> nat) \<Rightarrow> int64 \<Rightarrow> 'd \<Rightarrow> 'd \<Rightarrow> bool \<Rightarrow> int32 \<Rightarrow> generic_reply option \<Rightarrow>
   ('m, 'u) bot_world \<Rightarrow> ('m, 'u) bot_world" where
  "sendLocation L rnd chatId latitude longitude disableNotification replyTo markup =
     makeRequest L rnd ''sendLocation''
       ([arg_int L ''chat_id'' chatId, HttpReqArg ''latitude'' (lc_double L latitude),
         HttpReqArg ''longitude'' (lc_double L longitude)] @
        common_args L disableNotification replyTo markup)
       TAG_SEND_LOCATION False"

definition sendVenue ::
  "('d, 'f) lib \<Rightarrow> (nat \<Rightarrow> nat) \<Rightarrow> int64 \<Rightarrow> 'd \<Rightarrow> 'd \<Rightarrow> string \<Rightarrow> string \<Rightarrow> string \<Rightarrow> bool \<Rightarrow> int32 \<Rightarrow> generic_reply option \<Rightarrow>
   ('m, 'u) bot_world \<Rightarrow> ('m, 'u) bot_world" where
  "sendVenue L rnd chatId latitude longitude title address foursquareId disableNotification replyTo markup =
     makeRequest L rnd ''sendVenue''
       ([arg_int L ''chat_id'' chatId, HttpReqArg ''latitude'' (lc_double L latitude),
         HttpReqArg ''longitude'' (lc_double L longitude), HttpReqArg ''title'' title,
         HttpReqArg ''address'' address] @
        arg_if (foursquareId \<noteq> []) (HttpReqArg ''foursquare_id'' foursquareId) @
        common_args L disableNotification replyTo markup)
       TAG_SEND_VENUE False"

definition sendContact ::
  "('d, 'f) lib \<Rightarrow> (nat \<Rightarrow> nat) \<Rightarrow> int64 \<Rightarrow> string \<Rightarrow> string \<Rightarrow> string \<Rightarrow> bool \<Rightarrow> int32 \<Rightarrow> generic_reply option \<Rightarrow>
   ('m, 'u) bot_world \<Rightarrow> ('m, 'u) bot_world" where
  "sendContact L rnd chatId phoneNumber firstName lastName disableNotification replyTo markup =
     makeRequest L rnd ''sendContact''
       ([arg_int L ''chat_id'' chatId, HttpReqArg ''phone_number'' phoneNumber, HttpReqArg ''first_name'' firstName] @
        arg_if (lastName \<noteq> []) (HttpReqArg ''last_name'' lastName) @
        common_args L disableNotification replyTo markup)
       TAG_SEND_CONTACT False"

definition clamp_limit :: "int32 \<Rightarrow> int32" where
  "clamp_limit limit = word_of_int (max 1 (min 100 (sint limit)))"

definition getUpdates :: "('d, 'f) lib \<Rightarrow> (nat \<Rightarrow> nat) \<Rightarrow> int32 \<Rightarrow> int32 \<Rightarrow> ('m, 'u) bot_world \<Rightarrow> ('m, 'u) bot_world" where
  "getUpdates L rnd limit timeout x =
     makeRequest L rnd ''getUpdates''
       (arg_if (tb_lastUpdateId (bot_of x) \<noteq> 0) (arg_int L ''offset'' (tb_lastUpdateId (bot_of x))) @
        [arg_int L ''limit'' (clamp_limit limit)] @
        arg_if (timeout \<noteq> 0) (arg_int L ''timeout'' timeout))
       TAG_GET_UPDATES True x"

section \<open>Callbacks\<close>

definition handleUpdate :: "('f, 'm, 'u) bot_handler option \<Rightarrow> 'f update \<Rightarrow> ('m, 'u) bot_world \<Rightarrow> ('m, 'u) bot_world" where
  "handleUpdate Th u x =
     (case Th of
        None \<Rightarrow> x
      | Some h \<Rightarrow>
         (let x = (case upd_inlineQuery u of Some q \<Rightarrow> thInlineQuery h q x | None \<Rightarrow> x);
              x = (case upd_chosenInlineResult u of Some q \<Rightarrow> thChosenInlineResult h q x | None \<Rightarrow> x);
              x = (case upd_callbackQuery u of Some q \<Rightarrow> thCallbackQuery h q x | None \<Rightarrow> x)
          in case upd_message u of Some m \<Rightarrow> thMessage h m x | None \<Rightarrow> x))"

definition bot_handleError :: "errc option \<Rightarrow> ('m, 'u) bot_world \<Rightarrow> ('m, 'u) bot_world" where
  "bot_handleError e x =
     (if \<not> tb_enabled (bot_of x) then x
      else if sint (tb_timerDelay (bot_of x)) < 1 then x
      else bot_upd (\<lambda>b. b\<lparr>tb_timers := tb_timers b + 1\<rparr>) x)"

definition bot_handleIdle :: "('d, 'f) lib \<Rightarrow> (nat \<Rightarrow> nat) \<Rightarrow> ('m, 'u) bot_world \<Rightarrow> ('m, 'u) bot_world" where
  "bot_handleIdle L rnd x = (if \<not> tb_enabled (bot_of x) then x else getUpdates L rnd 100 60 x)"

definition bot_start :: "('d, 'f) lib \<Rightarrow> (nat \<Rightarrow> nat) \<Rightarrow> ('m, 'u) bot_world \<Rightarrow> ('m, 'u) bot_world" where
  "bot_start L rnd x = bot_handleIdle L rnd (bot_upd (\<lambda>b. b\<lparr>tb_enabled := True\<rparr>) x)"

definition bot_stop :: "('m, 'u) bot_world \<Rightarrow> ('m, 'u) bot_world" where
  "bot_stop = bot_upd (\<lambda>b. b\<lparr>tb_enabled := False\<rparr>)"

text \<open>\<open>update\_id + 1\<close> is written at the width of the code's \<open>int32\_t\<close>.\<close>

definition note_update :: "int32 \<Rightarrow> bot_state \<Rightarrow> bot_state" where
  "note_update i b = (if tb_lastUpdateId b \<le>s i then b\<lparr>tb_lastUpdateId := i + 1\<rparr> else b)"

text \<open>The array is parsed before the first update is handled; its elements are never null.\<close>

fun update_loop :: "('f, 'm, 'u) bot_handler option \<Rightarrow> 'f update option list \<Rightarrow> ('m, 'u) bot_world \<Rightarrow> ('m, 'u) bot_world" where
  "update_loop Th [] x = x"
| "update_loop Th (None # us) x = update_loop Th us x"
| "update_loop Th (Some u # us) x =
     (let x = handleUpdate Th u (bot_upd (note_update (upd_updateId u)) x)
      in if hc_fault (hc_of x) \<noteq> None then x else update_loop Th us x)"

definition or_throw :: "perror + 'a \<Rightarrow> ('a \<Rightarrow> ('m, 'u) bot_world \<Rightarrow> ('m, 'u) bot_world) \<Rightarrow> ('m, 'u) bot_world \<Rightarrow> ('m, 'u) bot_world" where
  "or_throw r f x = (case r of Inl e \<Rightarrow> https_fault Escaped x | Inr a \<Rightarrow> f a x)"

definition dispatch_result ::
  "('d, 'f) lib \<Rightarrow> ('f, 'm, 'u) bot_handler option \<Rightarrow> nat \<Rightarrow> ptree \<Rightarrow> ('m, 'u) bot_world \<Rightarrow> ('m, 'u) bot_world" where
  "dispatch_result L Th tag json x =
     (if tag = TAG_GET_UPDATES then
        or_throw (parseJsonAndGetArray (parseJsonAndGetUpdate L) json) (update_loop Th) x
      else if tag = TAG_GET_ME then
        (case Th of None \<Rightarrow> x | Some h \<Rightarrow> or_throw (parseJsonAndGetUser L json) (thGetMe h) x)
      else if tag = TAG_SEND_MESSAGE \<or> tag = TAG_SEND_LOCATION \<or> tag = TAG_SEND_VENUE \<or> tag = TAG_SEND_CONTACT then
        (case Th of None \<Rightarrow> x | Some h \<Rightarrow> or_throw (parseJsonAndGetMessage L json) (thOwnMessage h) x)
      else x)"

definition bot_handleResponse ::
  "('d, 'f) lib \<Rightarrow> (string \<Rightarrow> ptree option) \<Rightarrow> ('f, 'm, 'u) bot_handler option \<Rightarrow> http_request \<Rightarrow> string \<Rightarrow>
   ('m, 'u) bot_world \<Rightarrow> ('m, 'u) bot_world" where
  "bot_handleResponse L J Th request response x =
     (if \<not> tb_enabled (bot_of x) \<or> response = [] then x
      else
        (let serverResponse = parseHttp_body False response
         in if serverResponse = [] then x
            else if str_contains ''<html>'' serverResponse then x
            else
              (case J serverResponse of
                 None \<Rightarrow> x
               | Some json \<Rightarrow>
                   if \<not> get_bool_d L json ''ok'' False then x
                   else
                     (case get_child json ''result'' of
                        None \<Rightarrow> https_fault Escaped x
                      | Some result \<Rightarrow> dispatch_result L Th (req_tag request) result x))))"

definition bot_handleTimerEvent :: "('m, 'u) bot_world \<Rightarrow> ('m, 'u) bot_world" where
  "bot_handleTimerEvent x = (if tb_enabled (bot_of x) then pushQueue x else x)"

definition bot_timer :: "('m, 'u) bot_world \<Rightarrow> ('m, 'u) bot_world" where
  "bot_timer x = bot_handleTimerEvent (bot_upd (\<lambda>b. b\<lparr>tb_timers := tb_timers b - 1\<rparr>) x)"

text \<open>\<open>TelegramBot\<close> as the handler of its \<open>HttpsClient\<close>.\<close>

definition bot_http_handler ::
  "('d, 'f) lib \<Rightarrow> (string \<Rightarrow> ptree option) \<Rightarrow> (nat \<Rightarrow> nat) \<Rightarrow> ('f, 'm, 'u) bot_handler option \<Rightarrow> ('m, bot_state \<times> 'u) http_handler" where
  "bot_http_handler L J rnd Th =
     \<lparr>hhError = bot_handleError, hhIdle = bot_handleIdle L rnd, hhResponse = bot_handleResponse L J Th\<rparr>"

section \<open>The contract of the bot's handler\<close>

text \<open>The bot as a client of its queue: whatever it does is queuing, setting the timer, or throwing.\<close>

lemma https_ctl_refl: "https_ctl x x"
  by (cases x) (metis hctl_user prod.collapse)

lemma https_ctl_object: "https_ctl x y \<Longrightarrow> fst z = fst y \<Longrightarrow> fst (snd z) = fst (snd y) \<Longrightarrow> https_ctl x z"
proof (cases z; cases "snd z"; cases y; cases "snd y")
  fix cz vz hz bz c v h b
  assume a: "https_ctl x y" "fst z = fst y" "fst (snd z) = fst (snd y)" "z = (cz, vz)" "snd z = (hz, bz)"
    "y = (c, v)" "snd y = (h, b)"
  from a(1) have "https_ctl x (c, (h, b))" using a by simp
  hence "https_ctl x (c, (h, bz))"
  proof (induction x "(c, (h, b))" arbitrary: c h b rule: https_ctl.induct)
    case (hctl_user c h b b')
    show ?case by (rule https_ctl.hctl_user)
  next
    case (hctl_send x c0 h0 b0 r b1)
    thus ?case using https_ctl.hctl_send[OF hctl_send(1), of r bz]
      by (simp add: sendRequest_def pushQueue_def hc_upd_def)
  next
    case (hctl_push x c0 h0 b0 b1)
    thus ?case using https_ctl.hctl_push[OF hctl_push(1), of bz] by (simp add: pushQueue_def hc_upd_def)
  next
    case (hctl_throw x c0 h0 b0 b1)
    thus ?case using https_ctl.hctl_throw[OF hctl_throw(1) hctl_throw(3), of bz] by (simp add: https_fault_def hc_upd_def)
  qed
  thus "https_ctl x z" using a by simp
qed

lemma https_ctl_bot: "https_ctl x (bot_upd f y)" if "https_ctl x y"
  by (rule https_ctl_object[OF that]) (simp_all add: bot_upd_def)

lemma https_ctl_steps:
  assumes "https_ctl x y"
  shows "https_ctl x (sendRequest r y)" "https_ctl x (pushQueue y)" "f \<noteq> EmptyDeque \<Longrightarrow> https_ctl x (https_fault f y)"
  using hctl_send[of x "fst y" "fst (snd y)" "snd (snd y)" r "snd (snd y)"]
    hctl_push[of x "fst y" "fst (snd y)" "snd (snd y)" "snd (snd y)"]
    hctl_throw[of x "fst y" "fst (snd y)" "snd (snd y)" f "snd (snd y)"] assms by simp_all

lemma https_ctl_trans: "https_ctl y z \<Longrightarrow> https_ctl x y \<Longrightarrow> https_ctl x z"
proof (induction rule: https_ctl.induct)
  case (hctl_user c h b b')
  thus ?case using https_ctl_object[OF hctl_user, of "(c, (h, b'))"] by simp
qed (auto intro: https_ctl.intros)

lemma makeRequest_ctl: "https_ctl x y \<Longrightarrow> https_ctl x (makeRequest L rnd m args tag lp y)"
  by (auto simp: makeRequest_def Let_def intro: https_ctl_steps)

lemmas request_defs = getMe_def sendMessage_def sendLocation_def sendVenue_def sendContact_def getUpdates_def

lemma requests_ctl:
  assumes "https_ctl x y"
  shows "https_ctl x (getMe L rnd y)" "https_ctl x (sendMessage L rnd c t pm dp dn rt mk y)"
    "https_ctl x (sendLocation L rnd c la lo dn rt mk y)" "https_ctl x (sendVenue L rnd c la lo ti ad fq dn rt mk y)"
    "https_ctl x (sendContact L rnd c ph fi ln dn rt mk y)" "https_ctl x (getUpdates L rnd li tm y)"
  using assms by (simp_all add: request_defs makeRequest_ctl)

locale telegram_user =
  fixes Th :: "('f, 'm, 'u) bot_handler"
  assumes inline_ctl: "https_ctl x (thInlineQuery Th q x)"
    and chosen_ctl: "https_ctl x (thChosenInlineResult Th cr x)"
    and callback_ctl: "https_ctl x (thCallbackQuery Th cq x)"
    and message_ctl: "https_ctl x (thMessage Th m x)"
    and own_ctl: "https_ctl x (thOwnMessage Th m x)"
    and getme_ctl: "https_ctl x (thGetMe Th u x)"
begin

lemmas callbacks_ctl = inline_ctl chosen_ctl callback_ctl message_ctl own_ctl getme_ctl

lemma handleUpdate_ctl: "https_ctl x y \<Longrightarrow> https_ctl x (handleUpdate (Some Th) u y)"
  using callbacks_ctl[THEN https_ctl_trans]
  by (auto simp: handleUpdate_def Let_def split: option.splits)

lemma update_loop_ctl: "https_ctl x y \<Longrightarrow> https_ctl x (update_loop (Some Th) us y)"
proof (induction us arbitrary: y)
  case (Cons u us)
  show ?case
  proof (cases u)
    case (Some u')
    have "https_ctl x (handleUpdate (Some Th) u' (bot_upd (note_update (upd_updateId u')) y))"
      by (intro handleUpdate_ctl https_ctl_bot Cons.prems)
    thus ?thesis using Cons.IH Some by (simp add: Let_def)
  qed (use Cons in simp)
qed simp

lemma dispatch_ctl: "https_ctl x (dispatch_result L (Some Th) tag json x)"
  using update_loop_ctl[OF https_ctl_refl[of x]] callbacks_ctl[of x] https_ctl_steps(3)[OF https_ctl_refl[of x], of Escaped] https_ctl_refl[of x]
  by (auto simp: dispatch_result_def or_throw_def split: sum.splits)

end

text \<open>The bot meets the contract of the HTTPS client.\<close>

sublocale telegram_user \<subseteq> http: http_user "bot_http_handler L J rnd (Some Th)" for L J rnd
proof
  fix x :: "('m, bot_state \<times> 'u) https_world" and q d e
  show "https_ctl x (hhResponse (bot_http_handler L J rnd (Some Th)) q d x)"
    using dispatch_ctl[of x] https_ctl_steps(3)[OF https_ctl_refl[of x], of Escaped] https_ctl_refl[of x]
    by (auto simp: bot_http_handler_def bot_handleResponse_def Let_def split: option.splits)
  show "https_ctl x (hhError (bot_http_handler L J rnd (Some Th)) e x)"
    using https_ctl_bot[OF https_ctl_refl[of x]] https_ctl_refl[of x]
    by (auto simp: bot_http_handler_def bot_handleError_def)
  show "https_ctl x (hhIdle (bot_http_handler L J rnd (Some Th)) x)"
    using requests_ctl(6)[OF https_ctl_refl[of x]] https_ctl_refl[of x]
    by (auto simp: bot_http_handler_def bot_handleIdle_def)
qed

section \<open>Responses\<close>

text \<open>What decides whether a response ends the process: an exception that nothing catches.\<close>

definition response_json :: "('d, 'f) lib \<Rightarrow> (string \<Rightarrow> ptree option) \<Rightarrow> string \<Rightarrow> ptree option" where
  "response_json L J d =
     (let b = parseHttp_body False d
      in if d = [] \<or> b = [] \<or> str_contains ''<html>'' b then None
         else (case J b of None \<Rightarrow> None | Some j \<Rightarrow> if get_bool_d L j ''ok'' False then Some j else None))"

definition result_parses :: "('d, 'f) lib \<Rightarrow> nat \<Rightarrow> ptree \<Rightarrow> bool" where
  "result_parses L tag r \<longleftrightarrow>
     (tag = TAG_GET_UPDATES \<longrightarrow> (\<exists>us. parseJsonAndGetArray (parseJsonAndGetUpdate L) r = Inr us)) \<and>
     (tag = TAG_GET_ME \<longrightarrow> (\<exists>u. parseJsonAndGetUser L r = Inr u)) \<and>
     (tag \<in> {TAG_SEND_MESSAGE, TAG_SEND_LOCATION, TAG_SEND_VENUE, TAG_SEND_CONTACT} \<longrightarrow>
        (\<exists>m. parseJsonAndGetMessage L r = Inr m))"

lemma bot_handleResponse_json:
  "tb_enabled (bot_of x) \<Longrightarrow> bot_handleResponse L J Th q d x =
     (case response_json L J d of
        None \<Rightarrow> x
      | Some j \<Rightarrow> (case get_child j ''result'' of None \<Rightarrow> https_fault Escaped x
                  | Some r \<Rightarrow> dispatch_result L Th (req_tag q) r x))"
  by (simp add: bot_handleResponse_def response_json_def Let_def split: option.splits)

lemma update_loop_fault:
  assumes "\<And>u y. hc_fault (hc_of y) = None \<Longrightarrow> hc_fault (hc_of (handleUpdate Th u y)) = None"
  shows "hc_fault (hc_of y) = None \<Longrightarrow> hc_fault (hc_of (update_loop Th us y)) = None"
proof (induction us arbitrary: y)
  case (Cons u us)
  thus ?case using assms[of "bot_upd f y" for f] by (cases u) (simp_all add: Let_def)
qed simp

text \<open>A handler whose callbacks do not throw.\<close>

definition calm_handler :: "('f, 'm, 'u) bot_handler \<Rightarrow> bool" where
  "calm_handler Th \<longleftrightarrow>
     (\<forall>x. hc_fault (hc_of x) = None \<longrightarrow>
        (\<forall>q. hc_fault (hc_of (thInlineQuery Th q x)) = None) \<and> (\<forall>q. hc_fault (hc_of (thChosenInlineResult Th q x)) = None) \<and>
        (\<forall>q. hc_fault (hc_of (thCallbackQuery Th q x)) = None) \<and> (\<forall>m. hc_fault (hc_of (thMessage Th m x)) = None) \<and>
        (\<forall>m. hc_fault (hc_of (thOwnMessage Th m x)) = None) \<and> (\<forall>u. hc_fault (hc_of (thGetMe Th u x)) = None))"

lemma calmD:
  assumes "calm_handler Th" "hc_fault (hc_of x) = None"
  shows "hc_fault (hc_of (thInlineQuery Th q x)) = None" "hc_fault (hc_of (thChosenInlineResult Th c x)) = None"
    "hc_fault (hc_of (thCallbackQuery Th k x)) = None" "hc_fault (hc_of (thMessage Th m x)) = None"
    "hc_fault (hc_of (thOwnMessage Th m x)) = None" "hc_fault (hc_of (thGetMe Th u x)) = None"
  using assms unfolding calm_handler_def by blast+

lemma calm_handleUpdate:
  "calm_handler Th \<Longrightarrow> hc_fault (hc_of y) = None \<Longrightarrow> hc_fault (hc_of (handleUpdate (Some Th) u y)) = None"
  by (simp add: handleUpdate_def calmD Let_def split: option.split)

lemma fault_of_fault [simp]: "hc_fault (hc_of (https_fault f x)) = Some f"
  by (simp add: https_fault_def)


definition quiet_bot :: "('f, 'm, 'u) bot_handler" where
  "quiet_bot = \<lparr>thInlineQuery = \<lambda>_ x. x, thChosenInlineResult = \<lambda>_ x. x, thCallbackQuery = \<lambda>_ x. x,
     thMessage = \<lambda>_ x. x, thOwnMessage = \<lambda>_ x. x, thGetMe = \<lambda>_ x. x\<rparr>"

lemma quiet_update [simp]: "handleUpdate (Some quiet_bot) u x = x"
  by (simp add: handleUpdate_def quiet_bot_def Let_def split: option.split)

definition demo_world :: "(unit, unit) bot_world" where
  "demo_world = ((tcp_init, ssl_init ()), (https_init, (bot_init\<lparr>tb_enabled := True\<rparr>, ())))"


definition handles :: "('f, 'm, 'u) bot_handler \<Rightarrow> bool" where
  "handles Th \<longleftrightarrow>
     (\<forall>u x. hc_fault (hc_of x) = None \<longrightarrow>
        hc_fault (hc_of (handleUpdate (Some Th) u x)) = None \<and> bot_of (handleUpdate (Some Th) u x) = bot_of x)"

lemma note_update_less:
  assumes "sint i < 2 ^ 31 - 1"
  shows "sint i < sint (tb_lastUpdateId (note_update i b)) \<and> sint (tb_lastUpdateId b) \<le> sint (tb_lastUpdateId (note_update i b))"
proof -
  have "- (2 ^ 31) \<le> sint i" using sint_ge[of i] by simp
  hence "sint (i + 1) = sint i + 1"
    using assms by (simp add: sint_word_ariths signed_take_bit_int_eq_self)
  thus ?thesis by (auto simp: note_update_def word_sle_eq)
qed

lemma update_loop_offset:
  assumes "handles Th"
  shows "hc_fault (hc_of x) = None \<Longrightarrow> \<forall>u\<in>set us. sint (upd_updateId u) < 2 ^ 31 - 1 \<Longrightarrow>
    (let b = bot_of (update_loop (Some Th) (map Some us) x) in
       (\<forall>u\<in>set us. sint (upd_updateId u) < sint (tb_lastUpdateId b)) \<and>
       sint (tb_lastUpdateId (bot_of x)) \<le> sint (tb_lastUpdateId b) \<and>
       (\<exists>i. b = (bot_of x)\<lparr>tb_lastUpdateId := i\<rparr>))"
proof (induction us arbitrary: x)
  case Nil
  show ?case by (simp add: Let_def) (rule exI[of _ "tb_lastUpdateId (bot_of x)"], simp)
next
  case (Cons u us)
  define z where "z = bot_upd (note_update (upd_updateId u)) x"
  define y where "y = handleUpdate (Some Th) u z"
  have z: "hc_fault (hc_of z) = None" "bot_of z = note_update (upd_updateId u) (bot_of x)"
    using Cons.prems(1) by (simp_all add: z_def)
  hence y: "hc_fault (hc_of y) = None" "bot_of y = bot_of z"
    using assms unfolding handles_def y_def by blast+
  have "sint (upd_updateId u) < sint (tb_lastUpdateId (bot_of y))"
      "sint (tb_lastUpdateId (bot_of x)) \<le> sint (tb_lastUpdateId (bot_of y))"
    using note_update_less[of "upd_updateId u" "bot_of x"] Cons.prems(2) y(2) z(2) by simp_all
  moreover have "\<exists>i. bot_of y = (bot_of x)\<lparr>tb_lastUpdateId := i\<rparr>"
    using y(2) z(2) by (auto simp: note_update_def intro: exI[of _ "tb_lastUpdateId (bot_of x)"])
  moreover have "update_loop (Some Th) (map Some (u # us)) x = update_loop (Some Th) (map Some us) y"
    using y(1) by (simp add: y_def z_def Let_def)
  ultimately show ?case using Cons.IH[OF y(1)] Cons.prems(2) by (auto simp: Let_def)
qed

lemma update_loop_handled:
  assumes "handles Th"
  shows "hc_fault (hc_of x) = None \<Longrightarrow>
    update_loop (Some Th) (map Some us) x =
      fold (\<lambda>u x. handleUpdate (Some Th) u (bot_upd (note_update (upd_updateId u)) x)) us x"
proof (induction us arbitrary: x)
  case (Cons u us)
  define y where "y = handleUpdate (Some Th) u (bot_upd (note_update (upd_updateId u)) x)"
  have "hc_fault (hc_of y) = None"
    using assms Cons.prems unfolding handles_def y_def by (metis bot_upd_simps(2))
  thus ?case using Cons.IH[of y] by (simp add: y_def Let_def)
qed simp


definition demo_updates :: ptree where
  "demo_updates = PT [] [(''ok'', PT ''true'' []),
     (''result'', PT [] [([], PT [] [(''update_id'', PT ''7'' [])]), ([], PT [] [(''update_id'', PT ''5'' [])])])]"

definition bare_update :: "int32 \<Rightarrow> 'f update" where
  "bare_update i = \<lparr>upd_updateId = i, upd_message = None, upd_editedMessage = None, upd_channelPost = None,
     upd_editedChannelPost = None, upd_inlineQuery = None, upd_chosenInlineResult = None, upd_callbackQuery = None\<rparr>"


end
