(* ===== verification/DatabaseModel.thy ===== *)
theory DatabaseModel
  imports Prelude TgTypes
begin

text \<open>
  \<open>src/ApplicationDatabase.cpp\<close> with the records it stores (\<open>GpsMessage.h\<close>, \<open>User.h\<close>,
  \<open>UserSettings.h\<close>). SQLite is a parameter: a record of its functions on an abstract state \<open>'w\<close>, with
  statements and columns named by numbers. A time is the number of seconds since 1970, or None for
  Boost's special values. \<open>sq\_rows\<close> bounds the rows of a cursor (the loops over rows run as
  long as \<open>sqlite3\_step\<close> returns a row, and at most that often).
\<close>

section \<open>Records\<close>

type_synonym ptime = "int option"
type_synonym uint32 = "32 word"

record 'd gps_message =
  gm_imei :: string
  gm_keyword :: string
  gm_phone :: string
  gm_trackerTime :: ptime
  gm_hostTime :: ptime
  gm_latitude :: 'd
  gm_longitude :: 'd
  gm_speed :: 'd
  gm_valid :: bool

definition GpsMessage :: "('d, 'f) lib \<Rightarrow> 'd gps_message" where
  "GpsMessage L = \<lparr>gm_imei = [], gm_keyword = [], gm_phone = [], gm_trackerTime = None, gm_hostTime = None,
     gm_latitude = d_zero L, gm_longitude = d_zero L, gm_speed = d_zero L, gm_valid = False\<rparr>"

record app_user =
  au_access :: uint32
  au_tg :: "tg_user option"
  au_valid :: bool

definition new_user :: app_user where
  "new_user = \<lparr>au_access = 0, au_tg = None, au_valid = False\<rparr>"

record user_settings =
  us_id :: int64
  us_status :: uint32

definition new_settings :: user_settings where
  "new_settings = \<lparr>us_id = 0, us_status = 0\<rparr>"

section \<open>SQLite\<close>

record ('d, 'w) sqlite =
  sq_open :: "string \<Rightarrow> 'w \<Rightarrow> int \<times> 'w"
  sq_close :: "'w \<Rightarrow> 'w"
  sq_exec :: "string \<Rightarrow> 'w \<Rightarrow> int \<times> 'w"
  sq_prepare :: "string \<Rightarrow> 'w \<Rightarrow> int \<times> nat \<times> 'w"
  sq_bind_int :: "nat \<Rightarrow> nat \<Rightarrow> 32 word \<Rightarrow> 'w \<Rightarrow> int \<times> 'w"
  sq_bind_int64 :: "nat \<Rightarrow> nat \<Rightarrow> int64 \<Rightarrow> 'w \<Rightarrow> int \<times> 'w"
  sq_bind_double :: "nat \<Rightarrow> nat \<Rightarrow> 'd \<Rightarrow> 'w \<Rightarrow> int \<times> 'w"
  sq_bind_text :: "nat \<Rightarrow> nat \<Rightarrow> string \<Rightarrow> 'w \<Rightarrow> int \<times> 'w"
  sq_step :: "nat \<Rightarrow> 'w \<Rightarrow> int \<times> 'w"
  sq_finalize :: "nat \<Rightarrow> 'w \<Rightarrow> int \<times> 'w"
  sq_column_count :: "nat \<Rightarrow> 'w \<Rightarrow> nat"
  sq_column_name :: "nat \<Rightarrow> nat \<Rightarrow> 'w \<Rightarrow> string"
  sq_column_int :: "nat \<Rightarrow> nat \<Rightarrow> 'w \<Rightarrow> 32 word"
  sq_column_int64 :: "nat \<Rightarrow> nat \<Rightarrow> 'w \<Rightarrow> int64"
  sq_column_double :: "nat \<Rightarrow> nat \<Rightarrow> 'w \<Rightarrow> 'd"
  sq_column_text :: "nat \<Rightarrow> nat \<Rightarrow> 'w \<Rightarrow> string"
  sq_rows :: nat

definition SQLITE_OK :: int where "SQLITE_OK = 0"
definition SQLITE_MISUSE :: int where "SQLITE_MISUSE = 21"
definition SQLITE_ROW :: int where "SQLITE_ROW = 100"
definition SQLITE_DONE :: int where "SQLITE_DONE = 101"

lemmas sqlite_codes = SQLITE_OK_def SQLITE_MISUSE_def SQLITE_ROW_def SQLITE_DONE_def

text \<open>\<open>db\_open\<close>: the pointer \<open>\_database\<close> is not null. With a null pointer SQLite reports a misuse.\<close>

record 'w db =
  db_open :: bool
  db_world :: 'w

type_synonym ('w, 'a) db_call = "'w db \<Rightarrow> 'a \<times> 'w db"

definition db_lift :: "('w \<Rightarrow> 'a \<times> 'w) \<Rightarrow> ('w, 'a) db_call" where
  "db_lift f b = (case f (db_world b) of (a, w) \<Rightarrow> (a, b\<lparr>db_world := w\<rparr>))"

definition db_exec :: "('d, 'w) sqlite \<Rightarrow> string \<Rightarrow> ('w, int) db_call" where
  "db_exec Q sql b = (if db_open b then db_lift (sq_exec Q sql) b else (SQLITE_MISUSE, b))"

definition db_prepare :: "('d, 'w) sqlite \<Rightarrow> string \<Rightarrow> ('w, int \<times> nat) db_call" where
  "db_prepare Q sql b =
     (if db_open b then (case sq_prepare Q sql (db_world b) of (r, st, w) \<Rightarrow> ((r, st), b\<lparr>db_world := w\<rparr>))
      else ((SQLITE_MISUSE, 0), b))"

section \<open>Running a statement\<close>

text \<open>Each binding is followed by its check; the first that fails ends the function.\<close>

fun db_binds :: "('w \<Rightarrow> int \<times> 'w) list \<Rightarrow> ('w, bool) db_call" where
  "db_binds [] b = (True, b)"
| "db_binds (f # fs) b = (case db_lift f b of (r, b) \<Rightarrow> if r \<noteq> SQLITE_OK then (False, b) else db_binds fs b)"

text \<open>
  The functions that change the database prepare, bind, step and finalize. On an error they return
  false without finalizing the statement.
\<close>

definition db_run :: "('d, 'w) sqlite \<Rightarrow> string \<Rightarrow> (nat \<Rightarrow> ('w \<Rightarrow> int \<times> 'w) list) \<Rightarrow> ('w, bool) db_call" where
  "db_run Q sql binds b =
     (case db_prepare Q sql b of
        ((r, st), b) \<Rightarrow>
          if r \<noteq> SQLITE_OK then (False, b)
          else (case db_binds (binds st) b of
                  (False, b) \<Rightarrow> (False, b)
                | (True, b) \<Rightarrow>
                    (case db_lift (sq_step Q st) b of
                       (r, b) \<Rightarrow>
                         if r \<noteq> SQLITE_OK \<and> r \<noteq> SQLITE_DONE then (False, b)
                         else (True, snd (db_lift (sq_finalize Q st) b)))))"

text \<open>
  The functions that query step through the rows; \<open>row\<close> reads the current row into the accumulator.
\<close>

fun db_rows :: "('d, 'w) sqlite \<Rightarrow> nat \<Rightarrow> ('w \<Rightarrow> 'a \<Rightarrow> 'a) \<Rightarrow> nat \<Rightarrow> int \<Rightarrow> 'a \<Rightarrow> ('w, int \<times> 'a) db_call" where
  "db_rows Q st row 0 r a b = ((r, a), b)"
| "db_rows Q st row (Suc n) r a b =
     (if r \<noteq> SQLITE_ROW then ((r, a), b)
      else (let a = row (db_world b) a
            in case db_lift (sq_step Q st) b of (r, b) \<Rightarrow> db_rows Q st row n r a b))"

definition db_query ::
  "('d, 'w) sqlite \<Rightarrow> string \<Rightarrow> (nat \<Rightarrow> ('w \<Rightarrow> int \<times> 'w) list) \<Rightarrow> (nat \<Rightarrow> 'w \<Rightarrow> 'a \<Rightarrow> 'a) \<Rightarrow> 'a \<Rightarrow> ('w, bool \<times> 'a) db_call" where
  "db_query Q sql binds row a b =
     (case db_prepare Q sql b of
        ((r, st), b) \<Rightarrow>
          if r \<noteq> SQLITE_OK then ((False, a), b)
          else (case db_binds (binds st) b of
                  (False, b) \<Rightarrow> ((False, a), b)
                | (True, b) \<Rightarrow>
                    (case db_lift (sq_step Q st) b of
                       (r, b) \<Rightarrow>
                         (case db_rows Q st (row st) (sq_rows Q) r a b of
                            ((r, a), b) \<Rightarrow>
                              if r \<noteq> SQLITE_DONE \<and> r \<noteq> SQLITE_OK then ((False, a), b)
                              else (case db_lift (sq_finalize Q st) b of
                                      (r, b) \<Rightarrow> ((r = SQLITE_OK, a), b))))))"

text \<open>The columns of a row are visited in order; what is done with one depends on its name.\<close>

definition each_column :: "('d, 'w) sqlite \<Rightarrow> nat \<Rightarrow> (string \<Rightarrow> nat \<Rightarrow> 'w \<Rightarrow> 'a \<Rightarrow> 'a) \<Rightarrow> 'w \<Rightarrow> 'a \<Rightarrow> 'a" where
  "each_column Q st f w a = fold (\<lambda>k. f (sq_column_name Q st k w) k w) [0..<sq_column_count Q st w] a"

section \<open>Opening\<close>

text \<open>The statements are continued over lines, so they hold the indentation of the source.\<close>

definition indent :: string where
  "indent = replicate 35 (CHR '' '')"

definition sqlUsers :: string where
  "sqlUsers =
     ''CREATE TABLE IF NOT EXISTS users ( '' @
     indent @ ''id  INTEGER NOT NULL PRIMARY KEY, '' @
     indent @ ''firstname TEXT NOT NULL, '' @
     indent @ ''lastname TEXT NOT NULL, '' @
     indent @ ''nickname TEXT NOT NULL, '' @
     indent @ ''access INTEGER NOT NULL DEFAULT 0)''"

definition sqlData :: string where
  "sqlData =
     ''CREATE TABLE IF NOT EXISTS data ( '' @
     indent @ ''imei TEXT NOT NULL, '' @
     indent @ ''keyword TEXT NOT NULL, '' @
     indent @ ''phone TEXT NOT NULL, '' @
     indent @ ''tracker_time INTEGER NOT NULL DEFAULT 0, '' @
     indent @ ''host_time INTEGER NOT NULL DEFAULT 0, '' @
     indent @ ''latitude REAL NOT NULL DEFAULT 0.0, '' @
     indent @ ''longitude REAL NOT NULL DEFAULT 0.0, '' @
     indent @ ''speed REAL NOT NULL DEFAULT 0.0, '' @
     indent @ ''valid INTEGER NOT NULL DEFAULT 0)''"

definition sqlSettings :: string where
  "sqlSettings =
     ''CREATE TABLE IF NOT EXISTS settings ( '' @
     indent @ ''id  INTEGER NOT NULL PRIMARY KEY, '' @
     indent @ ''status INTEGER NOT NULL DEFAULT 0)''"

definition closeDatabase :: "('d, 'w) sqlite \<Rightarrow> 'w db \<Rightarrow> 'w db" where
  "closeDatabase Q b = b\<lparr>db_world := sq_close Q (db_world b), db_open := False\<rparr>"

text \<open>\<open>fileName\<close> is the configured name, or the one made from the program's path.\<close>

fun exec_all :: "('d, 'w) sqlite \<Rightarrow> string list \<Rightarrow> 'w db \<Rightarrow> bool \<times> 'w db" where
  "exec_all Q [] b = (True, b)"
| "exec_all Q (s # ss) b = (case db_exec Q s b of (r, b) \<Rightarrow> if r \<noteq> SQLITE_OK then (False, b) else exec_all Q ss b)"

definition openDatabase :: "('d, 'w) sqlite \<Rightarrow> string \<Rightarrow> 'w db \<Rightarrow> 'w db" where
  "openDatabase Q fileName b =
     (case sq_open Q fileName (db_world b) of
        (r, w) \<Rightarrow>
          (let b = b\<lparr>db_world := w, db_open := True\<rparr>
           in if r \<noteq> SQLITE_OK then closeDatabase Q b
              else (case exec_all Q [sqlUsers, sqlData, sqlSettings] b of
                      (True, b) \<Rightarrow> b
                    | (False, b) \<Rightarrow> closeDatabase Q b)))"

section \<open>The statements\<close>

definition sql_select_settings :: string where "sql_select_settings = ''SELECT * FROM settings''"
definition sql_delete_settings :: string where "sql_delete_settings = ''DELETE FROM settings''"
definition sql_insert_setting :: string where "sql_insert_setting = ''INSERT INTO settings (id, status) VALUES (?, ?)''"
definition sql_insert_data :: string where
  "sql_insert_data = ''INSERT INTO data (imei, keyword, phone, tracker_time, host_time, latitude, longitude, speed, valid) VALUES (?, ?, ?, ?, ?, ?, ?, ?, ?)''"
definition sql_insert_user :: string where
  "sql_insert_user = ''INSERT INTO users (id, firstname, lastname, nickname, access) VALUES (?, ?, ?, ?, ?)''"
definition sql_update_user :: string where
  "sql_update_user = ''UPDATE users SET firstname = ?, lastname = ?, nickname = ?, access = ? WHERE id = ?''"
definition sql_select_user :: string where "sql_select_user = ''SELECT * FROM users WHERE id = ? LIMIT 1''"

definition sql_select_data :: "uint32 \<Rightarrow> bool \<Rightarrow> string" where
  "sql_select_data limit validOnly =
     ''SELECT * FROM data'' @ (if validOnly then '' WHERE valid = 1'' else []) @
     '' ORDER BY host_time DESC'' @ (if limit \<noteq> 0 then '' LIMIT ?'' else [])"

lemmas sql_statements = sql_select_settings_def sql_delete_settings_def sql_insert_setting_def sql_insert_data_def
  sql_insert_user_def sql_update_user_def sql_select_user_def sql_select_data_def

section \<open>Settings\<close>

definition settings_column :: "('d, 'w) sqlite \<Rightarrow> nat \<Rightarrow> string \<Rightarrow> nat \<Rightarrow> 'w \<Rightarrow> user_settings \<Rightarrow> user_settings" where
  "settings_column Q st name k w row =
     (if name = ''id'' then row\<lparr>us_id := sq_column_int64 Q st k w\<rparr>
      else if name = ''status'' then row\<lparr>us_status := sq_column_int Q st k w\<rparr>
      else row)"

text \<open>The row buffer is declared outside of the loop, so it is part of what the loop carries.\<close>

definition settings_row :: "('d, 'w) sqlite \<Rightarrow> nat \<Rightarrow> 'w \<Rightarrow> user_settings \<times> user_settings list \<Rightarrow> user_settings \<times> user_settings list" where
  "settings_row Q st w a =
     (let row = each_column Q st (settings_column Q st) w (fst a) in (row, snd a @ [row]))"

definition restore_userSettings :: "('d, 'w) sqlite \<Rightarrow> ('w, user_settings list) db_call" where
  "restore_userSettings Q b =
     (case db_query Q sql_select_settings (\<lambda>st. []) (settings_row Q) (new_settings, []) b of
        ((ok, a), b) \<Rightarrow> (snd a, b))"

fun save_each :: "('d, 'w) sqlite \<Rightarrow> user_settings list \<Rightarrow> ('w, bool) db_call" where
  "save_each Q [] b = (True, b)"
| "save_each Q (u # us) b =
     (case db_run Q sql_insert_setting
             (\<lambda>st. [sq_bind_int64 Q st 1 (us_id u), sq_bind_int Q st 2 (us_status u)]) b of
        (False, b) \<Rightarrow> (False, b)
      | (True, b) \<Rightarrow> save_each Q us b)"

definition dbSaveSettings :: "('d, 'w) sqlite \<Rightarrow> user_settings list \<Rightarrow> ('w, bool) db_call" where
  "dbSaveSettings Q us b =
     (case db_exec Q sql_delete_settings b of
        (r, b) \<Rightarrow> if r \<noteq> SQLITE_OK then (False, b) else save_each Q us b)"

section \<open>Tracker data\<close>

definition toUnixTime :: "ptime \<Rightarrow> int64" where
  "toUnixTime t = (case t of None \<Rightarrow> 0 | Some s \<Rightarrow> word_of_int s)"

definition fromUnixTime :: "int64 \<Rightarrow> ptime" where
  "fromUnixTime t = Some (sint t)"

definition dbAddGpsData :: "('d, 'w) sqlite \<Rightarrow> 'd gps_message \<Rightarrow> ('w, bool) db_call" where
  "dbAddGpsData Q m =
     db_run Q sql_insert_data
       (\<lambda>st. [sq_bind_text Q st 1 (gm_imei m), sq_bind_text Q st 2 (gm_keyword m), sq_bind_text Q st 3 (gm_phone m),
              sq_bind_int64 Q st 4 (toUnixTime (gm_trackerTime m)), sq_bind_int64 Q st 5 (toUnixTime (gm_hostTime m)),
              sq_bind_double Q st 6 (gm_latitude m), sq_bind_double Q st 7 (gm_longitude m),
              sq_bind_double Q st 8 (gm_speed m), sq_bind_int Q st 9 (if gm_valid m then 1 else 0)])"

definition gps_column :: "('d, 'w) sqlite \<Rightarrow> nat \<Rightarrow> string \<Rightarrow> nat \<Rightarrow> 'w \<Rightarrow> 'd gps_message \<Rightarrow> 'd gps_message" where
  "gps_column Q st name k w m =
     (if name = ''imei'' then m\<lparr>gm_imei := sq_column_text Q st k w\<rparr>
      else if name = ''keyword'' then m\<lparr>gm_keyword := sq_column_text Q st k w\<rparr>
      else if name = ''phone'' then m\<lparr>gm_phone := sq_column_text Q st k w\<rparr>
      else if name = ''tracker_time'' then
        (let v = sq_column_int64 Q st k w in if v \<noteq> 0 then m\<lparr>gm_trackerTime := fromUnixTime v\<rparr> else m)
      else if name = ''host_time'' then
        (let v = sq_column_int64 Q st k w in if v \<noteq> 0 then m\<lparr>gm_hostTime := fromUnixTime v\<rparr> else m)
      else if name = ''latitude'' then m\<lparr>gm_latitude := sq_column_double Q st k w\<rparr>
      else if name = ''longitude'' then m\<lparr>gm_longitude := sq_column_double Q st k w\<rparr>
      else if name = ''speed'' then m\<lparr>gm_speed := sq_column_double Q st k w\<rparr>
      else if name = ''valid'' then m\<lparr>gm_valid := (sq_column_int Q st k w \<noteq> 0)\<rparr>
      else m)"

definition gps_row :: "('d, 'w) sqlite \<Rightarrow> nat \<Rightarrow> 'w \<Rightarrow> 'd gps_message \<times> 'd gps_message list \<Rightarrow> 'd gps_message \<times> 'd gps_message list" where
  "gps_row Q st w a = (let m = each_column Q st (gps_column Q st) w (fst a) in (m, snd a @ [m]))"

definition dbGetGpsData :: "('d, 'f) lib \<Rightarrow> ('d, 'w) sqlite \<Rightarrow> uint32 \<Rightarrow> bool \<Rightarrow> ('w, bool \<times> 'd gps_message list) db_call" where
  "dbGetGpsData L Q limit validOnly b =
     (case db_query Q (sql_select_data limit validOnly)
             (\<lambda>st. if limit \<noteq> 0 then [sq_bind_int Q st 1 limit] else []) (gps_row Q) (GpsMessage L, []) b of
        ((ok, a), b) \<Rightarrow> ((ok, snd a), b))"

section \<open>Users\<close>

definition user_row_binds :: "('d, 'w) sqlite \<Rightarrow> nat \<Rightarrow> nat \<Rightarrow> tg_user \<Rightarrow> uint32 \<Rightarrow> ('w \<Rightarrow> int \<times> 'w) list" where
  "user_row_binds Q st k t access =
     [sq_bind_text Q st k (usr_firstName t), sq_bind_text Q st (k + 1) (usr_lastName t),
      sq_bind_text Q st (k + 2) (usr_username t), sq_bind_int Q st (k + 3) access]"

definition dbCreateUser :: "('d, 'w) sqlite \<Rightarrow> app_user \<Rightarrow> ('w, bool) db_call" where
  "dbCreateUser Q u b =
     (case au_tg u of
        None \<Rightarrow> (False, b)
      | Some t \<Rightarrow>
          if \<not> au_valid u then (False, b)
          else db_run Q sql_insert_user
                 (\<lambda>st. sq_bind_int64 Q st 1 (usr_id t) # user_row_binds Q st 2 t (au_access u)) b)"

definition dbUpdateUser :: "('d, 'w) sqlite \<Rightarrow> app_user \<Rightarrow> ('w, bool) db_call" where
  "dbUpdateUser Q u b =
     (case au_tg u of
        None \<Rightarrow> (False, b)
      | Some t \<Rightarrow>
          if \<not> au_valid u then (False, b)
          else db_run Q sql_update_user
                 (\<lambda>st. user_row_binds Q st 1 t (au_access u) @ [sq_bind_int64 Q st 5 (usr_id t)]) b)"

definition user_column :: "('d, 'w) sqlite \<Rightarrow> nat \<Rightarrow> tg_user \<Rightarrow> string \<Rightarrow> nat \<Rightarrow> 'w \<Rightarrow> app_user \<times> bool \<Rightarrow> app_user \<times> bool" where
  "user_column Q st t name k w a =
     (let (u, needUpdate) = a;
          changed = (\<lambda>f. needUpdate \<or> sq_column_text Q st k w \<noteq> f t);
          (u, needUpdate) =
            (if name = ''firstname'' then (u, changed usr_firstName)
             else if name = ''lastname'' then (u, changed usr_lastName)
             else if name = ''nickname'' then (u, changed usr_username)
             else if name = ''access'' then (u\<lparr>au_access := sq_column_int Q st k w\<rparr>, needUpdate)
             else (u, needUpdate))
      in (u\<lparr>au_valid := True\<rparr>, needUpdate))"

definition dbSearchUser :: "('d, 'w) sqlite \<Rightarrow> app_user \<Rightarrow> ('w, bool \<times> app_user) db_call" where
  "dbSearchUser Q u b =
     (let u = u\<lparr>au_access := 0, au_valid := False\<rparr>
      in case au_tg u of
           None \<Rightarrow> ((False, u), b)
         | Some t \<Rightarrow>
             (case db_query Q sql_select_user (\<lambda>st. [sq_bind_int64 Q st 1 (usr_id t)])
                     (\<lambda>st. each_column Q st (user_column Q st t)) (u, False) b of
                ((False, (u, needUpdate)), b) \<Rightarrow> ((False, u), b)
              | ((True, (u, needUpdate)), b) \<Rightarrow>
                  ((True, u), if needUpdate then snd (dbUpdateUser Q u b) else b)))"

end
