(* ===== verification/SqliteReference.thy ===== *)
theory SqliteReference
  imports DatabaseModel
begin

text \<open>
  The documented behaviour of SQLite for the statements of the program, as an executable reference: three
  tables, prepared statements with their bindings, and cursors. Properties of the database part are stated
  for every SQLite whose calls are simulated by the reference (\<open>sqlite\_refines\<close>); the reference itself
  is such a one.
\<close>

section \<open>The reference\<close>

datatype 'd cell = CInt int64 | CText string | CReal 'd

type_synonym 'd row = "(string \<times> 'd cell) list"

record 'd ref_stmt =
  rs_sql :: string
  rs_args :: "(nat \<times> 'd cell) list"
  rs_rows :: "'d row list option"

record 'd ref_db =
  rd_users :: "'d row list"
  rd_data :: "'d row list"
  rd_settings :: "'d row list"
  rd_stmts :: "'d ref_stmt list"

definition ref_empty :: "'d ref_db" where
  "ref_empty = \<lparr>rd_users = [], rd_data = [], rd_settings = [], rd_stmts = []\<rparr>"

definition user_columns :: "string list" where
  "user_columns = [''id'', ''firstname'', ''lastname'', ''nickname'', ''access'']"

definition data_columns :: "string list" where
  "data_columns = [''imei'', ''keyword'', ''phone'', ''tracker_time'', ''host_time'', ''latitude'', ''longitude'', ''speed'', ''valid'']"

definition settings_columns :: "string list" where
  "settings_columns = [''id'', ''status'']"

text \<open>A row of the bound values; unbound values are NULL, which no column of the program allows.\<close>

definition bound_row :: "string list \<Rightarrow> (nat \<times> 'd cell) list \<Rightarrow> 'd row option" where
  "bound_row cols args =
     (let cs = map (map_of args) [1..<length cols + 1]
      in if None \<in> set cs then None else Some (zip cols (map the cs)))"

definition int_of :: "'d cell option \<Rightarrow> int64" where
  "int_of c = (case c of Some (CInt i) \<Rightarrow> i | _ \<Rightarrow> 0)"

definition row_int :: "string \<Rightarrow> 'd row \<Rightarrow> int64" where
  "row_int k r = int_of (map_of r k)"

definition SQLITE_CONSTRAINT :: int where "SQLITE_CONSTRAINT = 19"
definition SQLITE_ERROR :: int where "SQLITE_ERROR = 1"

definition insert_key :: "'d row option \<Rightarrow> 'd row list \<Rightarrow> 'd row list option" where
  "insert_key r t =
     (case r of
        None \<Rightarrow> None
      | Some r \<Rightarrow> if row_int ''id'' r \<in> set (map (row_int ''id'') t) then None else Some (t @ [r]))"

definition update_row :: "int64 \<Rightarrow> 'd row \<Rightarrow> 'd row \<Rightarrow> 'd row" where
  "update_row i new r = (if row_int ''id'' r = i then (''id'', CInt i) # new else r)"

text \<open>The statements of the program; a query of tracker data may pick the valid rows and limit their number.\<close>

datatype sql_kind = InsertSetting | InsertUser | InsertData | UpdateUser | SelectSettings | SelectUser
  | SelectData bool bool | UnknownSql

definition sql_kind_of :: "string \<Rightarrow> sql_kind" where
  "sql_kind_of sql =
     (if sql = sql_insert_setting then InsertSetting
      else if sql = sql_insert_user then InsertUser
      else if sql = sql_insert_data then InsertData
      else if sql = sql_update_user then UpdateUser
      else if sql = sql_select_settings then SelectSettings
      else if sql = sql_select_user then SelectUser
      else if sql = sql_select_data 0 False then SelectData False False
      else if sql = sql_select_data 0 True then SelectData True False
      else if sql = sql_select_data 1 False then SelectData False True
      else if sql = sql_select_data 1 True then SelectData True True
      else UnknownSql)"

text \<open>What the first step of a statement does: its result rows and the changed tables, or an error.\<close>

definition changed :: "'d row list option \<Rightarrow> ('d row list \<Rightarrow> 'd ref_db) \<Rightarrow> 'd ref_db \<Rightarrow> (int + 'd row list) \<times> 'd ref_db" where
  "changed t put w = (case t of None \<Rightarrow> (Inl SQLITE_CONSTRAINT, w) | Some t \<Rightarrow> (Inr [], put t))"

fun run_kind :: "sql_kind \<Rightarrow> (nat \<times> 'd cell) list \<Rightarrow> 'd ref_db \<Rightarrow> (int + 'd row list) \<times> 'd ref_db" where
  "run_kind InsertSetting args w =
     changed (insert_key (bound_row settings_columns args) (rd_settings w)) (\<lambda>t. w\<lparr>rd_settings := t\<rparr>) w"
| "run_kind InsertUser args w =
     changed (insert_key (bound_row user_columns args) (rd_users w)) (\<lambda>t. w\<lparr>rd_users := t\<rparr>) w"
| "run_kind InsertData args w =
     changed (map_option (\<lambda>r. rd_data w @ [r]) (bound_row data_columns args)) (\<lambda>t. w\<lparr>rd_data := t\<rparr>) w"
| "run_kind UpdateUser args w =
     changed (map_option (\<lambda>r. map (update_row (int_of (map_of args 5)) r) (rd_users w)) (bound_row (tl user_columns) args))
       (\<lambda>t. w\<lparr>rd_users := t\<rparr>) w"
| "run_kind SelectSettings args w = (Inr (sort_key (\<lambda>r. sint (row_int ''id'' r)) (rd_settings w)), w)"
| "run_kind SelectUser args w =
     (Inr (take 1 (filter (\<lambda>r. row_int ''id'' r = int_of (map_of args 1)) (rd_users w))), w)"
| "run_kind (SelectData valid limited) args w =
     (let rows = rev (sort_key (\<lambda>r. sint (row_int ''host_time'' r)) (filter (\<lambda>r. valid \<longrightarrow> row_int ''valid'' r = 1) (rd_data w)))
      in (Inr (if limited then take (nat (sint (int_of (map_of args 1)))) rows else rows), w))"
| "run_kind UnknownSql args w = (Inl SQLITE_ERROR, w)"

definition run_sql :: "string \<Rightarrow> (nat \<times> 'd cell) list \<Rightarrow> 'd ref_db \<Rightarrow> (int + 'd row list) \<times> 'd ref_db" where
  "run_sql sql = run_kind (sql_kind_of sql)"

lemma sql_kinds [simp]:
  "sql_kind_of sql_insert_setting = InsertSetting" "sql_kind_of sql_insert_user = InsertUser"
  "sql_kind_of sql_insert_data = InsertData" "sql_kind_of sql_update_user = UpdateUser"
  "sql_kind_of sql_select_settings = SelectSettings" "sql_kind_of sql_select_user = SelectUser"
  "sql_kind_of (sql_select_data 0 v) = SelectData v False" "sql_kind_of (sql_select_data 1 v) = SelectData v True"
  by (simp_all add: sql_kind_of_def sql_statements)

definition upd_stmt :: "nat \<Rightarrow> ('d ref_stmt \<Rightarrow> 'd ref_stmt) \<Rightarrow> 'd ref_db \<Rightarrow> 'd ref_db" where
  "upd_stmt st f w = (if st < length (rd_stmts w) then w\<lparr>rd_stmts := (rd_stmts w)[st := f (rd_stmts w ! st)]\<rparr> else w)"

definition ref_exec :: "string \<Rightarrow> 'd ref_db \<Rightarrow> int \<times> 'd ref_db" where
  "ref_exec sql w = (SQLITE_OK, if sql = sql_delete_settings then w\<lparr>rd_settings := []\<rparr> else w)"

definition ref_prepare :: "string \<Rightarrow> 'd ref_db \<Rightarrow> int \<times> nat \<times> 'd ref_db" where
  "ref_prepare sql w =
     (SQLITE_OK, length (rd_stmts w), w\<lparr>rd_stmts := rd_stmts w @ [\<lparr>rs_sql = sql, rs_args = [], rs_rows = None\<rparr>]\<rparr>)"

definition ref_bind :: "nat \<Rightarrow> nat \<Rightarrow> 'd cell \<Rightarrow> 'd ref_db \<Rightarrow> int \<times> 'd ref_db" where
  "ref_bind st k c w = (SQLITE_OK, upd_stmt st (\<lambda>s. s\<lparr>rs_args := (k, c) # rs_args s\<rparr>) w)"

definition step_result :: "'d row list \<Rightarrow> int" where
  "step_result rows = (if rows = [] then SQLITE_DONE else SQLITE_ROW)"

definition ref_step :: "nat \<Rightarrow> 'd ref_db \<Rightarrow> int \<times> 'd ref_db" where
  "ref_step st w =
     (if st < length (rd_stmts w) then
        (let s = rd_stmts w ! st
         in case rs_rows s of
              Some rows \<Rightarrow> (step_result (tl rows), upd_stmt st (\<lambda>s. s\<lparr>rs_rows := Some (tl rows)\<rparr>) w)
            | None \<Rightarrow>
                (case run_sql (rs_sql s) (rs_args s) w of
                   (Inl e, w) \<Rightarrow> (e, w)
                 | (Inr rows, w) \<Rightarrow> (step_result rows, upd_stmt st (\<lambda>s. s\<lparr>rs_rows := Some rows\<rparr>) w)))
      else (SQLITE_MISUSE, w))"

text \<open>The current row of a cursor.\<close>

definition current_row :: "nat \<Rightarrow> 'd ref_db \<Rightarrow> 'd row" where
  "current_row st w =
     (if st < length (rd_stmts w) then
        (case rs_rows (rd_stmts w ! st) of Some (r # _) \<Rightarrow> r | _ \<Rightarrow> []) else [])"

definition ref_column :: "nat \<Rightarrow> nat \<Rightarrow> 'd ref_db \<Rightarrow> 'd cell option" where
  "ref_column st k w = (let r = current_row st w in if k < length r then Some (snd (r ! k)) else None)"

definition ref_sqlite :: "'d \<Rightarrow> nat \<Rightarrow> ('d, 'd ref_db) sqlite" where
  "ref_sqlite zero n =
     \<lparr>sq_open = \<lambda>_ w. (SQLITE_OK, w), sq_close = \<lambda>w. w, sq_exec = ref_exec, sq_prepare = ref_prepare,
      sq_bind_int = \<lambda>st k i. ref_bind st k (CInt (scast i)), sq_bind_int64 = \<lambda>st k i. ref_bind st k (CInt i),
      sq_bind_double = \<lambda>st k d. ref_bind st k (CReal d), sq_bind_text = \<lambda>st k s. ref_bind st k (CText s),
      sq_step = ref_step, sq_finalize = \<lambda>st w. (SQLITE_OK, w),
      sq_column_count = \<lambda>st w. length (current_row st w),
      sq_column_name = \<lambda>st k w. (let r = current_row st w in if k < length r then fst (r ! k) else []),
      sq_column_int = \<lambda>st k w. ucast (int_of (ref_column st k w)),
      sq_column_int64 = \<lambda>st k w. int_of (ref_column st k w),
      sq_column_double = \<lambda>st k w. (case ref_column st k w of Some (CReal d) \<Rightarrow> d | _ \<Rightarrow> zero),
      sq_column_text = \<lambda>st k w. (case ref_column st k w of Some (CText s) \<Rightarrow> s | _ \<Rightarrow> []),
      sq_rows = n\<rparr>"

section \<open>Simulation\<close>

text \<open>\<open>V\<close> reads the tables and statements out of the state of SQLite.\<close>

definition sim_call :: "('w \<Rightarrow> 'v) \<Rightarrow> ('w \<Rightarrow> 'a \<times> 'w) \<Rightarrow> ('v \<Rightarrow> 'a \<times> 'v) \<Rightarrow> bool" where
  "sim_call V f g \<longleftrightarrow> (\<forall>w. fst (f w) = fst (g (V w)) \<and> V (snd (f w)) = snd (g (V w)))"

definition sqlite_refines :: "('w \<Rightarrow> 'v) \<Rightarrow> ('d, 'w) sqlite \<Rightarrow> ('d, 'v) sqlite \<Rightarrow> bool" where
  "sqlite_refines V Q R \<longleftrightarrow>
     (\<forall>sql. sim_call V (sq_exec Q sql) (sq_exec R sql)) \<and>
     (\<forall>sql w. fst (sq_prepare Q sql w) = fst (sq_prepare R sql (V w)) \<and>
              fst (snd (sq_prepare Q sql w)) = fst (snd (sq_prepare R sql (V w))) \<and>
              V (snd (snd (sq_prepare Q sql w))) = snd (snd (sq_prepare R sql (V w)))) \<and>
     (\<forall>st k i. sim_call V (sq_bind_int Q st k i) (sq_bind_int R st k i)) \<and>
     (\<forall>st k i. sim_call V (sq_bind_int64 Q st k i) (sq_bind_int64 R st k i)) \<and>
     (\<forall>st k d. sim_call V (sq_bind_double Q st k d) (sq_bind_double R st k d)) \<and>
     (\<forall>st k s. sim_call V (sq_bind_text Q st k s) (sq_bind_text R st k s)) \<and>
     (\<forall>st. sim_call V (sq_step Q st) (sq_step R st)) \<and>
     (\<forall>st. sim_call V (sq_finalize Q st) (sq_finalize R st)) \<and>
     (\<forall>st w. sq_column_count Q st w = sq_column_count R st (V w)) \<and>
     (\<forall>st k w. sq_column_name Q st k w = sq_column_name R st k (V w)) \<and>
     (\<forall>st k w. sq_column_int Q st k w = sq_column_int R st k (V w)) \<and>
     (\<forall>st k w. sq_column_int64 Q st k w = sq_column_int64 R st k (V w)) \<and>
     (\<forall>st k w. sq_column_double Q st k w = sq_column_double R st k (V w)) \<and>
     (\<forall>st k w. sq_column_text Q st k w = sq_column_text R st k (V w)) \<and>
     sq_rows Q = sq_rows R"

definition db_view :: "('w \<Rightarrow> 'v) \<Rightarrow> 'w db \<Rightarrow> 'v db" where
  "db_view V b = \<lparr>db_open = db_open b, db_world = V (db_world b)\<rparr>"

lemma sqlite_refines_refl: "sqlite_refines id R R"
  by (simp add: sqlite_refines_def sim_call_def)

text \<open>So a function of the program on the one database simulates the same function on the other.\<close>

definition sim_db :: "('w \<Rightarrow> 'v) \<Rightarrow> ('w, 'a) db_call \<Rightarrow> ('v, 'a) db_call \<Rightarrow> bool" where
  "sim_db V f g \<longleftrightarrow> (\<forall>b. fst (f b) = fst (g (db_view V b)) \<and> db_view V (snd (f b)) = snd (g (db_view V b)))"

lemma sim_dbD: "sim_db V f g \<Longrightarrow> g (db_view V b) = (fst (f b), db_view V (snd (f b)))"
  unfolding sim_db_def by (metis prod.collapse)

lemma sim_db_lift: "sim_call V f g \<Longrightarrow> sim_db V (db_lift f) (db_lift g)"
  by (auto simp: sim_db_def sim_call_def db_lift_def db_view_def case_prod_unfold)

lemma sim_db_binds:
  "list_all2 (sim_call V) fs gs \<Longrightarrow> sim_db V (db_binds fs) (db_binds gs)"
proof (induction rule: list_all2_induct)
  case (Cons f fs g gs)
  have "db_binds gs (db_view V b) = (fst (db_binds fs b), db_view V (snd (db_binds fs b)))" for b
    by (rule sim_dbD[OF Cons.IH])
  moreover have "db_lift g (db_view V b) = (fst (db_lift f b), db_view V (snd (db_lift f b)))" for b
    by (rule sim_dbD[OF sim_db_lift[OF Cons.hyps(1)]])
  ultimately show ?case by (simp add: sim_db_def case_prod_unfold)
qed (simp add: sim_db_def)

text \<open>The calls of the program, one after the other, under a simulation.\<close>

lemma refines_calls:
  assumes "sqlite_refines V Q R"
  shows "sim_call V (sq_exec Q sql) (sq_exec R sql)" "sim_call V (sq_step Q st) (sq_step R st)"
    "sim_call V (sq_finalize Q st) (sq_finalize R st)"
    "sim_call V (sq_bind_int Q st k i) (sq_bind_int R st k i)" "sim_call V (sq_bind_int64 Q st k j) (sq_bind_int64 R st k j)"
    "sim_call V (sq_bind_double Q st k d) (sq_bind_double R st k d)" "sim_call V (sq_bind_text Q st k s) (sq_bind_text R st k s)"
  using assms unfolding sqlite_refines_def by simp_all

lemma refines_columns:
  assumes "sqlite_refines V Q R"
  shows "sq_column_count R st (V w) = sq_column_count Q st w" "sq_column_name R st k (V w) = sq_column_name Q st k w"
    "sq_column_int R st k (V w) = sq_column_int Q st k w" "sq_column_int64 R st k (V w) = sq_column_int64 Q st k w"
    "sq_column_double R st k (V w) = sq_column_double Q st k w" "sq_column_text R st k (V w) = sq_column_text Q st k w"
    "sq_rows R = sq_rows Q"
  using assms unfolding sqlite_refines_def by simp_all

lemma sim_exec:
  assumes "sqlite_refines V Q R"
  shows "db_exec R sql (db_view V b) = (fst (db_exec Q sql b), db_view V (snd (db_exec Q sql b)))"
  using sim_dbD[OF sim_db_lift[OF refines_calls(1)[OF assms]]]
  by (simp add: db_exec_def) (simp add: db_view_def)

lemma sim_prepare:
  assumes "sqlite_refines V Q R"
  shows "db_prepare R sql (db_view V b) = (fst (db_prepare Q sql b), db_view V (snd (db_prepare Q sql b)))"
proof -
  have "\<forall>sql w. fst (sq_prepare Q sql w) = fst (sq_prepare R sql (V w)) \<and>
        fst (snd (sq_prepare Q sql w)) = fst (snd (sq_prepare R sql (V w))) \<and>
        V (snd (snd (sq_prepare Q sql w))) = snd (snd (sq_prepare R sql (V w)))"
    using assms by (simp add: sqlite_refines_def)
  thus ?thesis by (simp add: db_prepare_def db_view_def case_prod_unfold)
qed

lemma sim_step:
  assumes "sqlite_refines V Q R"
  shows "db_lift (sq_step R st) (db_view V b) = (fst (db_lift (sq_step Q st) b), db_view V (snd (db_lift (sq_step Q st) b)))"
  by (rule sim_dbD[OF sim_db_lift[OF refines_calls(2)[OF assms]]])

lemma sim_finalize:
  assumes "sqlite_refines V Q R"
  shows "db_lift (sq_finalize R st) (db_view V b) = (fst (db_lift (sq_finalize Q st) b), db_view V (snd (db_lift (sq_finalize Q st) b)))"
  by (rule sim_dbD[OF sim_db_lift[OF refines_calls(3)[OF assms]]])

lemma sim_run:
  assumes ref: "sqlite_refines V Q R" and "\<And>st. list_all2 (sim_call V) (binds st) (binds' st)"
  shows "db_run R sql binds' (db_view V b) = (fst (db_run Q sql binds b), db_view V (snd (db_run Q sql binds b)))"
proof -
  have "db_binds (binds' st) (db_view V b) = (fst (db_binds (binds st) b), db_view V (snd (db_binds (binds st) b)))" for st b
    by (rule sim_dbD[OF sim_db_binds[OF assms(2)]])
  thus ?thesis
    by (simp add: db_run_def case_prod_unfold sim_prepare[OF ref] sim_step[OF ref] sim_finalize[OF ref] split: bool.split)
qed

lemma sim_rows:
  assumes ref: "sqlite_refines V Q R" and "\<And>w a. row' (V w) a = row w a"
  shows "db_rows R st row' n r a (db_view V b) = (fst (db_rows Q st row n r a b), db_view V (snd (db_rows Q st row n r a b)))"
proof (induction n arbitrary: r a b)
  case (Suc n)
  have "db_world (db_view V b) = V (db_world b)" by (simp add: db_view_def)
  thus ?case by (simp add: case_prod_unfold Let_def sim_step[OF ref] Suc assms)
qed simp

lemma sim_query:
  assumes ref: "sqlite_refines V Q R" and "\<And>st. list_all2 (sim_call V) (binds st) (binds' st)"
    and row: "\<And>st w a. row' st (V w) a = row st w a"
  shows "db_query R sql binds' row' a (db_view V b) = (fst (db_query Q sql binds row a b), db_view V (snd (db_query Q sql binds row a b)))"
proof -
  have "db_binds (binds' st) (db_view V b) = (fst (db_binds (binds st) b), db_view V (snd (db_binds (binds st) b)))" for st b
    by (rule sim_dbD[OF sim_db_binds[OF assms(2)]])
  moreover have "db_rows R st (row' st) n r a (db_view V b) = (fst (db_rows Q st (row st) n r a b), db_view V (snd (db_rows Q st (row st) n r a b)))" for st n r a b
    using sim_rows[OF ref, of "row' st" "row st" st n r a b] row by simp
  ultimately show ?thesis
    by (simp add: db_query_def case_prod_unfold sim_prepare[OF ref] sim_step[OF ref] sim_finalize[OF ref]
        refines_columns(7)[OF ref] split: bool.split)
qed

lemma sim_each_column:
  assumes "sqlite_refines V Q R" and "\<And>name k w a. f' name k (V w) a = f name k w a"
  shows "each_column R st f' (V w) a = each_column Q st f w a"
proof -
  have "(\<lambda>k. f' (sq_column_name R st k (V w)) k (V w)) = (\<lambda>k. f (sq_column_name Q st k w) k w)"
    by (intro ext) (simp add: refines_columns[OF assms(1)] assms(2))
  thus ?thesis by (simp add: each_column_def refines_columns[OF assms(1)])
qed

lemma sim_save_each:
  assumes ref: "sqlite_refines V Q R"
  shows "save_each R us (db_view V b) = (fst (save_each Q us b), db_view V (snd (save_each Q us b)))"
proof (induction us arbitrary: b)
  case (Cons u us)
  thus ?case
    using sim_run[OF ref, of "\<lambda>st. [sq_bind_int64 Q st 1 (us_id u), sq_bind_int Q st 2 (us_status u)]"
        "\<lambda>st. [sq_bind_int64 R st 1 (us_id u), sq_bind_int R st 2 (us_status u)]" sql_insert_setting b]
    by (simp add: refines_calls[OF ref] case_prod_unfold split: bool.split)
qed simp

lemma sim_save:
  assumes ref: "sqlite_refines V Q R"
  shows "dbSaveSettings R us (db_view V b) = (fst (dbSaveSettings Q us b), db_view V (snd (dbSaveSettings Q us b)))"
  by (simp add: dbSaveSettings_def sim_exec[OF ref] case_prod_unfold sim_save_each[OF ref])

lemma sim_restore:
  assumes ref: "sqlite_refines V Q R"
  shows "restore_userSettings R (db_view V b) = (fst (restore_userSettings Q b), db_view V (snd (restore_userSettings Q b)))"
proof -
  have "each_column R st (settings_column R st) (V w) a = each_column Q st (settings_column Q st) w a" for st w a
    by (rule sim_each_column[OF ref]) (simp add: settings_column_def refines_columns[OF ref])
  thus ?thesis
    using sim_query[OF ref, of "\<lambda>st. []" "\<lambda>st. []" "settings_row R" "settings_row Q" sql_select_settings "(new_settings, [])" b]
    by (simp add: restore_userSettings_def case_prod_unfold settings_row_def)
qed

lemma sim_user_binds:
  assumes ref: "sqlite_refines V Q R"
  shows "list_all2 (sim_call V) (user_row_binds Q st k t a) (user_row_binds R st k t a)"
  by (simp add: user_row_binds_def refines_calls[OF ref])

lemma sim_create:
  assumes ref: "sqlite_refines V Q R"
  shows "dbCreateUser R u (db_view V b) = (fst (dbCreateUser Q u b), db_view V (snd (dbCreateUser Q u b)))"
  using sim_run[OF ref, of "\<lambda>st. sq_bind_int64 Q st 1 (usr_id t) # user_row_binds Q st 2 t (au_access u)"
      "\<lambda>st. sq_bind_int64 R st 1 (usr_id t) # user_row_binds R st 2 t (au_access u)" sql_insert_user b for t]
  by (simp add: dbCreateUser_def refines_calls[OF ref] sim_user_binds[OF ref] split: option.split)

lemma sim_update:
  assumes ref: "sqlite_refines V Q R"
  shows "dbUpdateUser R u (db_view V b) = (fst (dbUpdateUser Q u b), db_view V (snd (dbUpdateUser Q u b)))"
  using sim_run[OF ref, of "\<lambda>st. user_row_binds Q st 1 t (au_access u) @ [sq_bind_int64 Q st 5 (usr_id t)]"
      "\<lambda>st. user_row_binds R st 1 t (au_access u) @ [sq_bind_int64 R st 5 (usr_id t)]" sql_update_user b for t]
  by (simp add: dbUpdateUser_def refines_calls[OF ref] sim_user_binds[OF ref] list_all2_appendI split: option.split)

lemma sim_search:
  assumes ref: "sqlite_refines V Q R"
  shows "dbSearchUser R u (db_view V b) = (fst (dbSearchUser Q u b), db_view V (snd (dbSearchUser Q u b)))"
proof (cases "au_tg u")
  case (Some t)
  have "user_column R st t name k (V w) a = user_column Q st t name k w a" for st name k w a
    by (simp add: user_column_def refines_columns[OF ref] case_prod_unfold Let_def)
  hence "each_column R st (user_column R st t) (V w) a = each_column Q st (user_column Q st t) w a" for st w a
    by (rule sim_each_column[OF ref])
  thus ?thesis using Some
    sim_query[OF ref, of "\<lambda>st. [sq_bind_int64 Q st 1 (usr_id t)]" "\<lambda>st. [sq_bind_int64 R st 1 (usr_id t)]"
      "\<lambda>st. each_column R st (user_column R st t)" "\<lambda>st. each_column Q st (user_column Q st t)"]
    by (simp add: dbSearchUser_def refines_calls[OF ref] case_prod_unfold sim_update[OF ref] Let_def split: bool.split)
qed (simp add: dbSearchUser_def Let_def)

lemmas sims = sim_save sim_restore sim_create sim_update sim_search

section \<open>Running statements on the reference\<close>

definition same_tables :: "'d ref_db \<Rightarrow> 'd ref_db \<Rightarrow> bool" where
  "same_tables w v \<longleftrightarrow> rd_users w = rd_users v \<and> rd_data w = rd_data v \<and> rd_settings w = rd_settings v"

lemma same_tables_simps [simp]:
  "same_tables w w" "same_tables (upd_stmt st f w) v = same_tables w v"
  "same_tables (w\<lparr>rd_stmts := ss\<rparr>) v = same_tables w v"
  by (simp_all add: same_tables_def upd_stmt_def)

lemma run_kind_frame:
  "run_kind k args (v\<lparr>rd_stmts := ss\<rparr>) = (fst (run_kind k args v), (snd (run_kind k args v))\<lparr>rd_stmts := ss\<rparr>)"
  by (cases k) (simp_all add: changed_def Let_def split: option.split)

lemma run_sql_tables:
  assumes "same_tables w v"
  shows "fst (run_sql sql args w) = fst (run_sql sql args v)" "same_tables (snd (run_sql sql args w)) (snd (run_sql sql args v))"
proof -
  have "w = v\<lparr>rd_stmts := rd_stmts w\<rparr>" using assms by (simp add: same_tables_def)
  hence "run_sql sql args w = (fst (run_sql sql args v), (snd (run_sql sql args v))\<lparr>rd_stmts := rd_stmts w\<rparr>)"
    unfolding run_sql_def by (metis run_kind_frame)
  thus "fst (run_sql sql args w) = fst (run_sql sql args v)" "same_tables (snd (run_sql sql args w)) (snd (run_sql sql args v))"
    by simp_all
qed

lemma run_sql_stmts: "rd_stmts (snd (run_sql sql args w)) = rd_stmts w"
  by (cases "sql_kind_of sql") (simp_all add: run_sql_def changed_def Let_def split: option.split)

lemma upd_stmt_upd: "upd_stmt st f (upd_stmt st g w) = upd_stmt st (\<lambda>s. f (g s)) w"
  by (simp add: upd_stmt_def)

lemma upd_stmt_stmts [simp]: "length (rd_stmts (upd_stmt st f w)) = length (rd_stmts w)"
  by (simp add: upd_stmt_def)

lemma upd_stmt_id: "upd_stmt st (\<lambda>s. s) w = w"
  by (simp add: upd_stmt_def)

definition cell_binds :: "nat \<Rightarrow> (nat \<times> 'd cell) list \<Rightarrow> ('d ref_db \<Rightarrow> int \<times> 'd ref_db) list" where
  "cell_binds st = map (\<lambda>(k, c). ref_bind st k c)"

lemma ref_binds:
  "db_binds (cell_binds st kcs) b =
     (True, b\<lparr>db_world := upd_stmt st (\<lambda>s. s\<lparr>rs_args := rev kcs @ rs_args s\<rparr>) (db_world b)\<rparr>)"
proof (induction kcs arbitrary: b)
  case Nil
  show ?case by (simp add: cell_binds_def upd_stmt_id)
next
  case (Cons kc kcs)
  thus ?case
    by (cases kc) (simp add: cell_binds_def db_lift_def ref_bind_def upd_stmt_upd sqlite_codes)
qed

lemma ref_calls [simp]:
  "sq_step (ref_sqlite z n) = ref_step" "sq_finalize (ref_sqlite z n) st w = (SQLITE_OK, w)" "sq_rows (ref_sqlite z n) = n"
  "sq_prepare (ref_sqlite z n) = ref_prepare" "sq_exec (ref_sqlite z n) = ref_exec"
  by (simp_all add: ref_sqlite_def)

lemma finalize_lift [simp]: "db_lift (sq_finalize (ref_sqlite z n) st) b = (SQLITE_OK, b)"
  by (simp add: db_lift_def)

text \<open>The state in which a statement takes its first step.\<close>

definition prepared :: "string \<Rightarrow> (nat \<times> 'd cell) list \<Rightarrow> 'd ref_db \<Rightarrow> 'd ref_db" where
  "prepared sql kcs w = w\<lparr>rd_stmts := rd_stmts w @ [\<lparr>rs_sql = sql, rs_args = rev kcs, rs_rows = None\<rparr>]\<rparr>"

lemma prepared_tables [simp]: "same_tables (prepared sql kcs w) v = same_tables w v"
  by (simp add: prepared_def)

lemma ref_first_step:
  "ref_step (length (rd_stmts w)) (prepared sql kcs w) =
     (case run_sql sql (rev kcs) (prepared sql kcs w) of
        (Inl e, v) \<Rightarrow> (e, v)
      | (Inr rows, v) \<Rightarrow> (step_result rows, upd_stmt (length (rd_stmts w)) (\<lambda>s. s\<lparr>rs_rows := Some rows\<rparr>) v))"
  by (simp add: ref_step_def prepared_def)

lemma ref_start:
  assumes "db_open b"
  shows "db_prepare (ref_sqlite z n) sql b =
      ((SQLITE_OK, length (rd_stmts (db_world b))), b\<lparr>db_world := prepared sql [] (db_world b)\<rparr>)"
    "db_binds (cell_binds (length (rd_stmts (db_world b))) kcs) (b\<lparr>db_world := prepared sql [] (db_world b)\<rparr>) =
      (True, b\<lparr>db_world := prepared sql kcs (db_world b)\<rparr>)"
  using assms
  by (simp_all add: db_prepare_def ref_sqlite_def ref_prepare_def prepared_def ref_binds upd_stmt_def)

lemma ref_run:
  assumes "db_open b" and "\<And>st. binds st = cell_binds st kcs" and "run_sql sql (rev kcs) (db_world b) = (Inr [], v)"
  shows "\<exists>b'. db_run (ref_sqlite z n) sql binds b = (True, b') \<and> db_open b' \<and> same_tables (db_world b') v"
proof -
  obtain r' v' where v': "run_sql sql (rev kcs) (prepared sql kcs (db_world b)) = (r', v')" by (metis surj_pair)
  have r': "r' = Inr []" "same_tables v' v"
    using run_sql_tables[of "prepared sql kcs (db_world b)" "db_world b" sql "rev kcs"] assms(3) v' by simp_all
  have "db_lift (ref_step (length (rd_stmts (db_world b)))) (b\<lparr>db_world := prepared sql kcs (db_world b)\<rparr>) =
      (SQLITE_DONE, b\<lparr>db_world := upd_stmt (length (rd_stmts (db_world b))) (\<lambda>s. s\<lparr>rs_rows := Some []\<rparr>) v'\<rparr>)"
    using v' r'(1) by (simp add: db_lift_def ref_first_step step_result_def)
  thus ?thesis using r'(2) assms(1,2)
    by (simp add: db_run_def ref_start sqlite_codes)
qed

text \<open>A cursor gives its rows one by one.\<close>

lemma current_row_upd:
  "st < length (rd_stmts w) \<Longrightarrow> current_row st (upd_stmt st (\<lambda>s. s\<lparr>rs_rows := Some rows\<rparr>) w) = (case rows of r # _ \<Rightarrow> r | [] \<Rightarrow> [])"
  by (simp add: current_row_def upd_stmt_def split: list.split)

lemma ref_rows:
  assumes "\<And>w a. current_row st w \<in> set rows \<Longrightarrow> row w a = g (current_row st w) a"
  shows "st < length (rd_stmts w) \<Longrightarrow> length rows \<le> n \<Longrightarrow>
    \<exists>v. db_rows (ref_sqlite z m) st row n (step_result rows) a
          (b\<lparr>db_world := upd_stmt st (\<lambda>s. s\<lparr>rs_rows := Some rows\<rparr>) w\<rparr>) =
        ((SQLITE_DONE, fold g rows a), b\<lparr>db_world := v\<rparr>) \<and> same_tables v w"
  using assms
proof (induction rows arbitrary: n a w)
  case Nil
  thus ?case by (cases n) (auto simp: step_result_def sqlite_codes)
next
  case (Cons r rows)
  let ?w = "upd_stmt st (\<lambda>s. s\<lparr>rs_rows := Some (r # rows)\<rparr>) w"
  from Cons.prems(2) obtain k where n: "n = Suc k" "length rows \<le> k" by (cases n) auto
  have c: "current_row st ?w = r" using Cons.prems(1) by (simp add: current_row_upd)
  have s: "ref_step st ?w = (step_result rows, upd_stmt st (\<lambda>s. s\<lparr>rs_rows := Some rows\<rparr>) w)"
    using Cons.prems(1) by (simp add: ref_step_def upd_stmt_upd) (simp add: upd_stmt_def)
  obtain v where "db_rows (ref_sqlite z m) st row k (step_result rows) (g r a)
        (b\<lparr>db_world := upd_stmt st (\<lambda>s. s\<lparr>rs_rows := Some rows\<rparr>) w\<rparr>) =
      ((SQLITE_DONE, fold g rows (g r a)), b\<lparr>db_world := v\<rparr>) \<and> same_tables v w"
    using Cons.IH[OF Cons.prems(1) n(2), of "g r a"] Cons.prems(3) by auto
  moreover have "row ?w a = g r a" using Cons.prems(3)[of ?w a] c by simp
  ultimately show ?case using n s
    by (simp add: db_lift_def) (simp add: step_result_def sqlite_codes, blast)
qed

lemma ref_query:
  assumes "db_open b" and "\<And>st. binds st = cell_binds st kcs" and "run_sql sql (rev kcs) (db_world b) = (Inr rows, v)"
    and "length rows \<le> n" and "\<And>st w a. current_row st w \<in> set rows \<Longrightarrow> row st w a = g (current_row st w) a"
  shows "\<exists>v'. db_query (ref_sqlite z n) sql binds row a b = ((True, fold g rows a), b\<lparr>db_world := v'\<rparr>) \<and> same_tables v' v"
proof -
  let ?st = "length (rd_stmts (db_world b))"
  obtain r' v' where v': "run_sql sql (rev kcs) (prepared sql kcs (db_world b)) = (r', v')" by (metis surj_pair)
  have r': "r' = Inr rows" "same_tables v' v"
    using run_sql_tables[of "prepared sql kcs (db_world b)" "db_world b" sql "rev kcs"] assms(3) v' by simp_all
  have st: "?st < length (rd_stmts v')"
    using run_sql_stmts[of sql "rev kcs" "prepared sql kcs (db_world b)"] v' by (simp add: prepared_def)
  have "db_lift (ref_step ?st) (b\<lparr>db_world := prepared sql kcs (db_world b)\<rparr>) =
      (step_result rows, b\<lparr>db_world := upd_stmt ?st (\<lambda>s. s\<lparr>rs_rows := Some rows\<rparr>) v'\<rparr>)"
    using v' r' by (simp add: db_lift_def ref_first_step)
  moreover obtain u where "db_rows (ref_sqlite z n) ?st (row ?st) n (step_result rows) a
        (b\<lparr>db_world := upd_stmt ?st (\<lambda>s. s\<lparr>rs_rows := Some rows\<rparr>) v'\<rparr>) =
      ((SQLITE_DONE, fold g rows a), b\<lparr>db_world := u\<rparr>)" "same_tables u v'"
    using ref_rows[of ?st rows "row ?st" g, OF assms(5) st assms(4)] by blast
  moreover have "same_tables u v" using \<open>same_tables u v'\<close> r'(2) by (simp add: same_tables_def)
  ultimately show ?thesis using assms(1,2)
    by (simp add: db_query_def ref_start) (simp add: sqlite_codes, blast)
qed

end
