(* ===== verification/ApplicationModel.thy ===== *)
theory ApplicationModel
  imports TelegramBotModel SqliteReference
begin

text \<open>
  The state of \<open>src/Application.cpp\<close> that the bot's callbacks work on, with start-up
  (\<open>Application::main\<close>, \<open>ApplicationTelegram.cpp\<close>) and the events of the tracker
  (\<open>ApplicationEvents.cpp\<close>). The application is the object behind the bot, so a state of this theory is
  a state of the bot's stack of clients with the application's members at the bottom.
\<close>

section \<open>The environment\<close>

text \<open>
  What the program gets from outside: the libraries, SQLite, the JSON reader, randomness, and Boost's time
  functions (\<open>en\_local\<close> is \<open>to\_simple\_string\<close> after \<open>utc\_to\_local\<close>, None when the latter throws;
  \<open>en\_simple\<close> is \<open>to\_simple\_string\<close>; \<open>en\_iso\<close> is \<open>from\_iso\_string\<close>, None when it throws).
\<close>

record ('d, 'f, 'w) env =
  en_lib :: "('d, 'f) lib"
  en_sqlite :: "('d, 'w) sqlite"
  en_json :: "string \<Rightarrow> ptree option"
  en_rnd :: "nat \<Rightarrow> nat"
  en_local :: "int \<Rightarrow> string option"
  en_simple :: "int \<Rightarrow> string"
  en_iso :: "string \<Rightarrow> int option"

section \<open>State\<close>

text \<open>\<open>ap\_clock\<close> is what \<open>second\_clock::universal\_time\<close> returns; it is not a member of the class.\<close>

record ('d, 'w) app =
  ap_settings :: ptree
  ap_lastMessage :: "'d gps_message"
  ap_userSettings :: "user_settings list"
  ap_db :: "'w db"
  ap_clock :: int

type_synonym ('m, 'd, 'w) world = "('m, ('d, 'w) app) bot_world"

definition app_of :: "('m, 'd, 'w) world \<Rightarrow> ('d, 'w) app" where
  "app_of x = snd (snd (snd x))"

definition app_upd :: "(('d, 'w) app \<Rightarrow> ('d, 'w) app) \<Rightarrow> ('m, 'd, 'w) world \<Rightarrow> ('m, 'd, 'w) world" where
  "app_upd f x = (fst x, (fst (snd x), (fst (snd (snd x)), f (snd (snd (snd x))))))"

lemma app_upd_simps [simp]:
  "fst (app_upd f x) = fst x" "hc_of (app_upd f x) = hc_of x" "bot_of (app_upd f x) = bot_of x"
  "app_of (app_upd f x) = f (app_of x)" "app_of (hc_upd g x) = app_of x" "app_of (bot_upd h x) = app_of x"
  by (simp_all add: app_upd_def app_of_def hc_of_def bot_of_def hc_upd_def bot_upd_def)

definition faulty :: "('m, 'd, 'w) world \<Rightarrow> bool" where
  "faulty x \<longleftrightarrow> hc_fault (hc_of x) \<noteq> None"

lemma faulty_simps [simp]:
  "faulty (app_upd f x) = faulty x" "faulty (bot_upd g x) = faulty x" "faulty (https_fault e x)"
  by (simp_all add: faulty_def)

text \<open>Running a function of the database part on the application's database.\<close>

definition db_do :: "('w, 'a) db_call \<Rightarrow> ('m, 'd, 'w) world \<Rightarrow> 'a \<times> ('m, 'd, 'w) world" where
  "db_do f x = (case f (ap_db (app_of x)) of (a, b) \<Rightarrow> (a, app_upd (\<lambda>p. p\<lparr>ap_db := b\<rparr>) x))"

definition app_init :: "('d, 'f) lib \<Rightarrow> ptree \<Rightarrow> 'w \<Rightarrow> int \<Rightarrow> ('d, 'w) app" where
  "app_init L settings w now =
     \<lparr>ap_settings = settings, ap_lastMessage = GpsMessage L, ap_userSettings = [],
      ap_db = \<lparr>db_open = False, db_world = w\<rparr>, ap_clock = now\<rparr>"

section \<open>Start-up\<close>

text \<open>\<open>dbFile\<close> is the name made from the path of the program.\<close>

definition app_openDatabase :: "('d, 'f, 'w) env \<Rightarrow> string \<Rightarrow> ('m, 'd, 'w) world \<Rightarrow> ('m, 'd, 'w) world" where
  "app_openDatabase E dbFile x =
     (let fileName = get_str_d (ap_settings (app_of x)) ''database.file'' [];
          fileName = (if fileName = [] then dbFile else fileName)
      in app_upd (\<lambda>p. p\<lparr>ap_db := openDatabase (en_sqlite E) fileName (ap_db p)\<rparr>) x)"

definition dbRestoreSettings :: "('d, 'f, 'w) env \<Rightarrow> ('m, 'd, 'w) world \<Rightarrow> ('m, 'd, 'w) world" where
  "dbRestoreSettings E x =
     (case db_do (dbGetGpsData (en_lib E) (en_sqlite E) 1 False) x of
        ((ok, data), x) \<Rightarrow>
          (let x = (if ok \<and> data \<noteq> [] then app_upd (\<lambda>p. p\<lparr>ap_lastMessage := hd data\<rparr>) x else x)
           in case db_do (restore_userSettings (en_sqlite E)) x of
                (us, x) \<Rightarrow> app_upd (\<lambda>p. p\<lparr>ap_userSettings := us\<rparr>) x))"

definition app_save :: "('d, 'f, 'w) env \<Rightarrow> ('m, 'd, 'w) world \<Rightarrow> bool \<times> ('m, 'd, 'w) world" where
  "app_save E x = db_do (dbSaveSettings (en_sqlite E) (ap_userSettings (app_of x))) x"

definition startTelegram :: "('d, 'f, 'w) env \<Rightarrow> ('m, 'd, 'w) world \<Rightarrow> ('m, 'd, 'w) world" where
  "startTelegram E x =
     (let L = en_lib E; s = ap_settings (app_of x);
          enabled = get_bool_d L s ''telegram.enabled'' False;
          url = get_str_d s ''telegram.url'' ''https://api.telegram.org/bot'';
          token = get_str_d s ''telegram.token'' [];
          reconnectDelay = get_int32_d L s ''telegram.reconnect_delay'' 0
      in if \<not> enabled then x
         else getMe L (en_rnd E) (bot_start L (en_rnd E)
                (setReconnectDelay (scast reconnectDelay) (setToken token (setApiUrl url x)))))"

section \<open>Messages to the users\<close>

definition say :: "('d, 'f, 'w) env \<Rightarrow> int64 \<Rightarrow> string \<Rightarrow> parse_mode \<Rightarrow> ('m, 'd, 'w) world \<Rightarrow> ('m, 'd, 'w) world" where
  "say E userId txt mode = sendMessage (en_lib E) (en_rnd E) userId txt mode False False 0 None"

definition NL :: string where "NL = [LF]"

definition gps_text :: "('d, 'f, 'w) env \<Rightarrow> 'd gps_message \<Rightarrow> string \<Rightarrow> string" where
  "gps_text E m host =
     host @
     (case gm_trackerTime m of None \<Rightarrow> [] | Some t \<Rightarrow> ''Tracker Time: '' @ en_simple E t @ NL) @
     ''Speed: '' @ lc_double (en_lib E) (gm_speed m) @ NL @
     (if gm_phone m \<noteq> [] then ''Phone: *'' @ gm_phone m @ ''*'' @ NL else []) @
     ''Status: '' @ gm_keyword m @ NL"

definition host_text :: "('d, 'f, 'w) env \<Rightarrow> 'd gps_message \<Rightarrow> string option" where
  "host_text E m =
     (case gm_hostTime m of
        None \<Rightarrow> Some []
      | Some t \<Rightarrow> (case en_local E t of None \<Rightarrow> None | Some s \<Rightarrow> Some (''Host Time: *'' @ s @ ''*'' @ NL)))"

definition sendGpsStatus :: "('d, 'f, 'w) env \<Rightarrow> 'd gps_message \<Rightarrow> int64 \<Rightarrow> ('m, 'd, 'w) world \<Rightarrow> ('m, 'd, 'w) world" where
  "sendGpsStatus E m userId x =
     (let L = en_lib E;
          x = (if gm_valid m then sendLocation L (en_rnd E) userId (gm_latitude m) (gm_longitude m) False 0 None x else x)
      in case host_text E m of
           None \<Rightarrow> https_fault Escaped x
         | Some host \<Rightarrow> say E userId (gps_text E m host) Markdown x)"

section \<open>Tracker events\<close>

definition STATUS_DEFAULT :: uint32 where "STATUS_DEFAULT = 0"
definition STATUS_ALERT :: uint32 where "STATUS_ALERT = 1"
definition STATUS_PARANOID :: uint32 where "STATUS_PARANOID = 2"
definition STATUS_INSANE :: uint32 where "STATUS_INSANE = 3"

lemmas statuses = STATUS_DEFAULT_def STATUS_ALERT_def STATUS_PARANOID_def STATUS_INSANE_def

definition wants_event :: "('d, 'f) lib \<Rightarrow> uint32 \<Rightarrow> string \<Rightarrow> string \<Rightarrow> bool" where
  "wants_event L status keyword lastKeyword =
     (if status = STATUS_INSANE then True
      else if status = STATUS_PARANOID then keyword \<noteq> lastKeyword
      else if status = STATUS_ALERT then
        keyword \<noteq> lastKeyword \<and> \<not> iequals L keyword ''connect'' \<and> \<not> iequals L keyword ''disconnect''
      else False)"

fun notify_users :: "('d, 'f, 'w) env \<Rightarrow> 'd gps_message \<Rightarrow> user_settings list \<Rightarrow> ('m, 'd, 'w) world \<Rightarrow> ('m, 'd, 'w) world" where
  "notify_users E m [] x = x"
| "notify_users E m (u # us) x =
     (let x = (if wants_event (en_lib E) (us_status u) (gm_keyword m) (gm_keyword (ap_lastMessage (app_of x)))
               then sendGpsStatus E m (us_id u) x else x)
      in if faulty x then x else notify_users E m us x)"

definition handleTrackerEvent :: "('d, 'f, 'w) env \<Rightarrow> 'd gps_message \<Rightarrow> ('m, 'd, 'w) world \<Rightarrow> ('m, 'd, 'w) world" where
  "handleTrackerEvent E m x =
     (let x = notify_users E m (ap_userSettings (app_of x)) x
      in if faulty x then x
         else app_upd (\<lambda>p. p\<lparr>ap_lastMessage := m\<rparr>) (snd (db_do (dbAddGpsData (en_sqlite E) m) x)))"

section \<open>What queuing does\<close>

text \<open>A bot that accepts requests, and the request it makes of a method and its arguments.\<close>

definition bot_ready :: "bot_state \<Rightarrow> bool" where
  "bot_ready b \<longleftrightarrow> tb_enabled b \<and> tb_apiUrl b \<noteq> [] \<and> tb_token b \<noteq> []"

definition bot_request :: "('d, 'f, 'w) env \<Rightarrow> bot_state \<Rightarrow> string \<Rightarrow> req_arg list \<Rightarrow> nat \<Rightarrow> http_request" where
  "bot_request E b method args tag =
     (let u = Url_parse (tb_apiUrl b @ tb_token b @ ''/'' @ method)
      in HttpRequest u (generateRequest (en_lib E) (en_rnd E) u args False) False tag)"

definition enqueue :: "http_request list \<Rightarrow> ('m, 'd, 'w) world \<Rightarrow> ('m, 'd, 'w) world" where
  "enqueue rs = hc_upd (\<lambda>h. h\<lparr>hc_queue := hc_queue h @ rs, hc_timers := hc_timers h + length rs\<rparr>)"

lemma enqueue_simps [simp]:
  "fst (enqueue rs x) = fst x" "bot_of (enqueue rs x) = bot_of x" "app_of (enqueue rs x) = app_of x"
  "faulty (enqueue rs x) = faulty x" "hc_queue (hc_of (enqueue rs x)) = hc_queue (hc_of x) @ rs"
  "enqueue [] x = x"
  by (simp_all add: enqueue_def faulty_def hc_upd_def hc_of_def bot_of_def app_of_def)

lemma enqueue_enqueue [simp]: "enqueue rs (enqueue qs x) = enqueue (qs @ rs) x"
  by (simp add: enqueue_def hc_upd_def)

definition location_request :: "('d, 'f, 'w) env \<Rightarrow> bot_state \<Rightarrow> int64 \<Rightarrow> 'd gps_message \<Rightarrow> http_request" where
  "location_request E b i m =
     bot_request E b ''sendLocation''
       [HttpReqArg ''chat_id'' (lc_int (en_lib E) (sint i)), HttpReqArg ''latitude'' (lc_double (en_lib E) (gm_latitude m)),
        HttpReqArg ''longitude'' (lc_double (en_lib E) (gm_longitude m))] TAG_SEND_LOCATION"

definition message_request :: "('d, 'f, 'w) env \<Rightarrow> bot_state \<Rightarrow> int64 \<Rightarrow> string \<Rightarrow> parse_mode \<Rightarrow> http_request" where
  "message_request E b i txt mode =
     bot_request E b ''sendMessage''
       ([HttpReqArg ''chat_id'' (lc_int (en_lib E) (sint i)), HttpReqArg ''text'' txt] @ parse_mode_args mode)
       TAG_SEND_MESSAGE"

definition gps_requests :: "('d, 'f, 'w) env \<Rightarrow> bot_state \<Rightarrow> 'd gps_message \<Rightarrow> string \<Rightarrow> int64 \<Rightarrow> http_request list" where
  "gps_requests E b m host i =
     (if gm_valid m then [location_request E b i m] else []) @ [message_request E b i (gps_text E m host) Markdown]"

lemma makeRequest_enqueue:
  "bot_ready (bot_of x) \<Longrightarrow> method \<noteq> [] \<Longrightarrow>
   makeRequest (en_lib E) (en_rnd E) method args tag False x = enqueue [bot_request E (bot_of x) method args tag] x"
  by (simp add: makeRequest_def bot_ready_def Let_def bot_request_def sendRequest_def pushQueue_def enqueue_def hc_upd_def)

lemma say_enqueue: "bot_ready (bot_of x) \<Longrightarrow> say E i t mode x = enqueue [message_request E (bot_of x) i t mode] x"
  by (simp add: say_def sendMessage_def makeRequest_enqueue message_request_def common_args_def arg_if_def arg_int_def)

lemma sendGpsStatus_enqueue:
  "bot_ready (bot_of x) \<Longrightarrow> host_text E m = Some host \<Longrightarrow>
   sendGpsStatus E m i x = enqueue (gps_requests E (bot_of x) m host i) x"
  by (simp add: sendGpsStatus_def say_enqueue sendLocation_def makeRequest_enqueue gps_requests_def
      location_request_def common_args_def arg_if_def arg_int_def)

text \<open>With a bot that is not ready nothing is queued; either way no other part of the state changes.\<close>

lemma makeRequest_frame [simp]:
  "app_of (makeRequest L rnd mt args tag lp x) = app_of x" "bot_of (makeRequest L rnd mt args tag lp x) = bot_of x"
  "fst (makeRequest L rnd mt args tag lp x) = fst x" "faulty (makeRequest L rnd mt args tag lp x) = faulty x"
  by (simp_all add: makeRequest_def Let_def sendRequest_def pushQueue_def faulty_def app_of_def hc_upd_def bot_of_def hc_of_def)

lemma say_frame [simp]:
  "app_of (say E i t mode x) = app_of x" "bot_of (say E i t mode x) = bot_of x" "fst (say E i t mode x) = fst x"
  "faulty (say E i t mode x) = faulty x"
  by (simp_all add: say_def sendMessage_def)

lemma fault_frame [simp]:
  "app_of (https_fault f x) = app_of x" "bot_of (https_fault f x) = bot_of x" "fst (https_fault f x) = fst x"
  by (simp_all add: https_fault_def)

lemma sendGpsStatus_frame [simp]:
  "app_of (sendGpsStatus E m i x) = app_of x" "bot_of (sendGpsStatus E m i x) = bot_of x"
  "fst (sendGpsStatus E m i x) = fst x"
  by (simp_all add: sendGpsStatus_def sendLocation_def split: option.split)

lemma sendGpsStatus_faulty: "\<not> faulty x \<Longrightarrow> faulty (sendGpsStatus E m i x) = (host_text E m = None)"
  by (simp add: sendGpsStatus_def sendLocation_def split: option.split)

lemma notify_frame [simp]:
  "app_of (notify_users E m us x) = app_of x" "bot_of (notify_users E m us x) = bot_of x"
  "fst (notify_users E m us x) = fst x"
  by (induction us arbitrary: x) (simp_all add: Let_def)

lemma db_do_frame [simp]:
  "bot_of (snd (db_do f x)) = bot_of x" "fst (snd (db_do f x)) = fst x" "faulty (snd (db_do f x)) = faulty x"
  "hc_of (snd (db_do f x)) = hc_of x"
  by (simp_all add: db_do_def case_prod_unfold)

lemma db_do_app:
  "app_of (snd (db_do f x)) = (app_of x)\<lparr>ap_db := snd (f (ap_db (app_of x)))\<rparr>" "fst (db_do f x) = fst (f (ap_db (app_of x)))"
  by (simp_all add: db_do_def case_prod_unfold)

lemma db_do_upd: "snd (db_do f x) = app_upd (\<lambda>p. p\<lparr>ap_db := snd (f (ap_db p))\<rparr>) x"
  by (simp add: db_do_def case_prod_unfold app_upd_def app_of_def)

lemma app_upd_upd: "app_upd f (app_upd g x) = app_upd (\<lambda>p. f (g p)) x"
  by (simp add: app_upd_def)

lemma notify_enqueue:
  assumes "host_text E m = Some host"
  shows "bot_ready (bot_of x) \<Longrightarrow> \<not> faulty x \<Longrightarrow>
    notify_users E m us x =
      enqueue (concat (map (\<lambda>u. gps_requests E (bot_of x) m host (us_id u))
        (filter (\<lambda>u. wants_event (en_lib E) (us_status u) (gm_keyword m) (gm_keyword (ap_lastMessage (app_of x)))) us))) x"
proof (induction us arbitrary: x)
  case (Cons u us)
  thus ?case using sendGpsStatus_enqueue[OF Cons.prems(1) assms, of "us_id u"] by (simp add: Let_def)
qed simp

section \<open>What the application does to the request queue's world\<close>

text \<open>Everything the application does with the bot is a sequence of steps its clients allow.\<close>

lemma app_upd_ctl: "https_ctl x y \<Longrightarrow> https_ctl x (app_upd f y)"
  by (rule https_ctl_object) (simp_all add: app_upd_def)

lemma db_do_ctl: "https_ctl x y \<Longrightarrow> https_ctl x (snd (db_do f y))"
  by (simp add: db_do_upd app_upd_ctl)

lemma say_ctl: "https_ctl x y \<Longrightarrow> https_ctl x (say E i t mode y)"
  by (simp add: say_def requests_ctl)

lemma fault_ctl: "https_ctl x y \<Longrightarrow> https_ctl x (https_fault Escaped y)" "https_ctl x y \<Longrightarrow> https_ctl x (https_fault NullPointer y)"
  by (simp_all add: https_ctl_steps)

lemma sendGpsStatus_ctl: "https_ctl x y \<Longrightarrow> https_ctl x (sendGpsStatus E m i y)"
  by (auto simp: sendGpsStatus_def Let_def split: option.split intro: say_ctl fault_ctl requests_ctl)

lemma notify_ctl: "https_ctl x y \<Longrightarrow> https_ctl x (notify_users E m us y)"
  by (induction us arbitrary: y) (simp_all add: Let_def sendGpsStatus_ctl)

lemma tracker_event_ctl: "https_ctl x y \<Longrightarrow> https_ctl x (handleTrackerEvent E m y)"
  by (auto simp: handleTrackerEvent_def Let_def intro: app_upd_ctl db_do_ctl notify_ctl)

lemmas app_ctl = app_upd_ctl db_do_ctl say_ctl fault_ctl sendGpsStatus_ctl tracker_event_ctl


section \<open>A concrete environment\<close>

definition ref_env :: "(int, int, int ref_db) env" where
  "ref_env = \<lparr>en_lib = ref_lib, en_sqlite = ref_sqlite 0 100, en_json = \<lambda>_. None, en_rnd = \<lambda>_. 0,
     en_local = \<lambda>t. Some (ref_int t), en_simple = ref_int, en_iso = \<lambda>_. Some 0\<rparr>"

definition ref_settings :: ptree where
  "ref_settings = PT [] [(''imei'', PT ''123456789012345'' []),
     (''code'', PT [] [(''owner'', PT ''secret'' []), (''user'', PT ''guest'' [])])]"

definition ref_app :: "(int, int ref_db) app" where
  "ref_app = (app_init ref_lib ref_settings ref_empty 1000)\<lparr>ap_db := \<lparr>db_open = True, db_world = ref_empty\<rparr>,
     ap_userSettings := [\<lparr>us_id = 7, us_status = 3\<rparr>, \<lparr>us_id = 8, us_status = 1\<rparr>, \<lparr>us_id = 9, us_status = 2\<rparr>]\<rparr>"

definition ref_world :: "(unit, int, int ref_db) world" where
  "ref_world = ((tcp_init, ssl_init ()), (https_init,
     (bot_init\<lparr>tb_enabled := True, tb_apiUrl := ''https://api.telegram.org/bot'', tb_token := ''t''\<rparr>, ref_app)))"

lemma ref_world_simps [simp]:
  "\<not> faulty ref_world" "app_of ref_world = ref_app" "bot_ready (bot_of ref_world)"
  by (simp_all add: ref_world_def faulty_def hc_of_def app_of_def bot_of_def https_init_def bot_ready_def)


end
