(* ===== verification/TcpServerModel.thy ===== *)
theory TcpServerModel
  imports TcpClientModel
begin

text \<open>
  \<open>src/TcpServer.cpp\<close> and \<open>src/TcpSession.cpp\<close>: the listening socket and its sessions. Sessions are
  shared objects, so the model keeps them in a store indexed by the number of their creation;
  \<open>sv\_sessions\<close> is the server's set of running sessions. What the system calls return is an input.
\<close>

section \<open>State\<close>

datatype session_reason = SClosedByUser | SClosedByPeer | SClosedByServer

datatype session_op = SessRead | SessWrite string

record tcp_session =
  se_socketOpen :: bool
  se_active :: bool
  se_writeQueue :: "string list"
  se_pending :: "session_op list"

record tcp_server =
  sv_store :: "nat \<Rightarrow> tcp_session option"
  sv_next :: nat
  sv_sessions :: "nat list"
  sv_accepting :: "nat list"
  sv_acceptorOpen :: bool

text \<open>\<open>TcpSessionHandler\<close>.\<close>

record 'u session_handler =
  shError :: "errc \<Rightarrow> tcp_server \<times> 'u \<Rightarrow> tcp_server \<times> 'u"
  shConnect :: "nat \<Rightarrow> tcp_server \<times> 'u \<Rightarrow> tcp_server \<times> 'u"
  shDisconnect :: "nat \<Rightarrow> session_reason \<Rightarrow> tcp_server \<times> 'u \<Rightarrow> tcp_server \<times> 'u"
  shReceived :: "nat \<Rightarrow> string \<Rightarrow> tcp_server \<times> 'u \<Rightarrow> tcp_server \<times> 'u"

definition server_init :: tcp_server where
  "server_init = \<lparr>sv_store = (\<lambda>_. None), sv_next = 0, sv_sessions = [], sv_accepting = [], sv_acceptorOpen = False\<rparr>"

definition new_session :: tcp_session where
  "new_session = \<lparr>se_socketOpen = False, se_active = False, se_writeQueue = [], se_pending = []\<rparr>"

definition upd_session :: "nat \<Rightarrow> (tcp_session \<Rightarrow> tcp_session) \<Rightarrow> tcp_server \<Rightarrow> tcp_server" where
  "upd_session i f v = v\<lparr>sv_store := (sv_store v)(i := map_option f (sv_store v i))\<rparr>"

definition on_server :: "(tcp_server \<Rightarrow> tcp_server) \<Rightarrow> tcp_server \<times> 'u \<Rightarrow> tcp_server \<times> 'u" where
  "on_server f x = (f (fst x), snd x)"

definition session_is :: "(tcp_session \<Rightarrow> bool) \<Rightarrow> nat \<Rightarrow> tcp_server \<Rightarrow> bool" where
  "session_is P i v = (case sv_store v i of None \<Rightarrow> False | Some s \<Rightarrow> P s)"

definition isActive :: "nat \<Rightarrow> tcp_server \<Rightarrow> bool" where
  "isActive = session_is se_active"

section \<open>Sessions\<close>

definition session_cleanup :: "nat \<Rightarrow> tcp_server \<Rightarrow> tcp_server" where
  "session_cleanup i v =
     upd_session i (\<lambda>s. s\<lparr>se_socketOpen := False, se_active := False\<rparr>)
       (v\<lparr>sv_sessions := removeAll i (sv_sessions v)\<rparr>)"

definition session_notify ::
  "'u session_handler option \<Rightarrow> ('u session_handler \<Rightarrow> tcp_server \<times> 'u \<Rightarrow> tcp_server \<times> 'u) \<Rightarrow> tcp_server \<times> 'u \<Rightarrow> tcp_server \<times> 'u" where
  "session_notify H f x = (case H of None \<Rightarrow> x | Some h \<Rightarrow> f h x)"

definition session_end :: "'u session_handler option \<Rightarrow> session_reason \<Rightarrow> nat \<Rightarrow> tcp_server \<times> 'u \<Rightarrow> tcp_server \<times> 'u" where
  "session_end H r i x = on_server (session_cleanup i) (session_notify H (\<lambda>h. shDisconnect h i r) x)"

definition session_close :: "'u session_handler option \<Rightarrow> nat \<Rightarrow> tcp_server \<times> 'u \<Rightarrow> tcp_server \<times> 'u" where
  "session_close H = session_end H SClosedByServer"

definition session_disconnect :: "'u session_handler option \<Rightarrow> nat \<Rightarrow> tcp_server \<times> 'u \<Rightarrow> tcp_server \<times> 'u" where
  "session_disconnect H = session_end H SClosedByUser"

definition session_read :: "nat \<Rightarrow> tcp_server \<Rightarrow> tcp_server" where
  "session_read i = upd_session i (\<lambda>s. s\<lparr>se_pending := se_pending s @ [SessRead]\<rparr>)"

definition start_write :: "tcp_session \<Rightarrow> tcp_session" where
  "start_write s = s\<lparr>se_pending := se_pending s @ [SessWrite (hd (se_writeQueue s))]\<rparr>"

definition session_send :: "nat \<Rightarrow> string \<Rightarrow> tcp_server \<Rightarrow> tcp_server" where
  "session_send i d =
     upd_session i (\<lambda>s.
       if \<not> se_socketOpen s then s
       else
         (let inProgress = se_writeQueue s \<noteq> [];
              s = s\<lparr>se_writeQueue := se_writeQueue s @ [d]\<rparr>
          in if \<not> inProgress then start_write s else s))"

definition session_start :: "'u session_handler option \<Rightarrow> nat \<Rightarrow> tcp_server \<times> 'u \<Rightarrow> tcp_server \<times> 'u" where
  "session_start H i x =
     (let x = on_server (\<lambda>v. upd_session i (\<lambda>s. s\<lparr>se_active := True\<rparr>)
                (v\<lparr>sv_sessions := List.insert i (sv_sessions v)\<rparr>)) x
      in on_server (session_read i) (session_notify H (\<lambda>h. shConnect h i) x))"

definition session_handleRead :: "'u session_handler option \<Rightarrow> nat \<Rightarrow> string \<Rightarrow> errc option \<Rightarrow> tcp_server \<times> 'u \<Rightarrow> tcp_server \<times> 'u" where
  "session_handleRead H i d error x =
     (if error \<noteq> None \<or> length d = 0 then session_end H SClosedByPeer i x
      else on_server (session_read i) (session_notify H (\<lambda>h. shReceived h i d) x))"

definition session_handleWrite :: "'u session_handler option \<Rightarrow> nat \<Rightarrow> errc option \<Rightarrow> tcp_server \<times> 'u \<Rightarrow> tcp_server \<times> 'u" where
  "session_handleWrite H i error x =
     (if error \<noteq> None then session_end H SClosedByPeer i x
      else
        on_server (upd_session i (\<lambda>s.
          (let s = s\<lparr>se_writeQueue := tl (se_writeQueue s)\<rparr>
           in if se_writeQueue s \<noteq> [] then start_write s else s))) x)"

section \<open>The server\<close>

text \<open>
  The results of the calls that \<open>listen\<close> makes. \<open>open\<close> of a descriptor that is open already fails in
  asio whatever the system says.
\<close>

record listen_results =
  lr_resolve :: "errc option"
  lr_open :: "errc option"
  lr_option :: "errc option"
  lr_bind :: "errc option"
  lr_listen :: "errc option"

definition already_open :: errc where "already_open = OtherError 1"

definition server_accept :: "tcp_server \<Rightarrow> tcp_server" where
  "server_accept v =
     (if \<not> sv_acceptorOpen v then v
      else v\<lparr>sv_store := (sv_store v)(sv_next v := Some new_session), sv_next := sv_next v + 1,
             sv_accepting := sv_accepting v @ [sv_next v]\<rparr>)"

definition server_open :: "listen_results \<Rightarrow> tcp_server \<Rightarrow> errc option" where
  "server_open r v = (if sv_acceptorOpen v then Some already_open else lr_open r)"

definition server_listen :: "'u session_handler option \<Rightarrow> listen_results \<Rightarrow> tcp_server \<times> 'u \<Rightarrow> tcp_server \<times> 'u" where
  "server_listen H r x =
     (case lr_resolve r of
        Some e \<Rightarrow> session_notify H (\<lambda>h. shError h e) x
      | None \<Rightarrow>
     (case server_open r (fst x) of
        Some e \<Rightarrow> session_notify H (\<lambda>h. shError h e) x
      | None \<Rightarrow>
     (let x = on_server (\<lambda>v. v\<lparr>sv_acceptorOpen := True\<rparr>) x
      in case lr_option r of
        Some e \<Rightarrow> session_notify H (\<lambda>h. shError h e) x
      | None \<Rightarrow>
     (case lr_bind r of
        Some e \<Rightarrow> session_notify H (\<lambda>h. shError h e) x
      | None \<Rightarrow>
     (case lr_listen r of
        Some e \<Rightarrow> session_notify H (\<lambda>h. shError h e) x
      | None \<Rightarrow> on_server server_accept x)))))"

definition server_handleAccept :: "'u session_handler option \<Rightarrow> nat \<Rightarrow> errc option \<Rightarrow> tcp_server \<times> 'u \<Rightarrow> tcp_server \<times> 'u" where
  "server_handleAccept H i error x =
     on_server server_accept (if error = None then session_start H i x else x)"

text \<open>\<open>close\<close> walks over the set and moves on before each session is erased.\<close>

definition server_close :: "'u session_handler option \<Rightarrow> tcp_server \<times> 'u \<Rightarrow> tcp_server \<times> 'u" where
  "server_close H x =
     on_server (\<lambda>v. v\<lparr>sv_acceptorOpen := False\<rparr>) (fold (session_close H) (sv_sessions (fst x)) x)"

section \<open>Events\<close>

datatype tcp_server_event =
    Accepted nat "errc option"
  | SessReadDone nat string "errc option"
  | SessWriteDone nat string "errc option"

fun event_pending :: "tcp_server_event \<Rightarrow> tcp_server \<Rightarrow> bool" where
  "event_pending (Accepted i e) v = (i \<in> set (sv_accepting v))"
| "event_pending (SessReadDone i d e) v = session_is (\<lambda>s. SessRead \<in> set (se_pending s)) i v"
| "event_pending (SessWriteDone i d e) v = session_is (\<lambda>s. SessWrite d \<in> set (se_pending s)) i v"

text \<open>An accepted connection opens the session's socket.\<close>

fun server_event :: "'u session_handler option \<Rightarrow> tcp_server_event \<Rightarrow> tcp_server \<times> 'u \<Rightarrow> tcp_server \<times> 'u" where
  "server_event H (Accepted i e) x =
     server_handleAccept H i e
       (on_server (\<lambda>v. upd_session i (\<lambda>s. s\<lparr>se_socketOpen := (e = None)\<rparr>)
                        (v\<lparr>sv_accepting := remove1 i (sv_accepting v)\<rparr>)) x)"
| "server_event H (SessReadDone i d e) x =
     session_handleRead H i d e (on_server (upd_session i (\<lambda>s. s\<lparr>se_pending := remove1 SessRead (se_pending s)\<rparr>)) x)"
| "server_event H (SessWriteDone i d e) x =
     session_handleWrite H i e (on_server (upd_session i (\<lambda>s. s\<lparr>se_pending := remove1 (SessWrite d) (se_pending s)\<rparr>)) x)"

section \<open>Rebinding\<close>

text \<open>Property C29. A failed \<open>listen\<close> cannot be repaired by calling it again: an error after the acceptor was
  opened (a port in use, say) leaves it open, and from then on every further call fails at once with
  "already open", whatever the system would allow, so the server never accepts a connection.\<close>

theorem listen_never_recovers:
  assumes "lr_resolve r = None" and "lr_open r = None"
    and "lr_option r \<noteq> None \<or> lr_bind r \<noteq> None \<or> lr_listen r \<noteq> None"
    and "fst x = server_init" and "\<And>e y. fst (shError h e y) = fst y"
  shows "let y = fold (\<lambda>r. server_listen (Some h) r) rs (server_listen (Some h) r x)
         in sv_acceptorOpen (fst y) \<and> sv_accepting (fst y) = [] \<and>
            (\<forall>r'. lr_resolve r' = None \<longrightarrow> server_listen (Some h) r' y = shError h already_open y)"
proof -
  have step: "fst (server_listen (Some h) r' y) = fst y" if "sv_acceptorOpen (fst y)" for r' y
    using that assms(5) by (simp add: server_listen_def server_open_def session_notify_def split: option.splits)
  have loop: "sv_acceptorOpen (fst y) \<Longrightarrow> fst (fold (\<lambda>r. server_listen (Some h) r) rs y) = fst y" for y
    by (induction rs arbitrary: y) (simp_all add: step)
  let ?y = "server_listen (Some h) r x"
  have "fst ?y = server_init\<lparr>sv_acceptorOpen := True\<rparr>"
    using assms by (auto simp: server_listen_def server_open_def session_notify_def on_server_def server_init_def Let_def split: option.split)
  hence "fst (fold (\<lambda>r. server_listen (Some h) r) rs ?y) = server_init\<lparr>sv_acceptorOpen := True\<rparr>"
    using loop by simp
  thus ?thesis
    by (simp add: Let_def server_init_def server_listen_def server_open_def session_notify_def)
qed

definition note_errors :: "errc list session_handler" where
  "note_errors = \<lparr>shError = (\<lambda>e (v, u). (v, u @ [e])), shConnect = (\<lambda>i x. x), shDisconnect = (\<lambda>i r x. x),
     shReceived = (\<lambda>i d x. x)\<rparr>"

theorem listen_never_recovers_witness:
  "let bad = \<lparr>lr_resolve = None, lr_open = None, lr_option = None, lr_bind = Some (OtherError 98), lr_listen = None\<rparr>;
       good = bad\<lparr>lr_bind := None\<rparr>;
       y = fold (\<lambda>r. server_listen (Some note_errors) r) [good] (server_listen (Some note_errors) bad (server_init, []))
   in sv_accepting (fst y) = [] \<and> snd y = [OtherError 98, already_open]"
proof -
  let ?bad = "\<lparr>lr_resolve = None, lr_open = None, lr_option = None, lr_bind = Some (OtherError 98), lr_listen = None\<rparr>"
  have "sv_accepting (fst (fold (\<lambda>r. server_listen (Some note_errors) r) [?bad\<lparr>lr_bind := None\<rparr>]
      (server_listen (Some note_errors) ?bad (server_init, [])))) = []"
    using listen_never_recovers[of ?bad "(server_init, [])" note_errors "[?bad\<lparr>lr_bind := None\<rparr>]"]
    by (simp add: Let_def note_errors_def split: prod.splits)
  thus ?thesis
    by (simp add: Let_def note_errors_def server_listen_def server_open_def session_notify_def on_server_def
        server_init_def split: prod.splits)
qed

section \<open>The invariant of the sessions\<close>

definition is_session_write :: "session_op \<Rightarrow> bool" where
  "is_session_write x \<longleftrightarrow> x \<noteq> SessRead"

lemma is_session_write_simps [simp]: "is_session_write (SessWrite d)" "\<not> is_session_write SessRead"
  by (simp_all add: is_session_write_def)

text \<open>
  A session is open, active and registered together; at most one write is in flight, it carries the
  head of the queue, and while the session is open a queue that is not empty has its write.
\<close>

definition writes_ok :: "tcp_session \<Rightarrow> bool" where
  "writes_ok s \<longleftrightarrow>
     length (filter is_session_write (se_pending s)) \<le> 1 \<and>
     (\<forall>d. SessWrite d \<in> set (se_pending s) \<longrightarrow> se_writeQueue s \<noteq> [] \<and> d = hd (se_writeQueue s)) \<and>
     (se_socketOpen s \<and> se_writeQueue s \<noteq> [] \<longrightarrow> SessWrite (hd (se_writeQueue s)) \<in> set (se_pending s))"

definition session_inv :: "bool \<Rightarrow> tcp_session \<Rightarrow> bool" where
  "session_inv registered s \<longleftrightarrow> se_active s = registered \<and> se_socketOpen s = registered \<and> writes_ok s"

definition server_inv :: "tcp_server \<Rightarrow> bool" where
  "server_inv v \<longleftrightarrow>
     (\<forall>i s. sv_store v i = Some s \<longrightarrow> i < sv_next v \<and> session_inv (i \<in> set (sv_sessions v)) s) \<and>
     (\<forall>i. i \<in> set (sv_sessions v) \<longrightarrow> sv_store v i \<noteq> None) \<and>
     (\<forall>i. i \<in> set (sv_accepting v) \<longrightarrow> sv_store v i = Some new_session) \<and> distinct (sv_accepting v)"

lemma upd_session_inv:
  assumes "server_inv v" "\<And>s. session_inv (i \<in> set (sv_sessions v)) s \<Longrightarrow> session_inv (i \<in> set (sv_sessions v)) (f s)"
    and "i \<notin> set (sv_accepting v) \<or> f new_session = new_session"
  shows "server_inv (upd_session i f v)"
  using assms by (auto simp: server_inv_def upd_session_def split: if_splits)

lemma send_session_inv: "server_inv v \<Longrightarrow> server_inv (session_send i d v)"
  unfolding session_send_def
proof (rule upd_session_inv)
  show "session_inv r (if \<not> se_socketOpen s then s
      else let inProgress = se_writeQueue s \<noteq> []; s = s\<lparr>se_writeQueue := se_writeQueue s @ [d]\<rparr>
           in if \<not> inProgress then start_write s else s)" if "session_inv r s" for r s
    using that by (cases "se_writeQueue s = []")
      (auto simp: session_inv_def writes_ok_def start_write_def Let_def filter_empty_conv is_session_write_def,
       (metis session_op.exhaust)?)
qed (auto simp: new_session_def)

lemma read_session_inv: "server_inv v \<Longrightarrow> i \<notin> set (sv_accepting v) \<Longrightarrow> server_inv (session_read i v)"
  unfolding session_read_def
  by (rule upd_session_inv) (auto simp: session_inv_def writes_ok_def)

lemma cleanup_session_inv: "server_inv v \<Longrightarrow> server_inv (session_cleanup i v)"
  by (auto simp: server_inv_def session_cleanup_def upd_session_def session_inv_def writes_ok_def new_session_def
      split: if_splits)

lemma accept_session_inv: "server_inv v \<Longrightarrow> server_inv (server_accept v)"
  by (auto simp: server_inv_def server_accept_def new_session_def session_inv_def writes_ok_def less_Suc_eq split: if_splits)
     (metis option.distinct(1) order_less_irrefl option.exhaust)+

section \<open>The contract of the server's user, and runs\<close>

inductive server_api :: "'u session_handler option \<Rightarrow> tcp_server \<times> 'u \<Rightarrow> tcp_server \<times> 'u \<Rightarrow> bool" for H where
  vapi_user: "server_api H (v, u) (v, u')"
| vapi_send: "server_api H x (v, u) \<Longrightarrow> server_api H x (session_send i d v, u')"
| vapi_close: "server_api H x y \<Longrightarrow> server_api H x (session_close H i y)"
| vapi_disconnect: "server_api H x y \<Longrightarrow> server_api H x (session_disconnect H i y)"
| vapi_object: "server_api H x (v, u) \<Longrightarrow> server_api H x (v, u')"

inductive server_reach :: "'u session_handler option \<Rightarrow> tcp_server \<times> 'u \<Rightarrow> bool" for H where
  vreach_init: "server_reach H (server_init, u)"
| vreach_listen: "server_reach H x \<Longrightarrow> server_reach H (server_listen H r x)"
| vreach_call: "server_reach H x \<Longrightarrow> server_api H x y \<Longrightarrow> server_reach H y"
| vreach_event: "server_reach H x \<Longrightarrow> event_pending e (fst x) \<Longrightarrow> server_reach H (server_event H e x)"

lemma upd_session_frame [simp]:
  "sv_accepting (upd_session i f v) = sv_accepting v" "sv_sessions (upd_session i f v) = sv_sessions v"
  "sv_next (upd_session i f v) = sv_next v" "sv_acceptorOpen (upd_session i f v) = sv_acceptorOpen v"
  by (simp_all add: upd_session_def)

lemma accepting_frame [simp]:
  "sv_accepting (session_send i d v) = sv_accepting v" "sv_accepting (session_cleanup i v) = sv_accepting v"
  "sv_accepting (session_read i v) = sv_accepting v"
  by (simp_all add: session_send_def session_cleanup_def session_read_def)

lemma session_inv_no_write:
  "session_inv r s \<Longrightarrow> SessWrite d \<in> set (se_pending s) \<Longrightarrow>
   filter is_session_write (remove1 (SessWrite d) (se_pending s)) = []"
  by (rule count_one_remove) (auto simp: session_inv_def writes_ok_def)

lemma write_done_session:
  assumes "session_inv r s" "SessWrite d \<in> set (se_pending s)"
  shows "session_inv r (let s = (s\<lparr>se_pending := remove1 (SessWrite d) (se_pending s)\<rparr>)
             \<lparr>se_writeQueue := tl (se_writeQueue (s\<lparr>se_pending := remove1 (SessWrite d) (se_pending s)\<rparr>))\<rparr>
           in if se_writeQueue s \<noteq> [] then start_write s else s)"
proof -
  have n: "filter is_session_write (remove1 (SessWrite d) (se_pending s)) = []"
    by (rule session_inv_no_write[OF assms])
  hence "SessWrite e \<notin> set (remove1 (SessWrite d) (se_pending s))" for e
    by (metis filter_empty_conv is_session_write_simps(1))
  thus ?thesis using assms n
    by (auto simp: session_inv_def writes_ok_def start_write_def Let_def)
qed

lemma write_failed_session:
  assumes "server_inv v" "session_is (\<lambda>s. SessWrite d \<in> set (se_pending s)) i v"
  shows "server_inv (session_cleanup i (upd_session i (\<lambda>s. s\<lparr>se_pending := remove1 (SessWrite d) (se_pending s)\<rparr>) v))"
proof -
  obtain s where s: "sv_store v i = Some s" "SessWrite d \<in> set (se_pending s)"
    using assms(2) by (auto simp: session_is_def split: option.splits)
  hence i: "session_inv (i \<in> set (sv_sessions v)) s" using assms(1) by (simp add: server_inv_def)
  have "i \<notin> set (sv_accepting v)" using s assms(1) by (auto simp: server_inv_def new_session_def)
  moreover have "SessWrite e \<notin> set (remove1 (SessWrite d) (se_pending s))" for e
    using session_inv_no_write[OF i s(2)] by (metis filter_empty_conv is_session_write_simps(1))
  hence "session_inv False (s\<lparr>se_pending := remove1 (SessWrite d) (se_pending s), se_socketOpen := False, se_active := False\<rparr>)"
    using session_inv_no_write[OF i s(2)] by (simp add: session_inv_def writes_ok_def)
  ultimately show ?thesis using assms(1) s
    by (auto simp: server_inv_def session_cleanup_def upd_session_def)
qed

lemma session_is_accepting: "server_inv v \<Longrightarrow> session_is P i v \<Longrightarrow> \<not> P new_session \<Longrightarrow> i \<notin> set (sv_accepting v)"
  by (auto simp: server_inv_def session_is_def split: option.splits)

lemma started_session_inv:
  assumes "server_inv v" "i \<in> set (sv_accepting v)"
  shows "server_inv (upd_session i (\<lambda>s. s\<lparr>se_active := True\<rparr>)
           ((upd_session i (\<lambda>s. s\<lparr>se_socketOpen := True\<rparr>) (v\<lparr>sv_accepting := remove1 i (sv_accepting v)\<rparr>))
             \<lparr>sv_sessions := List.insert i (sv_sessions v)\<rparr>))"
  using assms
  by (auto simp: server_inv_def upd_session_def session_inv_def writes_ok_def new_session_def distinct_remove1 split: if_splits)

locale session_user =
  fixes H :: "'u session_handler"
  assumes passive_error: "fst (shError H e x) = fst x"
    and passive_disconnect: "fst (shDisconnect H i r x) = fst x"
    and connect_vapi: "server_api (Some H) x (shConnect H i x)"
    and received_vapi: "server_api (Some H) x (shReceived H i d x)"
begin

lemma session_end_server: "fst (session_end (Some H) r i x) = session_cleanup i (fst x)"
  by (simp add: session_end_def on_server_def session_notify_def passive_disconnect)

lemma vapi_inv:
  "server_api (Some H) x y \<Longrightarrow> server_inv (fst x) \<Longrightarrow> server_inv (fst y) \<and> sv_accepting (fst y) = sv_accepting (fst x)"
  by (induction rule: server_api.induct)
     (auto simp: session_close_def session_disconnect_def session_end_server intro: send_session_inv cleanup_session_inv)

lemma listen_inv: "server_inv (fst x) \<Longrightarrow> server_inv (fst (server_listen (Some H) r x))"
proof -
  assume "server_inv (fst x)"
  hence "server_inv ((fst x)\<lparr>sv_acceptorOpen := True\<rparr>)" by (simp add: server_inv_def)
  thus ?thesis using \<open>server_inv (fst x)\<close>
    by (auto simp: server_listen_def session_notify_def passive_error on_server_def Let_def intro: accept_session_inv split: option.split)
qed

lemma accepted_inv:
  assumes "server_inv (fst x)" "i \<in> set (sv_accepting (fst x))"
  shows "server_inv (fst (server_event (Some H) (Accepted i e) x))"
proof (cases e)
  case (Some e')
  have "server_inv (upd_session i (\<lambda>s. s\<lparr>se_socketOpen := False\<rparr>) ((fst x)\<lparr>sv_accepting := remove1 i (sv_accepting (fst x))\<rparr>))"
    using assms by (auto simp: server_inv_def upd_session_def session_inv_def writes_ok_def new_session_def distinct_remove1 split: if_splits)
  thus ?thesis using Some by (simp add: server_handleAccept_def on_server_def accept_session_inv)
next
  case None
  define z where "z = (upd_session i (\<lambda>s. s\<lparr>se_active := True\<rparr>)
       ((upd_session i (\<lambda>s. s\<lparr>se_socketOpen := True\<rparr>) ((fst x)\<lparr>sv_accepting := remove1 i (sv_accepting (fst x))\<rparr>))
         \<lparr>sv_sessions := List.insert i (sv_sessions (fst x))\<rparr>), snd x)"
  have z: "server_inv (fst z)" using started_session_inv[OF assms] by (simp add: z_def)
  have "i \<notin> set (sv_accepting (fst z))" using assms by (simp add: z_def server_inv_def)
  hence "server_inv (session_read i (fst (shConnect H i z)))"
    using vapi_inv[OF connect_vapi z] by (auto intro: read_session_inv)
  thus ?thesis using None
    by (simp add: server_handleAccept_def session_start_def session_notify_def on_server_def z_def Let_def accept_session_inv)
qed

lemma read_done_inv:
  assumes "server_inv (fst x)" "session_is (\<lambda>s. SessRead \<in> set (se_pending s)) i (fst x)"
  shows "server_inv (fst (server_event (Some H) (SessReadDone i d e) x))"
proof -
  define z where "z = on_server (upd_session i (\<lambda>s. s\<lparr>se_pending := remove1 SessRead (se_pending s)\<rparr>)) x"
  have "filter is_session_write (remove1 SessRead xs) = filter is_session_write xs" for xs
    by (induction xs) auto
  hence z: "server_inv (fst z)" unfolding z_def on_server_def fst_conv
    by (intro upd_session_inv[OF assms(1)]) (auto simp: session_inv_def writes_ok_def new_session_def in_set_remove1)
  have a: "i \<notin> set (sv_accepting (fst z))"
    using session_is_accepting[OF assms] by (simp add: z_def on_server_def new_session_def)
  have "server_inv (session_read i (fst (shReceived H i d z)))"
    using vapi_inv[OF received_vapi z] a by (auto intro: read_session_inv)
  thus ?thesis using cleanup_session_inv[OF z]
    by (auto simp: session_handleRead_def session_end_server session_notify_def z_def[symmetric] on_server_def[of "session_read i"])
qed

lemma write_done_inv:
  assumes "server_inv (fst x)" "session_is (\<lambda>s. SessWrite d \<in> set (se_pending s)) i (fst x)"
  shows "server_inv (fst (server_event (Some H) (SessWriteDone i d e) x))"
proof (cases e)
  case (Some e')
  thus ?thesis using write_failed_session[OF assms] by (simp add: session_handleWrite_def session_end_server on_server_def)
next
  case None
  obtain s where s: "sv_store (fst x) i = Some s" "SessWrite d \<in> set (se_pending s)"
    using assms(2) by (auto simp: session_is_def split: option.splits)
  have "i \<notin> set (sv_accepting (fst x))" using session_is_accepting[OF assms] by (simp add: new_session_def)
  thus ?thesis using assms(1) None s write_done_session[of _ s d]
    by (auto simp: session_handleWrite_def on_server_def server_inv_def upd_session_def Let_def split: if_splits)
qed

theorem server_reach_inv: "server_reach (Some H) x \<Longrightarrow> server_inv (fst x)"
proof (induction rule: server_reach.induct)
  case (vreach_init u)
  show ?case by (simp add: server_inv_def server_init_def)
next
  case (vreach_event x e)
  thus ?case by (cases e) (auto intro: accepted_inv read_done_inv write_done_inv simp del: server_event.simps)
qed (auto intro: listen_inv dest: vapi_inv)

end

end
