(* ===== verification/ReceiverModel.thy ===== *)
theory ReceiverModel
  imports ApplicationModel TcpServerModel
begin

text \<open>
  \<open>src/Device.cpp\<close> and \<open>src/ApplicationReceiver.cpp\<close>: the sessions of the trackers. A state of the
  whole program is the TCP server, the client that repeats the tracker's data (the transmitter), what
  links the two (\<open>link\<close>), and the bot's world. Devices and the authorised session are named by the numbers of
  their sessions. \<open>lk\_receiverTimers\<close> and \<open>lk\_transmitterTimers\<close> count the waits of the two
  timers whose handler has not run (setting a timer again cancels its waits, but their handlers ignore the
  error and run all the same).
\<close>

section \<open>State\<close>

record device =
  de_buffer :: string
  de_imei :: string

record link =
  lk_devices :: "nat \<rightharpoonup> device"
  lk_authorized :: "nat option"
  lk_receiverTimers :: nat
  lk_transmitterBuffer :: string
  lk_transmitterAuthorized :: bool
  lk_transmitterTimers :: nat

type_synonym ('m, 'd, 'w) tracked = "tcp_client \<times> (link \<times> ('m, 'd, 'w) world)"
type_synonym ('m, 'd, 'w) system = "tcp_server \<times> ('m, 'd, 'w) tracked"

definition link_init :: link where
  "link_init = \<lparr>lk_devices = Map.empty, lk_authorized = None, lk_receiverTimers = 0, lk_transmitterBuffer = [],
     lk_transmitterAuthorized = False, lk_transmitterTimers = 0\<rparr>"

definition new_device :: device where
  "new_device = \<lparr>de_buffer = [], de_imei = []\<rparr>"

definition transmitter_of :: "('m, 'd, 'w) system \<Rightarrow> tcp_client" where
  "transmitter_of x = fst (snd x)"

definition link_of :: "('m, 'd, 'w) system \<Rightarrow> link" where
  "link_of x = fst (snd (snd x))"

definition world_of :: "('m, 'd, 'w) system \<Rightarrow> ('m, 'd, 'w) world" where
  "world_of x = snd (snd (snd x))"

definition on_transmitter :: "(tcp_client \<Rightarrow> tcp_client) \<Rightarrow> ('m, 'd, 'w) system \<Rightarrow> ('m, 'd, 'w) system" where
  "on_transmitter f x = (fst x, (f (fst (snd x)), snd (snd x)))"

definition on_link :: "(link \<Rightarrow> link) \<Rightarrow> ('m, 'd, 'w) system \<Rightarrow> ('m, 'd, 'w) system" where
  "on_link f x = (fst x, (fst (snd x), (f (fst (snd (snd x))), snd (snd (snd x)))))"

definition on_world :: "(('m, 'd, 'w) world \<Rightarrow> ('m, 'd, 'w) world) \<Rightarrow> ('m, 'd, 'w) system \<Rightarrow> ('m, 'd, 'w) system" where
  "on_world f x = (fst x, (fst (snd x), (fst (snd (snd x)), f (snd (snd (snd x))))))"

lemma parts [simp]:
  "fst (on_transmitter f x) = fst x" "transmitter_of (on_transmitter f x) = f (transmitter_of x)"
  "link_of (on_transmitter f x) = link_of x" "world_of (on_transmitter f x) = world_of x"
  "fst (on_link g x) = fst x" "transmitter_of (on_link g x) = transmitter_of x"
  "link_of (on_link g x) = g (link_of x)" "world_of (on_link g x) = world_of x"
  "fst (on_world h x) = fst x" "transmitter_of (on_world h x) = transmitter_of x"
  "link_of (on_world h x) = link_of x" "world_of (on_world h x) = h (world_of x)"
  "fst (on_server k x) = k (fst x)" "transmitter_of (on_server k x) = transmitter_of x"
  "link_of (on_server k x) = link_of x" "world_of (on_server k x) = world_of x"
  by (simp_all add: on_transmitter_def on_link_def on_world_def on_server_def transmitter_of_def link_of_def world_of_def)

definition crashed :: "('m, 'd, 'w) system \<Rightarrow> bool" where
  "crashed x \<longleftrightarrow> faulty (world_of x)"

definition setting :: "('m, 'd, 'w) system \<Rightarrow> ptree" where
  "setting x = ap_settings (app_of (world_of x))"

definition device_of :: "nat \<Rightarrow> ('m, 'd, 'w) system \<Rightarrow> device" where
  "device_of i x = (case lk_devices (link_of x) i of Some d \<Rightarrow> d | None \<Rightarrow> new_device)"

definition upd_device :: "nat \<Rightarrow> (device \<Rightarrow> device) \<Rightarrow> ('m, 'd, 'w) system \<Rightarrow> ('m, 'd, 'w) system" where
  "upd_device i f = on_link (\<lambda>l. l\<lparr>lk_devices := (lk_devices l)(i := map_option f (lk_devices l i))\<rparr>)"

definition authorized_is :: "nat \<Rightarrow> ('m, 'd, 'w) system \<Rightarrow> bool" where
  "authorized_is i x \<longleftrightarrow> lk_authorized (link_of x) = Some i"

section \<open>Messages of the tracker\<close>

definition tracker_event :: "('d, 'f, 'w) env \<Rightarrow> 'd gps_message \<Rightarrow> ('m, 'd, 'w) system \<Rightarrow> ('m, 'd, 'w) system" where
  "tracker_event E m = on_world (handleTrackerEvent E m)"

definition now_of :: "('m, 'd, 'w) system \<Rightarrow> int" where
  "now_of x = ap_clock (app_of (world_of x))"

definition link_message :: "('d, 'f, 'w) env \<Rightarrow> string \<Rightarrow> string \<Rightarrow> int \<Rightarrow> 'd gps_message" where
  "link_message E keyword imei now = (GpsMessage (en_lib E))\<lparr>gm_imei := imei, gm_keyword := keyword, gm_hostTime := Some now\<rparr>"

definition imei_prefixed :: "string \<Rightarrow> bool" where
  "imei_prefixed s \<longleftrightarrow> length s = 20 \<and> find_sub ''imei:'' s = Some 0"

definition commandLogon ::
  "('d, 'f, 'w) env \<Rightarrow> nat \<Rightarrow> string list \<Rightarrow> ('m, 'd, 'w) system \<Rightarrow> bool \<times> ('m, 'd, 'w) system" where
  "commandLogon E i arguments x =
     (if length arguments \<noteq> 3 then (False, x)
      else if arguments ! 2 \<noteq> ''A'' then (False, x)
      else
        (let imei = arguments ! 1
         in if \<not> imei_prefixed imei then (False, upd_device i (\<lambda>d. d\<lparr>de_imei := []\<rparr>) x)
            else
              (let imei = drop 5 imei;
                   x = upd_device i (\<lambda>d. d\<lparr>de_imei := imei\<rparr>) x
               in if imei = get_str_d (setting x) ''imei'' [] then
                    (let x = on_link (\<lambda>l. l\<lparr>lk_authorized := Some i\<rparr>) x;
                         x = tracker_event E (link_message E ''connect'' imei (now_of x)) x
                     in (True, if crashed x then x else on_server (session_send i ''LOAD'') x))
                  else (True, x))))"

definition commandHeartbeat :: "nat \<Rightarrow> string list \<Rightarrow> ('m, 'd, 'w) system \<Rightarrow> bool \<times> ('m, 'd, 'w) system" where
  "commandHeartbeat i arguments x =
     (if arguments ! 0 \<noteq> de_imei (device_of i x) then (False, x) else (True, on_server (session_send i ''ON'') x))"

section \<open>Position messages\<close>

datatype 'd gps_parsed = GpsReject | GpsThrow | GpsOk "'d gps_message"

text \<open>Degrees and minutes: the minutes begin two characters before the point.\<close>

definition split_coordinate :: "string \<Rightarrow> (string \<times> string) option" where
  "split_coordinate s =
     (case find_sub ''.'' s of
        None \<Rightarrow> None
      | Some p \<Rightarrow> if p < 2 then None else Some (take (p - 2) s, drop (p - 2) s))"

definition read_coordinate :: "('d, 'f) lib \<Rightarrow> string \<times> string \<Rightarrow> 'd option" where
  "read_coordinate L c =
     (case (if fst c = [] then Some (d_zero L) else lc_to_double L (fst c)) of
        None \<Rightarrow> None
      | Some deg \<Rightarrow>
          (case lc_to_double L (snd c) of
             None \<Rightarrow> None
           | Some mins \<Rightarrow> Some (d_add L deg (d_div L mins (d_sixty L)))))"

definition signed_coordinate :: "('d, 'f) lib \<Rightarrow> bool \<Rightarrow> 'd \<Rightarrow> 'd" where
  "signed_coordinate L positive c = (if positive then c else d_mul L c (d_minus_one L))"

definition parse_fix :: "('d, 'f) lib \<Rightarrow> string list \<Rightarrow> 'd gps_message \<Rightarrow> 'd gps_parsed" where
  "parse_fix L arguments m =
     (case split_coordinate (arguments ! 7) of
        None \<Rightarrow> GpsReject
      | Some lat \<Rightarrow>
     (case split_coordinate (arguments ! 9) of
        None \<Rightarrow> GpsReject
      | Some lon \<Rightarrow>
     (case read_coordinate L lat of
        None \<Rightarrow> GpsReject
      | Some latitude \<Rightarrow>
     (case read_coordinate L lon of
        None \<Rightarrow> GpsReject
      | Some longitude \<Rightarrow>
     (case lc_to_double L (arguments ! 11) of
        None \<Rightarrow> GpsReject
      | Some speed \<Rightarrow>
          GpsOk (m\<lparr>gm_latitude := signed_coordinate L (arguments ! 8 = ''N'') latitude,
                   gm_longitude := signed_coordinate L (arguments ! 10 = ''E'') longitude,
                   gm_speed := speed\<rparr>))))))"

text \<open>A time of twelve digits is read; any other leaves the tracker time unset. None: the reader throws.\<close>

definition parse_trackerTime :: "('d, 'f, 'w) env \<Rightarrow> string \<Rightarrow> ptime option" where
  "parse_trackerTime E s =
     (if length s = 12 \<and> str_find_first_not_of s ''0123456789'' = None then
        (case en_iso E (''20'' @ take 6 s @ ''T'' @ drop 6 s) of None \<Rightarrow> None | Some t \<Rightarrow> Some (Some t))
      else Some None)"

definition parse_gps :: "('d, 'f, 'w) env \<Rightarrow> int \<Rightarrow> string list \<Rightarrow> 'd gps_parsed" where
  "parse_gps E now arguments =
     (if \<not> imei_prefixed (arguments ! 0) then GpsReject
      else
        (case parse_trackerTime E (arguments ! 2) of
           None \<Rightarrow> GpsThrow
         | Some t \<Rightarrow>
             (let valid = 11 < length arguments \<and> arguments ! 4 = ''F'';
                  m = (GpsMessage (en_lib E))\<lparr>gm_imei := drop 5 (arguments ! 0), gm_keyword := arguments ! 1,
                        gm_phone := arguments ! 3, gm_trackerTime := t, gm_hostTime := Some now, gm_valid := valid\<rparr>
              in if valid then parse_fix (en_lib E) arguments m else GpsOk m)))"

definition commandGpsData :: "('d, 'f, 'w) env \<Rightarrow> string list \<Rightarrow> ('m, 'd, 'w) system \<Rightarrow> bool \<times> ('m, 'd, 'w) system" where
  "commandGpsData E arguments x =
     (case parse_gps E (now_of x) arguments of
        GpsReject \<Rightarrow> (False, x)
      | GpsThrow \<Rightarrow> (False, on_world (https_fault Escaped) x)
      | GpsOk m \<Rightarrow> (True, tracker_event E m x))"

section \<open>Devices and sessions\<close>

text \<open>The destructor of a device; an event of the disconnection is the last thing it does.\<close>

definition destroy_device :: "('d, 'f, 'w) env \<Rightarrow> nat \<Rightarrow> device \<Rightarrow> ('m, 'd, 'w) system \<Rightarrow> ('m, 'd, 'w) system" where
  "destroy_device E i d x =
     (if authorized_is i x then
        tracker_event E (link_message E ''disconnect'' (de_imei d) (now_of x)) (on_link (\<lambda>l. l\<lparr>lk_authorized := None\<rparr>) x)
      else x)"

definition handleTcpSessionConnect :: "nat \<Rightarrow> ('m, 'd, 'w) system \<Rightarrow> ('m, 'd, 'w) system" where
  "handleTcpSessionConnect i = on_link (\<lambda>l. l\<lparr>lk_devices := (lk_devices l)(i \<mapsto> new_device)\<rparr>)"

definition erase_device :: "('d, 'f, 'w) env \<Rightarrow> nat \<Rightarrow> ('m, 'd, 'w) system \<Rightarrow> ('m, 'd, 'w) system" where
  "erase_device E i x =
     (case lk_devices (link_of x) i of
        None \<Rightarrow> x
      | Some d \<Rightarrow> destroy_device E i d (on_link (\<lambda>l. l\<lparr>lk_devices := (lk_devices l)(i := None)\<rparr>) x))"

definition handleTcpSessionDisconnect ::
  "('d, 'f, 'w) env \<Rightarrow> nat \<Rightarrow> session_reason \<Rightarrow> ('m, 'd, 'w) system \<Rightarrow> ('m, 'd, 'w) system" where
  "handleTcpSessionDisconnect E i r x = (if \<not> isActive i (fst x) then x else erase_device E i x)"

text \<open>
  Closing a session needs the handler of disconnections only; the complete handler is below, since its
  handler of data closes sessions.
\<close>

definition receiver_closing :: "('d, 'f, 'w) env \<Rightarrow> ('m, 'd, 'w) tracked session_handler" where
  "receiver_closing E =
     \<lparr>shError = \<lambda>_ x. x, shConnect = \<lambda>_ x. x, shDisconnect = handleTcpSessionDisconnect E, shReceived = \<lambda>_ _ x. x\<rparr>"

definition close_session :: "('d, 'f, 'w) env \<Rightarrow> nat \<Rightarrow> ('m, 'd, 'w) system \<Rightarrow> ('m, 'd, 'w) system" where
  "close_session E i = session_close (Some (receiver_closing E)) i"

text \<open>\<open>Application::handleDeviceCommand\<close>: what is repeated to the remote host.\<close>

definition handleDeviceCommand :: "('d, 'f, 'w) env \<Rightarrow> string list \<Rightarrow> ('m, 'd, 'w) system \<Rightarrow> ('m, 'd, 'w) system" where
  "handleDeviceCommand E arguments x =
     (let command = join_with (en_lib E) arguments '',''
      in if lk_transmitterAuthorized (link_of x) then on_transmitter (tcp_send (command @ '';'' @ crlf)) x else x)"

text \<open>One command of the tracker: whether to go on with the next, and the state. An exception ends the process.\<close>

definition device_command :: "('d, 'f, 'w) env \<Rightarrow> nat \<Rightarrow> string list \<Rightarrow> ('m, 'd, 'w) system \<Rightarrow> (bool \<times> bool) \<times> ('m, 'd, 'w) system" where
  "device_command E i arguments x =
     (if arguments ! 0 = ''##'' then
        (case commandLogon E i arguments x of (r, x) \<Rightarrow> ((r, False), x))
      else if de_imei (device_of i x) \<noteq> [] \<and> authorized_is i x then
        (if length arguments = 1 then
           (case commandHeartbeat i arguments x of (r, x) \<Rightarrow> ((r, False), x))
         else if length arguments = 6 \<or> 11 < length arguments then ((True, True), snd (commandGpsData E arguments x))
         else ((True, True), x))
      else ((True, True), x))"

definition process_command :: "('d, 'f, 'w) env \<Rightarrow> nat \<Rightarrow> string \<Rightarrow> ('m, 'd, 'w) system \<Rightarrow> bool \<times> ('m, 'd, 'w) system" where
  "process_command E i command x =
     (if command = [] then (True, x)
      else
        (let arguments = split_any (en_lib E) command '',''
         in if arguments = [] \<or> arguments ! 0 = [] then (True, x)
            else
              (case device_command E i arguments x of
                 ((r, transmit), x) \<Rightarrow>
                   if crashed x then (False, x)
                   else if \<not> r \<or> de_imei (device_of i x) = [] \<or> \<not> authorized_is i x then (False, close_session E i x)
                   else (True, if transmit then handleDeviceCommand E arguments x else x))))"

definition BUFFER_LIMIT :: nat where "BUFFER_LIMIT = 32768"

text \<open>The loop over the commands in the buffer, which is an argument too; no command changes it.\<close>

function process_loop :: "('d, 'f, 'w) env \<Rightarrow> nat \<Rightarrow> string \<Rightarrow> ('m, 'd, 'w) system \<Rightarrow> ('m, 'd, 'w) system" where
  "process_loop E i buffer x =
     (case find_sub '';'' buffer of
        None \<Rightarrow> if BUFFER_LIMIT < length buffer then close_session E i x else x
      | Some off \<Rightarrow>
          (let rest = drop (off + 1) buffer
           in case process_command E i (take off buffer) (upd_device i (\<lambda>d. d\<lparr>de_buffer := rest\<rparr>) x) of
                (go, x) \<Rightarrow> if go then process_loop E i rest x else x))"
  by pat_completeness auto
termination
proof (relation "measure (\<lambda>(E, i, buffer, x). length buffer)")
  fix buffer off rest
  assume "find_sub '';'' buffer = Some off" "rest = drop (off + 1) buffer"
  thus "((E, i, rest, z), (E, i, buffer, x)) \<in> measure (\<lambda>(E, i, buffer, x). length buffer)" for E i z x
    using find_sub_Some[of "'';''" buffer off] by (simp, linarith)
qed simp

declare process_loop.simps [simp del]

definition strip_lines :: "('d, 'f) lib \<Rightarrow> string \<Rightarrow> string" where
  "strip_lines L s = erase_all L (erase_all L s [CR]) [LF]"

definition processData :: "('d, 'f, 'w) env \<Rightarrow> nat \<Rightarrow> string \<Rightarrow> ('m, 'd, 'w) system \<Rightarrow> ('m, 'd, 'w) system" where
  "processData E i d x =
     (let buffer = strip_lines (en_lib E) (de_buffer (device_of i x) @ d)
      in process_loop E i buffer (upd_device i (\<lambda>d. d\<lparr>de_buffer := buffer\<rparr>) x))"

definition handleTcpSessionReceivedData :: "('d, 'f, 'w) env \<Rightarrow> nat \<Rightarrow> string \<Rightarrow> ('m, 'd, 'w) system \<Rightarrow> ('m, 'd, 'w) system" where
  "handleTcpSessionReceivedData E i d x =
     (if lk_devices (link_of x) i \<noteq> None then processData E i d x else x)"

definition processClientData :: "nat \<Rightarrow> string \<Rightarrow> ('m, 'd, 'w) system \<Rightarrow> ('m, 'd, 'w) system" where
  "processClientData i d = on_server (session_send i d)"

section \<open>The receiver\<close>

text \<open>Of the devices that \<open>clear\<close> destroys only the authorised one does anything.\<close>

definition clear_devices :: "('d, 'f, 'w) env \<Rightarrow> ('m, 'd, 'w) system \<Rightarrow> ('m, 'd, 'w) system" where
  "clear_devices E x =
     (let y = on_link (\<lambda>l. l\<lparr>lk_devices := Map.empty\<rparr>) x
      in case lk_authorized (link_of x) of
           None \<Rightarrow> y
         | Some i \<Rightarrow> (case lk_devices (link_of x) i of None \<Rightarrow> y | Some d \<Rightarrow> destroy_device E i d y))"

definition handleTcpServerError :: "('d, 'f, 'w) env \<Rightarrow> errc \<Rightarrow> ('m, 'd, 'w) system \<Rightarrow> ('m, 'd, 'w) system" where
  "handleTcpServerError E e x =
     (let x = clear_devices E x;
          rebindDelay = get_int32_d (en_lib E) (setting x) ''receiver.rebind_delay'' 0
      in if sint rebindDelay < 1 then x
         else on_link (\<lambda>l. l\<lparr>lk_receiverTimers := lk_receiverTimers l + 1\<rparr>) x)"

text \<open>The application as the handler of its server.\<close>

definition receiver_handler :: "('d, 'f, 'w) env \<Rightarrow> ('m, 'd, 'w) tracked session_handler" where
  "receiver_handler E =
     \<lparr>shError = handleTcpServerError E, shConnect = handleTcpSessionConnect, shDisconnect = handleTcpSessionDisconnect E,
      shReceived = handleTcpSessionReceivedData E\<rparr>"

text \<open>\<open>r\<close> holds what the system answers to \<open>listen\<close>, host and port included.\<close>

definition startReceiver :: "('d, 'f, 'w) env \<Rightarrow> listen_results \<Rightarrow> ('m, 'd, 'w) system \<Rightarrow> ('m, 'd, 'w) system" where
  "startReceiver E r x =
     (if \<not> get_bool_d (en_lib E) (setting x) ''receiver.enabled'' False then x
      else server_listen (Some (receiver_handler E)) r x)"

definition handleReceiverTimer :: "('d, 'f, 'w) env \<Rightarrow> listen_results \<Rightarrow> ('m, 'd, 'w) system \<Rightarrow> ('m, 'd, 'w) system" where
  "handleReceiverTimer E r x =
     startReceiver E r (on_link (\<lambda>l. l\<lparr>lk_receiverTimers := lk_receiverTimers l - 1\<rparr>) x)"

section \<open>The application meets the contract of the server\<close>

lemma vapi_refl: "server_api H x x"
  by (cases x) (simp add: vapi_user)

lemma vapi_same: "server_api H x y \<Longrightarrow> fst z = fst y \<Longrightarrow> server_api H x z"
  by (cases y; cases z) (auto intro: vapi_object)

lemma vapi_parts:
  assumes "server_api H x y"
  shows "server_api H x (on_link g y)" "server_api H x (on_world h y)" "server_api H x (on_transmitter k y)"
    "server_api H x (on_server (session_send i d) y)"
  using vapi_same[OF assms] vapi_send[of H x "fst y" "snd y" i d "snd y"] assms by (simp_all add: on_server_def)

lemma close_session_vapi: "server_api (Some (receiver_handler E)) x y \<Longrightarrow> server_api (Some (receiver_handler E)) x (close_session E i y)"
proof -
  have "close_session E i y = session_close (Some (receiver_handler E)) i y"
    by (simp add: close_session_def session_close_def session_end_def session_notify_def receiver_closing_def receiver_handler_def)
  thus "server_api (Some (receiver_handler E)) x y \<Longrightarrow> ?thesis" by (simp add: vapi_close)
qed

lemma device_command_vapi: "server_api H x y \<Longrightarrow> server_api H x (snd (device_command E i args y))"
  by (auto simp: device_command_def commandLogon_def commandHeartbeat_def commandGpsData_def tracker_event_def
      upd_device_def Let_def case_prod_unfold intro: vapi_parts split: gps_parsed.split)

lemma process_command_vapi:
  assumes "server_api (Some (receiver_handler E)) x y"
  shows "server_api (Some (receiver_handler E)) x (snd (process_command E i command y))"
proof -
  have z: "server_api (Some (receiver_handler E)) x z" if "device_command E i args y = (rt, z)" for args rt z
    using device_command_vapi[OF assms, of E i args] that by simp
  have "server_api (Some (receiver_handler E)) x (if lk_transmitterAuthorized (link_of z) then on_transmitter k z else z)"
    if "device_command E i args y = (rt, z)" for args rt z k
    using z[OF that] vapi_parts(3)[OF z[OF that]] by simp
  thus ?thesis using z close_session_vapi[OF z] assms
    by (auto simp: process_command_def Let_def handleDeviceCommand_def split: prod.splits)
qed

lemma process_loop_vapi:
  "server_api (Some (receiver_handler E)) x y \<Longrightarrow> server_api (Some (receiver_handler E)) x (process_loop E i buffer y)"
proof (induction E i buffer y rule: process_loop.induct)
  case (1 E i buffer y)
  show ?case
  proof (cases "find_sub '';'' buffer")
    case None
    thus ?thesis using "1.prems" by (subst process_loop.simps) (simp add: close_session_vapi)
  next
    case (Some off)
    let ?rest = "drop (off + 1) buffer"
    obtain go z where z: "process_command E i (take off buffer) (upd_device i (\<lambda>d. d\<lparr>de_buffer := ?rest\<rparr>) y) = (go, z)"
      by (metis surj_pair)
    have "server_api (Some (receiver_handler E)) x (upd_device i (\<lambda>d. d\<lparr>de_buffer := ?rest\<rparr>) y)"
      unfolding upd_device_def by (rule vapi_parts[OF "1.prems"])
    hence "server_api (Some (receiver_handler E)) x z"
      using process_command_vapi[of E x _ i "take off buffer"] z by (metis snd_conv)
    thus ?thesis using "1.IH"[OF Some refl z[symmetric]] Some z by (subst process_loop.simps) simp
  qed
qed

lemma clear_devices_server [simp]: "fst (clear_devices E x) = fst x"
  by (simp add: clear_devices_def Let_def destroy_device_def tracker_event_def split: option.split)

lemma erase_device_server [simp]: "fst (erase_device E i x) = fst x"
  by (simp add: erase_device_def destroy_device_def tracker_event_def split: option.split)

interpretation receiver: session_user "receiver_handler E" for E
proof
  fix e i r d x
  show "fst (shError (receiver_handler E) e x) = fst x"
    by (simp add: receiver_handler_def handleTcpServerError_def Let_def)
  show "fst (shDisconnect (receiver_handler E) i r x) = fst x"
    by (simp add: receiver_handler_def handleTcpSessionDisconnect_def)
  show "server_api (Some (receiver_handler E)) x (shConnect (receiver_handler E) i x)"
    using vapi_parts(1)[OF vapi_refl[of _ x]] by (simp add: receiver_handler_def handleTcpSessionConnect_def)
  have "server_api (Some (receiver_handler E)) x (processData E i d x)"
    unfolding processData_def upd_device_def Let_def by (intro process_loop_vapi vapi_parts vapi_refl)
  thus "server_api (Some (receiver_handler E)) x (shReceived (receiver_handler E) i d x)"
    by (simp add: receiver_handler_def handleTcpSessionReceivedData_def vapi_refl)
qed

end
