(* ===== verification/TransmitterModel.thy ===== *)
theory TransmitterModel
  imports ReceiverModel
begin

text \<open>
  \<open>src/ApplicationTransmitter.cpp\<close>: the client that repeats the tracker's data to a remote host and passes
  the host's commands on to the tracker.
\<close>

section \<open>Operations\<close>

definition set_transmitter :: "bool \<Rightarrow> string \<Rightarrow> ('m, 'd, 'w) system \<Rightarrow> ('m, 'd, 'w) system" where
  "set_transmitter a b = on_link (\<lambda>l. l\<lparr>lk_transmitterAuthorized := a, lk_transmitterBuffer := b\<rparr>)"

definition wait_transmitter :: "('m, 'd, 'w) system \<Rightarrow> ('m, 'd, 'w) system" where
  "wait_transmitter = on_link (\<lambda>l. l\<lparr>lk_transmitterTimers := lk_transmitterTimers l + 1\<rparr>)"

text \<open>The port is an \<open>int\<close> of the configuration stored in an \<open>unsigned short\<close>.\<close>

definition port_of :: "int32 \<Rightarrow> nat" where
  "port_of p = unat (ucast p :: 16 word)"

definition startTransmitter :: "('d, 'f, 'w) env \<Rightarrow> ('m, 'd, 'w) system \<Rightarrow> ('m, 'd, 'w) system" where
  "startTransmitter E x =
     (let L = en_lib E; s = setting x;
          host = get_str_d s ''transmitter.host'' [];
          port = port_of (get_int32_d L s ''transmitter.port'' 0)
      in if \<not> get_bool_d L s ''transmitter.enabled'' False then x
         else on_transmitter (tcp_connect_port L host port) x)"

definition logon_text :: "string \<Rightarrow> string" where
  "logon_text imei = ''##,imei:'' @ imei @ '',A;'' @ crlf"

definition handleTcpClientConnect :: "('d, 'f, 'w) env \<Rightarrow> ('m, 'd, 'w) system \<Rightarrow> ('m, 'd, 'w) system" where
  "handleTcpClientConnect E x =
     (let x = set_transmitter False [] x;
          imei = get_str_d (setting x) ''imei'' []
      in if imei \<noteq> [] then on_transmitter (tcp_send (logon_text imei)) x else x)"

definition handleTcpClientError :: "('d, 'f, 'w) env \<Rightarrow> errc option \<Rightarrow> ('m, 'd, 'w) system \<Rightarrow> ('m, 'd, 'w) system" where
  "handleTcpClientError E e x =
     (let x = set_transmitter False [] x;
          reconnectDelay = get_int32_d (en_lib E) (setting x) ''transmitter.reconnect_delay'' 0
      in if sint reconnectDelay < 1 then x else wait_transmitter x)"

definition handleTcpClientDisconnect :: "('d, 'f, 'w) env \<Rightarrow> reason \<Rightarrow> ('m, 'd, 'w) system \<Rightarrow> ('m, 'd, 'w) system" where
  "handleTcpClientDisconnect E r x =
     (let x = set_transmitter False [] x
      in if r = ClosedByUser then x else handleTcpClientError E None x)"

text \<open>A command of the remote host for the tracker: an answer to a heartbeat in front of it is cut off.\<close>

definition host_command :: "string \<Rightarrow> ('m, 'd, 'w) system \<Rightarrow> ('m, 'd, 'w) system" where
  "host_command command x =
     (if length command < 2 then x
      else
        (let on = (find_sub ''ON'' command = Some 0);
             command = (if on then drop 2 command else command);
             x = (if on then wait_transmitter x else x)
         in if command = [] then x
            else (case lk_authorized (link_of x) of
                    None \<Rightarrow> x
                  | Some i \<Rightarrow>
                      if lk_devices (link_of x) i \<noteq> None then processClientData i (command @ '';'' @ crlf) x else x)))"

definition check_limit :: "string \<Rightarrow> ('m, 'd, 'w) system \<Rightarrow> ('m, 'd, 'w) system" where
  "check_limit buffer x = (if BUFFER_LIMIT < length buffer then on_transmitter tcp_disconnect x else x)"

text \<open>The loop; the buffer of the state is its argument.\<close>

function transmitter_loop :: "string \<Rightarrow> ('m, 'd, 'w) system \<Rightarrow> ('m, 'd, 'w) system" where
  "transmitter_loop buffer x =
     (case find_sub '';'' buffer of
        None \<Rightarrow>
          if length buffer < 2 then check_limit buffer x
          else if \<not> lk_transmitterAuthorized (link_of x) then
            if length buffer < 4 then check_limit buffer x
            else if find_sub ''LOAD'' buffer \<noteq> Some 0 then on_transmitter tcp_disconnect x
            else transmitter_loop (drop 4 buffer) (wait_transmitter (set_transmitter True (drop 4 buffer) x))
          else if find_sub ''ON'' buffer = Some 0 then
            transmitter_loop (drop 2 buffer) (wait_transmitter (set_transmitter True (drop 2 buffer) x))
          else check_limit buffer x
      | Some off \<Rightarrow>
          if \<not> lk_transmitterAuthorized (link_of x) then on_transmitter tcp_disconnect x
          else transmitter_loop (drop (off + 1) buffer)
                 (host_command (take off buffer) (set_transmitter True (drop (off + 1) buffer) x)))"
  by pat_completeness auto
termination
proof (relation "measure (\<lambda>(buffer, x). length buffer)")
  fix buffer off
  assume "find_sub '';'' buffer = Some off"
  thus "((drop (off + 1) buffer, z), (buffer, x)) \<in> measure (\<lambda>(buffer, x). length buffer)" for z x
    using find_sub_Some[of "'';''" buffer off] by (simp, linarith)
qed auto

declare transmitter_loop.simps [simp del]

text \<open>The heartbeat timer is set before the loop; that starts no wait.\<close>

definition handleTcpClientReceivedData :: "('d, 'f, 'w) env \<Rightarrow> string \<Rightarrow> ('m, 'd, 'w) system \<Rightarrow> ('m, 'd, 'w) system" where
  "handleTcpClientReceivedData E d x =
     (let l = link_of x; buffer = strip_lines (en_lib E) (lk_transmitterBuffer l @ d)
      in transmitter_loop buffer (set_transmitter (lk_transmitterAuthorized l) buffer x))"

definition handleTransmitterTimer :: "('d, 'f, 'w) env \<Rightarrow> ('m, 'd, 'w) system \<Rightarrow> ('m, 'd, 'w) system" where
  "handleTransmitterTimer E x =
     (let x = on_link (\<lambda>l. l\<lparr>lk_transmitterTimers := lk_transmitterTimers l - 1\<rparr>) x
      in if lk_transmitterAuthorized (link_of x) then
           (let imei = get_str_d (setting x) ''imei'' []
            in if imei \<noteq> [] then on_transmitter (tcp_send (imei @ '';'' @ crlf)) x else x)
         else startTransmitter E x)"

section \<open>The application as the handler of the client\<close>

type_synonym ('m, 'd, 'w) host_side = "tcp_server \<times> (link \<times> ('m, 'd, 'w) world)"

definition turn :: "tcp_client \<times> ('m, 'd, 'w) host_side \<Rightarrow> ('m, 'd, 'w) system" where
  "turn s = (fst (snd s), (fst s, snd (snd s)))"

definition turn_back :: "('m, 'd, 'w) system \<Rightarrow> tcp_client \<times> ('m, 'd, 'w) host_side" where
  "turn_back x = (fst (snd x), (fst x, snd (snd x)))"

lemma turn_simps [simp]: "turn (turn_back x) = x" "turn_back (turn s) = s" "fst (turn_back x) = transmitter_of x"
  "transmitter_of (turn s) = fst s"
  by (simp_all add: turn_def turn_back_def transmitter_of_def)

definition transmitter_handler :: "('d, 'f, 'w) env \<Rightarrow> ('m, 'd, 'w) host_side tcp_handler" where
  "transmitter_handler E =
     \<lparr>hConnect = \<lambda>s. turn_back (handleTcpClientConnect E (turn s)),
      hDisconnect = \<lambda>r s. turn_back (handleTcpClientDisconnect E r (turn s)),
      hError = \<lambda>e s. turn_back (handleTcpClientError E e (turn s)),
      hReceived = \<lambda>d s. turn_back (handleTcpClientReceivedData E d (turn s))\<rparr>"

text \<open>A completed operation of the transmitter's socket.\<close>

definition transmitter_complete :: "('d, 'f, 'w) env \<Rightarrow> tcp_result \<Rightarrow> ('m, 'd, 'w) system \<Rightarrow> ('m, 'd, 'w) system" where
  "transmitter_complete E r x = turn (tcp_complete (Some (transmitter_handler E)) r (turn_back x))"

section \<open>The application meets the contract of the client\<close>

lemma set_transmitter_parts [simp]:
  "fst (set_transmitter a b x) = fst x" "transmitter_of (set_transmitter a b x) = transmitter_of x"
  "world_of (set_transmitter a b x) = world_of x" "setting (set_transmitter a b x) = setting x"
  "link_of (set_transmitter a b x) = (link_of x)\<lparr>lk_transmitterAuthorized := a, lk_transmitterBuffer := b\<rparr>"
  by (simp_all add: set_transmitter_def setting_def)

lemma wait_transmitter_parts [simp]:
  "fst (wait_transmitter x) = fst x" "transmitter_of (wait_transmitter x) = transmitter_of x"
  "world_of (wait_transmitter x) = world_of x" "setting (wait_transmitter x) = setting x"
  "link_of (wait_transmitter x) = (link_of x)\<lparr>lk_transmitterTimers := lk_transmitterTimers (link_of x) + 1\<rparr>"
  by (simp_all add: wait_transmitter_def setting_def)

lemma host_command_parts [simp]:
  "transmitter_of (host_command c x) = transmitter_of x" "world_of (host_command c x) = world_of x"
  "lk_devices (link_of (host_command c x)) = lk_devices (link_of x)"
  "lk_authorized (link_of (host_command c x)) = lk_authorized (link_of x)"
  "lk_transmitterAuthorized (link_of (host_command c x)) = lk_transmitterAuthorized (link_of x)"
  by (simp_all add: host_command_def Let_def processClientData_def split: option.split)

lemma check_limit_parts [simp]:
  "fst (check_limit b x) = fst x" "world_of (check_limit b x) = world_of x" "link_of (check_limit b x) = link_of x"
  by (simp_all add: check_limit_def)

lemma transmitter_loop_cases:
  obtains (stop) "transmitter_loop b x = x"
  | (quit) "transmitter_loop b x = on_transmitter tcp_disconnect x"
  | (load) "find_sub '';'' b = None" "\<not> lk_transmitterAuthorized (link_of x)" "4 \<le> length b" "find_sub ''LOAD'' b = Some 0"
      "transmitter_loop b x = transmitter_loop (drop 4 b) (wait_transmitter (set_transmitter True (drop 4 b) x))"
  | (on) "find_sub '';'' b = None" "lk_transmitterAuthorized (link_of x)" "2 \<le> length b" "find_sub ''ON'' b = Some 0"
      "transmitter_loop b x = transmitter_loop (drop 2 b) (wait_transmitter (set_transmitter True (drop 2 b) x))"
  | (command) off where "find_sub '';'' b = Some off" "lk_transmitterAuthorized (link_of x)"
      "transmitter_loop b x = transmitter_loop (drop (off + 1) b) (host_command (take off b) (set_transmitter True (drop (off + 1) b) x))"
proof (cases "find_sub '';'' b")
  case None
  note eq = transmitter_loop.simps[of b x, unfolded None option.case check_limit_def]
  show ?thesis
  proof (cases "lk_transmitterAuthorized (link_of x)")
    case True
    thus ?thesis using that(1,2,4) None eq by (metis not_less)
  next
    case False
    thus ?thesis using that(1,2,3) None eq by (metis not_less)
  qed
next
  case (Some off)
  thus ?thesis using that(2,5) transmitter_loop.simps[of b x] by (cases "lk_transmitterAuthorized (link_of x)") simp_all
qed

lemma transmitter_loop_api: "tcp_api (transmitter_of x) (transmitter_of (transmitter_loop b x))"
proof (induction "length b" arbitrary: b x rule: less_induct)
  case less
  show ?case
  proof (cases rule: transmitter_loop_cases[of b x])
    case load
    thus ?thesis using less[of "drop 4 b" "wait_transmitter (set_transmitter True (drop 4 b) x)"] by simp
  next
    case on
    thus ?thesis using less[of "drop 2 b" "wait_transmitter (set_transmitter True (drop 2 b) x)"] by simp
  next
    case (command off)
    have "length (drop (off + 1) b) < length b" using find_sub_Some[OF command(1)] by (simp, linarith)
    from less[OF this, of "host_command (take off b) (set_transmitter True (drop (off + 1) b) x)"]
    show ?thesis using command(3) by simp
  qed simp_all
qed

lemma error_transmitter [simp]: "transmitter_of (handleTcpClientError E e x) = transmitter_of x"
  by (simp add: handleTcpClientError_def Let_def)

interpretation transmitter: tcp_user "transmitter_handler E" for E
proof
  fix c u r e d
  show "tcp_api c (fst (hConnect (transmitter_handler E) (c, u)))"
    by (simp add: transmitter_handler_def handleTcpClientConnect_def Let_def)
  show "tcp_api c (fst (hDisconnect (transmitter_handler E) r (c, u)))"
    by (simp add: transmitter_handler_def handleTcpClientDisconnect_def Let_def)
  show "tcp_api c (fst (hError (transmitter_handler E) e (c, u)))"
    by (simp add: transmitter_handler_def)
  show "tcp_api c (fst (hReceived (transmitter_handler E) d (c, u)))"
    using transmitter_loop_api[of "set_transmitter a b (turn (c, u))" b for a b]
    by (simp add: transmitter_handler_def handleTcpClientReceivedData_def Let_def)
qed

end
