(* ===== verification/UtilitiesModel.thy ===== *)
theory UtilitiesModel
  imports Ptree
begin

text \<open>
  \<open>src/Utilities.cpp\<close>: the wildcard matcher and the printer of property trees, and the two writing
  operations of Boost's tree that the commands use.
\<close>

section \<open>Wildcards\<close>

definition ascii_upper :: "char \<Rightarrow> char" where
  "ascii_upper c =
     (let n = (of_char c :: nat) in if 97 \<le> n \<and> n \<le> 122 then char_of (n - 32) else c)"

text \<open>
  The offsets of the code become the suffixes of string and pattern that are left. Reading the string
  at its length gives the terminating zero.
\<close>

definition char_at :: "string \<Rightarrow> char" where
  "char_at s = (case s of [] \<Rightarrow> CHR 0x00 | c # _ \<Rightarrow> c)"

function wildcardMatch :: "string \<Rightarrow> string \<Rightarrow> bool" where
  "wildcardMatch s [] = (s = [])"
| "wildcardMatch s (p # ps) =
     (if p = CHR ''?'' then (if s = [] then False else wildcardMatch (tl s) ps)
      else if p = CHR ''*'' then
        (if wildcardMatch s ps then True
         else if s \<noteq> [] then wildcardMatch (tl s) (p # ps) else False)
      else if ascii_upper (char_at s) \<noteq> ascii_upper p then False
      else wildcardMatch (tl s) ps)"
  by pat_completeness auto
termination
  by (relation "measure (\<lambda>(s, p). length s + length p)") (auto simp: less_Suc_eq_le neq_Nil_conv)

declare wildcardMatch.simps(2) [simp del]

text \<open>
  What a pattern means: a question mark stands for one character, a star for any text, everything
  else for itself up to the case of letters.
\<close>

primrec glob :: "string \<Rightarrow> string \<Rightarrow> bool" where
  "glob [] s = (s = [])"
| "glob (p # ps) s =
     (if p = CHR ''?'' then (\<exists>c s'. s = c # s' \<and> glob ps s')
      else if p = CHR ''*'' then (\<exists>s1 s2. s = s1 @ s2 \<and> glob ps s2)
      else (\<exists>c s'. s = c # s' \<and> ascii_upper c = ascii_upper p \<and> glob ps s'))"

lemma ascii_upper_0: "ascii_upper (CHR 0x00) = CHR 0x00"
  by code_simp

lemma ascii_upper_eq_0: "ascii_upper c = CHR 0x00 \<Longrightarrow> c = CHR 0x00"
proof -
  assume a: "ascii_upper c = CHR 0x00"
  show ?thesis
  proof (cases "97 \<le> (of_char c :: nat) \<and> (of_char c :: nat) \<le> 122")
    case True
    hence "(char_of ((of_char c :: nat) - 32) :: char) = CHR 0x00" using a by (simp add: ascii_upper_def Let_def)
    hence "(of_char (char_of ((of_char c :: nat) - 32) :: char) :: nat) = 0" by simp
    hence "((of_char c :: nat) - 32) mod 256 = 0" by simp
    moreover have "((of_char c :: nat) - 32) mod 256 = of_char c - 32" by (rule mod_less) (use True in linarith)
    ultimately show ?thesis using True by linarith
  next
    case False
    thus ?thesis using a by (auto simp: ascii_upper_def Let_def split: if_splits)
  qed
qed

lemma glob_star: "glob (CHR ''*'' # ps) s \<longleftrightarrow> glob ps s \<or> (\<exists>c s'. s = c # s' \<and> glob (CHR ''*'' # ps) s')"
proof
  assume "glob (CHR ''*'' # ps) s"
  then obtain s1 s2 where "s = s1 @ s2" "glob ps s2" by auto
  thus "glob ps s \<or> (\<exists>c s'. s = c # s' \<and> glob (CHR ''*'' # ps) s')" by (cases s1) auto
next
  assume "glob ps s \<or> (\<exists>c s'. s = c # s' \<and> glob (CHR ''*'' # ps) s')"
  thus "glob (CHR ''*'' # ps) s" by auto (metis append_Cons)+
qed

text \<open>Property C38. The wildcard matcher decides the meaning of patterns: it ends for every string and
  pattern and is true exactly when the string can be cut the way the pattern says (the pattern holds no
  zero character, as no text of a chat message does).\<close>

theorem wildcardMatch_glob:
  assumes "CHR 0x00 \<notin> set p"
  shows "wildcardMatch s p = glob p s"
  using assms
proof (induction s p rule: wildcardMatch.induct)
  case (2 s p ps)
  have IH: "p = CHR ''?'' \<Longrightarrow> s \<noteq> [] \<Longrightarrow> wildcardMatch (tl s) ps = glob ps (tl s)"
    "p = CHR ''*'' \<Longrightarrow> wildcardMatch s ps = glob ps s"
    "p = CHR ''*'' \<Longrightarrow> \<not> wildcardMatch s ps \<Longrightarrow> s \<noteq> [] \<Longrightarrow> wildcardMatch (tl s) (p # ps) = glob (p # ps) (tl s)"
    "p \<noteq> CHR ''?'' \<Longrightarrow> p \<noteq> CHR ''*'' \<Longrightarrow> ascii_upper (char_at s) = ascii_upper p \<Longrightarrow>
       wildcardMatch (tl s) ps = glob ps (tl s)"
    and p: "p \<noteq> CHR 0x00"
    using 2 by auto
  show ?case
  proof (cases "p = CHR ''*''")
    case True
    have a: "wildcardMatch s ps = glob ps s" using IH True by blast
    have b: "wildcardMatch (tl s) (p # ps) = glob (p # ps) (tl s)" if "s \<noteq> []" "\<not> wildcardMatch s ps"
      using IH True that by blast
    have "wildcardMatch s (p # ps) = (wildcardMatch s ps \<or> s \<noteq> [] \<and> wildcardMatch (tl s) (p # ps))"
      using True by (simp add: wildcardMatch.simps(2))
    also have "\<dots> = (glob ps s \<or> s \<noteq> [] \<and> glob (p # ps) (tl s))" using a b by blast
    also have "\<dots> = glob (p # ps) s" unfolding True glob_star[of ps s] by (cases s) simp_all
    finally show ?thesis .
  next
    case False
    show ?thesis
    proof (cases s)
      case Nil
      have "ascii_upper p \<noteq> CHR 0x00" using ascii_upper_eq_0[of p] p by auto
      thus ?thesis using False Nil by (auto simp: wildcardMatch.simps(2) char_at_def ascii_upper_0)
    next
      case (Cons c s')
      thus ?thesis using IH(1,4) False by (auto simp: wildcardMatch.simps(2) char_at_def)
    qed
  qed
qed simp

theorem wildcardMatch_glob_witness:
  "wildcardMatch ''telegram.Token'' ''*.to?en'' = glob ''*.to?en'' ''telegram.Token'' \<and>
   wildcardMatch ''telegram.Token'' ''*.to?en''"
proof -
  have "wildcardMatch ''telegram.Token'' ''*.to?en''" by code_simp
  thus ?thesis using wildcardMatch_glob[of "''*.to?en''" "''telegram.Token''"] by simp
qed

section \<open>Printing a tree\<close>

definition leaf_line :: "string \<Rightarrow> string \<Rightarrow> string \<Rightarrow> string" where
  "leaf_line filt path v =
     (if filt = [] \<or> take (length filt) path = filt \<or> wildcardMatch path filt
      then path @ '' = '' @ [DQ] @ v @ [DQ] @ crlf else [])"

definition sub_path :: "string \<Rightarrow> string \<Rightarrow> string" where
  "sub_path path k = (if path = [] then k else path @ ''.'' @ k)"

fun treeToString :: "ptree \<Rightarrow> string \<Rightarrow> string \<Rightarrow> string"
  and branchesToString :: "(string \<times> ptree) list \<Rightarrow> string \<Rightarrow> string \<Rightarrow> string" where
  "treeToString (PT d ks) filt path = branchesToString ks filt path"
| "branchesToString [] filt path = []"
| "branchesToString ((k, t) # ks) filt path =
     (if pt_empty t then leaf_line filt (sub_path path k) (pt_data t)
      else treeToString t filt (sub_path path k)) @ branchesToString ks filt path"

text \<open>The leaves of a tree with their paths, in order.\<close>

fun leaves :: "ptree \<Rightarrow> string \<Rightarrow> (string \<times> string) list"
  and branch_leaves :: "(string \<times> ptree) list \<Rightarrow> string \<Rightarrow> (string \<times> string) list" where
  "leaves (PT d ks) path = branch_leaves ks path"
| "branch_leaves [] path = []"
| "branch_leaves ((k, t) # ks) path =
     (if pt_empty t then [(sub_path path k, pt_data t)] else leaves t (sub_path path k)) @ branch_leaves ks path"

lemma printer_leaves:
  "treeToString t filt path = concat (map (\<lambda>(p, v). leaf_line filt p v) (leaves t path))"
  "branchesToString ks filt path' = concat (map (\<lambda>(p, v). leaf_line filt p v) (branch_leaves ks path'))"
  by (induction t filt path and ks filt path' rule: treeToString_branchesToString.induct) auto

text \<open>The settings printer shows exactly the leaves of the tree whose path the filter accepts
  (every leaf without a filter), one line each and in the order of the tree.\<close>

theorem treeToString_leaves:
  "treeToString t filt path = concat (map (\<lambda>(p, v). leaf_line filt p v) (leaves t path))"
  by (rule printer_leaves)

section \<open>Writing into a tree\<close>

definition put_data :: "string \<Rightarrow> ptree \<Rightarrow> ptree" where
  "put_data v t = PT v (pt_kids t)"

fun upd_first :: "string \<Rightarrow> (ptree \<Rightarrow> ptree) \<Rightarrow> (string \<times> ptree) list \<Rightarrow> (string \<times> ptree) list" where
  "upd_first k f [] = []"
| "upd_first k f ((k', t) # ks) = (if k = k' then (k', f t) # ks else (k', t) # upd_first k f ks)"

text \<open>Changing the node that a path leads to; \<open>add\<close> makes missing nodes on the way and always a new last one.\<close>

fun upd_path :: "string list \<Rightarrow> (ptree \<Rightarrow> ptree) \<Rightarrow> ptree \<Rightarrow> ptree" where
  "upd_path [] f t = f t"
| "upd_path (k # ks) f t = PT (pt_data t) (upd_first k (upd_path ks f) (pt_kids t))"

fun add_path :: "string list \<Rightarrow> string \<Rightarrow> ptree \<Rightarrow> ptree" where
  "add_path [] v t = t"
| "add_path [k] v t = PT (pt_data t) (pt_kids t @ [(k, PT v [])])"
| "add_path (k # ks) v t =
     (let t = (if pt_has t k then t else PT (pt_data t) (pt_kids t @ [(k, PT [] [])]))
      in PT (pt_data t) (upd_first k (add_path ks v) (pt_kids t)))"

lemma upd_first_map_of: "map_of (upd_first k f ks) k' = (if k' = k then map_option f (map_of ks k) else map_of ks k')"
  by (induction ks) auto

lemma walk_upd_path: "walk_path t ks = Some c \<Longrightarrow> walk_path (upd_path ks f t) ks = Some (f c)"
  by (induction ks arbitrary: t) (auto simp: pt_find_def upd_first_map_of split: option.splits)

end
