(* ===== verification/CommandsModel.thy ===== *)
theory CommandsModel
  imports ApplicationModel UtilitiesModel
begin

text \<open>
  \<open>src/ApplicationCommands.cpp\<close>, \<open>src/ChatCommand.h\<close> and the message handler of
  \<open>src/ApplicationTelegram.cpp\<close>: what a text message to the bot makes the application do.
\<close>

section \<open>The table of commands\<close>

definition ACCESS_DEFAULT :: uint32 where "ACCESS_DEFAULT = 0"
definition ACCESS_USER :: uint32 where "ACCESS_USER = 1"
definition ACCESS_OWNER :: uint32 where "ACCESS_OWNER = 2"

lemmas accesses = ACCESS_DEFAULT_def ACCESS_USER_def ACCESS_OWNER_def

definition getAccessString :: "uint32 \<Rightarrow> string" where
  "getAccessString level =
     (if level = ACCESS_OWNER then ''owner'' else if level = ACCESS_USER then ''user'' else ''unprivileged'')"

text \<open>The member functions the table points to.\<close>

datatype chat_handler = HStart | HHelp | HPassword | HWhere | HStatus | HArm | HDisarm

record chat_command =
  cc_command :: string
  cc_description :: string
  cc_access :: uint32
  cc_handler :: "chat_handler option"

definition ChatCommand :: "string \<Rightarrow> string \<Rightarrow> uint32 \<Rightarrow> chat_handler \<Rightarrow> chat_command" where
  "ChatCommand c d a h = \<lparr>cc_command = c, cc_description = d, cc_access = a, cc_handler = Some h\<rparr>"

text \<open>What \<open>fillCommandList\<close> leaves in the table; nothing else writes to it.\<close>

definition chatCommands :: "chat_command list" where
  "chatCommands =
     [ChatCommand ''/start'' ''begin interaction with me'' ACCESS_DEFAULT HStart,
      ChatCommand ''/help'' ''show the list of commands available for you'' ACCESS_DEFAULT HHelp,
      ChatCommand ''/password'' ''verify identity'' ACCESS_DEFAULT HPassword,
      ChatCommand ''/where'' ''send last valid location'' ACCESS_USER HWhere,
      ChatCommand ''/status'' ''send last status of tracking device'' ACCESS_USER HStatus,
      ChatCommand ''/arm'' ''set the system in armed, paranoid or insane mode'' ACCESS_OWNER HArm,
      ChatCommand ''/disarm'' ''disable armed, paranoid or insane mode'' ACCESS_OWNER HDisarm]"

section \<open>Handlers\<close>

text \<open>Answers go to the sender; \<open>originalMessage->from\<close> is read without a check.\<close>

definition answer :: "('d, 'f, 'w) env \<Rightarrow> 'f message \<Rightarrow> string \<Rightarrow> parse_mode \<Rightarrow> ('m, 'd, 'w) world \<Rightarrow> ('m, 'd, 'w) world" where
  "answer E m txt mode x =
     (case msg_from m of None \<Rightarrow> https_fault NullPointer x | Some t \<Rightarrow> say E (usr_id t) txt mode x)"

definition user_access :: "app_user \<Rightarrow> uint32" where
  "user_access u = (if au_valid u then au_access u else ACCESS_DEFAULT)"

definition first_name :: "app_user \<Rightarrow> string" where
  "first_name u = (case au_tg u of None \<Rightarrow> [] | Some t \<Rightarrow> usr_firstName t)"

definition start_text :: "app_user \<Rightarrow> string" where
  "start_text user =
     (if au_valid user then
        ''Hey '' @ first_name user @ ''!'' @ NL @ ''I'' @ [CHR 0x27] @ ''m at your service.'' @ NL @
        ''Your access level is *'' @ getAccessString (au_access user) @ ''*.''
      else
        ''Sorry, but I don'' @ [CHR 0x27] @ ''t know you.'' @ NL @
        ''Before we proceed further, could you please verify your identity with /password command.'')"

definition handleStartCommand :: "('d, 'f, 'w) env \<Rightarrow> app_user \<Rightarrow> 'f message \<Rightarrow> ('m, 'd, 'w) world \<Rightarrow> ('m, 'd, 'w) world" where
  "handleStartCommand E user m = answer E m (start_text user) Markdown"

definition help_text :: "uint32 \<Rightarrow> string" where
  "help_text access =
     ''You can control me by sending these commands:'' @ NL @ NL @
     concat (map (\<lambda>c. if cc_command c = [] \<or> access < cc_access c then []
                       else cc_command c @ '' - '' @ cc_description c @ NL) chatCommands)"

definition handleHelpCommand :: "('d, 'f, 'w) env \<Rightarrow> app_user \<Rightarrow> 'f message \<Rightarrow> ('m, 'd, 'w) world \<Rightarrow> ('m, 'd, 'w) world" where
  "handleHelpCommand E user m = answer E m (help_text (user_access user)) NoMode"

text \<open>The access level a code stands for.\<close>

definition code_access :: "ptree \<Rightarrow> string \<Rightarrow> uint32" where
  "code_access settings code =
     (let ownerCode = get_str_d settings ''code.owner'' [];
          userCode = get_str_d settings ''code.user'' [];
          access = ACCESS_DEFAULT;
          access = (if userCode \<noteq> [] \<and> code = userCode then ACCESS_USER else access)
      in if ownerCode \<noteq> [] \<and> code = ownerCode then ACCESS_OWNER else access)"

definition db_trouble :: string where
  "db_trouble = ''I have troubles with database connection. Please try again later.''"

definition handlePasswordCommand ::
  "('d, 'f, 'w) env \<Rightarrow> string list \<Rightarrow> app_user \<Rightarrow> 'f message \<Rightarrow> ('m, 'd, 'w) world \<Rightarrow> app_user \<times> ('m, 'd, 'w) world" where
  "handlePasswordCommand E command user m x =
     (if length command \<noteq> 2 then (user, answer E m ''Usage: /password *code*'' Markdown x)
      else
        (let access = code_access (ap_settings (app_of x)) (command ! 1)
         in if au_valid user then
              if au_access user < access then
                (let oldAccess = au_access user;
                     user = user\<lparr>au_access := access\<rparr>
                 in case db_do (dbUpdateUser (en_sqlite E) user) x of
                      (ok, x) \<Rightarrow>
                        (user, answer E m
                          (if ok then ''Congratulations!'' @ NL @ ''Your access level has been increased from *'' @
                             getAccessString oldAccess @ ''* to *'' @ getAccessString access @ ''*.''
                           else db_trouble) Markdown x))
              else if ACCESS_DEFAULT < access then
                (user, answer E m
                  (''Your current access level is *'' @ getAccessString (au_access user) @
                   ''* which is higher or equal than *'' @ getAccessString access @ ''*.'') Markdown x)
              else
                (user, answer E m
                  (''You'' @ [CHR 0x27] @ ''ve entered wrong code.'' @ NL @ ''Your current access level is *'' @
                   getAccessString (au_access user) @ ''*.'') Markdown x)
            else if ACCESS_DEFAULT < access then
              (let user = user\<lparr>au_access := access, au_tg := msg_from m, au_valid := True\<rparr>
               in case db_do (dbCreateUser (en_sqlite E) user) x of
                    (ok, x) \<Rightarrow>
                      (user, answer E m
                        (if ok then ''Congratulations!'' @ NL @ ''You'' @ [CHR 0x27] @ ''ve successfully registered as *'' @
                           getAccessString access @ ''*.''
                         else db_trouble) Markdown x))
            else (user, answer E m ''Access denied.'' Markdown x)))"

text \<open>\<open>/where\<close> and \<open>/status\<close> differ in the query and the text for an empty result.\<close>

definition last_data ::
  "('d, 'f, 'w) env \<Rightarrow> bool \<Rightarrow> string \<Rightarrow> 'f message \<Rightarrow> ('m, 'd, 'w) world \<Rightarrow> ('m, 'd, 'w) world" where
  "last_data E validOnly none m x =
     (case db_do (dbGetGpsData (en_lib E) (en_sqlite E) 1 validOnly) x of
        ((ok, data), x) \<Rightarrow>
          if \<not> ok then answer E m db_trouble NoMode x
          else if data = [] then answer E m none NoMode x
          else (case msg_from m of
                  None \<Rightarrow> https_fault NullPointer x
                | Some t \<Rightarrow> sendGpsStatus E (hd data) (usr_id t) x))"

definition handleWhereCommand :: "('d, 'f, 'w) env \<Rightarrow> 'f message \<Rightarrow> ('m, 'd, 'w) world \<Rightarrow> ('m, 'd, 'w) world" where
  "handleWhereCommand E =
     last_data E True (''Unfortunately there'' @ [CHR 0x27] @ ''s no valid location received from tracker.'')"

definition handleStatusCommand :: "('d, 'f, 'w) env \<Rightarrow> 'f message \<Rightarrow> ('m, 'd, 'w) world \<Rightarrow> ('m, 'd, 'w) world" where
  "handleStatusCommand E =
     last_data E False (''Unfortunately there'' @ [CHR 0x27] @ ''s no data received from tracker.'')"

fun set_status :: "int64 \<Rightarrow> uint32 \<Rightarrow> user_settings list \<Rightarrow> user_settings list option" where
  "set_status i st [] = None"
| "set_status i st (u # us) =
     (if us_id u = i then Some (u\<lparr>us_status := st\<rparr> # us) else map_option ((#) u) (set_status i st us))"

definition arm_mode :: "('d, 'f) lib \<Rightarrow> string list \<Rightarrow> uint32 option" where
  "arm_mode L command =
     (if 1 < length command then
        if iequals L (command ! 1) ''paranoid'' then Some STATUS_PARANOID
        else if iequals L (command ! 1) ''insane'' then Some STATUS_INSANE
        else None
      else Some STATUS_ALERT)"

definition arm_text :: "uint32 \<Rightarrow> string" where
  "arm_text status =
     ''The system is in *'' @
     (if status = STATUS_ALERT then ''armed'' else if status = STATUS_PARANOID then ''paranoid'' else ''insane'') @
     ''* mode now.''"

definition set_settings :: "user_settings list \<Rightarrow> ('m, 'd, 'w) world \<Rightarrow> ('m, 'd, 'w) world" where
  "set_settings us = app_upd (\<lambda>p. p\<lparr>ap_userSettings := us\<rparr>)"

definition save_or_tell :: "('d, 'f, 'w) env \<Rightarrow> int64 \<Rightarrow> ('m, 'd, 'w) world \<Rightarrow> ('m, 'd, 'w) world" where
  "save_or_tell E i x =
     (case app_save E x of (ok, x) \<Rightarrow> if \<not> ok then say E i ''I have troubles with database connection.'' NoMode x else x)"

definition handleArmCommand :: "('d, 'f, 'w) env \<Rightarrow> string list \<Rightarrow> 'f message \<Rightarrow> ('m, 'd, 'w) world \<Rightarrow> ('m, 'd, 'w) world" where
  "handleArmCommand E command m x =
     (case msg_from m of
        None \<Rightarrow> https_fault NullPointer x
      | Some t \<Rightarrow>
          (let userId = usr_id t
           in case arm_mode (en_lib E) command of
                None \<Rightarrow> say E userId ''Usage: /arm [paranoid | insane]'' NoMode x
              | Some status \<Rightarrow>
                  (let us = ap_userSettings (app_of x);
                       x = set_settings
                             (case set_status userId status us of
                                Some us \<Rightarrow> us
                              | None \<Rightarrow> us @ [new_settings\<lparr>us_id := userId, us_status := status\<rparr>]) x;
                       x = say E userId (arm_text status) Markdown x
                   in save_or_tell E userId x)))"

definition handleDisarmCommand :: "('d, 'f, 'w) env \<Rightarrow> 'f message \<Rightarrow> ('m, 'd, 'w) world \<Rightarrow> ('m, 'd, 'w) world" where
  "handleDisarmCommand E m x =
     (case msg_from m of
        None \<Rightarrow> https_fault NullPointer x
      | Some t \<Rightarrow>
          (let userId = usr_id t;
               found = set_status userId STATUS_DEFAULT (ap_userSettings (app_of x));
               x = (case found of Some us \<Rightarrow> set_settings us x | None \<Rightarrow> x);
               x = say E userId ''The system is in *disarm* mode now.'' Markdown x
           in if found \<noteq> None then save_or_tell E userId x else x))"

section \<open>Handlers that are not in the table\<close>

definition handleGetCommand :: "('d, 'f, 'w) env \<Rightarrow> string list \<Rightarrow> 'f message \<Rightarrow> ('m, 'd, 'w) world \<Rightarrow> ('m, 'd, 'w) world" where
  "handleGetCommand E command m x =
     (let filt = (if 1 < length command then command ! 1 else [])
      in answer E m (treeToString (ap_settings (app_of x)) filt []) NoMode x)"

definition quoted_text :: "string \<Rightarrow> string" where
  "quoted_text s = [DQ] @ s @ [DQ]"

text \<open>The new settings and the answer. \<open>add\<close> takes the last part of the path for the new node even when it is empty.\<close>

definition set_setting :: "string list \<Rightarrow> ptree \<Rightarrow> ptree \<times> string" where
  "set_setting command settings =
     (if 2 < length command then
        (let key = command ! 1; newValue = command ! 2
         in case get_child settings key of
              Some child \<Rightarrow>
                if pt_empty child then
                  (upd_path (path_parts key) (put_data newValue) settings,
                   ''Value of the key '' @ quoted_text key @ '' has been changed from '' @
                   quoted_text (pt_data child) @ '' to '' @ quoted_text newValue)
                else (settings, ''The key '' @ quoted_text key @ '' can'' @ [CHR 0x27] @ ''t hold a value because of subkeys'')
            | None \<Rightarrow>
                if 3 < length command \<and> command ! 3 = ''!'' then
                  (add_path (split_off ''.'' key) newValue settings,
                   ''The key '' @ quoted_text key @ '' was successfully added with value '' @ quoted_text newValue)
                else (settings, ''The key '' @ quoted_text key @ '' doesn'' @ [CHR 0x27] @ ''t exist''))
      else (settings, ''Usage: /set <key> <value> [!]''))"

definition handleSetCommand :: "('d, 'f, 'w) env \<Rightarrow> string list \<Rightarrow> 'f message \<Rightarrow> ('m, 'd, 'w) world \<Rightarrow> ('m, 'd, 'w) world" where
  "handleSetCommand E command m x =
     (case set_setting command (ap_settings (app_of x)) of
        (s, txt) \<Rightarrow> answer E m txt NoMode (app_upd (\<lambda>p. p\<lparr>ap_settings := s\<rparr>) x))"

text \<open>\<open>file\<close> is what reading the configuration file gives (None: it is not XML).\<close>

definition loadConfiguration :: "ptree option \<Rightarrow> ('m, 'd, 'w) world \<Rightarrow> bool \<times> ('m, 'd, 'w) world" where
  "loadConfiguration file x =
     (case file of None \<Rightarrow> (False, x) | Some t \<Rightarrow> (True, app_upd (\<lambda>p. p\<lparr>ap_settings := t\<rparr>) x))"

definition handleLoadCommand :: "('d, 'f, 'w) env \<Rightarrow> ptree option \<Rightarrow> 'f message \<Rightarrow> ('m, 'd, 'w) world \<Rightarrow> ('m, 'd, 'w) world" where
  "handleLoadCommand E file m x =
     (case loadConfiguration file x of
        (ok, x) \<Rightarrow> answer E m (if ok then ''The configuration has been successfully reloaded''
                             else ''The configuration reload failed'') NoMode x)"

text \<open>\<open>written\<close> says whether the configuration file could be written.\<close>

definition handleSaveCommand :: "('d, 'f, 'w) env \<Rightarrow> bool \<Rightarrow> 'f message \<Rightarrow> ('m, 'd, 'w) world \<Rightarrow> ('m, 'd, 'w) world" where
  "handleSaveCommand E written m x =
     answer E m (if written then ''The configuration has been successfully saved''
                 else ''The configuration save failed'') NoMode x"

section \<open>Dispatch\<close>

fun run_handler ::
  "chat_handler \<Rightarrow> ('d, 'f, 'w) env \<Rightarrow> string list \<Rightarrow> 'f message \<Rightarrow> app_user \<times> ('m, 'd, 'w) world \<Rightarrow> app_user \<times> ('m, 'd, 'w) world" where
  "run_handler HStart E command m (u, x) = (u, handleStartCommand E u m x)"
| "run_handler HHelp E command m (u, x) = (u, handleHelpCommand E u m x)"
| "run_handler HPassword E command m (u, x) = handlePasswordCommand E command u m x"
| "run_handler HWhere E command m (u, x) = (u, handleWhereCommand E m x)"
| "run_handler HStatus E command m (u, x) = (u, handleStatusCommand E m x)"
| "run_handler HArm E command m (u, x) = (u, handleArmCommand E command m x)"
| "run_handler HDisarm E command m (u, x) = (u, handleDisarmCommand E m x)"

text \<open>The loop over the table does not stop at a match; the access level is read once before it.\<close>

fun run_commands ::
  "chat_command list \<Rightarrow> ('d, 'f, 'w) env \<Rightarrow> uint32 \<Rightarrow> string list \<Rightarrow> 'f message \<Rightarrow> app_user \<times> ('m, 'd, 'w) world \<Rightarrow> app_user \<times> ('m, 'd, 'w) world" where
  "run_commands [] E access command m ux = ux"
| "run_commands (c # cs) E access command m ux =
     (let ux =
        (if cc_command c = [] then ux
         else if iequals (en_lib E) (hd command) (cc_command c) then
           (case cc_handler c of
              Some h \<Rightarrow> if cc_access c \<le> access then run_handler h E command m ux else ux
            | None \<Rightarrow> ux)
         else ux)
      in if faulty (snd ux) then ux else run_commands cs E access command m ux)"

definition handleChatCommand :: "('d, 'f, 'w) env \<Rightarrow> string list \<Rightarrow> 'f message \<Rightarrow> ('m, 'd, 'w) world \<Rightarrow> ('m, 'd, 'w) world" where
  "handleChatCommand E command m x =
     (if command = [] then x
      else
        (case db_do (dbSearchUser (en_sqlite E) (new_user\<lparr>au_tg := msg_from m\<rparr>)) x of
           ((ok, user), x) \<Rightarrow>
             if \<not> ok then answer E m (''Sorry. '' @ db_trouble) NoMode x
             else snd (run_commands chatCommands E (user_access user) command m (user, x))))"

section \<open>Text messages\<close>

definition line_end :: "char \<Rightarrow> bool" where
  "line_end c \<longleftrightarrow> c = CR \<or> c = LF"

definition push_arg :: "string \<Rightarrow> string list \<Rightarrow> string list" where
  "push_arg argument command = (if argument \<noteq> [] then command @ [argument] else command)"

text \<open>The loop over the characters of a message; \<open>quoted\<close> says that a quotation mark is open.\<close>

fun message_loop ::
  "('d, 'f, 'w) env \<Rightarrow> 'f message \<Rightarrow> string \<Rightarrow> string \<Rightarrow> string list \<Rightarrow> bool \<Rightarrow> ('m, 'd, 'w) world \<Rightarrow> ('m, 'd, 'w) world" where
  "message_loop E m [] argument command quoted x =
     handleChatCommand E (if argument \<noteq> [] \<or> quoted then command @ [argument] else command) m x"
| "message_loop E m (c # body) argument command quoted x =
     (if \<not> quoted then
        if line_end c then
          (let x = handleChatCommand E (push_arg argument command) m x
           in if faulty x then x else message_loop E m body [] [] False x)
        else if c = CHR '' '' \<or> c = DQ then
          message_loop E m body [] (push_arg argument command) (c = DQ) x
        else message_loop E m body (argument @ [c]) command False x
      else if c = DQ then message_loop E m body [] (command @ [argument]) False x
      else message_loop E m body (argument @ [c]) command True x)"

definition handleMessage :: "('d, 'f, 'w) env \<Rightarrow> 'f message \<Rightarrow> ('m, 'd, 'w) world \<Rightarrow> ('m, 'd, 'w) world" where
  "handleMessage E m x =
     (case msg_text m of
        [] \<Rightarrow> x
      | c # _ \<Rightarrow> if c \<noteq> CHR ''/'' then x else message_loop E m (msg_text m) [] [] False x)"

text \<open>The application as the handler of its bot; the other callbacks have empty bodies.\<close>

definition app_bot_handler :: "('d, 'f, 'w) env \<Rightarrow> ('f, 'm, ('d, 'w) app) bot_handler" where
  "app_bot_handler E =
     \<lparr>thInlineQuery = \<lambda>_ x. x, thChosenInlineResult = \<lambda>_ x. x, thCallbackQuery = \<lambda>_ x. x,
      thMessage = handleMessage E, thOwnMessage = \<lambda>_ x. x, thGetMe = \<lambda>_ x. x\<rparr>"

section \<open>The application meets the contract of the bot\<close>

lemma answer_ctl: "https_ctl x y \<Longrightarrow> https_ctl x (answer E m t mode y)"
  by (auto simp: answer_def split: option.split intro: app_ctl)

lemma set_settings_ctl: "https_ctl x y \<Longrightarrow> https_ctl x (set_settings us y)"
  by (simp add: set_settings_def app_ctl)

lemma save_or_tell_ctl: "https_ctl x y \<Longrightarrow> https_ctl x (save_or_tell E i y)"
  by (auto simp: save_or_tell_def app_save_def case_prod_unfold intro: app_ctl)

lemma password_ctl: "https_ctl x y \<Longrightarrow> https_ctl x (snd (handlePasswordCommand E command u m y))"
  by (simp add: handlePasswordCommand_def Let_def case_prod_unfold answer_ctl db_do_ctl)

lemma last_data_ctl: "https_ctl x y \<Longrightarrow> https_ctl x (last_data E v none m y)"
  by (auto simp: last_data_def case_prod_unfold split: option.split intro: answer_ctl app_ctl)

lemma arm_ctl: "https_ctl x y \<Longrightarrow> https_ctl x (handleArmCommand E command m y)"
  by (auto simp: handleArmCommand_def Let_def split: option.split intro: set_settings_ctl save_or_tell_ctl app_ctl)

lemma disarm_ctl: "https_ctl x y \<Longrightarrow> https_ctl x (handleDisarmCommand E m y)"
  by (auto simp: handleDisarmCommand_def Let_def split: option.split intro: set_settings_ctl save_or_tell_ctl app_ctl)

lemma run_handler_ctl: "https_ctl x (snd ux) \<Longrightarrow> https_ctl x (snd (run_handler h E command m ux))"
  by (cases ux; cases h)
     (simp_all add: handleStartCommand_def handleHelpCommand_def handleWhereCommand_def handleStatusCommand_def
       answer_ctl password_ctl last_data_ctl arm_ctl disarm_ctl)

lemma run_commands_ctl: "https_ctl x (snd ux) \<Longrightarrow> https_ctl x (snd (run_commands cs E a command m ux))"
  by (induction cs arbitrary: ux) (simp_all add: Let_def run_handler_ctl split: option.split)

lemma handleChatCommand_ctl: "https_ctl x y \<Longrightarrow> https_ctl x (handleChatCommand E command m y)"
  by (simp add: handleChatCommand_def case_prod_unfold answer_ctl db_do_ctl run_commands_ctl)

lemma message_loop_ctl: "https_ctl x y \<Longrightarrow> https_ctl x (message_loop E m body a command q y)"
  by (induction body arbitrary: a command q y) (simp_all add: handleChatCommand_ctl Let_def)

lemma handleMessage_ctl: "https_ctl x (handleMessage E m x)"
  by (auto simp: handleMessage_def split: list.split intro: message_loop_ctl https_ctl_refl)

interpretation app_bot: telegram_user "app_bot_handler E" for E
  by unfold_locales (simp_all add: app_bot_handler_def https_ctl_refl handleMessage_ctl)

section \<open>A concrete message\<close>

text \<open>A message of a sender with a text and nothing else.\<close>

definition ref_message :: "tg_user option \<Rightarrow> string \<Rightarrow> int message" where
  "ref_message from txt = Message 0 from 0 None None None 0 0 None 0 txt [] None None [] None None None [] None None None
     None None [] [] False False False False 0 0 None"

lemma ref_message_simps [simp]: "msg_from (ref_message u s) = u" "msg_text (ref_message u s) = s"
  by (simp_all add: ref_message_def)

definition ref_user :: tg_user where
  "ref_user = \<lparr>usr_id = 8, usr_firstName = ''Bob'', usr_lastName = [], usr_username = ''bob''\<rparr>"

section \<open>Texts as commands\<close>

text \<open>The commands of a message, and the text that stands for a list of commands.\<close>

fun tokens :: "string \<Rightarrow> string \<Rightarrow> string list \<Rightarrow> bool \<Rightarrow> string list list" where
  "tokens [] argument command quoted = [if argument \<noteq> [] \<or> quoted then command @ [argument] else command]"
| "tokens (c # body) argument command quoted =
     (if \<not> quoted then
        if line_end c then push_arg argument command # tokens body [] [] False
        else if c = CHR '' '' \<or> c = DQ then tokens body [] (push_arg argument command) (c = DQ)
        else tokens body (argument @ [c]) command False
      else if c = DQ then tokens body [] (command @ [argument]) False
      else tokens body (argument @ [c]) command True)"

fun run_all :: "('d, 'f, 'w) env \<Rightarrow> 'f message \<Rightarrow> string list list \<Rightarrow> ('m, 'd, 'w) world \<Rightarrow> ('m, 'd, 'w) world" where
  "run_all E m [] x = x"
| "run_all E m (c # cs) x =
     (let x = handleChatCommand E c m x in if faulty x then x else run_all E m cs x)"

definition plain_char :: "char \<Rightarrow> bool" where
  "plain_char c \<longleftrightarrow> \<not> line_end c \<and> c \<noteq> CHR '' '' \<and> c \<noteq> DQ"

definition plain_arg :: "string \<Rightarrow> bool" where
  "plain_arg w \<longleftrightarrow> w \<noteq> [] \<and> list_all plain_char w"

definition show_arg :: "string \<Rightarrow> string" where
  "show_arg w = (if plain_arg w then w else [DQ] @ w @ [DQ])"

definition show_command :: "string list \<Rightarrow> string" where
  "show_command ws = join_off (map show_arg ws) '' ''"

definition show_commands :: "string list list \<Rightarrow> string" where
  "show_commands cs = join_off (map show_command cs) NL"

lemma message_loop_tokens: "message_loop E m body a c q x = run_all E m (tokens body a c q) x"
  by (induction body arbitrary: a c q x) (simp_all add: Let_def)

lemma tokens_plain: "list_all plain_char w \<Longrightarrow> tokens (w @ s) a c False = tokens s (a @ w) c False"
  by (induction w arbitrary: a) (simp_all add: plain_char_def)

lemma tokens_quoted: "DQ \<notin> set w \<Longrightarrow> tokens (w @ s) a c True = tokens s (a @ w) c True"
  by (induction w arbitrary: a) auto

lemma separators [simp]: "line_end LF" "\<not> line_end (CHR '' '')" "\<not> line_end DQ" "CHR '' '' \<noteq> DQ" "LF \<noteq> DQ" "LF \<noteq> CHR '' ''"
  "DQ \<noteq> CHR '' ''"
  by (simp_all add: line_end_def CR_def LF_def DQ_def)

text \<open>After an argument comes a space, a line end, or nothing.\<close>

lemma tokens_arg:
  assumes "DQ \<notin> set w"
  shows "tokens (show_arg w @ CHR '' '' # s) [] c False = tokens s [] (c @ [w]) False"
    "tokens (show_arg w @ LF # s) [] c False = (c @ [w]) # tokens s [] [] False"
    "tokens (show_arg w) [] c False = [c @ [w]]"
  using assms tokens_plain[of w _ "[]" c] tokens_plain[of w "[]" "[]" c] tokens_quoted[of w _ "[]" c]
  by (simp_all add: show_arg_def plain_arg_def push_arg_def)

lemma tokens_command:
  assumes "\<forall>w\<in>set ws. DQ \<notin> set w"
  shows "tokens (show_command ws @ LF # s) [] c False = (c @ ws) # tokens s [] [] False"
    "tokens (show_command ws) [] c False = [c @ ws]"
  using assms
proof (induction ws arbitrary: c rule: induct_list012)
  case (3 v w ws)
  { case 1 show ?case using 1 3 tokens_arg(1)[of v _ c] by (simp add: show_command_def) }
  { case 2 show ?case using 2 3 tokens_arg(1)[of v _ c] by (simp add: show_command_def) }
qed (simp_all add: show_command_def tokens_arg push_arg_def)

lemma tokens_commands:
  "cs \<noteq> [] \<Longrightarrow> \<forall>ws\<in>set cs. \<forall>w\<in>set ws. DQ \<notin> set w \<Longrightarrow> tokens (show_commands cs) [] [] False = cs"
proof (induction cs rule: induct_list012)
  case (2 ws)
  thus ?case by (simp add: show_commands_def tokens_command)
next
  case (3 v w ws)
  thus ?case using tokens_command(1)[of v "show_commands (w # ws)" "[]"] by (simp add: show_commands_def NL_def)
qed simp

lemma show_commands_hd:
  assumes "plain_arg (c # w)"
  shows "\<exists>s. show_commands (((c # w) # ws) # cs) = c # s"
  using assms by (cases ws; cases cs) (simp_all add: show_commands_def show_command_def show_arg_def)

text \<open>Property C18. The reader of text messages inverts the obvious way to write commands down: one command
  per line, arguments separated by spaces, and an argument in quotation marks if it is empty or holds a
  space or a line end. Every text written so runs exactly those commands with those arguments, in order
  (until one ends the process), if it begins with a slash and no argument holds a quotation mark.\<close>

theorem handleMessage_roundtrip:
  assumes "msg_text m = show_commands ((((CHR ''/'') # w) # ws) # cs)" and "plain_arg (CHR ''/'' # w)"
    and "\<forall>ws\<in>set ((((CHR ''/'') # w) # ws) # cs). \<forall>w\<in>set ws. DQ \<notin> set w"
  shows "handleMessage E m x = run_all E m ((((CHR ''/'') # w) # ws) # cs) x"
proof -
  obtain s where "msg_text m = CHR ''/'' # s"
    using show_commands_hd[OF assms(2), of ws cs] assms(1) by auto
  thus ?thesis using tokens_commands[OF _ assms(3)] assms(1)
    by (simp add: handleMessage_def message_loop_tokens)
qed

theorem handleMessage_roundtrip_witness:
  "handleMessage ref_env (ref_message (Some ref_user) (''/password '' @ [DQ] @ ''two words'' @ [DQ] @ NL @ ''/help'')) ref_world =
   run_all ref_env (ref_message (Some ref_user) (''/password '' @ [DQ] @ ''two words'' @ [DQ] @ NL @ ''/help''))
     [[''/password'', ''two words''], [''/help'']] ref_world"
proof -
  have p: "plain_arg ''/password''" "plain_arg ''/help''" "\<not> plain_arg ''two words''"
    by (simp_all add: plain_arg_def plain_char_def line_end_def CR_def LF_def DQ_def)
  have "''/password '' @ [DQ] @ ''two words'' @ [DQ] @ NL @ ''/help'' = show_commands [[''/password'', ''two words''], [''/help'']]"
    using p by (simp add: show_commands_def show_command_def show_arg_def)
  thus ?thesis
    using p handleMessage_roundtrip[of "ref_message (Some ref_user) (show_commands [[''/password'', ''two words''], [''/help'']])"
        "''password''" "[''two words'']" "[[''/help'']]" ref_env ref_world]
    by (simp add: DQ_def)
qed

section \<open>Who may do what\<close>

lemma answer_frame [simp]:
  "app_of (answer E m t mode x) = app_of x" "bot_of (answer E m t mode x) = bot_of x"
  by (simp_all add: answer_def split: option.split)

lemma answer_faulty: "\<not> faulty x \<Longrightarrow> faulty (answer E m t mode x) = (msg_from m = None)"
  by (simp add: answer_def split: option.split)

lemma last_data_app: "app_of (last_data E v none m x) = (app_of x)\<lparr>ap_db := snd (dbGetGpsData (en_lib E) (en_sqlite E) 1 v (ap_db (app_of x)))\<rparr>"
  by (simp add: last_data_def case_prod_unfold db_do_app split: option.split)

lemma password_app:
  "app_of (snd (handlePasswordCommand E command u m x)) =
     (app_of x)\<lparr>ap_db := ap_db (app_of (snd (handlePasswordCommand E command u m x)))\<rparr>"
  by (simp add: handlePasswordCommand_def Let_def case_prod_unfold db_do_app)

lemma run_handler_settings:
  assumes "h \<noteq> HArm" "h \<noteq> HDisarm"
  shows "app_of (snd (run_handler h E command m ux)) = (app_of (snd ux))\<lparr>ap_db := ap_db (app_of (snd (run_handler h E command m ux)))\<rparr>"
proof (cases h)
  case HPassword
  thus ?thesis using password_app[of E command "fst ux" m "snd ux"] by (cases ux) simp
qed (use assms in \<open>cases ux; simp add: handleStartCommand_def handleHelpCommand_def handleWhereCommand_def
       handleStatusCommand_def last_data_app\<close>)+

lemma run_commands_keep:
  assumes "\<And>c h. c \<in> set cs \<Longrightarrow> cc_handler c = Some h \<Longrightarrow> cc_access c \<le> access \<Longrightarrow> h \<noteq> HArm \<and> h \<noteq> HDisarm"
  shows "\<exists>d. app_of (snd (run_commands cs E access command m ux)) = (app_of (snd ux))\<lparr>ap_db := d\<rparr>"
  using assms
proof (induction cs arbitrary: ux)
  case Nil
  show ?case by (rule exI[of _ "ap_db (app_of (snd ux))"]) simp
next
  case (Cons c cs)
  define vx where "vx = (if cc_command c = [] then ux
         else if iequals (en_lib E) (hd command) (cc_command c) then
           (case cc_handler c of
              Some h \<Rightarrow> if cc_access c \<le> access then run_handler h E command m ux else ux
            | None \<Rightarrow> ux)
         else ux)"
  have "\<exists>d. app_of (snd vx) = (app_of (snd ux))\<lparr>ap_db := d\<rparr>"
  proof (cases "vx = ux")
    case True
    thus ?thesis by (intro exI[of _ "ap_db (app_of (snd ux))"]) simp
  next
    case False
    then obtain h where "cc_handler c = Some h" "cc_access c \<le> access" "vx = run_handler h E command m ux"
      by (auto simp: vx_def split: if_splits option.splits)
    thus ?thesis using run_handler_settings[of h E command m ux] Cons.prems[of c h] by auto
  qed
  then obtain d where d: "app_of (snd vx) = (app_of (snd ux))\<lparr>ap_db := d\<rparr>" by blast
  obtain d' where "app_of (snd (run_commands cs E access command m vx)) = (app_of (snd vx))\<lparr>ap_db := d'\<rparr>"
    using Cons.IH[of vx] Cons.prems by auto
  thus ?case using d by (auto simp: vx_def[symmetric] Let_def)
qed

text \<open>Property C7. Only an owner changes the modes of the alarm: whatever a sender with a lower access level writes,
  the commands leave the settings of the users, the configuration and the last event of the tracker as
  they are; only the database can change.\<close>

theorem arming_needs_owner:
  assumes "dbSearchUser (en_sqlite E) (new_user\<lparr>au_tg := msg_from m\<rparr>) (ap_db (app_of x)) = ((ok, user), b)"
    and "user_access user < ACCESS_OWNER"
  shows "\<exists>d. app_of (handleChatCommand E command m x) = (app_of x)\<lparr>ap_db := d\<rparr>"
proof (cases "command = []")
  case True
  thus ?thesis by (intro exI[of _ "ap_db (app_of x)"]) (simp add: handleChatCommand_def)
next
  case False
  have "h \<noteq> HArm \<and> h \<noteq> HDisarm" if "c \<in> set chatCommands" "cc_handler c = Some h" "cc_access c \<le> user_access user" for c h
    using that assms(2) by (auto simp: chatCommands_def ChatCommand_def accesses)
  hence "\<exists>d. app_of (snd (run_commands chatCommands E (user_access user) command m (user, y))) = (app_of y)\<lparr>ap_db := d\<rparr>" for y
    using run_commands_keep[of chatCommands "user_access user" E command m "(user, y)"] by simp
  from this[of "snd (db_do (dbSearchUser (en_sqlite E) (new_user\<lparr>au_tg := msg_from m\<rparr>)) x)"]
  obtain d where "app_of (snd (run_commands chatCommands E (user_access user) command m
      (user, snd (db_do (dbSearchUser (en_sqlite E) (new_user\<lparr>au_tg := msg_from m\<rparr>)) x)))) =
      (app_of x)\<lparr>ap_db := d\<rparr>"
    by (auto simp: db_do_app)
  thus ?thesis using False assms(1)
    by (cases ok) (auto simp: handleChatCommand_def case_prod_unfold db_do_app)
qed

theorem arming_needs_owner_witness:
  "\<exists>d. app_of (handleChatCommand (ref_env\<lparr>en_sqlite := ref_sqlite 0 0\<rparr>) [''/disarm''] (ref_message (Some ref_user) ''/disarm'')
        (app_upd (\<lambda>p. p\<lparr>ap_db := \<lparr>db_open = False, db_world = ref_empty\<rparr>\<rparr>) ref_world)) =
      (ref_app\<lparr>ap_db := \<lparr>db_open = False, db_world = ref_empty\<rparr>\<rparr>)\<lparr>ap_db := d\<rparr>"
proof -
  have "dbSearchUser (ref_sqlite 0 0) (new_user\<lparr>au_tg := Some ref_user\<rparr>) \<lparr>db_open = False, db_world = ref_empty\<rparr> =
      ((False, new_user\<lparr>au_tg := Some ref_user\<rparr>), \<lparr>db_open = False, db_world = ref_empty\<rparr>)"
    by (simp add: dbSearchUser_def Let_def db_query_def db_prepare_def sqlite_codes new_user_def)
  moreover have "user_access (new_user\<lparr>au_tg := Some ref_user\<rparr>) < ACCESS_OWNER"
    by (simp add: user_access_def new_user_def accesses)
  ultimately show ?thesis
    using arming_needs_owner[of "ref_env\<lparr>en_sqlite := ref_sqlite 0 0\<rparr>" "ref_message (Some ref_user) ''/disarm''"
        "app_upd (\<lambda>p. p\<lparr>ap_db := \<lparr>db_open = False, db_world = ref_empty\<rparr>\<rparr>) ref_world"]
    by simp
qed

text \<open>Property C6. Access grows only with the right code: a /password command either leaves the sender's record and
  the whole database as they are, or it has one argument, that argument is the owner's or the user's code of
  the configuration, its level is higher than the sender's, and exactly the sender's record is stored with
  that level (created if the sender was not registered).\<close>

theorem password_needs_code:
  assumes "handlePasswordCommand E command user m x = (user', y)" and "user' \<noteq> user \<or> ap_db (app_of y) \<noteq> ap_db (app_of x)"
  shows "\<exists>code level. command = [hd command, code] \<and> level = code_access (ap_settings (app_of x)) code \<and>
    (level = ACCESS_OWNER \<and> code = get_str_d (ap_settings (app_of x)) ''code.owner'' [] \<and> code \<noteq> [] \<or>
     level = ACCESS_USER \<and> code = get_str_d (ap_settings (app_of x)) ''code.user'' [] \<and> code \<noteq> []) \<and>
    (au_valid user \<longrightarrow> au_access user < level) \<and>
    user' = user\<lparr>au_access := level, au_tg := (if au_valid user then au_tg user else msg_from m), au_valid := True\<rparr> \<and>
    ap_db (app_of y) = snd ((if au_valid user then dbUpdateUser else dbCreateUser) (en_sqlite E) user' (ap_db (app_of x)))"
proof -
  let ?l = "code_access (ap_settings (app_of x)) (command ! 1)"
  have zero: "a < ?l \<Longrightarrow> ACCESS_DEFAULT < ?l" for a
    using le_less_trans[OF word_zero_le] by (simp add: ACCESS_DEFAULT_def)
  have two: "length command = 2" "au_valid user \<Longrightarrow> au_access user < ?l" "\<not> au_valid user \<Longrightarrow> ACCESS_DEFAULT < ?l"
    using assms by (auto simp: handlePasswordCommand_def Let_def case_prod_unfold split: if_splits)
  have pos: "ACCESS_DEFAULT < ?l" using two zero by blast
  have l: "?l = ACCESS_OWNER \<and> command ! 1 = get_str_d (ap_settings (app_of x)) ''code.owner'' [] \<and> command ! 1 \<noteq> [] \<or>
     ?l = ACCESS_USER \<and> command ! 1 = get_str_d (ap_settings (app_of x)) ''code.user'' [] \<and> command ! 1 \<noteq> []"
    using pos by (auto simp: code_access_def Let_def split: if_splits)
  obtain a where c: "command = [a, command ! 1]"
    using two(1) by (cases command; cases "tl command") auto
  have u: "user' = user\<lparr>au_access := ?l, au_tg := (if au_valid user then au_tg user else msg_from m), au_valid := True\<rparr>"
    using assms(1) two by (cases user) (auto simp: handlePasswordCommand_def Let_def case_prod_unfold split: if_splits)
  moreover have "ap_db (app_of y) = snd ((if au_valid user then dbUpdateUser else dbCreateUser) (en_sqlite E) user' (ap_db (app_of x)))"
    using assms(1) two u by (cases user) (auto simp: handlePasswordCommand_def Let_def case_prod_unfold db_do_app split: if_splits)
  ultimately show ?thesis using c l two(2)
    by (intro exI[of _ "command ! 1"] exI[of _ ?l]) (metis list.sel(1))
qed

theorem password_needs_code_witness:
  "ap_db (app_of (snd (handlePasswordCommand ref_env [''/password'', ''secret''] (new_user\<lparr>au_tg := Some ref_user\<rparr>)
      (ref_message (Some ref_user) []) ref_world))) =
   snd (dbCreateUser (en_sqlite ref_env) \<lparr>au_access = ACCESS_OWNER, au_tg = Some ref_user, au_valid = True\<rparr> (ap_db ref_app))"
proof -
  let ?u = "new_user\<lparr>au_tg := Some ref_user\<rparr>"
  let ?m = "ref_message (Some ref_user) []"
  obtain user' y where h: "handlePasswordCommand ref_env [''/password'', ''secret''] ?u ?m ref_world = (user', y)"
    by (metis surj_pair)
  have c: "code_access ref_settings ''secret'' = ACCESS_OWNER" by code_simp
  have "au_valid user'" "\<not> au_valid ?u"
    using h c by (auto simp: handlePasswordCommand_def Let_def case_prod_unfold new_user_def ref_app_def app_init_def accesses)
  hence "user' \<noteq> ?u" by auto
  thus ?thesis using password_needs_code[OF h] h c
    by (auto simp: new_user_def ref_app_def app_init_def)
qed

section \<open>Modes of the alarm\<close>

text \<open>The abstract view of the settings: each user's mode.\<close>

definition modes :: "user_settings list \<Rightarrow> int64 \<rightharpoonup> uint32" where
  "modes us = map_of (map (\<lambda>u. (us_id u, us_status u)) us)"

lemma set_status_None: "set_status i st us = None \<longleftrightarrow> i \<notin> us_id ` set us"
  by (induction us) auto

lemma set_status_modes: "set_status i st us = Some vs \<Longrightarrow> modes vs = (modes us)(i \<mapsto> st) \<and> map us_id vs = map us_id us"
  by (induction us arbitrary: vs) (auto simp: modes_def split: if_splits)

lemma modes_append: "i \<notin> us_id ` set us \<Longrightarrow> modes (us @ [new_settings\<lparr>us_id := i, us_status := st\<rparr>]) = (modes us)(i \<mapsto> st)"
proof -
  assume "i \<notin> us_id ` set us"
  hence "map_of (map (\<lambda>u. (us_id u, us_status u)) us) i = None" by (simp add: map_of_eq_None_iff image_image)
  thus ?thesis by (auto simp: modes_def map_add_def new_settings_def fun_eq_iff split: option.split)
qed

lemma save_or_tell_settings [simp]:
  "ap_userSettings (app_of (save_or_tell E i x)) = ap_userSettings (app_of x)"
  by (simp add: save_or_tell_def app_save_def case_prod_unfold db_do_app)

lemma set_settings_app [simp]: "app_of (set_settings us x) = (app_of x)\<lparr>ap_userSettings := us\<rparr>"
  by (simp add: set_settings_def)

lemma modes_dom: "dom (modes us) = us_id ` set us"
  by (auto simp: modes_def dom_map_of_conv_image_fst image_image)

lemma arm_modes:
  assumes "msg_from m = Some t"
  shows "modes (ap_userSettings (app_of (handleArmCommand E command m x))) =
      (case arm_mode (en_lib E) command of
         Some st \<Rightarrow> (modes (ap_userSettings (app_of x)))(usr_id t \<mapsto> st)
       | None \<Rightarrow> modes (ap_userSettings (app_of x)))"
    "distinct (map us_id (ap_userSettings (app_of x))) \<Longrightarrow>
      distinct (map us_id (ap_userSettings (app_of (handleArmCommand E command m x))))"
proof -
  let ?us = "ap_userSettings (app_of x)"
  have arm: "ap_userSettings (app_of (handleArmCommand E command m x)) =
      (case arm_mode (en_lib E) command of
         None \<Rightarrow> ?us
       | Some st \<Rightarrow> (case set_status (usr_id t) st ?us of
                       Some us \<Rightarrow> us | None \<Rightarrow> ?us @ [new_settings\<lparr>us_id := usr_id t, us_status := st\<rparr>]))"
    using assms by (simp add: handleArmCommand_def Let_def split: option.split)
  show "modes (ap_userSettings (app_of (handleArmCommand E command m x))) =
      (case arm_mode (en_lib E) command of
         Some st \<Rightarrow> (modes ?us)(usr_id t \<mapsto> st) | None \<Rightarrow> modes ?us)"
    unfolding arm by (auto simp: set_status_None modes_append dest: set_status_modes split: option.split)
  show "distinct (map us_id ?us) \<Longrightarrow> distinct (map us_id (ap_userSettings (app_of (handleArmCommand E command m x))))"
    unfolding arm by (auto simp: set_status_None new_settings_def dest: set_status_modes split: option.split)
qed

lemma disarm_modes:
  assumes "msg_from m = Some t"
  shows "modes (ap_userSettings (app_of (handleDisarmCommand E m x))) =
      (if usr_id t \<in> dom (modes (ap_userSettings (app_of x)))
       then (modes (ap_userSettings (app_of x)))(usr_id t \<mapsto> STATUS_DEFAULT)
       else modes (ap_userSettings (app_of x)))"
    "distinct (map us_id (ap_userSettings (app_of x))) \<Longrightarrow>
      distinct (map us_id (ap_userSettings (app_of (handleDisarmCommand E m x))))"
proof -
  let ?us = "ap_userSettings (app_of x)"
  have dis: "ap_userSettings (app_of (handleDisarmCommand E m x)) =
      (case set_status (usr_id t) STATUS_DEFAULT ?us of Some us \<Rightarrow> us | None \<Rightarrow> ?us)"
    using assms by (simp add: handleDisarmCommand_def Let_def split: option.split)
  show "modes (ap_userSettings (app_of (handleDisarmCommand E m x))) =
      (if usr_id t \<in> dom (modes ?us) then (modes ?us)(usr_id t \<mapsto> STATUS_DEFAULT) else modes ?us)"
    unfolding dis modes_dom
    using set_status_None[of "usr_id t" STATUS_DEFAULT ?us]
    by (auto dest: set_status_modes split: option.split)
  show "distinct (map us_id ?us) \<Longrightarrow> distinct (map us_id (ap_userSettings (app_of (handleDisarmCommand E m x))))"
    unfolding dis by (auto dest: set_status_modes split: option.split)
qed

text \<open>Property C19. Arming and disarming implement a map from users to modes: /arm sets the sender's mode to the
  one it names (armed without an argument) and no one else's, /disarm clears the sender's mode if he has one,
  every other /arm changes nothing, and the list that represents the map never gets two entries for a user.\<close>

theorem arm_refines_modes:
  assumes "msg_from m = Some t"
  shows "modes (ap_userSettings (app_of (handleArmCommand E command m x))) =
      (case arm_mode (en_lib E) command of
         Some st \<Rightarrow> (modes (ap_userSettings (app_of x)))(usr_id t \<mapsto> st)
       | None \<Rightarrow> modes (ap_userSettings (app_of x))) \<and>
    modes (ap_userSettings (app_of (handleDisarmCommand E m x))) =
      (if usr_id t \<in> dom (modes (ap_userSettings (app_of x)))
       then (modes (ap_userSettings (app_of x)))(usr_id t \<mapsto> STATUS_DEFAULT)
       else modes (ap_userSettings (app_of x))) \<and>
    (distinct (map us_id (ap_userSettings (app_of x))) \<longrightarrow>
      distinct (map us_id (ap_userSettings (app_of (handleArmCommand E command m x)))) \<and>
      distinct (map us_id (ap_userSettings (app_of (handleDisarmCommand E m x)))))"
  by (simp add: arm_modes[OF assms] disarm_modes[OF assms])

theorem arm_refines_modes_witness:
  "modes (ap_userSettings (app_of (handleArmCommand ref_env [''/arm'', ''Insane''] (ref_message (Some ref_user) []) ref_world))) =
     (modes (ap_userSettings ref_app))(8 \<mapsto> STATUS_INSANE)"
proof -
  have "arm_mode (en_lib ref_env) [''/arm'', ''Insane''] = Some STATUS_INSANE" by code_simp
  thus ?thesis
    using arm_refines_modes[of "ref_message (Some ref_user) []" ref_user ref_env "[''/arm'', ''Insane'']" ref_world]
    by (simp add: ref_user_def)
qed

section \<open>Faults\<close>

lemma set_settings_faulty [simp]: "faulty (set_settings us x) = faulty x"
  by (simp add: set_settings_def)

lemma save_or_tell_faulty [simp]: "faulty (save_or_tell E i x) = faulty x"
  by (simp add: save_or_tell_def app_save_def case_prod_unfold)

lemma last_data_faulty:
  assumes "\<not> faulty x" "msg_from m \<noteq> None" "\<And>t. en_local E t \<noteq> None"
  shows "\<not> faulty (last_data E v none m x)"
proof -
  have "host_text E g \<noteq> None" for g using assms(3) by (cases "gm_hostTime g") (simp_all add: host_text_def split: option.split)
  thus ?thesis using assms(1,2)
    by (auto simp: last_data_def case_prod_unfold answer_faulty sendGpsStatus_faulty split: option.split)
qed

lemma run_handler_faulty:
  assumes "\<not> faulty (snd ux)" "msg_from m \<noteq> None" "\<And>t. en_local E t \<noteq> None"
  shows "\<not> faulty (snd (run_handler h E command m ux))"
  using assms last_data_faulty[OF _ assms(2,3), of "snd ux"]
  by (cases ux; cases h)
     (simp_all add: handleStartCommand_def handleHelpCommand_def handleWhereCommand_def handleStatusCommand_def
       handlePasswordCommand_def handleArmCommand_def handleDisarmCommand_def answer_faulty case_prod_unfold Let_def
       split: option.split)

lemma run_commands_faulty:
  assumes "msg_from m \<noteq> None" "\<And>t. en_local E t \<noteq> None"
  shows "\<not> faulty (snd ux) \<Longrightarrow> \<not> faulty (snd (run_commands cs E a command m ux))"
proof (induction cs arbitrary: ux)
  case (Cons c cs)
  thus ?case using run_handler_faulty[OF Cons.prems assms] by (auto simp: Let_def split: option.split)
qed simp

text \<open>Property C28. A command crashes the program exactly when its message has no sender: the handler looks the sender
  up, fails, and answers to \<open>originalMessage->from->id\<close> through the null pointer; with a sender, and times that
  can be shown, it ends without a fault whatever the database does.\<close>

theorem command_null_sender:
  assumes "\<not> faulty x" and "command \<noteq> []" and "\<And>t. en_local E t \<noteq> None"
  shows "(faulty (handleChatCommand E command m x) \<longleftrightarrow> msg_from m = None) \<and>
    (msg_from m = None \<longrightarrow> hc_fault (hc_of (handleChatCommand E command m x)) = Some NullPointer)"
proof (intro conjI impI)
  show n: "hc_fault (hc_of (handleChatCommand E command m x)) = Some NullPointer" if "msg_from m = None"
    using that assms(2) by (simp add: handleChatCommand_def case_prod_unfold db_do_app dbSearchUser_def new_user_def answer_def)
  show "faulty (handleChatCommand E command m x) \<longleftrightarrow> msg_from m = None"
  proof
    assume "msg_from m = None"
    thus "faulty (handleChatCommand E command m x)" using n by (simp add: faulty_def)
  next
    assume f: "faulty (handleChatCommand E command m x)"
    show "msg_from m = None"
    proof (rule ccontr)
      assume s: "msg_from m \<noteq> None"
      let ?y = "snd (db_do (dbSearchUser (en_sqlite E) (new_user\<lparr>au_tg := msg_from m\<rparr>)) x)"
      have "\<not> faulty (snd (run_commands cs E a command m (u, ?y)))" for cs a u
        using run_commands_faulty[OF s assms(3), of "(u, ?y)"] assms(1) by simp
      hence "\<not> faulty (handleChatCommand E command m x)"
        using assms(1,2) s by (simp add: handleChatCommand_def case_prod_unfold answer_faulty)
      thus False using f by simp
    qed
  qed
qed

theorem command_null_sender_witness:
  "hc_fault (hc_of (handleChatCommand ref_env [''/help''] (ref_message None []) ref_world)) = Some NullPointer \<and>
   \<not> faulty (handleChatCommand ref_env [''/help''] (ref_message (Some ref_user) []) ref_world)"
proof -
  have "en_local ref_env t \<noteq> None" for t by (simp add: ref_env_def)
  thus ?thesis
    using command_null_sender[of ref_world "[''/help'']" ref_env "ref_message None []"]
      command_null_sender[of ref_world "[''/help'']" ref_env "ref_message (Some ref_user) []"]
    by simp
qed

end
