(* ===== verification/ProgramModel.thy ===== *)
theory ProgramModel
  imports TransmitterModel CommandsModel
begin

text \<open>
  The whole program (\<open>Application::main\<close> and the event loop): what it does before the loop, the events of the
  loop in any order and with any result, and the invariant of every run.
\<close>

section \<open>Start\<close>

text \<open>What the program is given: the environment, mbedTLS, the bound of the TLS read loop, and the bot's handler of
  its queue, which follow from them.\<close>

definition bot_side :: "('d, 'f, 'w) env \<Rightarrow> ('m, bot_state \<times> ('d, 'w) app) http_handler" where
  "bot_side E = bot_http_handler (en_lib E) (en_json E) (en_rnd E) (Some (app_bot_handler E))"

definition program_init :: "('d, 'f, 'w) env \<Rightarrow> 'm \<Rightarrow> ptree \<Rightarrow> 'w \<Rightarrow> int \<Rightarrow> ('m, 'd, 'w) system" where
  "program_init E m settings w now =
     (server_init, (tcp_init, (link_init, ((tcp_init, ssl_init m), (https_init, (bot_init, app_init (en_lib E) settings w now))))))"

text \<open>\<open>main\<close> up to the event loop; the settings are the configuration that was read.\<close>

definition program_start :: "('d, 'f, 'w) env \<Rightarrow> string \<Rightarrow> listen_results \<Rightarrow> ('m, 'd, 'w) system \<Rightarrow> ('m, 'd, 'w) system" where
  "program_start E dbFile r x =
     (let x = on_world (app_openDatabase E dbFile) x;
          x = on_world (dbRestoreSettings E) x;
          x = startReceiver E r x;
          x = startTransmitter E x
      in on_world (startTelegram E) x)"

section \<open>Events\<close>

datatype program_event =
    ServerEvent tcp_server_event
  | ReceiverTimer listen_results
  | TransmitterDone tcp_result
  | TransmitterTimer
  | BotSocketDone tcp_result
  | BotWriteTimer
  | BotQueueTimer
  | BotReconnectTimer
  | ClockTick int

fun event_enabled :: "program_event \<Rightarrow> ('m, 'd, 'w) system \<Rightarrow> bool" where
  "event_enabled (ServerEvent e) x = event_pending e (fst x)"
| "event_enabled (ReceiverTimer r) x = (lk_receiverTimers (link_of x) > 0)"
| "event_enabled (TransmitterDone r) x = (result_op r \<in> set (tc_pending (transmitter_of x)))"
| "event_enabled TransmitterTimer x = (lk_transmitterTimers (link_of x) > 0)"
| "event_enabled (BotSocketDone r) x = (result_op r \<in> set (tc_pending (fst (fst (world_of x)))))"
| "event_enabled BotWriteTimer x = (ss_timers (snd (fst (world_of x))) > 0)"
| "event_enabled BotQueueTimer x = (hc_timers (hc_of (world_of x)) > 0)"
| "event_enabled BotReconnectTimer x = (tb_timers (bot_of (world_of x)) > 0)"
| "event_enabled (ClockTick t) x = True"

fun program_event_step ::
  "nat \<Rightarrow> 'm mbedtls \<Rightarrow> ('d, 'f, 'w) env \<Rightarrow> program_event \<Rightarrow> ('m, 'd, 'w) system \<Rightarrow> ('m, 'd, 'w) system" where
  "program_event_step n M E (ServerEvent e) x = server_event (Some (receiver_handler E)) e x"
| "program_event_step n M E (ReceiverTimer r) x = handleReceiverTimer E r x"
| "program_event_step n M E (TransmitterDone r) x = transmitter_complete E r x"
| "program_event_step n M E TransmitterTimer x = handleTransmitterTimer E x"
| "program_event_step n M E (BotSocketDone r) x =
     on_world (ssl_complete n M (Some (https_handler M (Some (bot_side E)))) r) x"
| "program_event_step n M E BotWriteTimer x = on_world (ssl_timer M (Some (https_handler M (Some (bot_side E))))) x"
| "program_event_step n M E BotQueueTimer x = on_world (https_timer M (Some (bot_side E))) x"
| "program_event_step n M E BotReconnectTimer x = on_world bot_timer x"
| "program_event_step n M E (ClockTick t) x = on_world (app_upd (\<lambda>p. p\<lparr>ap_clock := t\<rparr>)) x"

text \<open>The runs of the program. A fault ends the process.\<close>

inductive program_reach :: "nat \<Rightarrow> 'm mbedtls \<Rightarrow> ('d, 'f, 'w) env \<Rightarrow> ('m, 'd, 'w) system \<Rightarrow> bool" for n M E where
  preach_start: "program_reach n M E (program_start E dbFile r (program_init E m settings w now))"
| preach_event: "program_reach n M E x \<Longrightarrow> \<not> crashed x \<Longrightarrow> event_enabled e x \<Longrightarrow>
    program_reach n M E (program_event_step n M E e x)"

section \<open>Calls between the components\<close>

text \<open>What the receiver's handlers do to the other two: calls of the transmitter's and of the queue's members.\<close>

definition calls :: "('m, 'd, 'w) system \<Rightarrow> ('m, 'd, 'w) system \<Rightarrow> bool" where
  "calls x y \<longleftrightarrow> tcp_api (transmitter_of x) (transmitter_of y) \<and> https_ctl (world_of x) (world_of y)"

lemma calls_refl [simp]: "calls x x"
  by (simp add: calls_def https_ctl_refl)

lemma calls_trans: "calls x y \<Longrightarrow> calls y z \<Longrightarrow> calls x z"
  unfolding calls_def using tcp_api_trans https_ctl_trans by blast

lemma calls_parts [simp]:
  "calls x (on_server f y) = calls x y" "calls x (on_link g y) = calls x y"
  by (simp_all add: calls_def)

lemma calls_send: "calls x y \<Longrightarrow> calls x (on_transmitter (tcp_send d) y)"
  by (simp add: calls_def api_send)

lemma calls_tracker: "calls x y \<Longrightarrow> calls x (tracker_event E m y)"
  by (simp add: calls_def tracker_event_def tracker_event_ctl)

lemma calls_throw: "calls x y \<Longrightarrow> calls x (on_world (https_fault Escaped) y)"
  by (simp add: calls_def fault_ctl)

lemma calls_erase: "calls x y \<Longrightarrow> calls x (erase_device E i y)"
  by (auto simp: erase_device_def destroy_device_def intro: calls_tracker split: option.split)

lemma calls_clear: "calls x y \<Longrightarrow> calls x (clear_devices E y)"
  by (auto simp: clear_devices_def destroy_device_def Let_def intro: calls_tracker split: option.split)

lemma calls_end:
  assumes "calls x y" and "shDisconnect h = handleTcpSessionDisconnect E"
  shows "calls x (session_end (Some h) r i y)"
  using calls_erase[OF assms(1), of E i] assms
  by (simp add: session_end_def session_notify_def handleTcpSessionDisconnect_def)

lemma calls_close: "calls x y \<Longrightarrow> calls x (close_session E i y)"
  unfolding close_session_def session_close_def by (rule calls_end) (simp_all add: receiver_closing_def)

lemma calls_command: "calls x y \<Longrightarrow> calls x (snd (device_command E i args y))"
  by (auto simp: device_command_def commandLogon_def commandHeartbeat_def commandGpsData_def upd_device_def Let_def
      case_prod_unfold intro: calls_tracker calls_throw split: gps_parsed.split)

lemma calls_process:
  assumes "calls x y"
  shows "calls x (snd (process_command E i c y))"
proof -
  have z: "calls x z" if "device_command E i args y = (rt, z)" for args rt z
    using calls_command[OF assms, of E i args] that by simp
  show ?thesis using assms z calls_close[OF z] calls_send[OF z]
    by (auto simp: process_command_def Let_def handleDeviceCommand_def split: prod.splits)
qed

lemma calls_loop: "calls x y \<Longrightarrow> calls x (process_loop E i b y)"
proof (induction "length b" arbitrary: b y rule: less_induct)
  case less
  show ?case
  proof (cases "find_sub '';'' b")
    case None
    thus ?thesis using less.prems by (subst process_loop.simps) (simp add: calls_close)
  next
    case (Some off)
    let ?r = "drop (off + 1) b" and ?y = "upd_device i (\<lambda>d. d\<lparr>de_buffer := drop (off + 1) b\<rparr>) y"
    have lt: "length ?r < length b" using find_sub_Some[OF Some] by (simp, linarith)
    have "calls x (snd (process_command E i (take off b) ?y))"
      by (rule calls_process) (simp add: upd_device_def less.prems)
    thus ?thesis using less.hyps[OF lt] Some by (subst process_loop.simps) (simp add: case_prod_unfold Let_def)
  qed
qed

lemma calls_received: "calls x y \<Longrightarrow> calls x (handleTcpSessionReceivedData E i d y)"
  by (simp add: handleTcpSessionReceivedData_def processData_def Let_def upd_device_def calls_loop)

lemma calls_error: "calls x y \<Longrightarrow> calls x (handleTcpServerError E e y)"
  by (simp add: handleTcpServerError_def Let_def calls_clear)

lemma calls_handleAccept: "calls x y \<Longrightarrow> calls x (server_handleAccept (Some (receiver_handler E)) i e y)"
  by (simp add: server_handleAccept_def session_start_def session_notify_def receiver_handler_def
      handleTcpSessionConnect_def Let_def)

lemma calls_server_event: "calls x (server_event (Some (receiver_handler E)) e x)"
proof -
  have d: "shDisconnect (receiver_handler E) = handleTcpSessionDisconnect E" "shReceived (receiver_handler E) = handleTcpSessionReceivedData E"
    by (simp_all add: receiver_handler_def)
  show ?thesis
    by (cases e)
       (simp_all add: calls_handleAccept session_handleRead_def session_handleWrite_def session_notify_def d calls_end calls_received)
qed

lemma calls_listen: "calls x y \<Longrightarrow> calls x (server_listen (Some (receiver_handler E)) r y)"
  by (auto simp: server_listen_def session_notify_def receiver_handler_def Let_def calls_error split: option.split)

lemma calls_startReceiver: "calls x y \<Longrightarrow> calls x (startReceiver E r y)"
  by (simp add: startReceiver_def calls_listen)


text \<open>What the transmitter's handlers do to the other two: sends of the server's sessions, and nothing to the bot.\<close>

definition host_calls :: "('d, 'f, 'w) env \<Rightarrow> ('m, 'd, 'w) system \<Rightarrow> ('m, 'd, 'w) system \<Rightarrow> bool" where
  "host_calls E x y \<longleftrightarrow> server_api (Some (receiver_handler E)) x y \<and> world_of y = world_of x"

lemma host_refl [simp]: "host_calls E x x"
  by (simp add: host_calls_def vapi_refl)

lemma host_parts:
  assumes "host_calls E x y"
  shows "host_calls E x (on_link g y)" "host_calls E x (on_transmitter k y)" "host_calls E x (on_server (session_send i d) y)"
    "host_calls E x (set_transmitter a b y)" "host_calls E x (wait_transmitter y)"
  using assms by (simp_all add: host_calls_def vapi_parts set_transmitter_def wait_transmitter_def)

lemma host_transmitter: "host_calls E x y \<Longrightarrow> host_calls E x (turn (c, snd (turn_back y)))"
  using host_parts(2)[of E x y "\<lambda>_. c"] by (simp add: turn_def turn_back_def on_transmitter_def)

lemma host_command_calls: "host_calls E x y \<Longrightarrow> host_calls E x (host_command c y)"
  by (simp add: host_command_def Let_def processClientData_def host_parts split: option.split)

lemma host_loop: "host_calls E x y \<Longrightarrow> host_calls E x (transmitter_loop b y)"
proof (induction "length b" arbitrary: b y rule: less_induct)
  case less
  show ?case
  proof (cases rule: transmitter_loop_cases[of b y])
    case (command off)
    have "length (drop (off + 1) b) < length b" using find_sub_Some[OF command(1)] by (simp, linarith)
    thus ?thesis using less.hyps command(3) by (simp add: less.prems host_parts host_command_calls)
  qed (use less in \<open>simp_all add: host_parts\<close>)
qed

lemma host_error: "host_calls E x y \<Longrightarrow> host_calls E x (handleTcpClientError E e y)"
  by (simp add: handleTcpClientError_def Let_def host_parts)

lemma host_startTransmitter: "host_calls E x y \<Longrightarrow> host_calls E x (startTransmitter E y)"
  by (simp add: startTransmitter_def Let_def host_parts)

lemma host_timer: "host_calls E x (handleTransmitterTimer E x)"
  by (simp add: handleTransmitterTimer_def Let_def host_parts host_startTransmitter)

text \<open>What a completion does to the object of the client's user is what the callbacks do.\<close>

lemma tcp_complete_user:
  assumes "\<And>u. R u u"
    and "\<And>c u. R u (snd (hConnect H (c, u)))" and "\<And>c u r. R u (snd (hDisconnect H r (c, u)))"
    and "\<And>c u e. R u (snd (hError H e (c, u)))" and "\<And>c u d. R u (snd (hReceived H d (c, u)))"
  shows "R u (snd (tcp_complete (Some H) r (c, u)))"
proof -
  have a: "R u (snd (snd (tcp_handleAnything (Some H) hs e (c, u)))) \<and>
      (fst (tcp_handleAnything (Some H) hs e (c, u)) \<longrightarrow> snd (snd (tcp_handleAnything (Some H) hs e (c, u))) = u)" for hs e c
    using assms by (simp add: tcp_handleAnything_def Let_def)
  hence go: "fst (tcp_handleAnything (Some H) hs e (c, u)) \<Longrightarrow> snd (snd (tcp_handleAnything (Some H) hs e (c, u))) = u"
    and stop: "R u (snd (snd (tcp_handleAnything (Some H) hs e (c, u))))" for hs e c by blast+
  have call: "R u (snd (hReceived H d p))" "R u (snd (hConnect H p))" if "snd p = u" for d p
    using assms(2)[of u "fst p"] assms(5)[of u d "fst p"] that by auto
  show ?thesis
    by (cases r)
       (simp_all add: tcp_handleResolve_def tcp_handleConnect_def tcp_handleRead_def tcp_handleWrite_def tcp_notify_def Let_def
         case_prod_unfold go stop call assms(1) split: bool.split)
qed


lemma server_api_from: "server_api H x y \<Longrightarrow> fst x' = fst x \<Longrightarrow> server_api H x' y"
  by (induction rule: server_api.induct) (cases x', auto intro: server_api.intros)

lemma host_calls_from: "host_calls E (turn (c, u)) y \<Longrightarrow> host_calls E (turn (c', u)) y"
  using server_api_from[of "Some (receiver_handler E)" "turn (c, u)" y "turn (c', u)"]
  by (simp add: host_calls_def turn_def world_of_def)

lemma transmitter_complete_calls: "host_calls E x (transmitter_complete E r x)"
proof -
  let ?R = "\<lambda>u u'. \<forall>c c'. host_calls E (turn (c, u)) (turn (c', u'))"
  have callback: "?R u (snd (turn_back y))" if "host_calls E (turn (c, u)) y" for c u y
    using host_transmitter[OF that] host_calls_from[where u = u] by blast
  have "?R (snd (turn_back x)) (snd (tcp_complete (Some (transmitter_handler E)) r (fst (turn_back x), snd (turn_back x))))"
  proof (rule tcp_complete_user[where R = ?R])
    show "?R u u" for u using callback[of tcp_init u, OF host_refl] by simp
    fix c u
    show "?R u (snd (hConnect (transmitter_handler E) (c, u)))"
      by (simp only: transmitter_handler_def client_handler.simps, rule callback[of c])
         (simp add: handleTcpClientConnect_def Let_def host_parts)
    show "?R u (snd (hDisconnect (transmitter_handler E) q (c, u)))" for q
      by (simp only: transmitter_handler_def client_handler.simps, rule callback[of c])
         (simp add: handleTcpClientDisconnect_def Let_def host_parts host_error)
    show "?R u (snd (hError (transmitter_handler E) e (c, u)))" for e
      by (simp only: transmitter_handler_def client_handler.simps, rule callback[of c]) (simp add: host_error)
    show "?R u (snd (hReceived (transmitter_handler E) d (c, u)))" for d
      by (simp only: transmitter_handler_def client_handler.simps, rule callback[of c])
         (simp add: handleTcpClientReceivedData_def Let_def host_parts host_loop)
  qed
  from this[rule_format, of "fst (turn_back x)" "fst (tcp_complete (Some (transmitter_handler E)) r (turn_back x))"]
  show ?thesis unfolding prod.collapse turn_simps(1) transmitter_complete_def .
qed

section \<open>Every part of the program runs by its own contract\<close>

lemma start_ctl:
  "https_ctl x (app_openDatabase E f x)" "https_ctl x (dbRestoreSettings E x)" "https_ctl x (startTelegram E x)"
  "https_ctl x (bot_timer x)"
proof -
  show "https_ctl x (app_openDatabase E f x)" by (simp add: app_openDatabase_def Let_def app_ctl https_ctl_refl)
  show "https_ctl x (dbRestoreSettings E x)"
    by (simp add: dbRestoreSettings_def Let_def case_prod_unfold app_ctl https_ctl_refl)
  show "https_ctl x (startTelegram E x)"
    by (simp add: startTelegram_def Let_def bot_start_def bot_handleIdle_def setApiUrl_def setToken_def setReconnectDelay_def
        requests_ctl https_ctl_bot https_ctl_steps https_ctl_refl)
  show "https_ctl x (bot_timer x)"
    by (simp add: bot_timer_def bot_handleTimerEvent_def https_ctl_bot https_ctl_steps https_ctl_refl)
qed

text \<open>The runs of the three parts, as the theories of the components define them.\<close>

definition parts_run :: "nat \<Rightarrow> 'm mbedtls \<Rightarrow> ('d, 'f, 'w) env \<Rightarrow> ('m, 'd, 'w) system \<Rightarrow> bool" where
  "parts_run n M E x \<longleftrightarrow>
     server_reach (Some (receiver_handler E)) x \<and> tcp_reach (Some (transmitter_handler E)) (turn_back x) \<and>
     https_reach n M (bot_side E) (world_of x)"

lemma tcp_reach_call:
  "tcp_reach H (turn_back x) \<Longrightarrow> tcp_api (transmitter_of x) (transmitter_of y) \<Longrightarrow> tcp_reach H (turn_back y)"
  using reach_call[of H "transmitter_of x" "snd (turn_back x)" "transmitter_of y" "snd (turn_back y)"] by (simp flip: turn_simps(3))

lemma server_reach_same: "server_reach H x \<Longrightarrow> fst y = fst x \<Longrightarrow> server_reach H y"
  by (rule vreach_call, assumption, rule vapi_same[OF vapi_refl])

lemma parts_run_calls:
  assumes "parts_run n M E x" and "calls x y" and "server_reach (Some (receiver_handler E)) y"
  shows "parts_run n M E y"
  using assms tcp_reach_call[of _ x y] hreach_call[of n M _ "world_of x" "world_of y"]
  by (auto simp: parts_run_def calls_def)

lemma parts_run_host:
  assumes "parts_run n M E x" and "host_calls E x y" and "tcp_reach (Some (transmitter_handler E)) (turn_back y)"
  shows "parts_run n M E y"
  using assms vreach_call[of "Some (receiver_handler E)" x y] by (auto simp: parts_run_def host_calls_def)

lemma parts_run_world:
  assumes "parts_run n M E x" and "https_reach n M (bot_side E) (h (world_of x))"
  shows "parts_run n M E (on_world h x)"
  using assms server_reach_same[of _ x "on_world h x"] tcp_reach_call[of _ x "on_world h x"]
  by (simp add: parts_run_def)

lemma parts_run_ctl:
  assumes "parts_run n M E x" and "https_ctl (world_of x) (h (world_of x))"
  shows "parts_run n M E (on_world h x)"
proof (rule parts_run_world[OF assms(1)])
  show "https_reach n M (bot_side E) (h (world_of x))"
    using assms by (auto simp: parts_run_def intro: hreach_call)
qed

lemma parts_run_link: "parts_run n M E x \<Longrightarrow> parts_run n M E (on_link g x)"
  by (rule parts_run_calls[of n M E x]) (auto simp: parts_run_def intro: server_reach_same)

lemma parts_run_startReceiver: "parts_run n M E x \<Longrightarrow> parts_run n M E (startReceiver E r x)"
  by (rule parts_run_calls[of n M E x, OF _ calls_startReceiver[OF calls_refl]])
     (auto simp: startReceiver_def parts_run_def intro: vreach_listen)

lemma startTransmitter_api: "tcp_api (transmitter_of x) (transmitter_of (startTransmitter E x))"
  by (simp add: startTransmitter_def Let_def tcp_connect_port_def)

lemma transmitter_timer_api: "tcp_api (transmitter_of x) (transmitter_of (handleTransmitterTimer E x))"
  using startTransmitter_api[of "on_link g x" E for g] by (auto simp: handleTransmitterTimer_def Let_def)

lemma parts_run_start: "parts_run n M E (program_start E dbFile r (program_init E m settings w now))"
proof -
  let ?i = "program_init E m settings w now"
  have "parts_run n M E ?i"
    unfolding program_init_def parts_run_def world_of_def turn_back_def fst_conv snd_conv
    by (intro conjI vreach_init reach_init hreach_init)
  hence "parts_run n M E (startReceiver E r (on_world (dbRestoreSettings E) (on_world (app_openDatabase E dbFile) ?i)))" (is "parts_run n M E ?y")
    by (intro parts_run_startReceiver parts_run_ctl start_ctl)
  hence "parts_run n M E (startTransmitter E ?y)"
    by (intro parts_run_host[OF _ host_startTransmitter[OF host_refl]] tcp_reach_call[OF _ startTransmitter_api])
       (auto simp: parts_run_def)
  thus ?thesis unfolding program_start_def Let_def by (intro parts_run_ctl start_ctl)
qed

lemma parts_run_event:
  assumes "parts_run n M E x" and "event_enabled e x"
  shows "parts_run n M E (program_event_step n M E e x)"
proof -
  have server: "server_reach (Some (receiver_handler E)) x" and tcp: "tcp_reach (Some (transmitter_handler E)) (turn_back x)"
    and https: "https_reach n M (bot_side E) (world_of x)" using assms(1) by (simp_all add: parts_run_def)
  show ?thesis
  proof (cases e)
    case (ServerEvent e')
    thus ?thesis using parts_run_calls[OF assms(1) calls_server_event vreach_event[OF server]] assms(2) by simp
  next
    case (ReceiverTimer r)
    thus ?thesis using assms(1) by (simp add: handleReceiverTimer_def parts_run_startReceiver parts_run_link)
  next
    case (TransmitterDone r)
    have "tcp_reach (Some (transmitter_handler E)) (turn_back (transmitter_complete E r x))"
      using reach_complete[OF tcp, of r] TransmitterDone assms(2) by (simp add: transmitter_complete_def)
    thus ?thesis using parts_run_host[OF assms(1) transmitter_complete_calls] TransmitterDone by simp
  next
    case TransmitterTimer
    thus ?thesis using parts_run_host[OF assms(1) host_timer tcp_reach_call[OF tcp transmitter_timer_api]] by simp
  next
    case (BotSocketDone r)
    show ?thesis unfolding BotSocketDone program_event_step.simps
      by (rule parts_run_world[OF assms(1)], rule hreach_complete[OF https]) (use BotSocketDone assms(2) in simp)
  next
    case BotWriteTimer
    show ?thesis unfolding BotWriteTimer program_event_step.simps
      by (rule parts_run_world[OF assms(1)], rule hreach_write[OF https]) (use BotWriteTimer assms(2) in simp)
  next
    case BotQueueTimer
    show ?thesis unfolding BotQueueTimer program_event_step.simps
      by (rule parts_run_world[OF assms(1)], rule hreach_timer[OF https]) (use BotQueueTimer assms(2) in simp)
  qed (simp_all add: parts_run_ctl[OF assms(1)] start_ctl app_ctl https_ctl_refl)
qed

theorem program_parts: "program_reach n M E x \<Longrightarrow> parts_run n M E x"
  by (induction rule: program_reach.induct) (simp_all add: parts_run_start parts_run_event)

end
