(* ===== verification/ReceiverProps.thy ===== *)
theory ReceiverProps
  imports ReceiverModel
begin

text \<open>
  What the receiver promises: the packets of a session are a stream, sessions that did not log on change
  nothing, position messages mean what the tracker wrote, and commands are repeated to the remote host as written.
\<close>

section \<open>The buffer of a device\<close>

definition set_buffer :: "nat \<Rightarrow> string \<Rightarrow> ('m, 'd, 'w) system \<Rightarrow> ('m, 'd, 'w) system" where
  "set_buffer i b = upd_device i (\<lambda>d. d\<lparr>de_buffer := b\<rparr>)"

lemma set_buffer_parts [simp]:
  "fst (set_buffer i b x) = fst x" "transmitter_of (set_buffer i b x) = transmitter_of x"
  "world_of (set_buffer i b x) = world_of x" "crashed (set_buffer i b x) = crashed x"
  "authorized_is j (set_buffer i b x) = authorized_is j x" "de_imei (device_of i (set_buffer i b x)) = de_imei (device_of i x)"
  "lk_transmitterAuthorized (link_of (set_buffer i b x)) = lk_transmitterAuthorized (link_of x)"
  "setting (set_buffer i b x) = setting x" "now_of (set_buffer i b x) = now_of x"
  "lk_authorized (link_of (set_buffer i b x)) = lk_authorized (link_of x)"
  by (simp_all add: set_buffer_def upd_device_def crashed_def authorized_is_def device_of_def setting_def now_of_def
      new_device_def split: option.split)

lemma set_buffer_commutes:
  "set_buffer i b (on_world h x) = on_world h (set_buffer i b x)"
  "set_buffer i b (on_transmitter k x) = on_transmitter k (set_buffer i b x)"
  "set_buffer i b (on_server f x) = on_server f (set_buffer i b x)"
  "set_buffer i b (on_link (\<lambda>l. l\<lparr>lk_authorized := a\<rparr>) x) = on_link (\<lambda>l. l\<lparr>lk_authorized := a\<rparr>) (set_buffer i b x)"
  "set_buffer i b (upd_device i (\<lambda>d. d\<lparr>de_imei := s\<rparr>) x) = upd_device i (\<lambda>d. d\<lparr>de_imei := s\<rparr>) (set_buffer i b x)"
  "set_buffer i b (set_buffer i c x) = set_buffer i b x"
proof -
  have "(\<lambda>d :: device. d\<lparr>de_imei := s, de_buffer := b\<rparr>) = (\<lambda>d. d\<lparr>de_buffer := b, de_imei := s\<rparr>)" by (intro ext) simp
  thus "set_buffer i b (upd_device i (\<lambda>d. d\<lparr>de_imei := s\<rparr>) x) = upd_device i (\<lambda>d. d\<lparr>de_imei := s\<rparr>) (set_buffer i b x)"
    by (simp add: set_buffer_def upd_device_def on_link_def option.map_comp comp_def)
qed (simp_all add: set_buffer_def upd_device_def on_link_def on_world_def on_transmitter_def on_server_def
      option.map_comp comp_def)

lemma upd_imei_parts [simp]:
  "setting (upd_device i f x) = setting x" "now_of (upd_device i f x) = now_of x"
  by (simp_all add: upd_device_def setting_def now_of_def)

lemma device_command_buffer:
  "device_command E i args (set_buffer i b x) =
     (fst (device_command E i args x), set_buffer i b (snd (device_command E i args x)))"
proof -
  have l: "commandLogon E i args (set_buffer i b x) = (fst (commandLogon E i args x), set_buffer i b (snd (commandLogon E i args x)))"
    by (simp add: commandLogon_def Let_def tracker_event_def set_buffer_commutes[symmetric] crashed_def now_of_def setting_def)
  have h: "commandHeartbeat i args (set_buffer i b x) = (fst (commandHeartbeat i args x), set_buffer i b (snd (commandHeartbeat i args x)))"
    by (simp add: commandHeartbeat_def set_buffer_commutes)
  have g: "commandGpsData E args (set_buffer i b x) = (fst (commandGpsData E args x), set_buffer i b (snd (commandGpsData E args x)))"
    by (simp add: commandGpsData_def tracker_event_def set_buffer_commutes split: gps_parsed.split)
  show ?thesis by (simp add: device_command_def l h g case_prod_unfold)
qed

lemma process_command_buffer:
  "fst (process_command E i c (set_buffer i b x)) = fst (process_command E i c x)"
  "fst (process_command E i c x) \<Longrightarrow> snd (process_command E i c (set_buffer i b x)) = set_buffer i b (snd (process_command E i c x))"
  by (auto simp: process_command_def Let_def device_command_buffer case_prod_unfold handleDeviceCommand_def
      set_buffer_commutes split: if_splits)

section \<open>Packets are a stream\<close>

text \<open>The loop as a walk over the commands cut out of the buffer.\<close>

fun run_frames :: "('d, 'f, 'w) env \<Rightarrow> nat \<Rightarrow> string list \<Rightarrow> ('m, 'd, 'w) system \<Rightarrow> bool \<times> ('m, 'd, 'w) system" where
  "run_frames E i [] x = (True, x)"
| "run_frames E i (c # cs) x =
     (case process_command E i c x of (go, x) \<Rightarrow> if go then run_frames E i cs x else (False, x))"

definition frames :: "string \<Rightarrow> string list" where
  "frames s = butlast (split_off '';'' s)"

definition frame_rest :: "string \<Rightarrow> string" where
  "frame_rest s = last (split_off '';'' s)"

lemma frames_None: "find_sub '';'' s = None \<Longrightarrow> frames s = [] \<and> frame_rest s = s"
proof -
  assume "find_sub '';'' s = None"
  hence "CHR '';'' \<notin> set s" by (simp add: find_sub_char split: if_splits)
  hence "split_off '';'' s = [s]" by (intro split_off_single) auto
  thus ?thesis by (simp add: frames_def frame_rest_def)
qed

lemma split_off_cut: "find_sub [c] s = Some off \<Longrightarrow> split_off [c] s = take off s # split_off [c] (drop (off + 1) s)"
proof (induction s arbitrary: off)
  case (Cons d s)
  show ?case
  proof (cases "d = c")
    case True
    hence "off = 0" using Cons.prems by simp
    thus ?thesis using True by simp
  next
    case False
    then obtain k where k: "find_sub [c] s = Some k" "off = Suc k" using Cons.prems by (auto split: if_splits)
    thus ?thesis using Cons.IH[OF k(1)] False by simp
  qed
qed simp

lemma frames_Some:
  assumes "find_sub '';'' s = Some off"
  shows "frames s = take off s # frames (drop (off + 1) s)" "frame_rest s = frame_rest (drop (off + 1) s)"
  using split_off_cut[OF assms] by (simp_all add: frames_def frame_rest_def)

lemma find_sub_append: "find_sub [c] s = Some off \<Longrightarrow> find_sub [c] (s @ t) = Some off"
  by (auto simp: find_sub_char split: if_splits)

lemma find_sub_frame_rest: "find_sub '';'' (frame_rest s) = None"
  using split_off_no_sep[of "frame_rest s" "'';''" s "CHR '';''"] by (simp add: frame_rest_def find_sub_char)

text \<open>Commands that go on leave the loop where it would be with the rest of the buffer.\<close>

lemma process_loop_append:
  "fst (run_frames E i (frames s) x) \<Longrightarrow>
   process_loop E i (s @ t) (set_buffer i (s @ t) x) =
     process_loop E i (frame_rest s @ t) (set_buffer i (frame_rest s @ t) (snd (run_frames E i (frames s) x)))"
proof (induction "length s" arbitrary: s x rule: less_induct)
  case less
  show ?case
  proof (cases "find_sub '';'' s")
    case None
    thus ?thesis using frames_None[OF None] by simp
  next
    case (Some off)
    let ?r = "drop (off + 1) s" and ?z = "snd (process_command E i (take off s) x)"
    have off: "off < length s" using find_sub_Some[OF Some] by simp
    have lt: "length ?r < length s" using off by simp
    have c: "fst (process_command E i (take off s) x)" and f: "fst (run_frames E i (frames ?r) ?z)"
      using less.prems frames_Some(1)[OF Some] by (simp_all add: case_prod_unfold split: if_splits)
    have p: "process_command E i (take off s) (set_buffer i (?r @ t) x) = (True, set_buffer i (?r @ t) ?z)"
      by (rule prod_eqI) (simp_all add: process_command_buffer c)
    have "process_loop E i (s @ t) (set_buffer i (s @ t) x) = process_loop E i (?r @ t) (set_buffer i (?r @ t) ?z)"
      using p off find_sub_append[OF Some, of t]
      by (subst process_loop.simps) (simp add: set_buffer_def[symmetric] set_buffer_commutes Let_def)
    thus ?thesis using less.hyps[OF lt f] c frames_Some[OF Some] by (simp add: case_prod_unfold)
  qed
qed

text \<open>So a packet whose commands go on is the walk over its commands, and the rest stays in the buffer.\<close>

lemma process_frames:
  assumes "fst (run_frames E i (frames (strip_lines (en_lib E) (de_buffer (device_of i x) @ d))) x)"
    and "length (frame_rest (strip_lines (en_lib E) (de_buffer (device_of i x) @ d))) \<le> BUFFER_LIMIT"
  shows "processData E i d x =
    set_buffer i (frame_rest (strip_lines (en_lib E) (de_buffer (device_of i x) @ d)))
      (snd (run_frames E i (frames (strip_lines (en_lib E) (de_buffer (device_of i x) @ d))) x))"
proof -
  define s where "s = strip_lines (en_lib E) (de_buffer (device_of i x) @ d)"
  show ?thesis
    using process_loop_append[OF assms(1), of "[]"] assms(2) find_sub_frame_rest[of s]
    by (simp add: processData_def Let_def set_buffer_def[symmetric] s_def[symmetric]) (subst process_loop.simps, simp)
qed

lemma device_kept:
  assumes "lk_devices (link_of x) i \<noteq> None"
  shows "lk_devices (link_of (snd (device_command E j args x))) i \<noteq> None"
  using assms
  by (auto simp: device_command_def commandLogon_def commandHeartbeat_def commandGpsData_def tracker_event_def
      upd_device_def Let_def case_prod_unfold split: gps_parsed.split if_splits)

lemma process_command_device:
  "lk_devices (link_of x) i \<noteq> None \<Longrightarrow> fst (process_command E j c x) \<Longrightarrow> lk_devices (link_of (snd (process_command E j c x))) i \<noteq> None"
  using device_kept[of x i E j]
  by (auto simp: process_command_def Let_def case_prod_unfold handleDeviceCommand_def split: if_splits)

lemma run_frames_device:
  "lk_devices (link_of x) i \<noteq> None \<Longrightarrow> fst (run_frames E j cs x) \<Longrightarrow> lk_devices (link_of (snd (run_frames E j cs x))) i \<noteq> None"
proof (induction cs arbitrary: x)
  case (Cons c cs)
  thus ?case using process_command_device[of x i E j c] by (simp add: case_prod_unfold split: if_splits)
qed simp

lemma strip_append: "erase_all_ok L \<Longrightarrow> strip_lines L (s @ t) = strip_lines L s @ strip_lines L t"
  by (simp add: strip_lines_def erase_all_ok_def)

lemma split_off_subset: "w \<in> set (split_off seps t) \<Longrightarrow> set w \<subseteq> set t"
proof (induction t arbitrary: w)
  case (Cons a t)
  show ?case
  proof (cases "a \<in> set seps")
    case True
    thus ?thesis using Cons by auto
  next
    case False
    obtain v ws where "split_off seps t = v # ws" by (cases "split_off seps t") auto
    thus ?thesis using Cons False by fastforce
  qed
qed simp

lemma strip_frame_rest:
  assumes "erase_all_ok L"
  shows "strip_lines L (frame_rest (strip_lines L s)) = frame_rest (strip_lines L s)"
proof -
  have "set (frame_rest (strip_lines L s)) \<subseteq> set (strip_lines L s)"
    unfolding frame_rest_def by (rule split_off_subset[of _ "'';''"]) (simp add: last_in_set)
  thus ?thesis using assms
    by (auto simp: strip_lines_def erase_all_ok_def filter_id_conv)
qed

text \<open>Property C9. How a tracker's data is cut into packets does not matter: if no command of the first packet ends the
  session (or the process) and the unfinished command it leaves is not longer than the limit, then receiving
  two packets one after the other does exactly what receiving them as one does.\<close>

theorem packets_are_a_stream:
  assumes "erase_all_ok (en_lib E)" and "lk_devices (link_of x) i \<noteq> None"
    and "fst (run_frames E i (frames (strip_lines (en_lib E) (de_buffer (device_of i x) @ d1))) x)"
    and "length (frame_rest (strip_lines (en_lib E) (de_buffer (device_of i x) @ d1))) \<le> BUFFER_LIMIT"
  shows "processData E i d2 (processData E i d1 x) = processData E i (d1 @ d2) x"
proof -
  let ?L = "en_lib E"
  define s where "s = strip_lines ?L (de_buffer (device_of i x) @ d1)"
  define z where "z = snd (run_frames E i (frames s) x)"
  have first: "processData E i d1 x = set_buffer i (frame_rest s) z"
    using process_frames[OF assms(3,4)] by (simp add: s_def z_def)
  have "lk_devices (link_of z) i \<noteq> None"
    using run_frames_device[OF assms(2,3)] by (simp add: z_def s_def)
  hence b: "de_buffer (device_of i (set_buffer i (frame_rest s) z)) = frame_rest s"
    by (auto simp: device_of_def set_buffer_def upd_device_def)
  have r: "strip_lines ?L (frame_rest s @ d2) = frame_rest s @ strip_lines ?L d2"
    unfolding strip_append[OF assms(1)] unfolding s_def by (subst strip_frame_rest[OF assms(1)]) (rule refl)
  have "processData E i d2 (processData E i d1 x) =
      process_loop E i (frame_rest s @ strip_lines ?L d2) (set_buffer i (frame_rest s @ strip_lines ?L d2) z)"
    unfolding first by (simp add: processData_def Let_def b r set_buffer_def[symmetric] set_buffer_commutes)
  also have "\<dots> = process_loop E i (s @ strip_lines ?L d2) (set_buffer i (s @ strip_lines ?L d2) x)"
    using process_loop_append[OF assms(3), of "strip_lines ?L d2"] by (simp add: s_def z_def)
  also have "\<dots> = processData E i (d1 @ d2) x"
    using strip_append[OF assms(1), of "de_buffer (device_of i x) @ d1" d2]
    by (simp add: processData_def Let_def set_buffer_def[symmetric] s_def)
  finally show ?thesis .
qed

text \<open>A system in which the tracker with the configured number is logged on in session 0.\<close>

definition ref_device :: device where
  "ref_device = \<lparr>de_buffer = [], de_imei = ''123456789012345''\<rparr>"

definition ref_session :: tcp_session where
  "ref_session = \<lparr>se_socketOpen = True, se_active = True, se_writeQueue = [], se_pending = [SessRead]\<rparr>"

definition ref_system :: "(unit, int, int ref_db) system" where
  "ref_system =
     (server_init\<lparr>sv_store := [0 \<mapsto> ref_session, 1 \<mapsto> ref_session], sv_next := 2, sv_sessions := [0, 1]\<rparr>,
      (tcp_init, (link_init\<lparr>lk_devices := [0 \<mapsto> ref_device, 1 \<mapsto> new_device], lk_authorized := Some 0\<rparr>, ref_world)))"

lemma ref_system_simps [simp]:
  "lk_devices (link_of ref_system) 0 = Some ref_device" "lk_devices (link_of ref_system) (Suc 0) = Some new_device"
  "world_of ref_system = ref_world" "lk_authorized (link_of ref_system) = Some 0"
  "device_of 0 ref_system = ref_device" "device_of (Suc 0) ref_system = new_device" "\<not> crashed ref_system"
  by (simp_all add: ref_system_def link_of_def world_of_def device_of_def crashed_def)

lemma ref_env_lib [simp]: "en_lib ref_env = ref_lib"
  by (simp add: ref_env_def)

theorem packets_are_a_stream_witness:
  "processData ref_env 0 ''56789012345;'' (processData ref_env 0 (''123456789012345;'' @ crlf @ ''1234'') ref_system) =
   processData ref_env 0 ((''123456789012345;'' @ crlf @ ''1234'') @ ''56789012345;'') ref_system"
proof -
  let ?s = "strip_lines ref_lib (de_buffer ref_device @ ''123456789012345;'' @ crlf @ ''1234'')"
  have s: "frames ?s = [''123456789012345'']" "frame_rest ?s = ''1234''" by code_simp+
  have a: "split_any ref_lib ''123456789012345'' '','' = [''123456789012345'']" by code_simp
  have h: "commandHeartbeat 0 [''123456789012345''] ref_system = (True, on_server (session_send 0 ''ON'') ref_system)"
    by (simp add: commandHeartbeat_def ref_device_def)
  have d: "device_of 0 (on_server f ref_system) = ref_device" for f
    by (simp add: device_of_def)
  have "fst (run_frames ref_env 0 [''123456789012345''] ref_system)"
    by (simp add: process_command_def a device_command_def h authorized_is_def crashed_def Let_def d)
       (simp add: ref_device_def)
  thus ?thesis
    using packets_are_a_stream[of ref_env ref_system 0 "''123456789012345;'' @ crlf @ ''1234''" "''56789012345;''"] s
    by (simp add: BUFFER_LIMIT_def)
qed

section \<open>Sessions that did not log on\<close>

lemma close_session_parts:
  assumes "\<not> authorized_is i x"
  shows "world_of (close_session E i x) = world_of x" "transmitter_of (close_session E i x) = transmitter_of x"
    "lk_authorized (link_of (close_session E i x)) = lk_authorized (link_of x)"
    "fst (close_session E i x) = session_cleanup i (fst x)"
    "lk_transmitterAuthorized (link_of (close_session E i x)) = lk_transmitterAuthorized (link_of x)"
  using assms
  by (simp_all add: close_session_def session_close_def session_end_def session_notify_def receiver_closing_def
      handleTcpSessionDisconnect_def erase_device_def destroy_device_def authorized_is_def split: option.split)

text \<open>The command with which the configured tracker logs on.\<close>

definition logs_on :: "('d, 'f, 'w) env \<Rightarrow> ('m, 'd, 'w) system \<Rightarrow> string \<Rightarrow> bool" where
  "logs_on E x command \<longleftrightarrow>
     (let a = split_any (en_lib E) command '',''
      in length a = 3 \<and> a ! 0 = ''##'' \<and> a ! 2 = ''A'' \<and> imei_prefixed (a ! 1) \<and>
         drop 5 (a ! 1) = get_str_d (setting x) ''imei'' [])"

text \<open>What matters outside of the session itself.\<close>

definition same_outside :: "('m, 'd, 'w) system \<Rightarrow> ('m, 'd, 'w) system \<Rightarrow> bool" where
  "same_outside x y \<longleftrightarrow>
     world_of y = world_of x \<and> transmitter_of y = transmitter_of x \<and> lk_authorized (link_of y) = lk_authorized (link_of x)"

lemma device_command_outside:
  assumes "\<not> authorized_is i x" "\<not> logs_on E x c" "args = split_any (en_lib E) c '',''"
  shows "same_outside x (snd (device_command E i args x)) \<and> fst (snd (device_command E i args x)) = fst x \<and>
    \<not> authorized_is i (snd (device_command E i args x))"
proof (cases "args ! 0 = ''##''")
  case True
  thus ?thesis using assms
    by (auto simp: device_command_def commandLogon_def logs_on_def Let_def same_outside_def authorized_is_def
        upd_device_def setting_def case_prod_unfold split: if_splits)
next
  case False
  hence "device_command E i args x = ((True, True), x)" using assms(1) by (simp add: device_command_def)
  thus ?thesis using assms(1) by (simp add: same_outside_def)
qed

lemma process_command_outside:
  assumes "\<not> authorized_is i x" "\<not> logs_on E x c" "\<not> crashed x"
  shows "process_command E i c x = (True, x) \<or>
    (\<not> fst (process_command E i c x) \<and> same_outside x (snd (process_command E i c x)) \<and>
     fst (snd (process_command E i c x)) = session_cleanup i (fst x))"
proof -
  let ?args = "split_any (en_lib E) c '',''"
  let ?y = "snd (device_command E i ?args x)"
  note d = device_command_outside[OF assms(1,2) refl]
  have "\<not> crashed ?y" using d assms(3) by (simp add: same_outside_def crashed_def)
  moreover have "same_outside x (close_session E i ?y)" "fst (close_session E i ?y) = session_cleanup i (fst x)"
    using d close_session_parts[of i ?y E] by (simp_all add: same_outside_def)
  ultimately show ?thesis using d by (simp add: process_command_def Let_def case_prod_unfold)
qed

text \<open>Property C5. A session that is not the authorised one has no effect outside of itself: unless one of its commands is
  the log-on of the configured tracker, whatever it sends leaves the bot, the users' data, the database, the
  client to the remote host and the authorised session as they are (so nothing is recorded, told or
  repeated); and the server's sessions stay the same, or this one is closed.\<close>

theorem unauthorized_data_has_no_effect:
  assumes "\<not> authorized_is i x" and "\<not> crashed x"
    and "\<forall>c \<in> set (frames (strip_lines (en_lib E) (de_buffer (device_of i x) @ d))). \<not> logs_on E x c"
  shows "same_outside x (processData E i d x) \<and>
    (fst (processData E i d x) = fst x \<or> fst (processData E i d x) = session_cleanup i (fst x))"
proof -
  have loop: "\<forall>c\<in>set (frames b). \<not> logs_on E y c \<Longrightarrow> \<not> authorized_is i y \<Longrightarrow> \<not> crashed y \<Longrightarrow>
      same_outside y (process_loop E i b y) \<and>
      (fst (process_loop E i b y) = fst y \<or> fst (process_loop E i b y) = session_cleanup i (fst y))" for b y
  proof (induction "length b" arbitrary: b y rule: less_induct)
    case less
    show ?case
    proof (cases "find_sub '';'' b")
      case None
      thus ?thesis using less.prems(2) close_session_parts[OF less.prems(2), of E]
        by (subst (1 2 3) process_loop.simps) (simp add: same_outside_def)
    next
      case (Some off)
      let ?r = "drop (off + 1) b" and ?c = "take off b"
      let ?y = "set_buffer i ?r y"
      have lt: "length ?r < length b" using find_sub_Some[OF Some] by (simp, linarith)
      have y: "\<not> authorized_is i ?y" "\<not> crashed ?y" "\<not> logs_on E ?y c" if "c \<in> set (frames b)" for c
        using less.prems that by (simp_all add: logs_on_def)
      have c: "?c \<in> set (frames b)" "\<forall>c\<in>set (frames ?r). c \<in> set (frames b)" using frames_Some(1)[OF Some] by simp_all
      have step: "process_loop E i b y = (if fst (process_command E i ?c ?y)
          then process_loop E i ?r (snd (process_command E i ?c ?y)) else snd (process_command E i ?c ?y))"
        using Some by (subst process_loop.simps) (simp add: set_buffer_def[symmetric] case_prod_unfold Let_def)
      from process_command_outside[OF y(1)[OF c(1)] y(3)[OF c(1)] y(2)[OF c(1)]]
      consider (go) "process_command E i ?c ?y = (True, ?y)"
        | (stop) "\<not> fst (process_command E i ?c ?y)" "same_outside ?y (snd (process_command E i ?c ?y))"
            "fst (snd (process_command E i ?c ?y)) = session_cleanup i (fst ?y)" by blast
      thus ?thesis
      proof cases
        case go
        have "same_outside ?y (process_loop E i ?r ?y) \<and>
            (fst (process_loop E i ?r ?y) = fst ?y \<or> fst (process_loop E i ?r ?y) = session_cleanup i (fst ?y))"
          using less.hyps[OF lt, of ?y] y c by blast
        thus ?thesis using go step by (simp add: same_outside_def)
      next
        case stop
        thus ?thesis using step by (simp add: same_outside_def)
      qed
    qed
  qed
  let ?b = "strip_lines (en_lib E) (de_buffer (device_of i x) @ d)"
  have "\<forall>c\<in>set (frames ?b). \<not> logs_on E (set_buffer i ?b x) c" using assms(3) by (simp add: logs_on_def)
  from loop[OF this] show ?thesis using assms(1,2)
    by (simp add: processData_def Let_def set_buffer_def[symmetric] same_outside_def)
qed

theorem unauthorized_data_has_no_effect_witness:
  "same_outside ref_system (processData ref_env 1 ''##,imei:999999999999999,A;x,y;'' ref_system)"
proof -
  have f: "frames (strip_lines ref_lib (de_buffer new_device @ ''##,imei:999999999999999,A;x,y;'')) =
      [''##,imei:999999999999999,A'', ''x,y'']" by code_simp
  have a: "split_any ref_lib ''##,imei:999999999999999,A'' '','' = [''##'', ''imei:999999999999999'', ''A'']"
    "split_any ref_lib ''x,y'' '','' = [''x'', ''y'']" by code_simp+
  have i: "get_str_d (setting ref_system) ''imei'' [] = ''123456789012345''"
    unfolding setting_def by (simp add: ref_app_def app_init_def) code_simp
  have "\<forall>c \<in> set (frames (strip_lines ref_lib (de_buffer new_device @ ''##,imei:999999999999999,A;x,y;''))). \<not> logs_on ref_env ref_system c"
    unfolding f by (simp add: logs_on_def a i)
  thus ?thesis
    using unauthorized_data_has_no_effect[of 1 ref_system ref_env "''##,imei:999999999999999,A;x,y;''"]
    by (simp add: authorized_is_def)
qed

section \<open>Position messages\<close>

definition minutes_text :: "string \<Rightarrow> bool" where
  "minutes_text m \<longleftrightarrow> length m > 2 \<and> m ! 0 \<noteq> CHR ''.'' \<and> m ! 1 \<noteq> CHR ''.'' \<and> m ! 2 = CHR ''.''"

lemma split_coordinate_text:
  assumes "CHR ''.'' \<notin> set deg" "minutes_text mins"
  shows "split_coordinate (deg @ mins) = Some (deg, mins)"
proof -
  obtain a b r where m: "mins = a # b # CHR ''.'' # r" "a \<noteq> CHR ''.''" "b \<noteq> CHR ''.''"
    using assms(2) by (cases mins; cases "tl mins"; cases "tl (tl mins)") (auto simp: minutes_text_def)
  have "takeWhile (\<lambda>x. x \<noteq> CHR ''.'') (deg @ mins) = deg @ [a, b]"
    using assms(1) m by (induction deg) auto
  hence "find_sub ''.'' (deg @ mins) = Some (length deg + 2)" using m by (simp add: find_sub_char)
  thus ?thesis by (simp add: split_coordinate_def)
qed

text \<open>A position report of the tracker: its text, from the parts the tracker writes.\<close>

record report =
  rp_imei :: string
  rp_keyword :: string
  rp_time :: string
  rp_phone :: string
  rp_lat :: "string \<times> string"
  rp_north :: bool
  rp_lon :: "string \<times> string"
  rp_east :: bool
  rp_speed :: string

definition report_fields :: "report \<Rightarrow> string list" where
  "report_fields r =
     [''imei:'' @ rp_imei r, rp_keyword r, rp_time r, rp_phone r, ''F'', [], ''A'', fst (rp_lat r) @ snd (rp_lat r),
      if rp_north r then ''N'' else ''S'', fst (rp_lon r) @ snd (rp_lon r), if rp_east r then ''E'' else ''W'', rp_speed r]"

definition report_ok :: "report \<Rightarrow> bool" where
  "report_ok r \<longleftrightarrow>
     length (rp_imei r) = 15 \<and> length (rp_time r) = 12 \<and> set (rp_time r) \<subseteq> set ''0123456789'' \<and>
     CHR ''.'' \<notin> set (fst (rp_lat r)) \<and> minutes_text (snd (rp_lat r)) \<and>
     CHR ''.'' \<notin> set (fst (rp_lon r)) \<and> minutes_text (snd (rp_lon r)) \<and>
     (\<forall>w\<in>set (report_fields r). CHR '','' \<notin> set w)"

text \<open>Property C10. A position report is understood: the text of a well formed report is decoded to the message that
  carries its number, keyword, phone and times, its speed, and its coordinates in degrees, with south and west
  negative.\<close>

theorem report_decoded:
  assumes "split_ok (en_lib E)" and "report_ok r"
    and "en_iso E (''20'' @ take 6 (rp_time r) @ ''T'' @ drop 6 (rp_time r)) = Some t"
    and "read_coordinate (en_lib E) (rp_lat r) = Some lat" and "read_coordinate (en_lib E) (rp_lon r) = Some lon"
    and "lc_to_double (en_lib E) (rp_speed r) = Some speed"
  shows "parse_gps E now (split_any (en_lib E) (join_off (report_fields r) '','') '','') =
    GpsOk \<lparr>gm_imei = rp_imei r, gm_keyword = rp_keyword r, gm_phone = rp_phone r, gm_trackerTime = Some t,
      gm_hostTime = Some now, gm_latitude = (if rp_north r then lat else d_mul (en_lib E) lat (d_minus_one (en_lib E))),
      gm_longitude = (if rp_east r then lon else d_mul (en_lib E) lon (d_minus_one (en_lib E))),
      gm_speed = speed, gm_valid = True\<rparr>"
proof -
  have f: "split_any (en_lib E) (join_off (report_fields r) '','') '','' = report_fields r"
    using assms(1,2) split_off_join[of "report_fields r" "CHR '',''"]
    by (simp add: split_ok_def report_ok_def) (simp add: report_fields_def)
  have a: "report_fields r ! 0 = ''imei:'' @ rp_imei r" "report_fields r ! 1 = rp_keyword r" "report_fields r ! 2 = rp_time r"
    "report_fields r ! 3 = rp_phone r" "report_fields r ! 4 = ''F''" "report_fields r ! 7 = fst (rp_lat r) @ snd (rp_lat r)"
    "report_fields r ! 8 = (if rp_north r then ''N'' else ''S'')" "report_fields r ! 9 = fst (rp_lon r) @ snd (rp_lon r)"
    "report_fields r ! 10 = (if rp_east r then ''E'' else ''W'')" "report_fields r ! 11 = rp_speed r"
    "length (report_fields r) = 12"
    by (simp_all add: report_fields_def)
  have "takeWhile (\<lambda>c. c \<in> set ''0123456789'') (rp_time r) = rp_time r"
    using assms(2) unfolding takeWhile_eq_all_conv report_ok_def by blast
  hence "str_find_first_not_of (rp_time r) ''0123456789'' = None"
    unfolding str_find_first_not_of_def Let_def by (metis less_irrefl)
  hence time: "parse_trackerTime E (rp_time r) = Some (Some t)"
    using assms(2,3) by (simp add: parse_trackerTime_def report_ok_def)
  have i: "imei_prefixed (''imei:'' @ rp_imei r)"
    using assms(2) by (simp add: imei_prefixed_def report_ok_def)
  have s: "split_coordinate (fst (rp_lat r) @ snd (rp_lat r)) = Some (rp_lat r)"
    "split_coordinate (fst (rp_lon r) @ snd (rp_lon r)) = Some (rp_lon r)"
    using assms(2) by (simp_all add: split_coordinate_text report_ok_def)
  show ?thesis unfolding f parse_gps_def a
    using i time s assms(4-6) by (simp add: parse_fix_def a signed_coordinate_def GpsMessage_def)
qed

definition ref_report :: report where
  "ref_report = \<lparr>rp_imei = ''123456789012345'', rp_keyword = ''tracker'', rp_time = ''161023120000'', rp_phone = [],
     rp_lat = (''55'', ''30.0''), rp_north = True, rp_lon = (''037'', ''36.0''), rp_east = False, rp_speed = ''5''\<rparr>"

text \<open>A library that reads the digits of a number and leaves the point out.\<close>

definition point_lib :: "(int, int) lib" where
  "point_lib = ref_lib\<lparr>lc_to_double := \<lambda>s. map_option int (nat_of_dec (takeWhile (\<lambda>c. c \<noteq> CHR ''.'') s))\<rparr>"

theorem report_decoded_witness:
  "parse_gps (ref_env\<lparr>en_lib := point_lib\<rparr>) 1000 (split_any point_lib (join_off (report_fields ref_report) '','') '','') =
   GpsOk \<lparr>gm_imei = ''123456789012345'', gm_keyword = ''tracker'', gm_phone = [], gm_trackerTime = Some 0,
      gm_hostTime = Some 1000, gm_latitude = 55, gm_longitude = -37, gm_speed = 5, gm_valid = True\<rparr>"
proof -
  have 1: "split_ok (en_lib (ref_env\<lparr>en_lib := point_lib\<rparr>))"
    by (simp add: point_lib_def split_ok_def) (simp add: ref_lib_def)
  have 2: "report_ok ref_report"
    by (simp add: report_ok_def ref_report_def report_fields_def minutes_text_def)
  have 3: "en_iso (ref_env\<lparr>en_lib := point_lib\<rparr>) s = Some 0" for s by (simp add: ref_env_def)
  have 4: "read_coordinate (en_lib (ref_env\<lparr>en_lib := point_lib\<rparr>)) (rp_lat ref_report) = Some 55"
    "read_coordinate (en_lib (ref_env\<lparr>en_lib := point_lib\<rparr>)) (rp_lon ref_report) = Some 37"
    "lc_to_double (en_lib (ref_env\<lparr>en_lib := point_lib\<rparr>)) (rp_speed ref_report) = Some 5"
    by code_simp+
  have 5: "d_mul (en_lib (ref_env\<lparr>en_lib := point_lib\<rparr>)) 37 (d_minus_one (en_lib (ref_env\<lparr>en_lib := point_lib\<rparr>))) = - 37"
    by (simp add: point_lib_def ref_lib_def)
  show ?thesis
    using report_decoded[OF 1 2 3 4, of 1000] unfolding 5 by (simp add: ref_report_def)
qed

section \<open>What is repeated to the remote host\<close>

text \<open>The commands of a packet up to the one that ends the session, and those of them that are repeated.\<close>

fun carried_out :: "('d, 'f, 'w) env \<Rightarrow> nat \<Rightarrow> string list \<Rightarrow> ('m, 'd, 'w) system \<Rightarrow> string list" where
  "carried_out E i [] x = []"
| "carried_out E i (c # cs) x = (case process_command E i c x of (go, x) \<Rightarrow> if go then c # carried_out E i cs x else [])"

definition repeated :: "string \<Rightarrow> bool" where
  "repeated c \<longleftrightarrow> (let w = split_off '','' c in hd w \<notin> {[], ''##''} \<and> length w \<noteq> 1)"

definition repeat_commands :: "string list \<Rightarrow> tcp_client \<Rightarrow> tcp_client" where
  "repeat_commands cs = fold (\<lambda>c. tcp_send (c @ '';'' @ crlf)) (filter repeated cs)"

lemma close_session_transmitter [simp]:
  "transmitter_of (close_session E i x) = transmitter_of x"
  by (simp add: close_session_def session_close_def session_end_def session_notify_def receiver_closing_def
      handleTcpSessionDisconnect_def erase_device_def destroy_device_def tracker_event_def split: option.split)

lemma device_command_transmitter [simp]:
  "transmitter_of (snd (device_command E i args x)) = transmitter_of x"
  "lk_transmitterAuthorized (link_of (snd (device_command E i args x))) = lk_transmitterAuthorized (link_of x)"
  by (auto simp: device_command_def commandLogon_def commandHeartbeat_def commandGpsData_def tracker_event_def
      upd_device_def Let_def case_prod_unfold split: gps_parsed.split)

lemma process_command_transmitter:
  assumes "split_ok (en_lib E)" "join_ok (en_lib E)"
  shows "transmitter_of (snd (process_command E i c x)) =
      (if fst (process_command E i c x) \<and> lk_transmitterAuthorized (link_of x) then repeat_commands [c] (transmitter_of x)
       else transmitter_of x)"
    "fst (process_command E i c x) \<Longrightarrow>
      lk_transmitterAuthorized (link_of (snd (process_command E i c x))) = lk_transmitterAuthorized (link_of x)"
proof -
  have s: "split_any (en_lib E) c '','' = split_off '','' c" and j: "join_with (en_lib E) (split_off '','' c) '','' = c"
    using assms join_split_off[of "CHR '',''" c] by (simp_all add: split_ok_def join_ok_def)
  have hd: "split_off '','' c ! 0 = hd (split_off '','' c)" by (simp add: hd_conv_nth)
  have t: "snd (fst (device_command E i w x)) = (w ! 0 \<noteq> ''##'' \<and> length w \<noteq> 1)"
    if "de_imei (device_of i (snd (device_command E i w x))) \<noteq> []" "authorized_is i (snd (device_command E i w x))" for w
    using that by (simp add: device_command_def case_prod_unfold split: if_splits)
  show "transmitter_of (snd (process_command E i c x)) =
      (if fst (process_command E i c x) \<and> lk_transmitterAuthorized (link_of x) then repeat_commands [c] (transmitter_of x)
       else transmitter_of x)"
    using t[of "split_off '','' c"]
    by (auto simp: process_command_def Let_def case_prod_unfold s j hd handleDeviceCommand_def repeat_commands_def repeated_def)
  show "fst (process_command E i c x) \<Longrightarrow>
      lk_transmitterAuthorized (link_of (snd (process_command E i c x))) = lk_transmitterAuthorized (link_of x)"
    by (auto simp: process_command_def Let_def case_prod_unfold handleDeviceCommand_def split: if_splits)
qed

lemma carried_out_buffer: "carried_out E i cs (set_buffer i b x) = carried_out E i cs x"
proof (induction cs arbitrary: b x)
  case (Cons c cs)
  show ?case
  proof (cases "fst (process_command E i c x)")
    case True
    thus ?thesis using Cons.IH[of b "snd (process_command E i c x)"] process_command_buffer(2)[OF True, of b]
      by (simp add: process_command_buffer(1) case_prod_unfold)
  qed (simp add: process_command_buffer(1) case_prod_unfold)
qed simp

text \<open>Property C15. Of what the tracker sends, exactly its commands are repeated to the remote host: while the host has let
  the transmitter in, every command that is carried out, except for log-ons, heartbeats and those with an
  empty first field, is sent to it as it was written, with the end of line, once and in order; before that
  nothing is, and neither is the command that ends the session.\<close>

theorem tracker_commands_repeated:
  assumes "split_ok (en_lib E)" and "join_ok (en_lib E)"
  shows "transmitter_of (processData E i d x) =
    (if lk_transmitterAuthorized (link_of x)
     then repeat_commands (carried_out E i (frames (strip_lines (en_lib E) (de_buffer (device_of i x) @ d))) x) (transmitter_of x)
     else transmitter_of x)"
proof -
  have loop: "transmitter_of (process_loop E i b y) =
      (if lk_transmitterAuthorized (link_of y) then repeat_commands (carried_out E i (frames b) y) (transmitter_of y)
       else transmitter_of y)" for b y
  proof (induction "length b" arbitrary: b y rule: less_induct)
    case less
    show ?case
    proof (cases "find_sub '';'' b")
      case None
      thus ?thesis using frames_None[OF None] by (subst process_loop.simps) (simp add: repeat_commands_def)
    next
      case (Some off)
      let ?r = "drop (off + 1) b" and ?c = "take off b"
      let ?y = "set_buffer i ?r y"
      have lt: "length ?r < length b" using find_sub_Some[OF Some] by (simp, linarith)
      have step: "process_loop E i b y = (if fst (process_command E i ?c ?y)
          then process_loop E i ?r (snd (process_command E i ?c ?y)) else snd (process_command E i ?c ?y))"
        using Some by (subst process_loop.simps) (simp add: set_buffer_def[symmetric] case_prod_unfold Let_def)
      have out: "carried_out E i (frames b) y =
          (if fst (process_command E i ?c ?y) then ?c # carried_out E i (frames ?r) (snd (process_command E i ?c ?y)) else [])"
        unfolding carried_out_buffer[of E i "frames b" ?r y, symmetric]
        unfolding frames_Some(1)[OF Some]
        by (simp add: case_prod_unfold)
      show ?thesis
        using less.hyps[OF lt, of "snd (process_command E i ?c ?y)"] process_command_transmitter[OF assms, of i ?c ?y]
        by (simp add: step out) (simp add: repeat_commands_def)
    qed
  qed
  show ?thesis
    unfolding processData_def Let_def set_buffer_def[symmetric] loop by (simp add: carried_out_buffer)
qed

definition repeating_system :: "(unit, int, int ref_db) system" where
  "repeating_system = on_transmitter (\<lambda>c. c\<lparr>tc_status := TConnected\<rparr>)
     (on_link (\<lambda>l. l\<lparr>lk_transmitterAuthorized := True\<rparr>) ref_system)"

theorem tracker_commands_repeated_witness:
  "tc_writeBuffer (transmitter_of (processData ref_env 0 ''a,b;123456789012345;c,d;e'' repeating_system)) =
     [''a,b;'' @ crlf, ''c,d;'' @ crlf]"
proof -
  have "carried_out ref_env 0 (frames (strip_lines ref_lib (de_buffer (device_of 0 repeating_system) @ ''a,b;123456789012345;c,d;e''))) repeating_system =
      [''a,b'', ''123456789012345'', ''c,d'']" by code_simp
  moreover have "lk_transmitterAuthorized (link_of repeating_system)" "transmitter_of repeating_system = tcp_init\<lparr>tc_status := TConnected\<rparr>"
    by code_simp+
  moreover have "tc_writeBuffer (repeat_commands [''a,b'', ''123456789012345'', ''c,d''] (tcp_init\<lparr>tc_status := TConnected\<rparr>)) =
      [''a,b;'' @ crlf, ''c,d;'' @ crlf]" by code_simp
  ultimately show ?thesis
    using tracker_commands_repeated[of ref_env 0 "''a,b;123456789012345;c,d;e''" repeating_system] by simp
qed

end
