(* ===== verification/ProgramProps.thy ===== *)
theory ProgramProps
  imports ProgramModel ReceiverProps
begin

text \<open>What holds in every run of the whole program.\<close>

section \<open>Devices, sessions and the authorised session\<close>

definition active_ids :: "tcp_server \<Rightarrow> nat set" where
  "active_ids v = {i. isActive i v}"

text \<open>
  Devices belong to active sessions, the authorised session has a device, and the numbers of the
  active sessions have been given out.
\<close>

definition link_keys :: "('m, 'd, 'w) system \<Rightarrow> nat set \<times> nat option \<times> nat set \<times> nat" where
  "link_keys x = (dom (lk_devices (link_of x)), lk_authorized (link_of x), active_ids (fst x), sv_next (fst x))"

fun keys_ok :: "nat set \<times> nat option \<times> nat set \<times> nat \<Rightarrow> bool" where
  "keys_ok (D, a, A, n) \<longleftrightarrow> D \<subseteq> A \<and> (\<forall>i. a = Some i \<longrightarrow> i \<in> D) \<and> (\<forall>i\<in>A. i < n)"

definition link_ok :: "('m, 'd, 'w) system \<Rightarrow> bool" where
  "link_ok x \<longleftrightarrow> keys_ok (link_keys x)"

lemma active_upd: "(\<And>s. se_active (f s) = se_active s) \<Longrightarrow> active_ids (upd_session i f v) = active_ids v"
  by (auto simp: active_ids_def isActive_def session_is_def upd_session_def split: option.splits)

lemma next_upd [simp]: "sv_next (upd_session i f v) = sv_next v"
  by (simp add: upd_session_def)

lemma active_simps [simp]:
  "active_ids (session_send i d v) = active_ids v" "active_ids (session_read i v) = active_ids v"
  "active_ids (session_cleanup i v) = active_ids v - {i}"
  "active_ids (v\<lparr>sv_acceptorOpen := b\<rparr>) = active_ids v" "active_ids (v\<lparr>sv_accepting := l\<rparr>) = active_ids v"
  "active_ids (v\<lparr>sv_sessions := l\<rparr>) = active_ids v"
  "sv_next (session_send i d v) = sv_next v" "sv_next (session_read i v) = sv_next v" "sv_next (session_cleanup i v) = sv_next v"
  by (auto simp: session_send_def session_read_def session_cleanup_def active_upd start_write_def Let_def upd_session_def
      active_ids_def isActive_def session_is_def split: option.splits)

lemma keys_simps [simp]:
  "link_keys (on_world h x) = link_keys x" "link_keys (on_transmitter k x) = link_keys x"
  "link_keys (on_server (session_send i d) x) = link_keys x" "link_keys (on_server (session_read i) x) = link_keys x"
  "link_keys (upd_device i g x) = link_keys x" "link_keys (tracker_event E m x) = link_keys x"
  "link_keys (set_transmitter t b x) = link_keys x" "link_keys (wait_transmitter x) = link_keys x"
  by (auto simp: link_keys_def upd_device_def tracker_event_def split: if_splits)

lemma link_ok_D: "link_ok x \<Longrightarrow> lk_devices (link_of x) i \<noteq> None \<Longrightarrow> isActive i (fst x)"
  "link_ok x \<Longrightarrow> lk_authorized (link_of x) = Some i \<Longrightarrow> lk_devices (link_of x) i \<noteq> None"
  by (auto simp: link_ok_def link_keys_def active_ids_def)

lemma erase_keys:
  "link_ok x \<Longrightarrow> link_keys (erase_device E i x) =
    (dom (lk_devices (link_of x)) - {i}, (if lk_authorized (link_of x) = Some i then None else lk_authorized (link_of x)),
     active_ids (fst x), sv_next (fst x))"
  using link_ok_D(2)[of x i]
  by (auto simp: erase_device_def destroy_device_def authorized_is_def link_keys_def tracker_event_def split: option.split)

lemma session_end_ok:
  assumes "link_ok x" and "shDisconnect h = handleTcpSessionDisconnect E"
  shows "link_ok (session_end (Some h) r i x)"
proof -
  let ?y = "session_notify (Some h) (\<lambda>h. shDisconnect h i r) x"
  have y: "?y = (if \<not> isActive i (fst x) then x else erase_device E i x)"
    using assms(2) by (simp add: session_notify_def handleTcpSessionDisconnect_def)
  have "link_keys (session_end (Some h) r i x) =
      (dom (lk_devices (link_of ?y)), lk_authorized (link_of ?y), active_ids (fst ?y) - {i}, sv_next (fst ?y))"
    by (simp add: session_end_def link_keys_def)
  moreover have "keys_ok (dom (lk_devices (link_of ?y)), lk_authorized (link_of ?y), active_ids (fst ?y) - {i}, sv_next (fst ?y))"
  proof (cases "isActive i (fst x)")
    case True
    thus ?thesis using erase_keys[OF assms(1), of E i] assms(1) y by (auto simp: link_ok_def link_keys_def)
  next
    case False
    thus ?thesis using assms(1) y link_ok_D[OF assms(1), of i] by (auto simp: link_ok_def link_keys_def active_ids_def)
  qed
  ultimately show ?thesis by (simp add: link_ok_def)
qed

lemma close_ok: "link_ok x \<Longrightarrow> link_ok (close_session E i x)"
  unfolding close_session_def session_close_def by (rule session_end_ok) (simp_all add: receiver_closing_def)

lemma command_ok:
  assumes "link_ok x" and "lk_devices (link_of x) i \<noteq> None"
  shows "link_ok (snd (device_command E i args x))"
proof -
  have "link_ok (on_link (\<lambda>l. l\<lparr>lk_authorized := Some i\<rparr>) y)" if "link_keys y = link_keys x" for y :: "('a, 'b, 'c) system"
    using assms that by (auto simp: link_ok_def link_keys_def)
  moreover have "link_ok y \<longleftrightarrow> link_ok z" if "link_keys y = link_keys z" for y z :: "('a, 'b, 'c) system"
    using that by (simp add: link_ok_def)
  ultimately show ?thesis using assms
    by (auto simp: device_command_def commandLogon_def commandHeartbeat_def commandGpsData_def Let_def case_prod_unfold link_ok_def
        split: gps_parsed.split)
qed

lemma process_ok:
  assumes "link_ok x" and "lk_devices (link_of x) i \<noteq> None"
  shows "link_ok (snd (process_command E i c x))"
  using command_ok[OF assms] close_ok[OF command_ok[OF assms]] assms(1)
  by (auto simp: process_command_def Let_def case_prod_unfold handleDeviceCommand_def link_ok_def)

lemma upd_device_ok: "link_ok (upd_device i g x) = link_ok x"
  by (simp add: link_ok_def)

lemma upd_device_some: "(lk_devices (link_of (upd_device i g x)) i \<noteq> None) = (lk_devices (link_of x) i \<noteq> None)"
  by (simp add: upd_device_def)

lemma loop_ok: "link_ok x \<Longrightarrow> lk_devices (link_of x) i \<noteq> None \<Longrightarrow> link_ok (process_loop E i b x)"
proof (induction "length b" arbitrary: b x rule: less_induct)
  case less
  show ?case
  proof (cases "find_sub '';'' b")
    case None
    thus ?thesis using less.prems close_ok[of x E i] by (subst process_loop.simps) simp
  next
    case (Some off)
    let ?r = "drop (off + 1) b" and ?y = "upd_device i (\<lambda>d. d\<lparr>de_buffer := drop (off + 1) b\<rparr>) x"
    have lt: "length ?r < length b" using find_sub_Some[OF Some] by (simp, linarith)
    have y: "link_ok ?y" "lk_devices (link_of ?y) i \<noteq> None"
      using less.prems by (simp_all only: upd_device_ok upd_device_some not_False_eq_True)
    show ?thesis
      using less.hyps[OF lt process_ok[OF y] process_command_device[OF y(2), of E i "take off b"]] process_ok[OF y, of E "take off b"] Some
      by (subst process_loop.simps) (simp add: case_prod_unfold Let_def)
  qed
qed

lemma received_ok:
  assumes "link_ok x"
  shows "link_ok (handleTcpSessionReceivedData E i d x)"
proof (cases "lk_devices (link_of x) i = None")
  case False
  hence "link_ok (process_loop E i b (upd_device i g x))" for b g
    by (intro loop_ok) (simp_all only: upd_device_ok upd_device_some assms not_False_eq_True)
  thus ?thesis using False by (simp add: handleTcpSessionReceivedData_def processData_def Let_def)
qed (simp add: handleTcpSessionReceivedData_def assms)

lemma clear_ok: "link_ok x \<Longrightarrow> link_ok (clear_devices E x)"
  using link_ok_D(2)[of x]
  by (auto simp: clear_devices_def Let_def destroy_device_def authorized_is_def link_ok_def link_keys_def tracker_event_def
      split: option.splits)


lemma server_error_ok: "link_ok x \<Longrightarrow> link_ok (handleTcpServerError E e x)"
  using clear_ok[of x E] by (auto simp: handleTcpServerError_def Let_def link_ok_def link_keys_def)

lemma on_server_ok:
  assumes "link_ok x" and "active_ids (f (fst x)) = active_ids (fst x)" and "sv_next (fst x) \<le> sv_next (f (fst x))"
  shows "link_ok (on_server f x)"
  using assms by (auto simp: link_ok_def link_keys_def dest: order_less_le_trans)

lemma accept_ok: "link_ok x \<Longrightarrow> link_ok (on_server server_accept x)"
proof -
  assume x: "link_ok x"
  have "active_ids (server_accept (fst x)) = active_ids (fst x)"
    using x by (auto simp: server_accept_def active_ids_def isActive_def session_is_def new_session_def link_ok_def link_keys_def)
  thus ?thesis using x by (intro on_server_ok) (auto simp: server_accept_def)
qed

lemma listen_ok:
  assumes "link_ok x"
  shows "link_ok (server_listen (Some (receiver_handler E)) r x)"
proof -
  have o: "link_ok (on_server (\<lambda>v. v\<lparr>sv_acceptorOpen := True\<rparr>) x)"
    by (rule on_server_ok) (use assms in simp_all)
  show ?thesis
    by (simp add: server_listen_def session_notify_def receiver_handler_def Let_def assms o server_error_ok accept_ok split: option.split)
qed

lemma startReceiver_ok: "link_ok x \<Longrightarrow> link_ok (startReceiver E r x)"
  by (simp add: startReceiver_def listen_ok)

lemma connect_ok:
  assumes "link_ok x" and "sv_store (fst x) i \<noteq> None" and "i < sv_next (fst x)"
  shows "link_ok (session_start (Some (receiver_handler E)) i x)"
proof -
  let ?v = "upd_session i (\<lambda>s. s\<lparr>se_active := True\<rparr>) ((fst x)\<lparr>sv_sessions := List.insert i (sv_sessions (fst x))\<rparr>)"
  have "active_ids ?v = insert i (active_ids (fst x))" "sv_next ?v = sv_next (fst x)"
    using assms(2) by (auto simp: active_ids_def isActive_def session_is_def upd_session_def split: option.splits)
  thus ?thesis using assms(1,3)
    by (auto simp: session_start_def Let_def session_notify_def receiver_handler_def handleTcpSessionConnect_def link_ok_def link_keys_def)
qed

lemma read_ok: "link_ok (on_server (session_read i) y) = link_ok y"
  by (simp add: link_ok_def)

lemma accepting_known: "server_inv v \<Longrightarrow> i \<in> set (sv_accepting v) \<Longrightarrow> sv_store v i \<noteq> None \<and> i < sv_next v"
  by (auto simp: server_inv_def)

lemma server_event_ok:
  assumes "link_ok x" and "server_inv (fst x)" and "event_pending e (fst x)"
  shows "link_ok (server_event (Some (receiver_handler E)) e x)"
proof -
  have h: "shDisconnect (receiver_handler E) = handleTcpSessionDisconnect E" by (simp add: receiver_handler_def)
  have upd: "link_ok (on_server (upd_session i f) x)" if "\<And>s. se_active (f s) = se_active s" for i f
    by (rule on_server_ok[OF assms(1)]) (simp_all add: active_upd that)
  show ?thesis
  proof (cases e)
    case (Accepted i r)
    let ?x = "on_server (\<lambda>v. upd_session i (\<lambda>s. s\<lparr>se_socketOpen := (r = None)\<rparr>) (v\<lparr>sv_accepting := remove1 i (sv_accepting v)\<rparr>)) x"
    have x: "link_ok ?x" by (rule on_server_ok[OF assms(1)]) (simp_all add: active_upd)
    have "sv_store (fst ?x) i \<noteq> None \<and> i < sv_next (fst ?x)"
      using accepting_known[OF assms(2), of i] assms(3) Accepted by (simp add: on_server_def upd_session_def)
    thus ?thesis using accept_ok[OF x] accept_ok[OF connect_ok[OF x, of i E]] Accepted
      by (cases r) (simp_all add: server_handleAccept_def)
  next
    case (SessReadDone i d r)
    let ?x = "on_server (upd_session i (\<lambda>s. s\<lparr>se_pending := remove1 SessRead (se_pending s)\<rparr>)) x"
    have x: "link_ok ?x" by (rule upd) simp
    thus ?thesis using SessReadDone session_end_ok[OF x h] received_ok[OF x, of E i d]
      by (simp add: session_handleRead_def session_notify_def receiver_handler_def read_ok)
  next
    case (SessWriteDone i d r)
    let ?x = "on_server (upd_session i (\<lambda>s. s\<lparr>se_pending := remove1 (SessWrite d) (se_pending s)\<rparr>)) x"
    have x: "link_ok ?x" by (rule upd) simp
    have "link_ok (on_server (upd_session i f) ?x)" if "\<And>s. se_active (f s) = se_active s" for f
      by (rule on_server_ok[OF x]) (simp_all add: active_upd that)
    thus ?thesis using SessWriteDone session_end_ok[OF x h] by (simp add: session_handleWrite_def Let_def start_write_def)
  qed
qed


text \<open>The transmitter leaves the sessions and the devices alone.\<close>

lemma transmitter_keys [simp]:
  "link_keys (host_command c x) = link_keys x" "link_keys (check_limit b x) = link_keys x"
  "link_keys (startTransmitter E x) = link_keys x" "link_keys (handleTcpClientError E e x) = link_keys x"
  "link_keys (turn (t, snd (turn_back x))) = link_keys x"
  by (simp_all add: host_command_def Let_def processClientData_def check_limit_def startTransmitter_def handleTcpClientError_def
      split: option.split) (simp add: link_keys_def turn_def turn_back_def link_of_def)

lemma wait_keys [simp]: "link_keys (on_link (\<lambda>l. l\<lparr>lk_transmitterTimers := k l\<rparr>) x) = link_keys x"
  by (simp add: link_keys_def)

lemma transmitter_loop_keys [simp]: "link_keys (transmitter_loop b x) = link_keys x"
proof (induction "length b" arbitrary: b x rule: less_induct)
  case less
  show ?case
  proof (cases rule: transmitter_loop_cases[of b x])
    case (command off)
    have "length (drop (off + 1) b) < length b" using find_sub_Some[OF command(1)] by (simp, linarith)
    thus ?thesis using less.hyps command(3) by simp
  qed (use less in simp_all)
qed

lemma transmitter_complete_keys: "link_keys (transmitter_complete E r x) = link_keys x"
proof -
  let ?R = "\<lambda>u u'. \<forall>c c'. link_keys (turn (c', u')) = link_keys (turn (c, u))"
  have callback: "?R u (snd (turn_back y))" if "link_keys y = link_keys (turn (c, u))" for c u y
    using that by (simp add: link_keys_def turn_def turn_back_def link_of_def)
  have "?R (snd (turn_back x)) (snd (tcp_complete (Some (transmitter_handler E)) r (fst (turn_back x), snd (turn_back x))))"
  proof (rule tcp_complete_user[where R = ?R])
    show "?R u u" for u using callback[of "turn (tcp_init, u)" tcp_init u] by simp
    fix c u
    show "?R u (snd (hConnect (transmitter_handler E) (c, u)))"
      by (simp only: transmitter_handler_def client_handler.simps, rule callback[of _ c]) (simp add: handleTcpClientConnect_def Let_def)
    show "?R u (snd (hDisconnect (transmitter_handler E) q (c, u)))" for q
      by (simp only: transmitter_handler_def client_handler.simps, rule callback[of _ c]) (simp add: handleTcpClientDisconnect_def Let_def)
    show "?R u (snd (hError (transmitter_handler E) e (c, u)))" for e
      by (simp only: transmitter_handler_def client_handler.simps, rule callback[of _ c]) simp
    show "?R u (snd (hReceived (transmitter_handler E) d (c, u)))" for d
      by (simp only: transmitter_handler_def client_handler.simps, rule callback[of _ c])
         (simp add: handleTcpClientReceivedData_def Let_def)
  qed
  from this[rule_format, of "fst (tcp_complete (Some (transmitter_handler E)) r (turn_back x))" "fst (turn_back x)"]
  show ?thesis unfolding prod.collapse turn_simps(1) transmitter_complete_def .
qed

lemma link_ok_event:
  assumes "link_ok x" and "server_inv (fst x)" and "event_enabled e x"
  shows "link_ok (program_event_step n M E e x)"
proof -
  have keys: "link_ok y" if "link_keys y = link_keys x" for y using assms(1) that by (simp add: link_ok_def)
  show ?thesis
  proof (cases e)
    case (ServerEvent e')
    thus ?thesis using server_event_ok[OF assms(1,2)] assms(3) by simp
  next
    case (ReceiverTimer r)
    have "link_ok (on_link (\<lambda>l. l\<lparr>lk_receiverTimers := lk_receiverTimers l - 1\<rparr>) x)" by (rule keys) (simp add: link_keys_def)
    thus ?thesis using ReceiverTimer by (simp add: handleReceiverTimer_def startReceiver_ok)
  qed (auto intro!: keys simp: transmitter_complete_keys handleTransmitterTimer_def Let_def)
qed

lemma link_ok_start: "link_ok (program_start E dbFile r (program_init E m settings w now))"
proof -
  have "link_ok (on_world (dbRestoreSettings E) (on_world (app_openDatabase E dbFile) (program_init E m settings w now)))"
    by (simp add: link_ok_def) (simp add: link_keys_def program_init_def server_init_def link_init_def link_of_def
        active_ids_def isActive_def session_is_def)
  from startReceiver_ok[OF this] show ?thesis by (simp add: program_start_def Let_def link_ok_def)
qed

lemma program_server_inv: "program_reach n M E x \<Longrightarrow> server_inv (fst x)"
  using program_parts[of n M E x] receiver.server_reach_inv[of E x] by (simp add: parts_run_def)

section \<open>Every run\<close>

text \<open>Property C1. In every run of the program, whatever the network, the libraries and the timers do, the
  state of the server and of the two socket clients is consistent, a TLS connection that is not closed
  has a request that it is for, and the deque of the requests is never read while it is empty.\<close>

theorem program_invariant:
  assumes "program_reach n M E x"
  shows "server_inv (fst x) \<and> tcp_inv (transmitter_of x) \<and> tcp_inv (fst (fst (world_of x))) \<and> ssl_inv (fst (world_of x)) \<and>
    hc_fault (hc_of (world_of x)) \<noteq> Some EmptyDeque \<and>
    (ss_status (snd (fst (world_of x))) \<noteq> SDisconnected \<longrightarrow> hc_queue (hc_of (world_of x)) \<noteq> [])"
proof -
  have p: "server_reach (Some (receiver_handler E)) x" "tcp_reach (Some (transmitter_handler E)) (turn_back x)"
    "https_reach n M (bot_side E) (world_of x)"
    using program_parts[OF assms] by (simp_all add: parts_run_def)
  show ?thesis
    using receiver.server_reach_inv[OF p(1)] transmitter.user_reach_inv[OF p(2)] app_bot.http.reach_queue[OF p(3)[unfolded bot_side_def]]
    by simp
qed

text \<open>Property C2. In every run of the program a tracker's device exists only while its session is active, and
  the session that is authorised to report the tracker has a device. So commands of the remote host go
  to an open session or nowhere.\<close>

theorem devices_follow_sessions:
  assumes "program_reach n M E x"
  shows "(lk_devices (link_of x) i \<noteq> None \<longrightarrow> isActive i (fst x)) \<and>
    (lk_authorized (link_of x) = Some i \<longrightarrow> lk_devices (link_of x) i \<noteq> None)"
proof -
  have "link_ok x" using assms
    by (induction rule: program_reach.induct) (auto intro: link_ok_start link_ok_event program_server_inv)
  thus ?thesis using link_ok_D[of x i] by blast
qed


section \<open>A concrete run\<close>

text \<open>A program whose receiver is enabled has started, and a tracker has connected.\<close>

definition all_well :: listen_results where
  "all_well = \<lparr>lr_resolve = None, lr_open = None, lr_option = None, lr_bind = None, lr_listen = None\<rparr>"

definition receiver_settings :: ptree where
  "receiver_settings = PT [] [(''receiver'', PT [] [(''enabled'', PT ''true'' [])])]"

definition started :: "(string option, int, int ref_db) system" where
  "started = program_start ref_env ''tracker.db'' all_well (program_init ref_env None receiver_settings ref_empty 0)"

definition connected :: "(string option, int, int ref_db) system" where
  "connected = program_event_step 9 (plain_tls 9) ref_env (ServerEvent (Accepted 0 None)) started"

lemma connected_run: "program_reach 9 (plain_tls 9) ref_env connected \<and> lk_devices (link_of connected) 0 = Some new_device"
proof -
  have s: "\<not> crashed started" "event_enabled (ServerEvent (Accepted 0 None)) started" by code_simp+
  have "program_reach 9 (plain_tls 9) ref_env started" unfolding started_def by (rule preach_start)
  from preach_event[OF this s] have "program_reach 9 (plain_tls 9) ref_env connected" unfolding connected_def .
  moreover have "lk_devices (link_of connected) 0 = Some new_device" by code_simp
  ultimately show ?thesis by blast
qed

theorem program_invariant_witness: "server_inv (fst connected) \<and> tcp_inv (transmitter_of connected)"
  using program_invariant[of 9 "plain_tls 9" ref_env connected] connected_run by blast

theorem devices_follow_sessions_witness: "lk_devices (link_of connected) 0 = Some new_device \<and> isActive 0 (fst connected)"
  using devices_follow_sessions[of 9 "plain_tls 9" ref_env connected 0] connected_run by simp

end
