(* ===== verification/DatabaseProps.thy ===== *)
theory DatabaseProps
  imports SqliteReference
begin

text \<open>
  What the database part of the application promises: settings and users written are read back, for every
  SQLite that the reference simulates.
\<close>

section \<open>Settings\<close>

lemma narrow_signed [simp]: "ucast (scast x :: int64) = (x :: uint32)"
  by (rule bit_word_eqI) (simp add: bit_simps)

lemma insort_key_map: "insort_key f (g x) (map g ys) = map g (insort_key (\<lambda>x. f (g x)) x ys)"
  by (induction ys) auto

lemma sort_key_map: "sort_key f (map g xs) = map g (sort_key (\<lambda>x. f (g x)) xs)"
  by (induction xs) (simp_all add: insort_key_map)

definition setting_row :: "user_settings \<Rightarrow> 'd row" where
  "setting_row u = [(''id'', CInt (us_id u)), (''status'', CInt (scast (us_status u)))]"

definition setting_cells :: "user_settings \<Rightarrow> (nat \<times> 'd cell) list" where
  "setting_cells u = [(1, CInt (us_id u)), (2, CInt (scast (us_status u)))]"

definition setting_of :: "'d row \<Rightarrow> user_settings" where
  "setting_of r = \<lparr>us_id = row_int ''id'' r, us_status = ucast (row_int ''status'' r)\<rparr>"

lemma setting_row_id [simp]: "row_int ''id'' (setting_row u) = us_id u"
  by (simp add: row_int_def setting_row_def int_of_def)

lemma setting_of_row [simp]: "setting_of (setting_row u) = u"
  by (simp add: row_int_def setting_row_def int_of_def setting_of_def)

lemma insert_setting_sql:
  "run_sql sql_insert_setting (rev (setting_cells u)) w =
     changed (insert_key (Some (setting_row u)) (rd_settings w)) (\<lambda>t. w\<lparr>rd_settings := t\<rparr>) w"
  by (simp add: run_sql_def bound_row_def settings_columns_def setting_row_def setting_cells_def upt_rec Let_def)

lemma setting_binds:
  "[sq_bind_int64 (ref_sqlite z n) st 1 (us_id u), sq_bind_int (ref_sqlite z n) st 2 (us_status u)] =
     cell_binds st (setting_cells u)"
  by (simp add: ref_sqlite_def cell_binds_def setting_cells_def)

lemma ref_insert_setting:
  fixes b :: "'d ref_db db"
  assumes "db_open b" "us_id u \<notin> row_int ''id'' ` set (rd_settings (db_world b))"
  shows "\<exists>b'. db_run (ref_sqlite z n) sql_insert_setting
      (\<lambda>st. [sq_bind_int64 (ref_sqlite z n) st 1 (us_id u), sq_bind_int (ref_sqlite z n) st 2 (us_status u)]) b = (True, b') \<and>
      db_open b' \<and> rd_settings (db_world b') = rd_settings (db_world b) @ [setting_row u]"
proof -
  let ?v = "(db_world b)\<lparr>rd_settings := rd_settings (db_world b) @ [setting_row u]\<rparr>"
  have v: "run_sql sql_insert_setting (rev (setting_cells u)) (db_world b) = (Inr [], ?v)"
    using assms(2) by (simp add: insert_setting_sql changed_def insert_key_def)
  have "rd_settings (db_world b') = rd_settings (db_world b) @ [setting_row u]" if "same_tables (db_world b') ?v" for b'
    using that by (simp add: same_tables_def)
  thus ?thesis using ref_run[OF assms(1) setting_binds[where z = z and n = n] v, of z n] by blast
qed

lemma ref_save_each:
  fixes b :: "'d ref_db db"
  shows "db_open b \<Longrightarrow> distinct (map us_id us) \<Longrightarrow>
   us_id ` set us \<inter> row_int ''id'' ` set (rd_settings (db_world b)) = {} \<Longrightarrow>
   \<exists>b'. save_each (ref_sqlite z n) us b = (True, b') \<and> db_open b' \<and>
        rd_settings (db_world b') = rd_settings (db_world b) @ map setting_row us"
proof (induction us arbitrary: b)
  case (Cons u us)
  obtain b' where b': "db_run (ref_sqlite z n) sql_insert_setting
      (\<lambda>st. [sq_bind_int64 (ref_sqlite z n) st 1 (us_id u), sq_bind_int (ref_sqlite z n) st 2 (us_status u)]) b = (True, b')"
      "db_open b'" "rd_settings (db_world b') = rd_settings (db_world b) @ [setting_row u]"
    using ref_insert_setting[OF Cons.prems(1), of u z n] Cons.prems(3) by auto
  have "us_id ` set us \<inter> row_int ''id'' ` set (rd_settings (db_world b')) = {}"
    using b'(3) Cons.prems(2,3) by auto
  then obtain v where "save_each (ref_sqlite z n) us b' = (True, v)" "db_open v"
      "rd_settings (db_world v) = rd_settings (db_world b') @ map setting_row us"
    using Cons.IH[OF b'(2)] Cons.prems(2) by auto
  thus ?case using b' by simp
qed simp

lemma read_setting_row:
  assumes "current_row st w = setting_row u"
  shows "settings_row (ref_sqlite z n) st w a = (u, snd a @ [u])"
proof -
  have "fold (\<lambda>k. settings_column (ref_sqlite z n) st (sq_column_name (ref_sqlite z n) st k w) k w) [0..<2] r =
      r\<lparr>us_id := us_id u, us_status := us_status u\<rparr>" for r
    using assms
    by (simp add: upt_rec[of 0] upt_rec[of 1] settings_column_def ref_sqlite_def ref_column_def setting_row_def int_of_def
        numeral_2_eq_2 Let_def)
  moreover have "sq_column_count (ref_sqlite z n) st w = 2"
    using assms by (simp add: ref_sqlite_def setting_row_def)
  ultimately show ?thesis by (simp add: settings_row_def each_column_def Let_def)
qed

definition add_setting :: "'d row \<Rightarrow> user_settings \<times> user_settings list \<Rightarrow> user_settings \<times> user_settings list" where
  "add_setting r a = (setting_of r, snd a @ [setting_of r])"

lemma fold_settings: "snd (fold add_setting (map setting_row us) a) = snd a @ us"
  by (induction us arbitrary: a) (simp_all add: add_setting_def)

lemma ref_restore:
  fixes b :: "'d ref_db db"
  assumes "db_open b" and "rd_settings (db_world b) = map setting_row us" and "length us \<le> n"
  shows "fst (restore_userSettings (ref_sqlite z n) b) = sort_key (\<lambda>u. sint (us_id u)) us"
proof -
  let ?us = "sort_key (\<lambda>u. sint (us_id u)) us"
  have q: "run_sql sql_select_settings (rev []) (db_world b) = (Inr (map setting_row ?us), db_world b)"
    using assms(2) by (simp add: run_sql_def sort_key_map)
  have rd: "settings_row (ref_sqlite z n) st w a = add_setting (current_row st w) a"
    if "current_row st w \<in> set (map setting_row ?us)" for st w a
    using that read_setting_row[of st w _ z n a] by (auto simp: add_setting_def)
  have cb: "[] = cell_binds st ([] :: (nat \<times> 'd cell) list)" for st by (simp add: cell_binds_def)
  have len: "length (map setting_row ?us :: 'd row list) \<le> n" using assms(3) by simp
  have "\<exists>v. db_query (ref_sqlite z n) sql_select_settings (\<lambda>st. []) (settings_row (ref_sqlite z n)) (new_settings, []) b =
      ((True, fold add_setting (map setting_row ?us :: 'd row list) (new_settings, [])), b\<lparr>db_world := v\<rparr>) \<and> same_tables v (db_world b)"
    by (rule ref_query[where g = add_setting, OF assms(1) cb q len rd])
  then obtain v where "db_query (ref_sqlite z n) sql_select_settings (\<lambda>st. []) (settings_row (ref_sqlite z n)) (new_settings, []) b =
      ((True, fold add_setting (map setting_row ?us :: 'd row list) (new_settings, [])), b\<lparr>db_world := v\<rparr>)"
    by blast
  thus ?thesis by (simp add: restore_userSettings_def fold_settings)
qed

lemma ref_save_restore:
  assumes "db_open b" and "distinct (map us_id us)" and "length us \<le> n"
  shows "fst (dbSaveSettings (ref_sqlite z n) us b) \<and>
    fst (restore_userSettings (ref_sqlite z n) (snd (dbSaveSettings (ref_sqlite z n) us b))) = sort_key (\<lambda>u. sint (us_id u)) us"
proof -
  let ?b = "b\<lparr>db_world := (db_world b)\<lparr>rd_settings := []\<rparr>\<rparr>"
  obtain b' where "save_each (ref_sqlite z n) us ?b = (True, b')" "db_open b'" "rd_settings (db_world b') = map setting_row us"
    using ref_save_each[of ?b us z n] assms(1,2) by auto
  thus ?thesis using assms(1) ref_restore[of b' us n z, OF _ _ assms(3)]
    by (simp add: dbSaveSettings_def db_exec_def db_lift_def ref_exec_def sqlite_codes)
qed

text \<open>The modes of the users survive a restart: saving settings with distinct user ids into an open
  database succeeds, and restoring gives back exactly the saved entries (in the order of the ids), for
  every SQLite that behaves as documented and however the database looked before.\<close>

theorem settings_roundtrip:
  assumes "sqlite_refines V Q (ref_sqlite z n)" and "db_open b" and "distinct (map us_id us)" and "length us \<le> n"
  shows "fst (dbSaveSettings Q us b) \<and>
    fst (restore_userSettings Q (snd (dbSaveSettings Q us b))) = sort_key (\<lambda>u. sint (us_id u)) us"
proof -
  have "db_open (db_view V b)" using assms(2) by (simp add: db_view_def)
  from ref_save_restore[OF this assms(3,4), of z] show ?thesis
    by (simp add: sim_save[OF assms(1)] sim_restore[OF assms(1)])
qed

definition demo_db :: "int ref_db db" where
  "demo_db = \<lparr>db_open = True, db_world = ref_empty\<lparr>rd_settings := [setting_row \<lparr>us_id = 9, us_status = 1\<rparr>]\<rparr>\<rparr>"

theorem settings_roundtrip_witness:
  "fst (restore_userSettings (ref_sqlite 0 10) (snd (dbSaveSettings (ref_sqlite 0 10)
     [\<lparr>us_id = 7, us_status = 2\<rparr>, \<lparr>us_id = 4, us_status = 1\<rparr>] demo_db))) =
   [\<lparr>us_id = 4, us_status = 1\<rparr>, \<lparr>us_id = 7, us_status = 2\<rparr>]"
  using settings_roundtrip[OF sqlite_refines_refl, of demo_db "[\<lparr>us_id = 7, us_status = 2\<rparr>, \<lparr>us_id = 4, us_status = 1\<rparr>]" 10 0]
  by (simp add: demo_db_def)

section \<open>Users\<close>

definition user_row :: "tg_user \<Rightarrow> uint32 \<Rightarrow> 'd row" where
  "user_row t access =
     [(''id'', CInt (usr_id t)), (''firstname'', CText (usr_firstName t)), (''lastname'', CText (usr_lastName t)),
      (''nickname'', CText (usr_username t)), (''access'', CInt (scast access))]"

lemma user_row_id [simp]: "row_int ''id'' (user_row t a) = usr_id t"
  by (simp add: row_int_def user_row_def int_of_def)

text \<open>The table has the columns it was created with.\<close>

definition users_ok :: "'d ref_db \<Rightarrow> bool" where
  "users_ok w \<longleftrightarrow> (\<forall>r\<in>set (rd_users w). map fst r = user_columns)"

definition matching :: "int64 \<Rightarrow> 'd ref_db \<Rightarrow> 'd row list" where
  "matching i w = filter (\<lambda>r. row_int ''id'' r = i) (rd_users w)"

definition row_text :: "string \<Rightarrow> 'd row \<Rightarrow> string" where
  "row_text k r = (case map_of r k of Some (CText s) \<Rightarrow> s | _ \<Rightarrow> [])"

definition read_user :: "tg_user \<Rightarrow> 'd row \<Rightarrow> app_user \<times> bool \<Rightarrow> app_user \<times> bool" where
  "read_user t r a =
     ((fst a)\<lparr>au_access := ucast (row_int ''access'' r), au_valid := True\<rparr>,
      snd a \<or> row_text ''firstname'' r \<noteq> usr_firstName t \<or> row_text ''lastname'' r \<noteq> usr_lastName t \<or>
      row_text ''nickname'' r \<noteq> usr_username t)"

lemma user_columns_row:
  assumes "map fst r = user_columns"
  obtains c1 c2 c3 c4 c5 where
    "r = [(''id'', c1), (''firstname'', c2), (''lastname'', c3), (''nickname'', c4), (''access'', c5)]"
  using assms by (auto simp: user_columns_def map_eq_Cons_conv)

lemma read_user_row:
  assumes "map fst (current_row st w) = user_columns"
  shows "each_column (ref_sqlite z n) st (user_column (ref_sqlite z n) st t) w a = read_user t (current_row st w) a"
proof -
  obtain c1 c2 c3 c4 c5 where
    r: "current_row st w = [(''id'', c1), (''firstname'', c2), (''lastname'', c3), (''nickname'', c4), (''access'', c5)]"
    by (rule user_columns_row[OF assms])
  have c: "sq_column_count (ref_sqlite z n) st w = Suc (Suc (Suc (Suc (Suc 0))))"
    using r by (simp add: ref_sqlite_def)
  have col: "sq_column_name (ref_sqlite z n) st k w = fst (current_row st w ! k)"
      "sq_column_int (ref_sqlite z n) st k w = ucast (int_of (Some (snd (current_row st w ! k))))"
      "sq_column_text (ref_sqlite z n) st k w = (case snd (current_row st w ! k) of CText s \<Rightarrow> s | _ \<Rightarrow> [])"
    if "k < Suc (Suc (Suc (Suc (Suc 0))))" for k
    using that r by (simp_all add: ref_sqlite_def ref_column_def Let_def)
  show ?thesis
    unfolding each_column_def c
    by (cases a) (auto simp: col r user_column_def read_user_def row_int_def row_text_def)
qed

lemma insert_user_sql:
  "run_sql sql_insert_user (rev ((1, CInt (usr_id t)) # (2, CText (usr_firstName t)) # (3, CText (usr_lastName t)) #
       (4, CText (usr_username t)) # [(5, CInt (scast a))])) w =
     changed (insert_key (Some (user_row t a)) (rd_users w)) (\<lambda>us. w\<lparr>rd_users := us\<rparr>) w"
  by (simp add: run_sql_def bound_row_def user_columns_def user_row_def upt_rec Let_def)

lemma update_user_sql:
  fixes w :: "'d ref_db"
  shows "run_sql sql_update_user (rev [(1, CText (usr_firstName t)), (2, CText (usr_lastName t)),
       (3, CText (usr_username t)), (4, CInt (scast a)), (5, CInt (usr_id t))]) w =
     (Inr [], w\<lparr>rd_users := map (\<lambda>r. if row_int ''id'' r = usr_id t then user_row t a else r) (rd_users w)\<rparr>)"
proof -
  have "update_row (usr_id t) (tl (user_row t a) :: 'd row) = (\<lambda>r. if row_int ''id'' r = usr_id t then user_row t a else r)"
    by (intro ext) (simp add: update_row_def user_row_def)
  thus ?thesis
    by (simp add: run_sql_def bound_row_def user_columns_def user_row_def upt_rec Let_def changed_def int_of_def)
qed

lemma ref_update:
  fixes b :: "'d ref_db db"
  assumes "db_open b" "au_tg u = Some t" "au_valid u"
  shows "\<exists>b'. dbUpdateUser (ref_sqlite z n) u b = (True, b') \<and> db_open b' \<and>
    rd_users (db_world b') = map (\<lambda>r. if row_int ''id'' r = usr_id t then user_row t (au_access u) else r) (rd_users (db_world b))"
proof -
  have c: "user_row_binds (ref_sqlite z n) st 1 t (au_access u) @ [sq_bind_int64 (ref_sqlite z n) st 5 (usr_id t)] =
      cell_binds st [(1, CText (usr_firstName t)), (2, CText (usr_lastName t)), (3, CText (usr_username t)),
        (4, CInt (scast (au_access u))), (5, CInt (usr_id t))]" for st
    by (simp add: user_row_binds_def ref_sqlite_def cell_binds_def numeral_eq_Suc)
  from ref_run[OF assms(1) c update_user_sql, of z n] show ?thesis
    using assms(2,3) by (auto simp: dbUpdateUser_def same_tables_def)
qed

lemma ref_create:
  fixes b :: "'d ref_db db"
  assumes "db_open b" "au_tg u = Some t" "au_valid u" "matching (usr_id t) (db_world b) = []"
  shows "\<exists>b'. dbCreateUser (ref_sqlite z n) u b = (True, b') \<and> db_open b' \<and>
    rd_users (db_world b') = rd_users (db_world b) @ [user_row t (au_access u)]"
proof -
  have c: "sq_bind_int64 (ref_sqlite z n) st 1 (usr_id t) # user_row_binds (ref_sqlite z n) st 2 t (au_access u) =
      cell_binds st ((1, CInt (usr_id t)) # (2, CText (usr_firstName t)) # (3, CText (usr_lastName t)) #
       (4, CText (usr_username t)) # [(5, CInt (scast (au_access u)))])" for st
    by (simp add: user_row_binds_def ref_sqlite_def cell_binds_def numeral_eq_Suc)
  have "usr_id t \<notin> row_int ''id'' ` set (rd_users (db_world b))"
    using assms(4) by (auto simp: matching_def filter_empty_conv)
  hence "run_sql sql_insert_user (rev ((1, CInt (usr_id t)) # (2, CText (usr_firstName t)) # (3, CText (usr_lastName t)) #
       (4, CText (usr_username t)) # [(5, CInt (scast (au_access u)))])) (db_world b) =
      (Inr [], (db_world b)\<lparr>rd_users := rd_users (db_world b) @ [user_row t (au_access u)]\<rparr>)"
    by (simp only: insert_user_sql) (simp add: changed_def insert_key_def)
  from ref_run[OF assms(1) c this, of z n] show ?thesis
    using assms(2,3) by (auto simp: dbCreateUser_def same_tables_def)
qed

lemma matching_update:
  "filter (\<lambda>r. row_int ''id'' r = usr_id t) (map (\<lambda>r. if row_int ''id'' r = usr_id t then user_row t a else r) rs) =
     map (\<lambda>_. user_row t a) (filter (\<lambda>r. row_int ''id'' r = usr_id t) rs)"
  by (induction rs) simp_all

lemma user_row_columns [simp]: "map fst (user_row t a) = user_columns"
  by (simp add: user_row_def user_columns_def)

lemma ref_search:
  fixes b :: "'d ref_db db"
  assumes "db_open b" "au_tg u = Some t" "users_ok (db_world b)" "1 \<le> n"
  shows "\<exists>s b'. dbSearchUser (ref_sqlite z n) u b = ((True, s), b') \<and> db_open b' \<and> users_ok (db_world b') \<and>
     (case matching (usr_id t) (db_world b) of
        [] \<Rightarrow> s = u\<lparr>au_access := 0, au_valid := False\<rparr> \<and> rd_users (db_world b') = rd_users (db_world b)
      | r # _ \<Rightarrow> s = u\<lparr>au_access := ucast (row_int ''access'' r), au_valid := True\<rparr> \<and>
          matching (usr_id t) (db_world b') \<noteq> [] \<and>
          (rd_users (db_world b') = rd_users (db_world b) \<or>
           rd_users (db_world b') = map (\<lambda>r. if row_int ''id'' r = usr_id t then user_row t (au_access s) else r) (rd_users (db_world b))))"
proof -
  let ?rows = "take 1 (matching (usr_id t) (db_world b))"
  let ?u = "u\<lparr>au_access := 0, au_valid := False\<rparr>"
  have c: "[sq_bind_int64 (ref_sqlite z n) st 1 (usr_id t)] = cell_binds st [(1, CInt (usr_id t))]" for st
    by (simp add: ref_sqlite_def cell_binds_def)
  have q: "run_sql sql_select_user (rev [(1, CInt (usr_id t))]) (db_world b) = (Inr ?rows, db_world b)"
    by (simp add: run_sql_def matching_def int_of_def)
  have len: "length ?rows \<le> n" using assms(4) by simp
  have rd: "each_column (ref_sqlite z n) st (user_column (ref_sqlite z n) st t) w a = read_user t (current_row st w) a"
    if "current_row st w \<in> set ?rows" for st w a
  proof (rule read_user_row)
    have "current_row st w \<in> set (rd_users (db_world b))" using set_take_subset that by (fastforce simp: matching_def)
    thus "map fst (current_row st w) = user_columns" using assms(3) by (simp add: users_ok_def)
  qed
  obtain v where v: "db_query (ref_sqlite z n) sql_select_user (\<lambda>st. [sq_bind_int64 (ref_sqlite z n) st 1 (usr_id t)])
      (\<lambda>st. each_column (ref_sqlite z n) st (user_column (ref_sqlite z n) st t)) (?u, False) b =
        ((True, fold (read_user t) ?rows (?u, False)), b\<lparr>db_world := v\<rparr>)" "same_tables v (db_world b)"
    using ref_query[where g = "read_user t" and z = z and row = "\<lambda>st. each_column (ref_sqlite z n) st (user_column (ref_sqlite z n) st t)",
        OF assms(1) c q len rd] by blast
  show ?thesis
  proof (cases "matching (usr_id t) (db_world b)")
    case Nil
    thus ?thesis using v assms(1-3) by (simp add: dbSearchUser_def Let_def same_tables_def users_ok_def)
  next
    case (Cons r rs)
    let ?s = "u\<lparr>au_access := ucast (row_int ''access'' r), au_valid := True\<rparr>"
    obtain b' where b': "dbUpdateUser (ref_sqlite z n) ?s (b\<lparr>db_world := v\<rparr>) = (True, b')" "db_open b'"
        "rd_users (db_world b') = map (\<lambda>r. if row_int ''id'' r = usr_id t then user_row t (au_access ?s) else r) (rd_users v)"
      using ref_update[of "b\<lparr>db_world := v\<rparr>" ?s t z n] assms(1,2) by auto
    have "matching (usr_id t) v = r # rs" "rd_users v = rd_users (db_world b)"
      using Cons v(2) by (simp_all add: matching_def same_tables_def)
    moreover have "matching (usr_id t) (db_world b') \<noteq> []" using calculation(1) unfolding matching_def b'(3) matching_update by simp
    moreover have "users_ok (db_world b')" using b'(3) assms(3) calculation(2) by (auto simp: users_ok_def)
    moreover have "users_ok v" using assms(3) calculation(2) by (simp add: users_ok_def)
    ultimately show ?thesis using Cons v(1) b' assms(1,2) by (simp add: dbSearchUser_def Let_def read_user_def case_prod_unfold)
  qed
qed

lemma ref_search_row:
  fixes b :: "'d ref_db db"
  assumes "db_open b" "users_ok (db_world b)" "1 \<le> n" "matching (usr_id t) (db_world b) = user_row t a # rs"
  shows "fst (dbSearchUser (ref_sqlite z n) (new_user\<lparr>au_tg := Some t\<rparr>) b) = (True, \<lparr>au_access = a, au_tg = Some t, au_valid = True\<rparr>)"
  using ref_search[OF assms(1) _ assms(2,3), of "new_user\<lparr>au_tg := Some t\<rparr>" t z] assms(4)
  by (auto simp: new_user_def row_int_def user_row_def int_of_def)

text \<open>Property C12. The access level of a user survives: whatever level the program stores for a user, by
  creating the user it did not find or by updating the one it found, the next look-up of that user finds
  him registered with that level, for every SQLite that behaves as documented.\<close>

theorem user_access_persists:
  assumes "sqlite_refines V Q (ref_sqlite z n)" and "1 \<le> n" and "db_open b" and "users_ok (V (db_world b))"
    and "au_tg u = Some t" and "au_valid u" and "dbSearchUser Q u b = ((True, s), b1)"
  shows "case (if au_valid s then dbUpdateUser Q u b1 else dbCreateUser Q u b1) of
    (ok, b2) \<Rightarrow> ok \<and> fst (dbSearchUser Q (new_user\<lparr>au_tg := Some t\<rparr>) b2) = (True, u)"
proof -
  let ?R = "ref_sqlite z n"
  have b: "db_open (db_view V b)" "users_ok (db_world (db_view V b))" using assms(3,4) by (simp_all add: db_view_def)
  have s: "dbSearchUser ?R u (db_view V b) = ((True, s), db_view V b1)"
    using sim_search[OF assms(1), of u b] assms(7) by simp
  have b1: "db_open (db_view V b1)" "users_ok (db_world (db_view V b1))"
    "au_valid s \<longleftrightarrow> matching (usr_id t) (db_world (db_view V b1)) \<noteq> []"
    using ref_search[OF b(1) assms(5) b(2) assms(2), of z] s b(2)
    by (auto simp: matching_def users_ok_def split: list.splits)
  have u: "\<lparr>au_access = au_access u, au_tg = Some t, au_valid = True\<rparr> = u" using assms(5,6) by (cases u) simp
  define run where "run = (if au_valid s then dbUpdateUser ?R u (db_view V b1) else dbCreateUser ?R u (db_view V b1))"
  obtain b2 where b2: "run = (True, b2)" "db_open b2" "users_ok (db_world b2)"
    "\<exists>rs. matching (usr_id t) (db_world b2) = user_row t (au_access u) # rs"
  proof (cases "au_valid s")
    case True
    obtain b2 where b2: "dbUpdateUser ?R u (db_view V b1) = (True, b2)" "db_open b2" "rd_users (db_world b2) =
        map (\<lambda>r. if row_int ''id'' r = usr_id t then user_row t (au_access u) else r) (rd_users (db_world (db_view V b1)))"
      using ref_update[OF b1(1) assms(5,6), of z n] by blast
    have "users_ok (db_world b2)" using b1(2) b2(3) by (auto simp: users_ok_def)
    moreover obtain r rs where "matching (usr_id t) (db_world (db_view V b1)) = r # rs"
      using True b1(3) by (meson neq_Nil_conv)
    hence "matching (usr_id t) (db_world b2) = user_row t (au_access u) # map (\<lambda>_. user_row t (au_access u)) rs"
      unfolding matching_def b2(3) matching_update by simp
    ultimately show ?thesis using that[of b2] b2 True by (simp add: run_def)
  next
    case False
    obtain b2 where b2: "dbCreateUser ?R u (db_view V b1) = (True, b2)" "db_open b2"
        "rd_users (db_world b2) = rd_users (db_world (db_view V b1)) @ [user_row t (au_access u)]"
      using ref_create[OF b1(1) assms(5,6), of z n] False b1(3) by blast
    have "users_ok (db_world b2)" using b1(2) b2(3) by (auto simp: users_ok_def)
    moreover have "matching (usr_id t) (db_world b2) = user_row t (au_access u) # []"
      using False b1(3) b2(3) by (simp add: matching_def)
    ultimately show ?thesis using that[of b2] b2 False by (simp add: run_def)
  qed
  have "fst (dbSearchUser ?R (new_user\<lparr>au_tg := Some t\<rparr>) b2) = (True, u)"
    using b2(4) ref_search_row[OF b2(2,3) assms(2), of t "au_access u" _ z] u by auto
  moreover have "fst (dbSearchUser Q v c) = fst (dbSearchUser ?R v (db_view V c))" for v c
    by (simp add: sim_search[OF assms(1)])
  ultimately show ?thesis using b2(1)
    by (cases "au_valid s") (auto simp: run_def sim_update[OF assms(1)] sim_create[OF assms(1)] case_prod_unfold)
qed

definition demo_user :: tg_user where
  "demo_user = \<lparr>usr_id = 7, usr_firstName = ''Ann'', usr_lastName = [], usr_username = ''ann''\<rparr>"

definition demo_owner :: app_user where
  "demo_owner = \<lparr>au_access = 2, au_tg = Some demo_user, au_valid = True\<rparr>"

definition users_db :: "int ref_db db" where
  "users_db = \<lparr>db_open = True, db_world = ref_empty\<rparr>"

theorem user_access_persists_witness:
  "fst (dbSearchUser (ref_sqlite 0 10) (new_user\<lparr>au_tg := Some demo_user\<rparr>)
     (snd (dbCreateUser (ref_sqlite 0 10) demo_owner (snd (dbSearchUser (ref_sqlite 0 10) demo_owner users_db))))) = (True, demo_owner)"
proof -
  have ok: "db_open users_db" "users_ok (id (db_world users_db))" "au_tg demo_owner = Some demo_user" "au_valid demo_owner"
    "matching (usr_id demo_user) (db_world users_db) = []"
    by (simp_all add: users_db_def users_ok_def ref_empty_def demo_owner_def matching_def)
  obtain s b1 where s: "dbSearchUser (ref_sqlite 0 10) demo_owner users_db = ((True, s), b1)" "\<not> au_valid s"
    using ref_search[OF ok(1,3), of 10 0] ok(2,5) by auto
  show ?thesis
    using user_access_persists[OF sqlite_refines_refl _ ok(1,2,3,4) s(1)] s by (simp add: case_prod_unfold)
qed

end
