(* ===== verification/GpsDataProps.thy ===== *)
theory GpsDataProps
  imports DatabaseProps
begin

text \<open>
  The table of tracker data as a log of messages: what \<open>dbAddGpsData\<close> stores and what
  \<open>dbGetGpsData\<close> gives back, for every SQLite that the reference simulates.
\<close>

section \<open>The row of a message\<close>

definition data_row :: "'d gps_message \<Rightarrow> 'd row" where
  "data_row m =
     [(''imei'', CText (gm_imei m)), (''keyword'', CText (gm_keyword m)), (''phone'', CText (gm_phone m)),
      (''tracker_time'', CInt (toUnixTime (gm_trackerTime m))), (''host_time'', CInt (toUnixTime (gm_hostTime m))),
      (''latitude'', CReal (gm_latitude m)), (''longitude'', CReal (gm_longitude m)), (''speed'', CReal (gm_speed m)),
      (''valid'', CInt (if gm_valid m then 1 else 0))]"

definition data_cells :: "'d gps_message \<Rightarrow> (nat \<times> 'd cell) list" where
  "data_cells m = zip [1, 2, 3, 4, 5, 6, 7, 8, 9] (map snd (data_row m))"

text \<open>The host time as the key of the order.\<close>

definition host_key :: "'d gps_message \<Rightarrow> int" where
  "host_key m = sint (toUnixTime (gm_hostTime m))"

lemma data_row_keys [simp]:
  "sint (row_int ''host_time'' (data_row m)) = host_key m" "row_int ''valid'' (data_row m) = (if gm_valid m then 1 else 0)"
  by (simp_all add: row_int_def data_row_def int_of_def host_key_def)

lemma insert_data_sql:
  "run_sql sql_insert_data (rev (data_cells m)) w = (Inr [], w\<lparr>rd_data := rd_data w @ [data_row m]\<rparr>)"
  by (simp add: run_sql_def bound_row_def data_columns_def data_row_def data_cells_def upt_rec Let_def changed_def)

lemma data_binds:
  "[sq_bind_text (ref_sqlite z n) st 1 (gm_imei m), sq_bind_text (ref_sqlite z n) st 2 (gm_keyword m),
    sq_bind_text (ref_sqlite z n) st 3 (gm_phone m), sq_bind_int64 (ref_sqlite z n) st 4 (toUnixTime (gm_trackerTime m)),
    sq_bind_int64 (ref_sqlite z n) st 5 (toUnixTime (gm_hostTime m)), sq_bind_double (ref_sqlite z n) st 6 (gm_latitude m),
    sq_bind_double (ref_sqlite z n) st 7 (gm_longitude m), sq_bind_double (ref_sqlite z n) st 8 (gm_speed m),
    sq_bind_int (ref_sqlite z n) st 9 (if gm_valid m then 1 else 0)] = cell_binds st (data_cells m)"
  by (simp add: ref_sqlite_def cell_binds_def data_cells_def data_row_def)

lemma sim_add:
  assumes ref: "sqlite_refines V Q R"
  shows "dbAddGpsData R m (db_view V b) = (fst (dbAddGpsData Q m b), db_view V (snd (dbAddGpsData Q m b)))"
  unfolding dbAddGpsData_def by (rule sim_run[OF ref]) (simp add: refines_calls[OF ref])

section \<open>The log\<close>

text \<open>An open database whose table of tracker data holds these messages, the oldest row first.\<close>

definition holds_log :: "('w \<Rightarrow> 'd ref_db) \<Rightarrow> 'w db \<Rightarrow> 'd gps_message list \<Rightarrow> bool" where
  "holds_log V b ms \<longleftrightarrow> db_open b \<and> rd_data (V (db_world b)) = map data_row ms"

lemma add_to_log:
  assumes ref: "sqlite_refines V Q (ref_sqlite z n)" and "holds_log V b ms"
  shows "fst (dbAddGpsData Q m b)" "holds_log V (snd (dbAddGpsData Q m b)) (ms @ [m])"
proof -
  let ?b = "db_view V b"
  have b: "db_open ?b" using assms(2) by (simp add: holds_log_def db_view_def)
  obtain b' where "dbAddGpsData (ref_sqlite z n) m ?b = (True, b')" "db_open b'"
    "same_tables (db_world b') ((db_world ?b)\<lparr>rd_data := rd_data (db_world ?b) @ [data_row m]\<rparr>)"
    using ref_run[OF b data_binds[where z = z and n = n and m = m] insert_data_sql, of z n] unfolding dbAddGpsData_def by blast
  thus "fst (dbAddGpsData Q m b)" "holds_log V (snd (dbAddGpsData Q m b)) (ms @ [m])"
    using assms(2) sim_add[OF ref, of m b] by (auto simp: holds_log_def db_view_def same_tables_def)
qed

text \<open>A cursor reads a row into the message of the row before, and a zero keeps the time that is in it.\<close>

definition read_time :: "ptime \<Rightarrow> ptime \<Rightarrow> ptime" where
  "read_time before t = (if toUnixTime t = 0 then before else fromUnixTime (toUnixTime t))"

definition read_over :: "'d gps_message \<Rightarrow> 'd gps_message \<Rightarrow> 'd gps_message" where
  "read_over before m =
     m\<lparr>gm_trackerTime := read_time (gm_trackerTime before) (gm_trackerTime m),
       gm_hostTime := read_time (gm_hostTime before) (gm_hostTime m)\<rparr>"

fun read_log :: "'d gps_message \<Rightarrow> 'd gps_message list \<Rightarrow> 'd gps_message list" where
  "read_log before [] = []"
| "read_log before (m # ms) = (let m = read_over before m in m # read_log m ms)"

text \<open>The messages a query asks for, the newest first.\<close>

definition newest :: "uint32 \<Rightarrow> bool \<Rightarrow> 'd gps_message list \<Rightarrow> 'd gps_message list" where
  "newest limit validOnly ms =
     (let found = rev (sort_key host_key (filter (\<lambda>m. validOnly \<longrightarrow> gm_valid m) ms))
      in if limit = 0 then found else take (unat limit) found)"

text \<open>A row is read as the current row of any cursor.\<close>

lemma columns_current:
  assumes "current_row st w = current_row st' w'"
  shows "gps_column (ref_sqlite z n) st name k w = gps_column (ref_sqlite z n) st' name k w'"
    "sq_column_name (ref_sqlite z n) st k w = sq_column_name (ref_sqlite z n) st' k w'"
    "sq_column_count (ref_sqlite z n) st w = sq_column_count (ref_sqlite z n) st' w'"
proof -
  show "gps_column (ref_sqlite z n) st name k w = gps_column (ref_sqlite z n) st' name k w'"
    using assms by (intro ext) (simp add: gps_column_def ref_sqlite_def ref_column_def)
qed (use assms in \<open>simp_all add: ref_sqlite_def\<close>)

lemma gps_row_current:
  assumes "current_row st w = current_row st' w'"
  shows "gps_row (ref_sqlite z n) st w a = gps_row (ref_sqlite z n) st' w' a"
  unfolding gps_row_def each_column_def columns_current[OF assms, of z n] by (rule refl)

definition at_row :: "'d row \<Rightarrow> 'd ref_db" where
  "at_row r = ref_empty\<lparr>rd_stmts := [\<lparr>rs_sql = [], rs_args = [], rs_rows = Some [r]\<rparr>]\<rparr>"

lemma current_row_at [simp]: "current_row 0 (at_row r) = r"
  by (simp add: current_row_def at_row_def)

lemma data_row_columns:
  "sq_column_count (ref_sqlite z n) 0 (at_row (data_row m)) = 9"
  "sq_column_name (ref_sqlite z n) 0 k (at_row (data_row m)) = (if k < 9 then fst (data_row m ! k) else [])"
  "ref_column 0 k (at_row (data_row m)) = (if k < 9 then Some (snd (data_row m ! k)) else None)"
  by (simp_all add: ref_sqlite_def ref_column_def) (simp_all add: data_row_def)

lemma data_row_nth:
  "data_row m ! 0 = (''imei'', CText (gm_imei m))" "data_row m ! Suc 0 = (''keyword'', CText (gm_keyword m))"
  "data_row m ! 2 = (''phone'', CText (gm_phone m))" "data_row m ! 3 = (''tracker_time'', CInt (toUnixTime (gm_trackerTime m)))"
  "data_row m ! 4 = (''host_time'', CInt (toUnixTime (gm_hostTime m)))" "data_row m ! 5 = (''latitude'', CReal (gm_latitude m))"
  "data_row m ! 6 = (''longitude'', CReal (gm_longitude m))" "data_row m ! 7 = (''speed'', CReal (gm_speed m))"
  "data_row m ! 8 = (''valid'', CInt (if gm_valid m then 1 else 0))"
  by (simp_all add: data_row_def)

lemma ref_cells:
  "sq_column_int64 (ref_sqlite z n) st k w = int_of (ref_column st k w)"
  "sq_column_int (ref_sqlite z n) st k w = ucast (int_of (ref_column st k w))"
  "sq_column_double (ref_sqlite z n) st k w = (case ref_column st k w of Some (CReal d) \<Rightarrow> d | _ \<Rightarrow> z)"
  "sq_column_text (ref_sqlite z n) st k w = (case ref_column st k w of Some (CText s) \<Rightarrow> s | _ \<Rightarrow> [])"
  by (simp_all add: ref_sqlite_def)

lemma gps_row_data:
  "gps_row (ref_sqlite z n) 0 (at_row (data_row m)) (before, ms) = (read_over before m, ms @ [read_over before m])"
proof -
  let ?R = "ref_sqlite z n" and ?w = "at_row (data_row m)"
  note read = data_row_columns data_row_nth ref_cells gps_column_def int_of_def
  have step: "gps_column ?R 0 (sq_column_name ?R 0 0 ?w) 0 ?w b = b\<lparr>gm_imei := gm_imei m\<rparr>"
    "gps_column ?R 0 (sq_column_name ?R 0 1 ?w) 1 ?w b = b\<lparr>gm_keyword := gm_keyword m\<rparr>"
    "gps_column ?R 0 (sq_column_name ?R 0 2 ?w) 2 ?w b = b\<lparr>gm_phone := gm_phone m\<rparr>"
    "gps_column ?R 0 (sq_column_name ?R 0 3 ?w) 3 ?w b = b\<lparr>gm_trackerTime := read_time (gm_trackerTime b) (gm_trackerTime m)\<rparr>"
    "gps_column ?R 0 (sq_column_name ?R 0 4 ?w) 4 ?w b = b\<lparr>gm_hostTime := read_time (gm_hostTime b) (gm_hostTime m)\<rparr>"
    "gps_column ?R 0 (sq_column_name ?R 0 5 ?w) 5 ?w b = b\<lparr>gm_latitude := gm_latitude m\<rparr>"
    "gps_column ?R 0 (sq_column_name ?R 0 6 ?w) 6 ?w b = b\<lparr>gm_longitude := gm_longitude m\<rparr>"
    "gps_column ?R 0 (sq_column_name ?R 0 7 ?w) 7 ?w b = b\<lparr>gm_speed := gm_speed m\<rparr>"
    "gps_column ?R 0 (sq_column_name ?R 0 8 ?w) 8 ?w b = b\<lparr>gm_valid := gm_valid m\<rparr>" for b
    by (simp_all add: read read_time_def Let_def)
  have nine: "[0..<9] = [0, 1, 2, 3, 4, 5, 6, 7, 8]" by (simp add: upt_rec)
  have "each_column ?R 0 (gps_column ?R 0) ?w before = read_over before m"
    unfolding each_column_def data_row_columns(1) nine fold.simps step comp_def id_def by (simp add: read_over_def)
  thus ?thesis by (simp add: gps_row_def Let_def)
qed

lemma read_rows:
  "snd (fold (\<lambda>r. gps_row (ref_sqlite z n) 0 (at_row r)) (map data_row ms) (before, acc)) = acc @ read_log before ms"
  by (induction ms arbitrary: before acc) (simp_all add: gps_row_data Let_def)

lemma filter_data_rows:
  "filter (\<lambda>r. v \<longrightarrow> row_int ''valid'' r = 1) (map data_row ms) = map data_row (filter (\<lambda>m. v \<longrightarrow> gm_valid m) ms)"
  by (simp add: filter_map comp_def) (rule arg_cong[where f = "map data_row"], rule filter_cong, auto)

definition limit_cells :: "uint32 \<Rightarrow> (nat \<times> 'd cell) list" where
  "limit_cells limit = (if limit \<noteq> 0 then [(1, CInt (scast limit))] else [])"

lemma select_data_sql:
  fixes ms :: "'a gps_message list"
  assumes "rd_data w = map data_row ms" and "uint limit < 2 ^ 31"
  shows "run_sql (sql_select_data limit v) (rev (limit_cells limit)) w = (Inr (map data_row (newest limit v ms)), w)"
proof -
  have kind: "sql_kind_of (sql_select_data limit v) = SelectData v (limit \<noteq> 0)"
  proof (cases "limit = 0")
    case False
    hence "sql_select_data limit v = sql_select_data 1 v" by (simp add: sql_select_data_def)
    thus ?thesis using False by (simp only: sql_kinds simp_thms)
  qed simp
  have "sint limit = uint limit" unfolding sint_uint
    by (rule signed_take_bit_int_eq_self) (use assms(2) order_trans[OF _ uint_ge_0[of limit]] in simp_all)
  hence "nat (sint (scast limit :: int64)) = unat limit" by (simp add: sint_up_scast is_up)
  hence n: "limit \<noteq> 0 \<Longrightarrow> nat (sint (int_of (map_of (rev (limit_cells limit :: (nat \<times> 'a cell) list)) 1))) = unat limit"
    by (simp add: limit_cells_def int_of_def)
  have "sort_key (\<lambda>r. sint (row_int ''host_time'' r)) (map data_row xs) = map data_row (sort_key host_key xs)"
    for xs :: "'a gps_message list"
    using sort_key_map[of "\<lambda>r. sint (row_int ''host_time'' r)" data_row xs] by simp
  thus ?thesis using n
    unfolding run_sql_def kind run_kind.simps Let_def assms(1) filter_data_rows newest_def
    by (simp add: take_map rev_map)
qed

text \<open>A query whose rows are known.\<close>

lemma get_rows:
  assumes ref: "sqlite_refines V Q (ref_sqlite z n)" and "db_open b"
    and rows: "run_sql (sql_select_data limit v) (rev (limit_cells limit)) (V (db_world b)) = (Inr rows, V (db_world b))"
    and "length rows \<le> n"
  shows "fst (dbGetGpsData L Q limit v b) =
      (True, snd (fold (\<lambda>r. gps_row (ref_sqlite z n) 0 (at_row r)) rows (GpsMessage L, [])))"
    "db_open (snd (dbGetGpsData L Q limit v b))"
    "same_tables (V (db_world (snd (dbGetGpsData L Q limit v b)))) (V (db_world b))"
proof -
  let ?R = "ref_sqlite z n" and ?b = "db_view V b" and ?g = "\<lambda>r. gps_row (ref_sqlite z n) 0 (at_row r)"
  let ?binds = "\<lambda>st. if limit \<noteq> 0 then [sq_bind_int ?R st 1 limit] else []"
    and ?binds' = "\<lambda>st. if limit \<noteq> 0 then [sq_bind_int Q st 1 limit] else []"
  have b: "db_open ?b" and w: "db_world ?b = V (db_world b)" using assms(2) by (simp_all add: db_view_def)
  have binds: "?binds st = cell_binds st (limit_cells limit)" for st
    by (simp add: ref_sqlite_def cell_binds_def limit_cells_def)
  have row: "gps_row ?R st w a = ?g (current_row st w) a" for st w a
    by (rule gps_row_current) simp
  obtain u where q: "db_query ?R (sql_select_data limit v) ?binds (gps_row ?R) (GpsMessage L, []) ?b =
      ((True, fold ?g rows (GpsMessage L, [])), ?b\<lparr>db_world := u\<rparr>)" "same_tables u (V (db_world b))"
    using ref_query[where g = ?g, OF b binds rows[folded w] assms(4) row] w by metis
  have col: "each_column ?R st (gps_column ?R st) (V w) a = each_column Q st (gps_column Q st) w a" for st w a
    by (rule sim_each_column[OF ref]) (simp add: gps_column_def refines_columns[OF ref])
  have sim: "db_query ?R (sql_select_data limit v) ?binds (gps_row ?R) (GpsMessage L, []) ?b =
      (fst (db_query Q (sql_select_data limit v) ?binds' (gps_row Q) (GpsMessage L, []) b),
       db_view V (snd (db_query Q (sql_select_data limit v) ?binds' (gps_row Q) (GpsMessage L, []) b)))"
    by (rule sim_query[OF ref]) (simp_all add: refines_calls[OF ref] gps_row_def col)
  note both = sim[unfolded q(1) prod.inject]
  have "fst (dbGetGpsData L Q limit v b) = (True, snd (fold ?g rows (GpsMessage L, [])))"
    "db_view V (snd (dbGetGpsData L Q limit v b)) = ?b\<lparr>db_world := u\<rparr>"
    by (simp_all add: dbGetGpsData_def case_prod_unfold both[THEN conjunct1, symmetric] both[THEN conjunct2, symmetric])
  thus "fst (dbGetGpsData L Q limit v b) = (True, snd (fold ?g rows (GpsMessage L, [])))"
    "db_open (snd (dbGetGpsData L Q limit v b))"
    "same_tables (V (db_world (snd (dbGetGpsData L Q limit v b)))) (V (db_world b))"
    using q(2) assms(2) by (simp_all add: db_view_def)
qed

lemma newest_length: "length (newest limit v ms) \<le> length ms"
proof -
  have "length (filter (\<lambda>m. v \<longrightarrow> gm_valid m) ms) \<le> length ms" by simp
  thus ?thesis by (auto simp: newest_def Let_def intro: min.coboundedI1)
qed

lemma get_from_log:
  assumes ref: "sqlite_refines V Q (ref_sqlite z n)" and "holds_log V b ms" and "length ms \<le> n" and "uint limit < 2 ^ 31"
  shows "fst (dbGetGpsData L Q limit v b) = (True, read_log (GpsMessage L) (newest limit v ms))"
    "holds_log V (snd (dbGetGpsData L Q limit v b)) ms"
proof -
  have b: "db_open b" "rd_data (V (db_world b)) = map data_row ms" using assms(2) by (simp_all add: holds_log_def)
  have "length (map data_row (newest limit v ms)) \<le> n" using newest_length[of limit v ms] assms(3) by simp
  note get = get_rows[OF ref b(1) select_data_sql[OF b(2) assms(4), of v] this, of L]
  show "fst (dbGetGpsData L Q limit v b) = (True, read_log (GpsMessage L) (newest limit v ms))"
    using get(1) by (simp add: read_rows)
  show "holds_log V (snd (dbGetGpsData L Q limit v b)) ms"
    using get(2,3) b(2) by (simp add: holds_log_def same_tables_def)
qed

text \<open>The query for the last message leaves the tables as they are, whatever they hold.\<close>

lemma last_message_keeps:
  assumes ref: "sqlite_refines V Q (ref_sqlite z n)" and "db_open b" and "0 < n"
  shows "db_open (snd (dbGetGpsData L Q 1 v b))"
    "rd_settings (V (db_world (snd (dbGetGpsData L Q 1 v b)))) = rd_settings (V (db_world b))"
proof -
  obtain rows where "run_sql (sql_select_data 1 v) (rev (limit_cells 1)) (V (db_world b)) = (Inr rows, V (db_world b))" "length rows \<le> n"
    using assms(3) by (simp add: run_sql_def Let_def int_of_def limit_cells_def)
  note get = get_rows[OF ref assms(2) this, of L]
  show "db_open (snd (dbGetGpsData L Q 1 v b))" by (rule get(2))
  show "rd_settings (V (db_world (snd (dbGetGpsData L Q 1 v b)))) = rd_settings (V (db_world b))"
    using get(3) by (simp add: same_tables_def)
qed


text \<open>Two messages, of which the older has no time of the tracker.\<close>

definition older :: "int gps_message" where
  "older = (GpsMessage ref_lib)\<lparr>gm_keyword := ''help me'', gm_hostTime := Some 10, gm_valid := True\<rparr>"

definition newer :: "int gps_message" where
  "newer = (GpsMessage ref_lib)\<lparr>gm_keyword := ''tracker'', gm_trackerTime := Some 15, gm_hostTime := Some 20\<rparr>"

definition logged :: "int ref_db db" where
  "logged = \<lparr>db_open = True, db_world = ref_empty\<lparr>rd_data := map data_row [older, newer]\<rparr>\<rparr>"

lemma logged_holds: "holds_log id logged [older, newer]"
  by (simp add: holds_log_def logged_def)


section \<open>Reading after writing\<close>

lemma insort_key_append: "f x \<le> f r \<Longrightarrow> insort_key f x (ys @ [r]) = insort_key f x ys @ [r]"
  by (induction ys) auto

lemma sort_key_append_last: "\<forall>x\<in>set xs. f x \<le> f r \<Longrightarrow> sort_key f (xs @ [r]) = sort_key f xs @ [r]"
  by (induction xs) (simp_all add: insort_key_append)

lemma newest_last:
  assumes "\<forall>x\<in>set ms. host_key x < host_key m" and "v \<longrightarrow> gm_valid m"
  shows "newest 1 v (ms @ [m]) = [m]"
proof -
  have "sort_key host_key (filter (\<lambda>m. v \<longrightarrow> gm_valid m) ms @ [m]) =
      sort_key host_key (filter (\<lambda>m. v \<longrightarrow> gm_valid m) ms) @ [m]"
    by (rule sort_key_append_last) (use assms(1) in \<open>auto intro: less_imp_le\<close>)
  thus ?thesis using assms(2) by (simp add: newest_def)
qed

text \<open>Times that the table keeps.\<close>

definition time_kept :: "ptime \<Rightarrow> bool" where
  "time_kept t \<longleftrightarrow> (case t of None \<Rightarrow> True | Some s \<Rightarrow> s \<noteq> 0 \<and> - (2 ^ 63) \<le> s \<and> s < 2 ^ 63)"

lemma unix_time_kept:
  assumes "time_kept (Some s)"
  shows "sint (toUnixTime (Some s)) = s"
  using assms by (simp add: toUnixTime_def time_kept_def sint_sbintrunc' signed_take_bit_int_eq_self)

lemma read_time_kept: "time_kept t \<Longrightarrow> read_time None t = t"
proof (cases t)
  case (Some s)
  assume "time_kept t"
  hence s: "sint (toUnixTime (Some s)) = s" "s \<noteq> 0" using Some unix_time_kept by (simp_all add: time_kept_def)
  hence "toUnixTime (Some s) \<noteq> 0" by (metis signed_0)
  thus ?thesis using s Some by (simp add: read_time_def fromUnixTime_def)
qed (simp add: read_time_def toUnixTime_def)

lemma read_back:
  assumes ref: "sqlite_refines V Q (ref_sqlite z n)" and log: "holds_log V b ms" and "length ms < n"
    and "\<forall>x\<in>set ms. host_key x < host_key m" and "v \<longrightarrow> gm_valid m"
    and "time_kept (gm_trackerTime m)" and "time_kept (gm_hostTime m)"
  shows "fst (dbGetGpsData L Q 1 v (snd (dbAddGpsData Q m b))) = (True, [m])"
proof -
  have "read_over (GpsMessage L) m = m"
    using assms(6,7) by (simp add: read_over_def GpsMessage_def read_time_kept)
  thus ?thesis
    using get_from_log(1)[OF ref add_to_log(2)[OF ref log, of m], of 1 L v] assms(3) newest_last[OF assms(4,5)]
    by simp
qed

end
