(* ===== verification/StartupModel.thy ===== *)
theory StartupModel
  imports ProgramProps GpsDataProps
begin

text \<open>
  \<open>Application::main\<close> from the command line to the event loop: the path of the program, the options, the
  configuration file and the log (\<open>src/Application.cpp\<close>), and what a start of the program has to do with the
  runs of \<open>ProgramModel\<close> and with the runs before it.
\<close>

section \<open>Outside of the program\<close>

text \<open>
  What \<open>boost::program\_options\<close> makes of a command line: an exception, or whether \<open>help\<close> is given and the value of
  \<open>configuration\<close> (empty when the option stands alone).
\<close>

datatype po_result = PoError | PoVariables (po_help: bool) (po_configuration: "string option")

text \<open>\<open>ou\_read\<close> is \<open>read\_xml\<close> and \<open>ou\_write\<close> says whether \<open>write\_xml\<close> succeeds; None and False stand for
  \<open>xml\_parser\_error\<close>. \<open>ou\_extension\<close> is \<open>path::replace\_extension\<close>.\<close>

record outside =
  ou_options :: "string list \<Rightarrow> po_result"
  ou_extension :: "string \<Rightarrow> string \<Rightarrow> string"
  ou_read :: "string \<Rightarrow> ptree option"
  ou_write :: "string \<Rightarrow> ptree \<Rightarrow> bool"

section \<open>The command line\<close>

record program_paths =
  pp_application :: string
  pp_configuration :: string

definition no_paths :: program_paths where
  "no_paths = \<lparr>pp_application = [], pp_configuration = []\<rparr>"

text \<open>The branch for systems other than Windows.\<close>

definition setApplicationPath :: "string list \<Rightarrow> program_paths \<Rightarrow> bool \<times> program_paths" where
  "setApplicationPath argv p =
     (let p = (if argv \<noteq> [] then p\<lparr>pp_application := hd argv\<rparr> else p) in (pp_application p \<noteq> [], p))"

text \<open>None: the exception of the parser, which nothing catches.\<close>

definition parseCommandLine :: "outside \<Rightarrow> string list \<Rightarrow> program_paths \<Rightarrow> (bool \<times> program_paths) option" where
  "parseCommandLine S argv p =
     (case ou_options S argv of
        PoError \<Rightarrow> None
      | PoVariables help configuration \<Rightarrow>
          if help then Some (False, p)
          else (case configuration of
                  None \<Rightarrow> Some (True, p)
                | Some c \<Rightarrow> Some (True, p\<lparr>pp_configuration := c\<rparr>)))"

definition default_configuration :: "outside \<Rightarrow> program_paths \<Rightarrow> program_paths" where
  "default_configuration S p =
     (if pp_configuration p = [] then p\<lparr>pp_configuration := ou_extension S (pp_application p) ''.xml''\<rparr> else p)"

definition default_database :: "outside \<Rightarrow> program_paths \<Rightarrow> string" where
  "default_database S p = ou_extension S (pp_application p) ''.db''"

section \<open>The configuration file\<close>

definition saveConfiguration :: "outside \<Rightarrow> program_paths \<Rightarrow> ptree \<Rightarrow> bool" where
  "saveConfiguration S p settings = ou_write S (pp_configuration p) settings"

text \<open>The chat commands that load and save it, with the file they work on.\<close>

definition load_command :: "outside \<Rightarrow> program_paths \<Rightarrow> ('d, 'f, 'w) env \<Rightarrow> 'f message \<Rightarrow> ('m, 'd, 'w) world \<Rightarrow> ('m, 'd, 'w) world" where
  "load_command S p E = handleLoadCommand E (ou_read S (pp_configuration p))"

definition save_command :: "outside \<Rightarrow> program_paths \<Rightarrow> ('d, 'f, 'w) env \<Rightarrow> 'f message \<Rightarrow> ('m, 'd, 'w) world \<Rightarrow> ('m, 'd, 'w) world" where
  "save_command S p E m x = handleSaveCommand E (saveConfiguration S p (ap_settings (app_of x))) m x"

section \<open>The log\<close>

type_synonym uintmax = "64 word"

record log_config =
  lg_sslThreshold :: int32
  lg_dateTimeFormat :: string
  lg_file :: "(string \<times> uintmax) option"
  lg_level :: int32

text \<open>The size is read as an \<open>int\<close>, the type of the default, and then converted to \<open>uintmax\_t\<close>.\<close>

definition rotation_size :: "('d, 'f) lib \<Rightarrow> ptree \<Rightarrow> uintmax" where
  "rotation_size L settings =
     (let rotationSize = scast (get_int32_d L settings ''log.rotation_size'' 0)
      in if rotationSize = 0 then - 1 else rotationSize)"

definition configureLog :: "('d, 'f) lib \<Rightarrow> ptree \<Rightarrow> log_config" where
  "configureLog L settings =
     (let dateTimeFormat = get_str_d settings ''log.date_time_format'' ''%d-%m-%Y, %H:%M:%S'';
          file = get_str_d settings ''log.file'' [];
          level = get_int32_d L settings ''log.level'' 0;
          ssl_level = get_int32_d L settings ''log.ssl_level'' 0
      in \<lparr>lg_sslThreshold = ssl_level, lg_dateTimeFormat = dateTimeFormat,
          lg_file = (if file \<noteq> [] then Some (file, rotation_size L settings) else None), lg_level = level\<rparr>)"

section \<open>main\<close>

text \<open>How \<open>main\<close> goes: it returns early, an exception leaves it, or it enters the event loop with these paths and
  this log (and returns 0 when the loop has nothing left to wait for).\<close>

datatype main_end = Returns int | Throws | Loop program_paths log_config

definition app_main ::
  "outside \<Rightarrow> ('d, 'f, 'w) env \<Rightarrow> listen_results \<Rightarrow> string list \<Rightarrow> ('m, 'd, 'w) system \<Rightarrow> main_end \<times> ('m, 'd, 'w) system" where
  "app_main S E r argv x =
     (case setApplicationPath argv no_paths of
        (False, p) \<Rightarrow> (Returns (- 1), x)
      | (True, p) \<Rightarrow>
          (case parseCommandLine S argv p of
             None \<Rightarrow> (Throws, x)
           | Some (False, p) \<Rightarrow> (Returns (- 1), x)
           | Some (True, p) \<Rightarrow>
               (let p = default_configuration S p
                in case loadConfiguration (ou_read S (pp_configuration p)) (world_of x) of
                     (False, w) \<Rightarrow> (Returns (- 1), on_world (\<lambda>_. w) x)
                   | (True, w) \<Rightarrow>
                       (let x = on_world (\<lambda>_. w) x;
                            lg = configureLog (en_lib E) (setting x)
                        in (Loop p lg, program_start E (default_database S p) r x)))))"

text \<open>\<open>Main.cpp\<close>: a new application, whose settings are empty, runs its \<open>main\<close>.\<close>

definition program_main ::
  "outside \<Rightarrow> ('d, 'f, 'w) env \<Rightarrow> listen_results \<Rightarrow> string list \<Rightarrow> 'm \<Rightarrow> 'w \<Rightarrow> int \<Rightarrow> main_end \<times> ('m, 'd, 'w) system" where
  "program_main S E r argv m w now = app_main S E r argv (program_init E m (PT [] []) w now)"

section \<open>The start of a run\<close>

text \<open>What decides whether the program starts: the tree in the configuration file.\<close>

definition configuration_file :: "outside \<Rightarrow> string \<Rightarrow> string option \<Rightarrow> string" where
  "configuration_file S path c =
     (case c of Some (x # xs) \<Rightarrow> x # xs | _ \<Rightarrow> ou_extension S path ''.xml'')"

fun given_configuration :: "outside \<Rightarrow> string list \<Rightarrow> ptree option" where
  "given_configuration S [] = None"
| "given_configuration S (path # argv) =
     (if path = [] then None
      else (case ou_options S (path # argv) of
              PoVariables False c \<Rightarrow> ou_read S (configuration_file S path c)
            | _ \<Rightarrow> None))"

lemma load_into_init:
  "loadConfiguration (Some t) (world_of (program_init E m s w now)) = (True, world_of (program_init E m t w now))"
  by (simp add: loadConfiguration_def program_init_def world_of_def app_upd_def app_of_def app_init_def)

lemma init_on_world:
  "on_world (\<lambda>_. world_of (program_init E m t w now)) (program_init E m s w now) = program_init E m t w now"
  by (simp add: on_world_def world_of_def program_init_def)

lemma setting_init: "setting (program_init E m t w now) = t"
  by (simp add: setting_def program_init_def world_of_def app_of_def app_init_def)

text \<open>Where \<open>main\<close> ends: before the configuration is read, or at the loop with it.\<close>

lemma main_refused:
  assumes "given_configuration S argv = None"
  shows "app_main S E r argv (program_init E m s w now) \<in> {Throws, Returns (- 1)} \<times> {program_init E m s w now}"
  using assms
  by (cases argv)
     (auto simp: app_main_def setApplicationPath_def no_paths_def parseCommandLine_def default_configuration_def Let_def
       configuration_file_def loadConfiguration_def on_world_def world_of_def
       split: po_result.splits option.splits list.splits if_splits bool.splits)

lemma main_accepted:
  assumes "given_configuration S argv = Some t"
  shows "\<exists>p. pp_application p = hd argv \<and> ou_read S (pp_configuration p) = Some t \<and>
    app_main S E r argv (program_init E m s w now) =
      (Loop p (configureLog (en_lib E) t), program_start E (ou_extension S (hd argv) ''.db'') r (program_init E m t w now))"
proof (cases argv)
  case (Cons path args)
  with assms obtain c where c: "path \<noteq> []" "ou_options S argv = PoVariables False c" "ou_read S (configuration_file S path c) = Some t"
    by (auto split: if_splits po_result.splits bool.splits)
  let ?p = "\<lparr>pp_application = path, pp_configuration = configuration_file S path c\<rparr>"
  have "pp_configuration ?p = (case c of Some (x # xs) \<Rightarrow> x # xs | _ \<Rightarrow> ou_extension S path ''.xml'')"
    by (simp add: configuration_file_def)
  hence "app_main S E r argv (program_init E m s w now) =
      (Loop ?p (configureLog (en_lib E) t), program_start E (ou_extension S path ''.db'') r (program_init E m t w now))"
    using c Cons
    by (auto simp: app_main_def setApplicationPath_def no_paths_def parseCommandLine_def default_configuration_def Let_def
        load_into_init init_on_world setting_init default_database_def configuration_file_def split: option.split list.split)
  thus ?thesis using c(3) Cons by (intro exI[of _ ?p]) simp
qed (use assms in simp)

text \<open>Property C39. \<open>main\<close> reaches the event loop exactly when the command line is understood, does not ask for
  help and leads to a configuration file that can be read. It is then in the state of a run of the program
  with that configuration, so every property of the runs holds; otherwise it returns \<open>-1\<close>, or ends with the exception
  of the options' parser, before any socket, timer or database is touched.\<close>

theorem main_starts_run:
  "case program_main S E r argv m w now of
     (Loop p lg, y) \<Rightarrow> given_configuration S argv = ou_read S (pp_configuration p) \<and> pp_application p = hd argv \<and>
       (\<exists>t. given_configuration S argv = Some t \<and> lg = configureLog (en_lib E) t \<and>
         y = program_start E (ou_extension S (hd argv) ''.db'') r (program_init E m t w now)) \<and>
       program_reach n M E y
   | (e, y) \<Rightarrow> given_configuration S argv = None \<and> e \<in> {Throws, Returns (- 1)} \<and> y = program_init E m (PT [] []) w now"
proof (cases "given_configuration S argv")
  case None
  thus ?thesis using main_refused[OF None, of E r m "PT [] []" w now] by (auto simp: program_main_def)
next
  case (Some t)
  obtain p where "pp_application p = hd argv" "ou_read S (pp_configuration p) = Some t"
      "app_main S E r argv (program_init E m (PT [] []) w now) =
       (Loop p (configureLog (en_lib E) t), program_start E (ou_extension S (hd argv) ''.db'') r (program_init E m t w now))"
    using main_accepted[OF Some, of E r m "PT [] []" w now] by blast
  thus ?thesis by (simp add: Some preach_start program_main_def)
qed

section \<open>The size of a log file\<close>

lemma int_to_uintmax:
  fixes i :: int
  assumes "- (2 ^ 31) \<le> i" "i < 2 ^ 31"
  shows "i mod 2 ^ 64 = (if i < 0 then 2 ^ 64 + i else i)"
proof (cases "i < 0")
  case True
  have "i mod 2 ^ 64 = (2 ^ 64 + i) mod 2 ^ 64" by simp
  also have "\<dots> = 2 ^ 64 + i" using assms True by (intro mod_pos_pos_trivial) simp_all
  finally show ?thesis using True by simp
qed (use assms in simp)

lemma scast_uintmax: "uint (scast (x :: int32) :: uintmax) = (if sint x < 0 then 2 ^ 64 + sint x else sint x)"
proof -
  have "uint (scast x :: uintmax) = sint x mod 2 ^ 64" unfolding scast_eq uint_word_of_int by simp
  moreover have "- (2 ^ 31) \<le> sint x" "sint x < 2 ^ 31" using sint_range_size[of x] by (simp_all add: word_size)
  ultimately show ?thesis using int_to_uintmax[of "sint x"] by simp
qed

text \<open>The size at which the log file is changed is never 0, and it is a value from 1 to \<open>2 ^ 31 - 1\<close> or one of the
  \<open>2 ^ 31\<close> largest of its 64 bits: no size between 2 GiB and these can be configured, since the setting is read at the width
  of an \<open>int\<close>, and a negative one becomes a huge one.\<close>

lemma rotation_size_range:
  "(let i = sint (get_int32_d L settings ''log.rotation_size'' 0)
    in uint (rotation_size L settings) = (if i = 0 then 2 ^ 64 - 1 else if i < 0 then 2 ^ 64 + i else i)) \<and>
   uint (rotation_size L settings) \<in> {1 ..< 2 ^ 31} \<union> {2 ^ 64 - 2 ^ 31 ..< 2 ^ 64}"
proof -
  let ?i = "get_int32_d L settings ''log.rotation_size'' 0"
  have z: "(scast ?i :: uintmax) = 0 \<longleftrightarrow> sint ?i = 0"
    using scast_uintmax[of ?i] sint_range_size[of ?i] by (auto simp: word_size uint_0_iff split: if_splits)
  have "uint (rotation_size L settings) = (if sint ?i = 0 then 2 ^ 64 - 1 else if sint ?i < 0 then 2 ^ 64 + sint ?i else sint ?i)"
    using z scast_uintmax[of ?i] by (simp add: rotation_size_def Let_def unsigned_minus_1_eq_mask mask_eq_exp_minus_1)
  thus ?thesis using sint_range_size[of ?i] by (simp add: Let_def word_size)
qed

section \<open>A restart\<close>

text \<open>What is in the table of settings after it was saved, and that opening and querying the database leave it.\<close>

lemma saved_settings:
  fixes Q :: "('d, 'w) sqlite"
  assumes ref: "sqlite_refines V Q (ref_sqlite z n)" and "db_open b" and "distinct (map us_id us)"
  shows "rd_settings (V (db_world (snd (dbSaveSettings Q us b)))) = map setting_row us"
proof -
  let ?b = "(db_view V b)\<lparr>db_world := (V (db_world b))\<lparr>rd_settings := []\<rparr>\<rparr>"
  have "db_open ?b" using assms(2) by (simp add: db_view_def)
  then obtain b' where "save_each (ref_sqlite z n) us ?b = (True, b')" "rd_settings (db_world b') = map setting_row us"
    using ref_save_each[of ?b us z n] assms(3) by auto
  hence "rd_settings (db_world (snd (dbSaveSettings (ref_sqlite z n) us (db_view V b)))) = map setting_row us"
    using assms(2) by (simp add: dbSaveSettings_def db_exec_def db_lift_def ref_exec_def sqlite_codes db_view_def)
  thus ?thesis by (simp add: sim_save[OF ref]) (simp add: db_view_def)
qed

lemma exec_keeps:
  assumes ref: "sqlite_refines V Q (ref_sqlite z n)" and "db_open b" and "sql \<noteq> sql_delete_settings"
  shows "fst (db_exec Q sql b) = SQLITE_OK" "db_view V (snd (db_exec Q sql b)) = db_view V b"
proof -
  have "db_exec (ref_sqlite z n) sql (db_view V b) = (SQLITE_OK, db_view V b)"
    using assms(2,3) by (simp add: db_exec_def db_lift_def ref_exec_def db_view_def)
  thus "fst (db_exec Q sql b) = SQLITE_OK" "db_view V (snd (db_exec Q sql b)) = db_view V b"
    using sim_exec[OF ref, of sql b] by simp_all
qed

lemma view_eqD: "db_view V a = db_view V b \<Longrightarrow> db_open a = db_open b \<and> V (db_world a) = V (db_world b)"
  by (simp add: db_view_def)

lemma exec_all_keeps:
  assumes ref: "sqlite_refines V Q (ref_sqlite z n)"
  shows "db_open b \<Longrightarrow> sql_delete_settings \<notin> set ss \<Longrightarrow>
    fst (exec_all Q ss b) \<and> db_view V (snd (exec_all Q ss b)) = db_view V b"
proof (induction ss arbitrary: b)
  case (Cons s ss)
  have s: "fst (db_exec Q s b) = SQLITE_OK" "db_view V (snd (db_exec Q s b)) = db_view V b"
    using exec_keeps[OF ref Cons.prems(1), of s] Cons.prems(2) by auto
  thus ?case using Cons.IH[of "snd (db_exec Q s b)"] Cons.prems view_eqD[OF s(2)] by (simp add: case_prod_unfold)
qed simp

lemma opened_settings:
  assumes ref: "sqlite_refines V Q (ref_sqlite z n)" and "sq_open Q f (db_world b) = (SQLITE_OK, w)"
  shows "db_open (openDatabase Q f b)" "V (db_world (openDatabase Q f b)) = V w"
proof -
  have "sql_delete_settings \<notin> set [sqlUsers, sqlData, sqlSettings]"
    by (simp add: sql_delete_settings_def sqlUsers_def sqlData_def sqlSettings_def)
  hence e: "fst (exec_all Q [sqlUsers, sqlData, sqlSettings] (b\<lparr>db_world := w, db_open := True\<rparr>))"
    "db_view V (snd (exec_all Q [sqlUsers, sqlData, sqlSettings] (b\<lparr>db_world := w, db_open := True\<rparr>))) =
      db_view V (b\<lparr>db_world := w, db_open := True\<rparr>)"
    using exec_all_keeps[OF ref, of "b\<lparr>db_world := w, db_open := True\<rparr>"] by (simp_all del: exec_all.simps)
  have "openDatabase Q f b = snd (exec_all Q [sqlUsers, sqlData, sqlSettings] (b\<lparr>db_world := w, db_open := True\<rparr>))"
    using e(1) assms(2)
    by (simp add: openDatabase_def Let_def case_prod_unfold del: exec_all.simps split: bool.split)
  thus "db_open (openDatabase Q f b)" "V (db_world (openDatabase Q f b)) = V w"
    using view_eqD[OF e(2)] by simp_all
qed

lemma restored_settings:
  assumes ref: "sqlite_refines V Q (ref_sqlite z n)" and "db_open b" and "rd_settings (V (db_world b)) = map setting_row us" and "length us \<le> n"
  shows "fst (restore_userSettings Q b) = sort_key (\<lambda>u. sint (us_id u)) us"
  using ref_restore[of "db_view V b" us n z] assms(2-4) sim_restore[OF ref, of b] by (simp add: db_view_def)

lemma startTelegram_app [simp]: "app_of (startTelegram E x) = app_of x"
  by (simp add: startTelegram_def Let_def getMe_def bot_start_def bot_handleIdle_def getUpdates_def setApiUrl_def setToken_def
      setReconnectDelay_def)

lemma start_settings:
  fixes E :: "('d, 'f, 'w) env" and m :: 'm
  assumes ref: "sqlite_refines V (en_sqlite E) (ref_sqlite z n)" and "length us \<le> n" and "0 < n"
    and "sq_open (en_sqlite E) (if get_str_d conf ''database.file'' [] = [] then dbFile else get_str_d conf ''database.file'' []) w =
      (SQLITE_OK, w')"
    and "rd_settings (V w') = map setting_row us"
  shows "ap_userSettings (app_of (world_of (program_start E dbFile r (program_init E m conf w now)))) = sort_key (\<lambda>u. sint (us_id u)) us"
proof -
  let ?x = "on_world (app_openDatabase E dbFile) (program_init E m conf w now)"
  let ?b = "ap_db (app_of (world_of ?x))"
  have b: "db_open ?b" "V (db_world ?b) = V w'"
    using opened_settings[OF ref, of _ "\<lparr>db_open = False, db_world = w\<rparr>"] assms(4)
    by (simp_all add: app_openDatabase_def Let_def program_init_def world_of_def app_of_def app_init_def on_world_def app_upd_def)
  have "fst (restore_userSettings (en_sqlite E) (snd (dbGetGpsData (en_lib E) (en_sqlite E) 1 False ?b))) = sort_key (\<lambda>u. sint (us_id u)) us"
    by (rule restored_settings[OF ref last_message_keeps(1)[OF ref b(1) assms(3)] _ assms(2)])
      (simp only: last_message_keeps(2)[OF ref b(1) assms(3)] b(2) assms(5))
  hence "ap_userSettings (app_of (dbRestoreSettings E (world_of ?x))) = sort_key (\<lambda>u. sint (us_id u)) us"
    by (simp add: dbRestoreSettings_def case_prod_unfold db_do_def Let_def)
  moreover have "world_of (startReceiver E r y) = world_of y" if "lk_authorized (link_of y) = None" for y :: "('m, 'd, 'w) system"
    using that by (simp add: startReceiver_def server_listen_def session_notify_def receiver_handler_def handleTcpServerError_def
        clear_devices_def Let_def split: option.split)
  moreover have "world_of (startTransmitter E y) = world_of y" for y :: "('m, 'd, 'w) system"
    by (simp add: startTransmitter_def Let_def)
  moreover have "lk_authorized (link_of (program_init E m conf w now)) = None"
    by (simp add: program_init_def link_of_def link_init_def)
  ultimately show ?thesis by (simp add: program_start_def Let_def)
qed

lemma modes_sort: "distinct (map us_id us) \<Longrightarrow> modes (sort_key f us) = modes us"
  unfolding modes_def by (subst map_of_inject_set) (simp_all add: o_def distinct_map image_image inj_on_def)

lemma arm_saves:
  assumes "msg_from m = Some t" and "arm_mode (en_lib E) command = Some status"
  shows "ap_db (app_of (handleArmCommand E command m x)) =
    snd (dbSaveSettings (en_sqlite E) (ap_userSettings (app_of (handleArmCommand E command m x))) (ap_db (app_of x)))"
  using assms
  by (simp add: handleArmCommand_def Let_def save_or_tell_def app_save_def case_prod_unfold db_do_app split: option.split)

lemma set_status_length: "set_status i st us = Some vs \<Longrightarrow> length vs = length us"
  using set_status_modes[of i st us vs] by (metis length_map)

text \<open>Property C14. Arming survives a restart: after a user's \<open>/arm\<close> with the database open, every later start of the
  program (with any configuration, clock and network) whose database file opens with the table of settings as it was left
  comes up with that user in the mode he chose and everyone else as before, whatever else happened to the
  database.\<close>

theorem arming_survives_restart:
  fixes E :: "('d, 'f, 'w) env" and x :: "('m, 'd, 'w) world" and m' :: 'n
  assumes ref: "sqlite_refines V (en_sqlite E) (ref_sqlite z n)"
    and "msg_from m = Some t" and "arm_mode (en_lib E) command = Some status"
    and "db_open (ap_db (app_of x))" and "distinct (map us_id (ap_userSettings (app_of x)))"
    and "length (ap_userSettings (app_of x)) < n"
    and "sq_open (en_sqlite E) (if get_str_d conf ''database.file'' [] = [] then dbFile else get_str_d conf ''database.file'' []) w =
      (SQLITE_OK, w')"
    and "rd_settings (V w') = rd_settings (V (db_world (ap_db (app_of (handleArmCommand E command m x)))))"
  shows "modes (ap_userSettings (app_of (world_of (program_start E dbFile r (program_init E m' conf w now))))) =
    (modes (ap_userSettings (app_of x)))(usr_id t \<mapsto> status)"
proof -
  let ?us = "ap_userSettings (app_of (handleArmCommand E command m x))"
  have arm: "modes ?us = (modes (ap_userSettings (app_of x)))(usr_id t \<mapsto> status)" "distinct (map us_id ?us)"
    using assms(3,5) by (simp_all add: arm_modes[OF assms(2)])
  have "?us = (case set_status (usr_id t) status (ap_userSettings (app_of x)) of
      Some us \<Rightarrow> us | None \<Rightarrow> ap_userSettings (app_of x) @ [new_settings\<lparr>us_id := usr_id t, us_status := status\<rparr>])"
    using assms(2,3) by (simp add: handleArmCommand_def Let_def split: option.split)
  hence len: "length ?us \<le> n" "0 < n" using assms(6) by (auto dest: set_status_length split: option.splits)
  have "rd_settings (V w') = map setting_row ?us"
    unfolding assms(8) arm_saves[OF assms(2,3)] by (rule saved_settings[OF ref assms(4) arm(2)])
  thus ?thesis using arm by (simp add: start_settings[OF ref len assms(7)] modes_sort)
qed

definition armed :: "(unit, int, int ref_db) world" where
  "armed = handleArmCommand ref_env [''/arm'', ''Insane''] (ref_message (Some ref_user) []) ref_world"

theorem arming_survives_restart_witness:
  "modes (ap_userSettings (app_of (world_of (program_start ref_env ''tracker.db'' all_well
     (program_init ref_env () (PT [] []) (db_world (ap_db (app_of armed))) 0))))) = (modes (ap_userSettings ref_app))(8 \<mapsto> STATUS_INSANE)"
proof -
  have arm: "arm_mode (en_lib ref_env) [''/arm'', ''Insane''] = Some STATUS_INSANE" by code_simp
  have db: "en_sqlite ref_env = ref_sqlite 0 100" by (simp add: ref_env_def)
  have opens: "sq_open (en_sqlite ref_env) f w = (SQLITE_OK, w)" for f w by (simp add: db ref_sqlite_def)
  have "modes (ap_userSettings (app_of (world_of (program_start ref_env ''tracker.db'' all_well
     (program_init ref_env () (PT [] []) (db_world (ap_db (app_of armed))) 0))))) =
     (modes (ap_userSettings (app_of ref_world)))(usr_id ref_user \<mapsto> STATUS_INSANE)"
    by (rule arming_survives_restart[where V = id and z = 0 and n = 100 and m = "ref_message (Some ref_user) []", OF _ _ arm _ _ _ opens])
       (simp_all add: db sqlite_refines_refl ref_app_def armed_def)
  thus ?thesis by (simp add: ref_user_def)
qed

end
