(* ===== verification/LocationProps.thy ===== *)
theory LocationProps
  imports ReceiverProps GpsDataProps CommandsModel
begin

text \<open>
  The way of a position through the program: from the tracker's session over the events and the database to
  the answer of \<open>/where\<close>.
\<close>

section \<open>A position message of the authorised tracker\<close>

lemma parse_gps_text:
  assumes "parse_gps E now args = GpsOk m"
  shows "args ! 0 \<noteq> []" "args ! 0 \<noteq> ''##''" "gm_hostTime m = Some now"
proof -
  have i: "imei_prefixed (args ! 0)" using assms by (simp add: parse_gps_def split: if_splits)
  thus "args ! 0 \<noteq> []" "args ! 0 \<noteq> ''##''" by (auto simp: imei_prefixed_def)
  show "gm_hostTime m = Some now"
    using assms by (auto simp: parse_gps_def parse_fix_def Let_def split: if_splits option.splits)
qed

text \<open>The one command of a packet that is a position message becomes an event, and the session goes on.\<close>

definition reports :: "('d, 'f, 'w) env \<Rightarrow> string \<Rightarrow> string \<Rightarrow> int \<Rightarrow> 'd gps_message \<Rightarrow> bool" where
  "reports E buffer d now m \<longleftrightarrow>
     (let s = strip_lines (en_lib E) (buffer @ d)
      in case frames s of
           [c] \<Rightarrow> (let args = split_any (en_lib E) c '',''
                   in c \<noteq> [] \<and> length (frame_rest s) \<le> BUFFER_LIMIT \<and> (length args = 6 \<or> 11 < length args) \<and>
                      parse_gps E now args = GpsOk m)
         | _ \<Rightarrow> False)"

lemma process_report:
  assumes "authorized_is i x" and "de_imei (device_of i x) \<noteq> []" and "c \<noteq> []"
    and "args = split_any (en_lib E) c '',''" and "length args = 6 \<or> 11 < length args"
    and "parse_gps E (now_of x) args = GpsOk m" and "\<not> crashed (tracker_event E m x)"
  shows "process_command E i c x = (True, handleDeviceCommand E args (tracker_event E m x))"
proof -
  note a = parse_gps_text[OF assms(6)]
  have d: "device_command E i args x = ((True, True), tracker_event E m x)"
    using assms(1,2,5,6) a by (auto simp: device_command_def commandGpsData_def)
  have "device_of i (tracker_event E m x) = device_of i x" "authorized_is i (tracker_event E m x)"
    using assms(1) by (simp_all add: tracker_event_def device_of_def authorized_is_def)
  thus ?thesis using assms(2,3,5,7) a
    by (auto simp: process_command_def Let_def assms(4)[symmetric] d)
qed

lemma event_world:
  assumes "bot_ready (bot_of w)" and "\<not> faulty w" and "host_text E m = Some host"
  shows "\<not> faulty (handleTrackerEvent E m w)" "bot_of (handleTrackerEvent E m w) = bot_of w"
    "ap_db (app_of (handleTrackerEvent E m w)) = snd (dbAddGpsData (en_sqlite E) m (ap_db (app_of w)))"
  using notify_enqueue[OF assms(3,1,2)] assms(2)
  by (simp_all add: handleTrackerEvent_def Let_def db_do_upd app_upd_upd)

lemma receive_report:
  assumes "lk_devices (link_of x) i \<noteq> None" and "authorized_is i x" and "de_imei (device_of i x) \<noteq> []"
    and "reports E (de_buffer (device_of i x)) d (now_of x) m" and "\<not> crashed (tracker_event E m x)"
  shows "world_of (handleTcpSessionReceivedData E i d x) = handleTrackerEvent E m (world_of x)"
proof -
  let ?s = "strip_lines (en_lib E) (de_buffer (device_of i x) @ d)"
  obtain c where c: "frames ?s = [c]" "c \<noteq> []" "length (frame_rest ?s) \<le> BUFFER_LIMIT"
    and args: "length (split_any (en_lib E) c '','') = 6 \<or> 11 < length (split_any (en_lib E) c '','')"
      "parse_gps E (now_of x) (split_any (en_lib E) c '','') = GpsOk m"
    using assms(4) by (auto simp: reports_def Let_def split: list.splits)
  have run: "run_frames E i (frames ?s) x = (True, handleDeviceCommand E (split_any (en_lib E) c '','') (tracker_event E m x))"
    using process_report[OF assms(2,3) c(2) refl args assms(5)] by (simp add: c(1))
  have "world_of (processData E i d x) = handleTrackerEvent E m (world_of x)"
    using process_frames[of E i x d] c(3) by (simp add: run) (simp add: handleDeviceCommand_def Let_def tracker_event_def)
  thus ?thesis using assms(1) by (simp add: handleTcpSessionReceivedData_def)
qed

section \<open>What the users are told\<close>

lemma last_data_answer:
  assumes "fst (dbGetGpsData (en_lib E) (en_sqlite E) 1 v (ap_db (app_of w))) = (True, [m])"
    and "bot_ready (bot_of w)" and "host_text E m = Some host" and "msg_from q = Some t"
  shows "last_data E v none q w =
    enqueue (gps_requests E (bot_of w) m host (usr_id t)) (snd (db_do (dbGetGpsData (en_lib E) (en_sqlite E) 1 v) w))"
  using assms(1,2,4) sendGpsStatus_enqueue[OF _ assms(3), of "snd (db_do (dbGetGpsData (en_lib E) (en_sqlite E) 1 v) w)"]
  by (simp add: last_data_def case_prod_unfold db_do_app)

text \<open>Property C4. A position reaches the users: when a packet brings the authorised tracker's position message to completion, the
  message is recorded as the newest one, and the next \<open>/status\<close> answers its sender with it (the location,
  if it is valid, and the text); so does the next \<open>/where\<close> if the position is valid. This holds for every
  SQLite that refines the reference, as long as the clock runs forward and the times fit into a row.\<close>

theorem report_reaches_users:
  assumes "sqlite_refines V (en_sqlite E) (ref_sqlite z n)" and "holds_log V (ap_db (app_of (world_of x))) ms" and "length ms < n"
    and "lk_devices (link_of x) i \<noteq> None" and "authorized_is i x" and "de_imei (device_of i x) \<noteq> []"
    and "\<not> crashed x" and "bot_ready (bot_of (world_of x))"
    and "reports E (de_buffer (device_of i x)) d (now_of x) m" and "host_text E m = Some host"
    and "\<forall>p\<in>set ms. host_key p < now_of x" and "time_kept (gm_trackerTime m)" and "time_kept (Some (now_of x))"
    and "msg_from q = Some t" and "w = world_of (handleTcpSessionReceivedData E i d x)"
  shows "holds_log V (ap_db (app_of w)) (ms @ [m]) \<and>
    handleStatusCommand E q w =
      enqueue (gps_requests E (bot_of w) m host (usr_id t)) (snd (db_do (dbGetGpsData (en_lib E) (en_sqlite E) 1 False) w)) \<and>
    (gm_valid m \<longrightarrow> handleWhereCommand E q w =
      enqueue (gps_requests E (bot_of w) m host (usr_id t)) (snd (db_do (dbGetGpsData (en_lib E) (en_sqlite E) 1 True) w)))"
proof -
  have "\<not> faulty (world_of x)" using assms(7) by (simp add: crashed_def)
  note event = event_world[OF assms(8) this assms(10)]
  have w: "w = handleTrackerEvent E m (world_of x)"
    using receive_report[OF assms(4-6,9)] event(1) assms(15) by (simp add: crashed_def tracker_event_def)
  have host: "gm_hostTime m = Some (now_of x)"
    using assms(9) parse_gps_text(3) by (auto simp: reports_def Let_def split: list.splits)
  hence key: "\<forall>p\<in>set ms. host_key p < host_key m" using assms(11) unix_time_kept[OF assms(13)] by (simp add: host_key_def)
  have got: "fst (dbGetGpsData (en_lib E) (en_sqlite E) 1 v (ap_db (app_of w))) = (True, [m])" if "v \<longrightarrow> gm_valid m" for v
    using read_back[OF assms(1-3) key that assms(12)] assms(13) host event(3) w by simp
  have bot: "bot_ready (bot_of w)" using event(2) assms(8) w by simp
  show ?thesis
    unfolding handleStatusCommand_def handleWhereCommand_def
    using add_to_log(2)[OF assms(1,2), of m] event(3) w last_data_answer[OF got bot assms(10,14)] by simp
qed

text \<open>A library that reads the numbers of a report, and the report.\<close>

definition report_env :: "(int, int, int ref_db) env" where
  "report_env = ref_env\<lparr>en_lib := point_lib, en_iso := \<lambda>_. Some 900\<rparr>"

definition report_text :: string where
  "report_text = ''imei:123456789012345,tracker,161023120000,,F,,A,5530.0,N,03736.0,E,5;''"

definition reported :: "int gps_message" where
  "reported = \<lparr>gm_imei = ''123456789012345'', gm_keyword = ''tracker'', gm_phone = [], gm_trackerTime = Some 900,
     gm_hostTime = Some 1000, gm_latitude = 55, gm_longitude = 37, gm_speed = 5, gm_valid = True\<rparr>"

theorem report_reaches_users_witness:
  "let w = world_of (handleTcpSessionReceivedData report_env 0 report_text ref_system)
   in holds_log id (ap_db (app_of w)) [reported] \<and>
      handleWhereCommand report_env (ref_message (Some ref_user) ''/where'') w =
        enqueue (gps_requests report_env (bot_of w) reported (the (host_text report_env reported)) 8)
          (snd (db_do (dbGetGpsData point_lib (ref_sqlite 0 100) 1 True) w))"
proof -
  have env: "en_sqlite report_env = ref_sqlite 0 100" "en_lib report_env = point_lib"
    by (simp_all add: report_env_def ref_env_def)
  have log: "holds_log id (ap_db (app_of (world_of ref_system))) []"
    by (simp add: holds_log_def ref_app_def ref_empty_def)
  have now: "now_of ref_system = 1000" by (simp add: now_of_def ref_app_def app_init_def)
  have rep: "reports report_env (de_buffer ref_device) report_text 1000 reported" by code_simp
  have host: "host_text report_env reported = Some (the (host_text report_env reported))" by code_simp
  have times: "time_kept (gm_trackerTime reported)" "time_kept (Some 1000)"
    by (simp_all add: time_kept_def reported_def)
  have "gm_valid reported" "de_imei ref_device \<noteq> []" by (simp_all add: reported_def ref_device_def)
  moreover have "sqlite_refines id (en_sqlite report_env) (ref_sqlite 0 100)" unfolding env by (rule sqlite_refines_refl)
  ultimately show ?thesis
    using report_reaches_users[OF _ log, of report_env 0 100 0 report_text reported "the (host_text report_env reported)"
        "ref_message (Some ref_user) ''/where''" ref_user, OF _ _ _ _ _ _ _ _ _ _ _ _ _ refl] rep host times
    by (simp add: env now authorized_is_def Let_def) (simp add: ref_user_def)
qed

end
