(* ===== verification/AccessProps.thy ===== *)
theory AccessProps
  imports CommandsModel DatabaseProps
begin

text \<open>
  The table of users as a map from users to access levels, and what the commands of a user do to it: the way
  from a code of the configuration to the right to arm the alarm.
\<close>

section \<open>The levels of the users\<close>

text \<open>A user without a row has no access.\<close>

definition access_levels :: "'d ref_db \<Rightarrow> int64 \<Rightarrow> uint32" where
  "access_levels w i = (case matching i w of [] \<Rightarrow> ACCESS_DEFAULT | r # _ \<Rightarrow> ucast (row_int ''access'' r))"

definition users_open :: "('w \<Rightarrow> 'd ref_db) \<Rightarrow> 'w db \<Rightarrow> bool" where
  "users_open V b \<longleftrightarrow> db_open b \<and> users_ok (V (db_world b))"

definition level_in :: "('w \<Rightarrow> 'd ref_db) \<Rightarrow> 'w db \<Rightarrow> int64 \<Rightarrow> uint32" where
  "level_in V b = access_levels (V (db_world b))"

lemma user_row_access [simp]: "ucast (row_int ''access'' (user_row t a)) = a"
  by (simp add: row_int_def user_row_def int_of_def)

lemma level_in_view: "level_in id (db_view V b) = level_in V b" "users_open id (db_view V b) = users_open V b"
  by (simp_all add: level_in_def users_open_def db_view_def)

text \<open>Rewriting the rows of a user, and adding one.\<close>

lemma matching_replaced:
  assumes "rd_users v = map (\<lambda>r. if row_int ''id'' r = usr_id t then user_row t a else r) (rd_users w)"
  shows "matching i v = (if i = usr_id t then map (\<lambda>_. user_row t a) (matching i w) else matching i w)"
proof -
  have "filter (\<lambda>r. row_int ''id'' r = i) (map (\<lambda>r. if row_int ''id'' r = usr_id t then user_row t a else r) rs) =
      filter (\<lambda>r. row_int ''id'' r = i) rs" if "i \<noteq> usr_id t" for rs :: "'a row list"
    using that by (induction rs) auto
  thus ?thesis using matching_update[of t a "rd_users w"] by (simp add: matching_def assms)
qed

lemma levels_replaced:
  assumes "rd_users v = map (\<lambda>r. if row_int ''id'' r = usr_id t then user_row t a else r) (rd_users w)"
    and "matching (usr_id t) w \<noteq> []"
  shows "access_levels v = (access_levels w)(usr_id t := a)" "users_ok w \<Longrightarrow> users_ok v"
proof -
  obtain r rs where "matching (usr_id t) w = r # rs" using assms(2) by (meson neq_Nil_conv)
  thus "access_levels v = (access_levels w)(usr_id t := a)"
    by (intro ext) (simp add: access_levels_def matching_replaced[OF assms(1)])
qed (auto simp: users_ok_def assms(1))

lemma levels_added:
  assumes "rd_users v = rd_users w @ [user_row t a]" and "matching (usr_id t) w = []"
  shows "access_levels v = (access_levels w)(usr_id t := a)" "users_ok w \<Longrightarrow> users_ok v"
  using assms(2) by (auto simp: access_levels_def matching_def users_ok_def assms(1) split: list.split)

section \<open>The operations of the database on the levels\<close>

lemma ref_search_levels:
  fixes b :: "'d ref_db db"
  assumes "users_open id b" and "1 \<le> n" and "dbSearchUser (ref_sqlite z n) (new_user\<lparr>au_tg := Some t\<rparr>) b = ((ok, s), b')"
  shows "ok \<and> users_open id b' \<and> level_in id b' = level_in id b \<and> au_tg s = Some t \<and>
    user_access s = level_in id b (usr_id t) \<and> (au_valid s \<longleftrightarrow> matching (usr_id t) (db_world b') \<noteq> [])"
proof -
  have b: "db_open b" "users_ok (db_world b)" using assms(1) by (simp_all add: users_open_def)
  note found = ref_search[OF b(1) _ b(2) assms(2), of "new_user\<lparr>au_tg := Some t\<rparr>" t z]
  show ?thesis
  proof (cases "matching (usr_id t) (db_world b)")
    case Nil
    thus ?thesis using found assms(3)
      by (auto simp: users_open_def level_in_def access_levels_def matching_def user_access_def new_user_def)
  next
    case (Cons r rs)
    hence s: "ok" "s = \<lparr>au_access = ucast (row_int ''access'' r), au_tg = Some t, au_valid = True\<rparr>" "db_open b'"
      "users_ok (db_world b')" "matching (usr_id t) (db_world b') \<noteq> []"
      "rd_users (db_world b') = rd_users (db_world b) \<or> rd_users (db_world b') =
        map (\<lambda>r. if row_int ''id'' r = usr_id t then user_row t (au_access s) else r) (rd_users (db_world b))"
      using found assms(3) by (auto simp: new_user_def)
    have a: "access_levels (db_world b) (usr_id t) = au_access s" using Cons s(2) by (simp add: access_levels_def)
    have "access_levels (db_world b') = access_levels (db_world b)"
      using s(6)
    proof
      assume "rd_users (db_world b') = map (\<lambda>r. if row_int ''id'' r = usr_id t then user_row t (au_access s) else r) (rd_users (db_world b))"
      thus ?thesis using levels_replaced(1)[of "db_world b'" t "au_access s" "db_world b"] Cons a by (auto simp: fun_upd_idem)
    qed (simp add: access_levels_def matching_def fun_eq_iff)
    thus ?thesis using s a by (simp add: users_open_def level_in_def user_access_def)
  qed
qed

lemma search_levels:
  assumes ref: "sqlite_refines V Q (ref_sqlite z n)" and "users_open V b" and "1 \<le> n"
    and "dbSearchUser Q (new_user\<lparr>au_tg := Some t\<rparr>) b = ((ok, s), b')"
  shows "ok \<and> users_open V b' \<and> level_in V b' = level_in V b \<and> au_tg s = Some t \<and>
    user_access s = level_in V b (usr_id t) \<and> (au_valid s \<longleftrightarrow> matching (usr_id t) (V (db_world b')) \<noteq> [])"
proof -
  have "dbSearchUser (ref_sqlite z n) (new_user\<lparr>au_tg := Some t\<rparr>) (db_view V b) = ((ok, s), db_view V b')"
    using sim_search[OF ref, of "new_user\<lparr>au_tg := Some t\<rparr>" b] assms(4) by simp
  from ref_search_levels[OF _ assms(3) this] show ?thesis
    using assms(2) by (simp add: level_in_view) (simp add: db_view_def)
qed

lemma store_levels:
  assumes ref: "sqlite_refines V Q (ref_sqlite z n)" and "users_open V b" and "au_tg u = Some t" and "au_valid u"
    and "b' = snd ((if matching (usr_id t) (V (db_world b)) \<noteq> [] then dbUpdateUser else dbCreateUser) Q u b)"
  shows "users_open V b'" "level_in V b' = (level_in V b)(usr_id t := au_access u)"
proof -
  let ?R = "ref_sqlite z n" and ?b = "db_view V b"
  have b: "db_open ?b" "users_ok (db_world ?b)" "db_world ?b = V (db_world b)"
    using assms(2) by (simp_all add: users_open_def db_view_def)
  have "users_open id (db_view V b') \<and> level_in id (db_view V b') = (level_in id ?b)(usr_id t := au_access u)"
  proof (cases "matching (usr_id t) (V (db_world b)) = []")
    case True
    hence "db_view V b' = snd (dbCreateUser ?R u ?b)" using sim_create[OF ref, of u b] assms(5) by simp
    thus ?thesis using ref_create[OF b(1) assms(3,4), of z n] True b levels_added
      by (fastforce simp: users_open_def level_in_def)
  next
    case False
    hence "db_view V b' = snd (dbUpdateUser ?R u ?b)" using sim_update[OF ref, of u b] assms(5) by simp
    thus ?thesis using ref_update[OF b(1) assms(3,4), of z n] False b levels_replaced
      by (fastforce simp: users_open_def level_in_def)
  qed
  thus "users_open V b'" "level_in V b' = (level_in V b)(usr_id t := au_access u)" by (simp_all add: level_in_view)
qed

section \<open>The commands\<close>

text \<open>The table has one entry for a command, in whatever case it is written.\<close>

lemma lower_letters:
  "\<forall>c \<in> set ''/starthelppasswordwherestatusarmdisarm''. ascii_lower c = c"
  by code_simp

lemmas lower_letter = lower_letters[simplified]

lemma run_commands_password:
  assumes "iequals_ok (en_lib E)" and "map ascii_lower (hd command) = ''/password''" and "\<not> faulty x"
  shows "run_commands chatCommands E access command m (u, x) = handlePasswordCommand E command u m x"
  using assms by (simp add: chatCommands_def ChatCommand_def iequals_ok_def accesses Let_def lower_letter)

lemma run_commands_arm:
  assumes "iequals_ok (en_lib E)" and "map ascii_lower (hd command) = ''/arm''" and "\<not> faulty x"
  shows "snd (run_commands chatCommands E access command m (u, x)) =
    (if ACCESS_OWNER \<le> access then handleArmCommand E command m x else x)"
  using assms by (simp add: chatCommands_def ChatCommand_def iequals_ok_def Let_def lower_letter)

lemma chat_command_found:
  assumes ref: "sqlite_refines V (en_sqlite E) (ref_sqlite z n)" and "1 \<le> n" and "users_open V (ap_db (app_of x))"
    and "msg_from m = Some t" and "command \<noteq> []"
  obtains s b where "handleChatCommand E command m x =
      snd (run_commands chatCommands E (user_access s) command m (s, app_upd (\<lambda>p. p\<lparr>ap_db := b\<rparr>) x))"
    "users_open V b" "level_in V b = level_in V (ap_db (app_of x))" "au_tg s = Some t"
    "user_access s = level_in V (ap_db (app_of x)) (usr_id t)" "au_valid s \<longleftrightarrow> matching (usr_id t) (V (db_world b)) \<noteq> []"
proof -
  obtain ok s b where q: "dbSearchUser (en_sqlite E) (new_user\<lparr>au_tg := Some t\<rparr>) (ap_db (app_of x)) = ((ok, s), b)"
    by (metis surj_pair)
  note found = search_levels[OF ref assms(3,2) q]
  have "db_do (dbSearchUser (en_sqlite E) (new_user\<lparr>au_tg := msg_from m\<rparr>)) x = ((True, s), app_upd (\<lambda>p. p\<lparr>ap_db := b\<rparr>) x)"
    using q found assms(4) by (simp add: db_do_def app_upd_def app_of_def)
  hence "handleChatCommand E command m x =
      snd (run_commands chatCommands E (user_access s) command m (s, app_upd (\<lambda>p. p\<lparr>ap_db := b\<rparr>) x))"
    using assms(5) by (simp add: handleChatCommand_def)
  thus ?thesis using that found by blast
qed

lemma password_levels:
  assumes ref: "sqlite_refines V (en_sqlite E) (ref_sqlite z n)" and "users_open V (ap_db (app_of x))" and "msg_from m = Some t"
    and "au_tg u = Some t" and "user_access u = level_in V (ap_db (app_of x)) (usr_id t)"
    and "au_valid u \<longleftrightarrow> matching (usr_id t) (V (db_world (ap_db (app_of x)))) \<noteq> []"
    and "y = snd (handlePasswordCommand E [p, code] u m x)"
  shows "users_open V (ap_db (app_of y))"
    "level_in V (ap_db (app_of y)) = (level_in V (ap_db (app_of x)))(usr_id t := max (user_access u) (code_access (ap_settings (app_of x)) code))"
proof -
  let ?b = "ap_db (app_of x)" and ?level = "code_access (ap_settings (app_of x)) code"
  let ?u = "u\<lparr>au_access := ?level, au_tg := Some t, au_valid := True\<rparr>"
  have zero: "\<not> a < ACCESS_DEFAULT" for a by (simp add: ACCESS_DEFAULT_def)
  have same: "(level_in V ?b)(usr_id t := user_access u) = level_in V ?b" using assms(5) by simp
  have db: "ap_db (app_of y) =
      (if user_access u < ?level then snd ((if au_valid u then dbUpdateUser else dbCreateUser) (en_sqlite E) ?u ?b) else ?b)"
    using assms(3,4) unfolding assms(7)
    by (cases u) (auto simp: handlePasswordCommand_def Let_def case_prod_unfold db_do_app user_access_def)
  note store = store_levels[OF ref assms(2), of ?u t "ap_db (app_of y)"]
  show "users_open V (ap_db (app_of y))"
    using store(1) db assms(2,6) by (cases "user_access u < ?level") auto
  show "level_in V (ap_db (app_of y)) = (level_in V ?b)(usr_id t := max (user_access u) ?level)"
    using store(2) db assms(6) same by (cases "user_access u < ?level") (auto simp: max_def)
qed

lemma password_not_faulty:
  assumes "\<not> faulty x" and "msg_from m \<noteq> None"
  shows "\<not> faulty (snd (handlePasswordCommand E command u m x))"
  using assms by (simp add: handlePasswordCommand_def Let_def case_prod_unfold answer_faulty)

text \<open>Property C8. The code of the configuration is what opens the alarm, and all that opens it: a \<open>/password\<close> raises the sender's
  level to the level of the code if that is higher, changes no other user's, and a following \<open>/arm\<close> of
  the same user (however he is called by then) sets his mode exactly if the level he has now is the owner's.\<close>

theorem code_opens_alarm:
  assumes "sqlite_refines V (en_sqlite E) (ref_sqlite z n)" and "1 \<le> n" and "iequals_ok (en_lib E)"
    and "users_open V (ap_db (app_of x))" and "\<not> faulty x"
    and "msg_from m = Some t" and "msg_from q = Some t'" and "usr_id t' = usr_id t"
    and "map ascii_lower p = ''/password''" and "map ascii_lower a = ''/arm''"
    and "y = handleChatCommand E [p, code] m x"
    and "level = max (level_in V (ap_db (app_of x)) (usr_id t)) (code_access (ap_settings (app_of x)) code)"
  shows "level_in V (ap_db (app_of y)) = (level_in V (ap_db (app_of x)))(usr_id t := level) \<and>
    modes (ap_userSettings (app_of (handleChatCommand E (a # args) q y))) =
      (case arm_mode (en_lib E) (a # args) of
         Some st \<Rightarrow> if ACCESS_OWNER \<le> level then (modes (ap_userSettings (app_of x)))(usr_id t \<mapsto> st)
                    else modes (ap_userSettings (app_of x))
       | None \<Rightarrow> modes (ap_userSettings (app_of x)))"
proof -
  obtain s b where s: "handleChatCommand E [p, code] m x =
      snd (run_commands chatCommands E (user_access s) [p, code] m (s, app_upd (\<lambda>p. p\<lparr>ap_db := b\<rparr>) x))"
    "users_open V b" "level_in V b = level_in V (ap_db (app_of x))" "au_tg s = Some t"
    "user_access s = level_in V (ap_db (app_of x)) (usr_id t)" "au_valid s \<longleftrightarrow> matching (usr_id t) (V (db_world b)) \<noteq> []"
    using chat_command_found[OF assms(1,2,4,6), of "[p, code]"] by (metis list.distinct(1))
  have y: "y = snd (handlePasswordCommand E [p, code] s m (app_upd (\<lambda>p. p\<lparr>ap_db := b\<rparr>) x))"
    using s(1) run_commands_password[OF assms(3), of "[p, code]" "app_upd (\<lambda>p. p\<lparr>ap_db := b\<rparr>) x" "user_access s" m s] assms(5,9,11) by (simp add: faulty_def)
  note levels = password_levels[OF assms(1) _ assms(6) s(4) _ _ y]
  have open_y: "users_open V (ap_db (app_of y))" and level_y: "level_in V (ap_db (app_of y)) = (level_in V (ap_db (app_of x)))(usr_id t := level)"
    using levels s(2,3,5,6) assms(12) by simp_all
  have keep: "ap_userSettings (app_of y) = ap_userSettings (app_of x)"
    using arg_cong[OF password_app[of E "[p, code]" s m "app_upd (\<lambda>p. p\<lparr>ap_db := b\<rparr>) x"], of ap_userSettings] y by simp
  have "\<not> faulty y" unfolding y by (rule password_not_faulty) (use assms(5,6) in \<open>simp_all add: faulty_def\<close>)
  obtain s' b' where "handleChatCommand E (a # args) q y =
      snd (run_commands chatCommands E (user_access s') (a # args) q (s', app_upd (\<lambda>p. p\<lparr>ap_db := b'\<rparr>) y))"
    "user_access s' = level_in V (ap_db (app_of y)) (usr_id t')"
    using chat_command_found[OF assms(1,2) open_y assms(7), of "a # args"] by (metis list.distinct(1))
  hence "handleChatCommand E (a # args) q y =
      (if ACCESS_OWNER \<le> level then handleArmCommand E (a # args) q (app_upd (\<lambda>p. p\<lparr>ap_db := b'\<rparr>) y) else app_upd (\<lambda>p. p\<lparr>ap_db := b'\<rparr>) y)"
    using run_commands_arm[OF assms(3), of "a # args" "app_upd (\<lambda>p. p\<lparr>ap_db := b'\<rparr>) y" "user_access s'" q s'] assms(8,10) \<open>\<not> faulty y\<close> by (simp add: level_y faulty_def)
  thus ?thesis
    using level_y keep arm_modes(1)[OF assms(7), of E "a # args" "app_upd (\<lambda>p. p\<lparr>ap_db := b'\<rparr>) y"] assms(8)
    by (simp split: option.split)
qed

text \<open>Somebody who is not registered writes the owner's code and arms the alarm.\<close>

theorem code_opens_alarm_witness:
  "modes (ap_userSettings (app_of (handleChatCommand ref_env [''/arm'', ''paranoid''] (ref_message (Some ref_user) [])
     (handleChatCommand ref_env [''/Password'', ''secret''] (ref_message (Some ref_user) []) ref_world)))) =
   (modes (ap_userSettings ref_app))(8 \<mapsto> STATUS_PARANOID)"
proof -
  have env: "en_sqlite ref_env = ref_sqlite 0 100" "en_lib ref_env = ref_lib" by (simp_all add: ref_env_def)
  have "users_open id (ap_db (app_of ref_world))"
    by (simp add: users_open_def users_ok_def ref_app_def ref_empty_def)
  moreover have "map ascii_lower ''/Password'' = ''/password''" "map ascii_lower ''/arm'' = ''/arm''"
    "arm_mode ref_lib [''/arm'', ''paranoid''] = Some STATUS_PARANOID"
    "ACCESS_OWNER \<le> max (level_in id (ap_db ref_app) 8) (code_access (ap_settings ref_app) ''secret'')"
    by code_simp+
  ultimately show ?thesis
    using code_opens_alarm[of id ref_env 0 100 ref_world "ref_message (Some ref_user) []" ref_user "ref_message (Some ref_user) []"
        ref_user "''/Password''" "''/arm''" _ "''secret''" _ "[''paranoid'']", OF _ _ _ _ _ _ _ _ _ _ refl refl]
      sqlite_refines_refl[of "ref_sqlite (0 :: int) 100"]
    by (simp add: env ref_user_def)
qed

end
