(* ===== verification/QueueProps.thy ===== *)
theory QueueProps
  imports ProgramProps
begin

text \<open>
  The order in which the bot's requests are served, in every run of the whole program: the contract on the queue that
  the HTTPS client's sessions keep (\<open>HttpsClientModel\<close>), through the interpretation of the bot's handler on the
  application.
\<close>

lemma calls_in_order: "calls x y \<Longrightarrow> in_order (world_of x) (world_of y)"
  by (simp add: calls_def ctl_in_order)

lemma same_in_order: "world_of y = world_of x \<Longrightarrow> in_order (world_of x) (world_of y)"
  by (simp add: in_order_def)

lemma program_world:
  assumes "program_reach n M E x"
  shows "tcp_inv (fst (fst (world_of x)))" "ssl_inv (fst (world_of x))"
    "ss_status (snd (fst (world_of x))) \<noteq> SDisconnected \<Longrightarrow> hc_queue (hc_of (world_of x)) \<noteq> []"
proof -
  have "https_reach n M (bot_side E) (world_of x)" using program_parts[OF assms] by (simp add: parts_run_def)
  from app_bot.http.reach_queue[OF this[unfolded bot_side_def]]
  show "tcp_inv (fst (fst (world_of x)))" "ssl_inv (fst (world_of x))"
    "ss_status (snd (fst (world_of x))) \<noteq> SDisconnected \<Longrightarrow> hc_queue (hc_of (world_of x)) \<noteq> []"
    by simp_all
qed

lemma event_in_order:
  assumes "program_reach n M E x" and "event_enabled e x"
  shows "in_order (world_of x) (world_of (program_event_step n M E e x))"
proof (cases e)
  case (ServerEvent v)
  thus ?thesis by (simp add: calls_in_order calls_server_event)
next
  case (ReceiverTimer r)
  thus ?thesis by (simp add: calls_in_order calls_startReceiver handleReceiverTimer_def)
next
  case (TransmitterDone r)
  thus ?thesis using transmitter_complete_calls[of E x r] by (simp add: host_calls_def same_in_order)
next
  case TransmitterTimer
  thus ?thesis using host_timer[of E x] by (simp add: host_calls_def same_in_order)
next
  case (BotSocketDone r)
  thus ?thesis using app_bot.http.complete_in_order[OF program_world(1,2)[OF assms(1)]] assms(2) by (simp add: bot_side_def)
next
  case BotWriteTimer
  thus ?thesis using app_bot.http.write_in_order by (simp add: bot_side_def)
next
  case BotQueueTimer
  thus ?thesis using app_bot.http.timer_in_order by (simp add: bot_side_def)
next
  case BotReconnectTimer
  thus ?thesis by (simp add: ctl_in_order start_ctl)
next
  case (ClockTick t)
  thus ?thesis by (simp add: in_order_def)
qed


text \<open>A program with a bot: its first requests are queued, and the queue's timer opens the connection for the first.\<close>

definition bot_settings :: ptree where
  "bot_settings = PT [] [(''telegram'', PT [] [(''enabled'', PT ''true'' []), (''token'', PT ''t'' [])])]"

definition bot_started :: "(string option, int, int ref_db) system" where
  "bot_started = program_start ref_env ''tracker.db'' all_well (program_init ref_env None bot_settings ref_empty 0)"


end
