(* ===== verification/SettingsProps.thy ===== *)
theory SettingsProps
  imports CommandsModel "HOL-Library.Sublist"
begin

text \<open>
  Reading and writing the settings: what \<open>/set\<close> (\<open>handleSetCommand\<close>) does to the value of every key, its own
  and all others.
\<close>

section \<open>Paths in a tree\<close>

definition value_at :: "ptree \<Rightarrow> string list \<Rightarrow> string option" where
  "value_at t ks = map_option pt_data (walk_path t ks)"

definition setting_value :: "ptree \<Rightarrow> string \<Rightarrow> string option" where
  "setting_value t key = map_option pt_data (get_child t key)"

lemma setting_value_parts: "setting_value t key = value_at t (path_parts key)"
  by (simp add: setting_value_def value_at_def get_child_def)

lemma value_at_simps [simp]:
  "value_at t [] = Some (pt_data t)"
  "value_at t (k # ks) = (case pt_find t k of None \<Rightarrow> None | Some c \<Rightarrow> value_at c ks)"
  by (simp_all add: value_at_def split: option.split)

lemma pt_find_upd: "pt_find (PT d (upd_first k f ks)) k' = (if k' = k then map_option f (map_of ks k) else map_of ks k')"
  by (simp add: pt_find_def upd_first_map_of)

lemma value_at_put: "value_at t ks \<noteq> None \<Longrightarrow>
  value_at (upd_path ks (put_data v) t) ks' = (if ks' = ks then Some v else value_at t ks')"
proof (induction ks arbitrary: t ks')
  case Nil
  show ?case by (cases ks') (simp_all add: put_data_def pt_find_def)
next
  case (Cons k ks)
  then obtain c where c: "pt_find t k = Some c" "value_at c ks \<noteq> None" by (auto split: option.splits)
  show ?case
  proof (cases ks')
    case (Cons k' ks'')
    thus ?thesis using c Cons.IH[OF c(2), of ks''] by (auto simp: pt_find_upd) (auto simp: pt_find_def)
  qed simp
qed

text \<open>Adding a value makes the nodes on its way readable, with empty values.\<close>

lemma pt_find_append: "pt_find (PT d (ks @ [(k, c)])) k' = (case map_of ks k' of Some t \<Rightarrow> Some t | None \<Rightarrow> if k' = k then Some c else None)"
  by (auto simp: pt_find_def map_add_def split: option.split)

lemma pt_find_leaf [simp]: "pt_find (PT d []) k = None"
  by (simp add: pt_find_def)

definition with_node :: "string \<Rightarrow> ptree \<Rightarrow> ptree" where
  "with_node k t = (if pt_has t k then t else PT (pt_data t) (pt_kids t @ [(k, PT [] [])]))"

lemma add_path_step: "ks \<noteq> [] \<Longrightarrow>
  add_path (k # ks) v t = PT (pt_data t) (upd_first k (add_path ks v) (pt_kids (with_node k t)))"
  by (cases ks) (simp_all add: with_node_def Let_def)

lemma with_node_find: "map_of (pt_kids (with_node k t)) k' =
  (if k' = k \<and> pt_find t k = None then Some (PT [] []) else pt_find t k')"
  using pt_find_append[of "pt_data t" "pt_kids t" k "PT [] []" k']
  by (auto simp: with_node_def pt_has_def pt_find_def split: option.splits)

lemma value_at_leaf: "value_at (PT d []) ks = (if ks = [] then Some d else None)"
  by (cases ks) simp_all

lemma value_at_add: "value_at t ks = None \<Longrightarrow>
  value_at (add_path ks v t) ks' =
    (if ks' = ks then Some v else if prefix ks' ks \<and> value_at t ks' = None then Some [] else value_at t ks')"
proof (induction ks arbitrary: t ks')
  case (Cons k ks)
  show ?case
  proof (cases ks')
    case Nil
    thus ?thesis by (cases ks) (simp_all add: Let_def)
  next
    case ks': (Cons k' ks'')
    show ?thesis
    proof (cases "ks = []")
      case True
      hence "pt_find t k = None" using Cons.prems by (simp split: option.splits)
      thus ?thesis using True ks' by (auto simp: pt_find_append) (auto simp: pt_find_def value_at_leaf split: option.split)
    next
      case False
      define c where "c = (case pt_find t k of None \<Rightarrow> PT [] [] | Some c \<Rightarrow> c)"
      have c: "map_of (pt_kids (with_node k t)) k = Some c" by (simp add: with_node_find c_def split: option.split)
      have "value_at c ks = None" using Cons.prems False by (auto simp: c_def value_at_leaf split: option.splits)
      from Cons.IH[OF this, of ks''] show ?thesis using ks' False c
        by (auto simp: add_path_step pt_find_upd with_node_find c_def value_at_leaf split: option.splits if_splits)
    qed
  qed
qed simp

section \<open>/set\<close>

definition set_accepted :: "string \<Rightarrow> string list \<Rightarrow> ptree \<Rightarrow> bool" where
  "set_accepted key flags s \<longleftrightarrow>
     (case get_child s key of Some c \<Rightarrow> pt_empty c | None \<Rightarrow> flags \<noteq> [] \<and> hd flags = ''!'')"

text \<open>Where the value goes: a new key keeps the empty part behind a separator at its end.\<close>

definition set_target :: "string \<Rightarrow> ptree \<Rightarrow> string list" where
  "set_target key s = (if get_child s key = None then split_off ''.'' key else path_parts key)"

lemma value_at_prefix: "value_at t ks \<noteq> None \<Longrightarrow> prefix ks' ks \<Longrightarrow> value_at t ks' \<noteq> None"
proof (induction ks arbitrary: t ks')
  case (Cons k ks)
  thus ?case by (cases ks') (auto split: option.splits)
qed simp

lemma path_parts_prefix: "prefix (path_parts key) (split_off ''.'' key)"
  by (simp add: path_parts_def Let_def prefixeq_butlast)

text \<open>Property C40. \<open>/set key value\<close> is accepted for a key without subkeys, and with \<open>!\<close> for a key that is not there. The
  key (a new one if it does not end with a separator) then reads as the value, every other key reads as
  before, except that the missing keys above a new one appear with an empty value. A refused \<open>/set\<close>
  changes nothing.\<close>

theorem set_changes_one_setting:
  assumes "s = ap_settings (app_of x)"
    and "s' = ap_settings (app_of (handleSetCommand E (cmd # key # v # flags) m x))"
  shows "if set_accepted key flags s then
      (\<forall>k. setting_value s' k =
         (if path_parts k = set_target key s then Some v
          else if prefix (path_parts k) (set_target key s) \<and> setting_value s k = None then Some []
          else setting_value s k)) \<and>
      (get_child s key \<noteq> None \<or> last key \<noteq> CHR ''.'' \<longrightarrow> setting_value s' key = Some v)
    else s' = s"
proof -
  let ?r = "set_setting (cmd # key # v # flags) s"
  let ?t = "set_target key s"
  have app: "s' = fst ?r" by (simp add: assms handleSetCommand_def case_prod_unfold)
  have key: "path_parts key = ?t" if "get_child s key \<noteq> None \<or> last key \<noteq> CHR ''.''"
  proof (cases "key = []")
    case True
    thus ?thesis by (simp add: set_target_def get_child_def path_parts_def)
  qed (use that in \<open>auto simp: set_target_def path_parts_full\<close>)
  have all: "setting_value s' k =
      (if path_parts k = ?t then Some v else if prefix (path_parts k) ?t \<and> setting_value s k = None then Some []
       else setting_value s k)" if acc: "set_accepted key flags s" for k
  proof (cases "get_child s key")
    case None
    hence "value_at s (path_parts key) = None" by (simp add: value_at_def get_child_def)
    hence "value_at s (split_off ''.'' key) = None" using value_at_prefix[OF _ path_parts_prefix, of s key] by blast
    hence n: "value_at s ?t = None" using None by (simp add: set_target_def)
    have "fst ?r = add_path ?t v s"
      using None acc by (cases flags) (simp_all add: set_setting_def Let_def set_accepted_def set_target_def)
    thus ?thesis by (simp add: app setting_value_parts value_at_add[OF n])
  next
    case (Some c)
    hence n: "value_at s ?t \<noteq> None" by (simp add: value_at_def get_child_def set_target_def)
    have pre: "value_at s ks = None \<Longrightarrow> \<not> prefix ks ?t" for ks
      using n value_at_prefix by blast
    have "fst ?r = upd_path ?t (put_data v) s"
      using Some acc by (simp add: set_setting_def Let_def set_accepted_def set_target_def)
    thus ?thesis by (auto simp: app setting_value_parts value_at_put[OF n] dest: pre)
  qed
  have no: "s' = s" if "\<not> set_accepted key flags s"
    using that by (cases flags) (auto simp: app set_setting_def Let_def set_accepted_def split: option.splits)
  show ?thesis using all[of key] all key no by simp
qed

definition some_settings :: ptree where
  "some_settings = PT [] [(''receiver'', PT [] [(''enabled'', PT ''true'' []), (''port'', PT ''10000'' [])])]"

theorem set_changes_one_setting_witness:
  "setting_value (ap_settings (app_of (handleSetCommand ref_env [''/set'', ''receiver.port'', ''1''] (ref_message (Some ref_user) [])
       (app_upd (\<lambda>p. p\<lparr>ap_settings := some_settings\<rparr>) ref_world)))) ''receiver.port'' = Some ''1''"
proof -
  let ?x = "app_upd (\<lambda>p. p\<lparr>ap_settings := some_settings\<rparr>) ref_world"
  have s: "some_settings = ap_settings (app_of ?x)" by simp
  have acc: "set_accepted ''receiver.port'' [] some_settings" and key: "get_child some_settings ''receiver.port'' \<noteq> None"
    by code_simp+
  from set_changes_one_setting[OF s refl, of "''receiver.port''" "[]" ref_env "''/set''" "''1''" "ref_message (Some ref_user) []",
      unfolded if_P[OF acc]] key
  show ?thesis by blast
qed

end
