(* ===== verification/TransmitterProps.thy ===== *)
theory TransmitterProps
  imports TransmitterModel ReceiverProps
begin

text \<open>
  What the transmitter promises: it accepts nothing before the remote host has let it in, and from then on
  passes every command of the host on to the tracker.
\<close>

section \<open>Before the host answers\<close>

lemma no_separator_drop: "find_sub '';'' b = None \<Longrightarrow> find_sub '';'' (drop n b) = None"
  by (auto simp: find_sub_char dest: in_set_dropD split: if_splits)

text \<open>A buffer without a complete command has no effect on the sessions.\<close>

lemma transmitter_loop_idle:
  "find_sub '';'' b = None \<Longrightarrow>
   fst (transmitter_loop b x) = fst x \<and> world_of (transmitter_loop b x) = world_of x \<and>
   lk_devices (link_of (transmitter_loop b x)) = lk_devices (link_of x) \<and>
   lk_authorized (link_of (transmitter_loop b x)) = lk_authorized (link_of x) \<and>
   (lk_transmitterAuthorized (link_of (transmitter_loop b x)) \<longrightarrow> lk_transmitterAuthorized (link_of x) \<or> find_sub ''LOAD'' b = Some 0)"
proof (induction "length b" arbitrary: b x rule: less_induct)
  case less
  note n = no_separator_drop[OF less.prems]
  show ?case
  proof (cases rule: transmitter_loop_cases[of b x])
    case load
    thus ?thesis using less.hyps[of "drop 4 b" "wait_transmitter (set_transmitter True (drop 4 b) x)"] n by simp
  next
    case on
    thus ?thesis using less.hyps[of "drop 2 b" "wait_transmitter (set_transmitter True (drop 2 b) x)"] n by simp
  next
    case (command off)
    thus ?thesis using less.prems by simp
  qed simp_all
qed

text \<open>Property C16. Before the remote host has let the transmitter in, nothing it sends reaches a tracker: the sessions, the
  bot's world and the devices stay as they are. It is let in only by data that begins with LOAD and holds no
  complete command; data that holds one ends the connection, even if it begins with LOAD (so a host that
  sends its answer and a command in one packet is refused).\<close>

theorem host_must_let_in:
  assumes "\<not> lk_transmitterAuthorized (link_of x)"
    and "s = strip_lines (en_lib E) (lk_transmitterBuffer (link_of x) @ d)" and "y = handleTcpClientReceivedData E d x"
  shows "fst y = fst x \<and> world_of y = world_of x \<and> lk_devices (link_of y) = lk_devices (link_of x) \<and>
    lk_authorized (link_of y) = lk_authorized (link_of x) \<and>
    (lk_transmitterAuthorized (link_of y) \<longrightarrow> find_sub ''LOAD'' s = Some 0 \<and> CHR '';'' \<notin> set s) \<and>
    (CHR '';'' \<in> set s \<longrightarrow> transmitter_of y = tcp_disconnect (transmitter_of x))"
proof (cases "find_sub '';'' s")
  case None
  hence "CHR '';'' \<notin> set s" by (simp add: find_sub_char split: if_splits)
  thus ?thesis using transmitter_loop_idle[OF None, of "set_transmitter (lk_transmitterAuthorized (link_of x)) s x"] assms
    by (simp add: handleTcpClientReceivedData_def Let_def)
next
  case (Some off)
  have "transmitter_loop s (set_transmitter False s x) = on_transmitter tcp_disconnect (set_transmitter False s x)"
    using Some by (subst transmitter_loop.simps) simp
  hence "y = on_transmitter tcp_disconnect (set_transmitter False s x)"
    using assms by (simp add: handleTcpClientReceivedData_def Let_def)
  thus ?thesis by simp
qed

theorem host_must_let_in_witness:
  "transmitter_of (handleTcpClientReceivedData ref_env ''LOADcut;'' ref_system) = tcp_disconnect (transmitter_of ref_system) \<and>
   fst (handleTcpClientReceivedData ref_env ''LOAD'' ref_system) = fst ref_system"
proof -
  have l: "\<not> lk_transmitterAuthorized (link_of ref_system)" "lk_transmitterBuffer (link_of ref_system) = []"
    by (simp_all add: ref_system_def link_of_def link_init_def)
  have "CHR '';'' \<in> set (strip_lines ref_lib ''LOADcut;'')" by code_simp
  thus ?thesis
    using host_must_let_in[OF l(1) refl refl, of ref_env "''LOADcut;''"] host_must_let_in[OF l(1) refl refl, of ref_env "''LOAD''"] l
    by simp
qed

section \<open>Passing commands on\<close>

text \<open>What the tracker gets for a command of the host.\<close>

definition host_texts :: "string \<Rightarrow> string list" where
  "host_texts c =
     (let c' = (if find_sub ''ON'' c = Some 0 then drop 2 c else c)
      in if length c < 2 \<or> c' = [] then [] else [c' @ '';'' @ crlf])"

lemma host_command_texts:
  assumes "lk_authorized (link_of x) = Some i" "lk_devices (link_of x) i \<noteq> None"
  shows "fst (host_command c x) = fold (session_send i) (host_texts c) (fst x)"
  using assms by (simp add: host_command_def host_texts_def Let_def processClientData_def)

lemma transmitter_loop_commands:
  "lk_transmitterAuthorized (link_of x) \<Longrightarrow> lk_authorized (link_of x) = Some i \<Longrightarrow> lk_devices (link_of x) i \<noteq> None \<Longrightarrow>
   fst (transmitter_loop b x) = fold (session_send i) (concat (map host_texts (frames b))) (fst x) \<and>
   world_of (transmitter_loop b x) = world_of x"
proof (induction "length b" arbitrary: b x rule: less_induct)
  case less
  show ?case
  proof (cases "find_sub '';'' b")
    case None
    thus ?thesis using transmitter_loop_idle[OF None, of x] frames_None[OF None] by simp
  next
    case (Some off)
    let ?z = "host_command (take off b) (set_transmitter True (drop (off + 1) b) x)"
    have "length (drop (off + 1) b) < length b" using find_sub_Some[OF Some] by (simp, linarith)
    hence "fst (transmitter_loop (drop (off + 1) b) ?z) = fold (session_send i) (concat (map host_texts (frames (drop (off + 1) b)))) (fst ?z) \<and>
        world_of (transmitter_loop (drop (off + 1) b) ?z) = world_of ?z"
      using less.hyps[of "drop (off + 1) b" ?z] less.prems by simp
    moreover have "fst ?z = fold (session_send i) (host_texts (take off b)) (fst x)"
      using host_command_texts[of "set_transmitter True (drop (off + 1) b) x" i "take off b"] less.prems by simp
    moreover have "transmitter_loop b x = transmitter_loop (drop (off + 1) b) ?z"
      using Some less.prems(1) by (subst transmitter_loop.simps) simp
    ultimately show ?thesis using frames_Some(1)[OF Some] by simp
  qed
qed

text \<open>Property C17. Once the host has let the transmitter in, every complete command of the host is sent to the authorised
  tracker: in order, once each, with an answer to a heartbeat cut off in front of it and without those that are
  shorter than two characters; the loop ends for every input, and nothing but that tracker's session changes.\<close>

theorem host_commands_reach_tracker:
  assumes "lk_transmitterAuthorized (link_of x)" and "lk_authorized (link_of x) = Some i" and "lk_devices (link_of x) i \<noteq> None"
  shows "fst (handleTcpClientReceivedData E d x) =
      fold (session_send i) (concat (map host_texts (frames (strip_lines (en_lib E) (lk_transmitterBuffer (link_of x) @ d))))) (fst x) \<and>
    world_of (handleTcpClientReceivedData E d x) = world_of x"
  using transmitter_loop_commands[of "set_transmitter True (strip_lines (en_lib E) (lk_transmitterBuffer (link_of x) @ d)) x" i] assms
  by (simp add: handleTcpClientReceivedData_def Let_def)

theorem host_commands_reach_tracker_witness:
  "fst (handleTcpClientReceivedData ref_env ''ONcut;x;go;re'' (set_transmitter True [] ref_system)) =
   session_send 0 (''go;'' @ crlf) (session_send 0 (''cut;'' @ crlf) (fst ref_system))"
proof -
  let ?x = "set_transmitter True [] ref_system"
  have s: "frames (strip_lines ref_lib ''ONcut;x;go;re'') = [''ONcut'', ''x'', ''go'']" by code_simp
  have t: "concat (map host_texts [''ONcut'', ''x'', ''go'']) = [''cut;'' @ crlf, ''go;'' @ crlf]" by code_simp
  have l: "lk_transmitterAuthorized (link_of ?x)" "lk_authorized (link_of ?x) = Some 0" "lk_devices (link_of ?x) 0 \<noteq> None"
    "lk_transmitterBuffer (link_of ?x) = []" by simp_all
  show ?thesis
    using host_commands_reach_tracker[OF l(1-3), of ref_env "''ONcut;x;go;re''"] unfolding l(4) append_Nil ref_env_lib s t
    by simp
qed

end
