(* ===== verification/JsonText.thy ===== *)
theory JsonText
  imports Ptree
begin

text \<open>
  JSON values as the specification of what the Telegram objects are printed to and read from: their
  text without spaces, and the property tree that Boost documents for them (an object's members by
  name, an array's elements under empty names, every scalar as its text).
\<close>

section \<open>Values\<close>

datatype json = JStr string | JNum string | JBool bool | JArr "json list" | JObj "(string \<times> json) list"

definition quote :: "string \<Rightarrow> string" where
  "quote s = [DQ] @ s @ [DQ]"

text \<open>Strings without characters that JSON escapes.\<close>

definition plain_text :: "string \<Rightarrow> bool" where
  "plain_text s \<longleftrightarrow> list_all (\<lambda>c. c \<noteq> DQ \<and> c \<noteq> CHR 0x5C \<and> 32 \<le> (of_char c :: nat)) s"

definition escape_char :: "char \<Rightarrow> string" where
  "escape_char c =
     (if c = DQ \<or> c = CHR 0x5C then [CHR 0x5C, c]
      else if (of_char c :: nat) < 32 then [CHR 0x5C, CHR ''u'', CHR ''0'', CHR ''0'',
        ''01'' ! (of_char c div 16), ''0123456789abcdef'' ! (of_char c mod 16)]
      else [c])"

definition bool_text :: "bool \<Rightarrow> string" where
  "bool_text b = (if b then ''true'' else ''false'')"

fun show_json :: "json \<Rightarrow> string" where
  "show_json (JStr s) = quote (concat (map escape_char s))"
| "show_json (JNum n) = n"
| "show_json (JBool b) = bool_text b"
| "show_json (JArr xs) = ''['' @ join_off (map show_json xs) '','' @ '']''"
| "show_json (JObj kvs) = ''{'' @ join_off (map (\<lambda>(k, v). quote k @ '':'' @ show_json v) kvs) '','' @ ''}''"

fun tree_of_json :: "json \<Rightarrow> ptree" where
  "tree_of_json (JStr s) = PT s []"
| "tree_of_json (JNum n) = PT n []"
| "tree_of_json (JBool b) = PT (bool_text b) []"
| "tree_of_json (JArr xs) = PT [] (map (\<lambda>x. ([], tree_of_json x)) xs)"
| "tree_of_json (JObj kvs) = PT [] (map (\<lambda>(k, v). (k, tree_of_json v)) kvs)"

lemma plain_escape: "plain_text s \<Longrightarrow> concat (map escape_char s) = s"
  by (induction s) (auto simp: plain_text_def escape_char_def)

lemma bool_text_ends [simp]: "bool_text True = ''true''" "bool_text False = ''false''"
  by (simp_all add: bool_text_def)

section \<open>Text in pieces\<close>

text \<open>The code writes each member or element with a comma after it and takes the last comma off.\<close>

lemma butlast_commas: "ws \<noteq> [] \<Longrightarrow> butlast (h @ concat (map (\<lambda>w. w @ '','') ws)) = h @ join_off ws '',''"
proof (induction ws arbitrary: h rule: induct_list012)
  case (2 w)
  show ?case using butlast_append[of "h @ w" "'',''"] by simp
next
  case (3 w v ws)
  thus ?case using "3.IH"(2)[of "h @ w @ '',''"] by simp
qed simp

lemma butlast_members:
  "ws \<noteq> [] \<Longrightarrow> erase_last (h @ concat (map (\<lambda>x. f x @ '','') ws)) = h @ join_off (map f ws) '',''"
  using butlast_commas[of "map f ws" h] by (simp add: erase_last_def comp_def)

section \<open>Objects with members that may be missing\<close>

fun present :: "(string \<times> json option) list \<Rightarrow> (string \<times> json) list" where
  "present [] = []"
| "present ((k, None) # kvs) = present kvs"
| "present ((k, Some v) # kvs) = (k, v) # present kvs"

definition members :: "(string \<times> json option) list \<Rightarrow> json" where
  "members kvs = JObj (present kvs)"

lemma present_append [simp]: "present (a @ b) = present a @ present b"
  by (induction a rule: present.induct) auto

lemma present_Nil_iff: "present kvs = [] \<longleftrightarrow> (\<forall>kv\<in>set kvs. snd kv = None)"
  by (induction kvs rule: present.induct) auto

lemma present_keys: "k \<notin> fst ` set kvs \<Longrightarrow> map_of (present kvs) k = None"
  by (induction kvs rule: present.induct) auto

lemma find_members:
  "distinct (map fst kvs) \<Longrightarrow>
   pt_find (tree_of_json (members kvs)) k = (case map_of kvs k of Some (Some v) \<Rightarrow> Some (tree_of_json v) | _ \<Rightarrow> None)"
proof -
  have m: "map_of (map (\<lambda>(k, v). (k, tree_of_json v)) ms) k = map_option tree_of_json (map_of ms k)" for ms
    by (induction ms) auto
  have p: "distinct (map fst kvs) \<Longrightarrow> map_of (present kvs) k = (case map_of kvs k of Some (Some v) \<Rightarrow> Some v | _ \<Rightarrow> None)"
    by (induction kvs rule: present.induct) (auto simp: present_keys map_of_eq_None_iff[symmetric] split: option.splits)
  show "distinct (map fst kvs) \<Longrightarrow> ?thesis"
    by (simp add: pt_find_def members_def m p split: option.split)
qed

lemma get_members:
  assumes "distinct (map fst kvs)" and "k \<noteq> []" and "CHR ''.'' \<notin> set k"
  shows "get_conv tr (tree_of_json (members kvs)) k =
      (case map_of kvs k of
         Some (Some v) \<Rightarrow> (case tr (pt_data (tree_of_json v)) of None \<Rightarrow> Inl (BadData k) | Some x \<Rightarrow> Inr x)
       | _ \<Rightarrow> Inl (BadPath k))"
    "get_conv_d tr (tree_of_json (members kvs)) k d =
      (case map_of kvs k of
         Some (Some v) \<Rightarrow> (case tr (pt_data (tree_of_json v)) of None \<Rightarrow> d | Some x \<Rightarrow> x)
       | _ \<Rightarrow> d)"
  using assms by (simp_all add: get_conv_def get_conv_d_def get_child_plain find_members split: option.split)

section \<open>Scalars\<close>

definition str_member :: "string \<Rightarrow> json option" where
  "str_member s = (if s = [] then None else Some (JStr s))"

definition bool_member :: "bool \<Rightarrow> json option" where
  "bool_member b = (if b then Some (JBool b) else None)"

definition int_member :: "('d, 'f) lib \<Rightarrow> 'w::len word \<Rightarrow> json option" where
  "int_member L i = (if i = 0 then None else Some (JNum (lc_int L (sint i))))"

text \<open>The stream translators read what JSON writes: decimal numbers and the two truth values; \<open>fl\<close> prints a float.\<close>

definition reads_scalars :: "('d, 'f) lib \<Rightarrow> bool" where
  "reads_scalars L \<longleftrightarrow>
     (\<forall>i. tr_int32 L (lc_int L (sint i)) = Some i) \<and> (\<forall>i. tr_int64 L (lc_int L (sint i)) = Some i) \<and>
     tr_bool L ''true'' = Some True"

definition reads_floats :: "('d, 'f) lib \<Rightarrow> ('f \<Rightarrow> string) \<Rightarrow> bool" where
  "reads_floats L fl \<longleftrightarrow> (\<forall>x. tr_float L (fl x) = Some x)"

lemma reads_scalarsD:
  "reads_scalars L \<Longrightarrow> tr_int32 L (lc_int L (sint (i::int32))) = Some i"
  "reads_scalars L \<Longrightarrow> tr_int64 L (lc_int L (sint (j::int64))) = Some j"
  "reads_scalars L \<Longrightarrow> tr_bool L ''true'' = Some True"
  by (simp_all add: reads_scalars_def)

end
