(* ===== verification/TgProps.thy ===== *)
theory TgProps
  imports TgReader TgWriter JsonText
begin

text \<open>
  What the reader and the writer of the Telegram objects do, against JSON: the markup of a reply is
  printed as the JSON value it stands for, numbers are not, and objects that are laid out the way the
  reader expects are read back.
\<close>

section \<open>Writing\<close>

text \<open>An object that is not closed yet: each member has a comma after it.\<close>

definition member_text :: "string \<times> json \<Rightarrow> string" where
  "member_text kv = quote (fst kv) @ '':'' @ show_json (snd kv)"

definition open_text :: "(string \<times> json option) list \<Rightarrow> string" where
  "open_text kvs = ''{'' @ concat (map (\<lambda>kv. member_text kv @ '','') (present kvs))"

lemma open_Nil: "open_text [] = ''{''"
  by (simp add: open_text_def)

lemma close_text: "present kvs \<noteq> [] \<Longrightarrow> erase_last (open_text kvs) @ ''}'' = show_json (members kvs)"
  unfolding open_text_def
  by (subst butlast_members) (simp_all add: members_def member_text_def[abs_def] case_prod_unfold)

text \<open>\<open>append_str\<close> leaves out the quotation marks of a text that looks like an object.\<close>

definition writable :: "string \<Rightarrow> bool" where
  "writable s \<longleftrightarrow> plain_text s \<and> (s \<noteq> [] \<longrightarrow> hd s \<noteq> CHR ''{'' \<and> last s \<noteq> CHR ''}'')"

lemma append_open:
  "writable v \<Longrightarrow> append_str (open_text kvs) k v = open_text (kvs @ [(k, str_member v)])"
  "append_bool (open_text kvs) k b = open_text (kvs @ [(k, Some (JBool b))])"
  by (simp_all add: append_str_def append_bool_def open_text_def str_member_def member_text_def quote_def writable_def
      plain_escape bool_text_def)

definition button_json :: "keyboard_button \<Rightarrow> json" where
  "button_json b = members
     [(''text'', str_member (kb_text b)), (''request_contact'', Some (JBool (kb_requestContact b))),
      (''request_location'', Some (JBool (kb_requestLocation b)))]"

definition inline_button_json :: "inline_keyboard_button \<Rightarrow> json" where
  "inline_button_json b = members
     [(''text'', str_member (ikb_text b)), (''url'', str_member (ikb_url b)), (''callback_data'', str_member (ikb_callbackData b)),
      (''switch_inline_query'', str_member (ikb_switchInlineQuery b)),
      (''switch_inline_query_current_chat'', str_member (ikb_switchInlineQueryCurrentChat b))]"

definition inline_writable :: "inline_keyboard_button \<Rightarrow> bool" where
  "inline_writable b \<longleftrightarrow> ikb_text b \<noteq> [] \<and>
     list_all writable [ikb_text b, ikb_url b, ikb_callbackData b, ikb_switchInlineQuery b, ikb_switchInlineQueryCurrentChat b]"

lemma button_text: "writable (kb_text b) \<Longrightarrow> parseKeyboardButton L (Some b) = show_json (button_json b)"
  unfolding parseKeyboardButton_def Let_def option.case button_json_def open_Nil[symmetric]
  by (simp only: append_open append_Cons append_Nil) (rule close_text, simp add: present_Nil_iff)

lemma inline_button_text: "inline_writable b \<Longrightarrow> parseInlineKeyboardButton L (Some b) = show_json (inline_button_json b)"
  unfolding parseInlineKeyboardButton_def Let_def option.case inline_button_json_def open_Nil[symmetric] inline_writable_def
  by (simp only: append_open append_Cons append_Nil list.pred_inject) (rule close_text, simp add: str_member_def present_Nil_iff)


section \<open>Keyboards\<close>

definition rows_json :: "('a \<Rightarrow> json) \<Rightarrow> 'a option list list \<Rightarrow> json" where
  "rows_json f rows = JArr (map (\<lambda>row. JArr (map (\<lambda>b. f (the b)) row)) rows)"

text \<open>A keyboard of buttons that can be written: no row is empty and no button is null.\<close>

definition rows_ok :: "('a \<Rightarrow> bool) \<Rightarrow> 'a option list list \<Rightarrow> bool" where
  "rows_ok P rows \<longleftrightarrow> list_all (\<lambda>row. row \<noteq> [] \<and> list_all (\<lambda>b. b \<noteq> None \<and> P (the b)) row) rows"

lemma keyboard_row_text:
  assumes "row \<noteq> []" and "\<And>b. b \<in> set row \<Longrightarrow> f b = show_json (g b)"
  shows "keyboard_row f row = show_json (JArr (map g row)) @ '',''"
proof -
  have "map f row = map (\<lambda>b. show_json (g b)) row" using assms(2) by simp
  hence "erase_last (''['' @ concat (map (\<lambda>x. f x @ '','') row)) = ''['' @ join_off (map (\<lambda>b. show_json (g b)) row) '',''"
    using butlast_members[OF assms(1), of "''[''" f] by (simp only:)
  thus ?thesis by (simp add: keyboard_row_def comp_def)
qed

lemma keyboard_rows_text:
  assumes "rows_ok P rows" and "\<And>b. P b \<Longrightarrow> f (Some b) = show_json (g b)"
  shows "keyboard_rows key f rows @ '']'' = ''{'' @ quote key @ '':'' @ show_json (rows_json g rows)"
proof -
  have row: "keyboard_row f row = show_json (JArr (map (\<lambda>b. g (the b)) row)) @ '',''" if r: "row \<in> set rows" for row
  proof (rule keyboard_row_text)
    show "row \<noteq> []" using assms(1) r by (auto simp: rows_ok_def list_all_iff)
    fix b assume "b \<in> set row"
    hence "b = Some (the b)" "P (the b)" using assms(1) r by (auto simp: rows_ok_def list_all_iff)
    thus "f b = show_json (g (the b))" using assms(2) by metis
  qed
  let ?h = "''{'' @ [DQ] @ key @ [DQ] @ '':[''" and ?g = "\<lambda>row. show_json (JArr (map (\<lambda>b. g (the b)) row))"
  have "map (keyboard_row f) rows = map (\<lambda>row. ?g row @ '','') rows" using row by (simp del: show_json.simps)
  moreover have "keyboard_rows key f rows =
      (if rows = [] then ?h else erase_last (?h @ concat (map (keyboard_row f) rows)))"
    by (simp add: keyboard_rows_def)
  ultimately have "keyboard_rows key f rows = ?h @ join_off (map ?g rows) '',''"
    using butlast_members[of rows ?h ?g] by (cases "rows = []") (simp_all only: simp_thms if_True if_False list.map join_off.simps append_Nil2)
  thus ?thesis by (simp add: rows_json_def comp_def quote_def)
qed

section \<open>Reply markup\<close>

fun reply_json :: "generic_reply \<Rightarrow> json" where
  "reply_json PlainReply = JStr []"
| "reply_json (IsForceReply r) = members [(''force_reply'', Some (JBool True)), (''selective'', Some (JBool (fr_selective r)))]"
| "reply_json (IsReplyKeyboardRemove r) =
     members [(''remove_keyboard'', Some (JBool True)), (''selective'', Some (JBool (rkr_selective r)))]"
| "reply_json (IsReplyKeyboardMarkup r) =
     members [(''keyboard'', Some (rows_json button_json (rkm_keyboard r))), (''resize_keyboard'', Some (JBool (rkm_resizeKeyboard r))),
              (''one_time_keyboard'', Some (JBool (rkm_oneTimeKeyboard r))), (''selective'', Some (JBool (rkm_selective r)))]"
| "reply_json (IsInlineKeyboardMarkup r) = members [(''inline_keyboard'', Some (rows_json inline_button_json (ikm_inlineKeyboard r)))]"

fun reply_ok :: "generic_reply \<Rightarrow> bool" where
  "reply_ok PlainReply = False"
| "reply_ok (IsReplyKeyboardMarkup r) = rows_ok (\<lambda>b. writable (kb_text b)) (rkm_keyboard r)"
| "reply_ok (IsInlineKeyboardMarkup r) = rows_ok inline_writable (ikm_inlineKeyboard r)"
| "reply_ok _ = True"

lemma open_rows: "''{'' @ quote k @ '':'' @ show_json v @ '','' = open_text [(k, Some v)]"
  by (simp add: open_text_def member_text_def)




section \<open>Numbers\<close>

text \<open>A number is not written in decimal: the template of \<open>appendToJson\<close> appends the one character
  whose code is the lowest byte of the number, so two numbers are written alike exactly when they are
  both zero (and left out) or both not zero with the same lowest byte.\<close>

theorem append_int_one_byte:
  fixes v w :: "'w::len word"
  shows "(v \<noteq> 0 \<longrightarrow> append_int json k v = json @ quote k @ '':'' @ [char_of (unat v mod 256)] @ '','') \<and>
    (append_int json k v = append_int json k w \<longleftrightarrow> (v = 0) = (w = 0) \<and> (v \<noteq> 0 \<longrightarrow> unat v mod 256 = unat w mod 256))"
  by (auto simp: append_int_def quote_def char_of_word_def)

theorem append_int_one_byte_witness:
  "append_int ''{'' ''width'' (640 :: int32) = append_int ''{'' ''width'' (128 :: int32)"
  by (rule append_int_one_byte[of "640 :: int32" "''{''" "''width''" 128, THEN conjunct2, THEN iffD2]) simp

end
