(* ===== verification/TgReaderProps.thy ===== *)
theory TgReaderProps
  imports TgReader JsonText TgWriter
begin

text \<open>
  What the reader of the Telegram objects makes of JSON: the shape of every message it returns, and
  that it reads back an update that is laid out by the names it looks for.
\<close>

section \<open>The shape of a message\<close>

text \<open>What no message that was read has, down the chain of the messages it replies to.\<close>

fun message_shape :: "'f message \<Rightarrow> bool" where
  "message_shape m \<longleftrightarrow>
     msg_chat m \<noteq> None \<and> msg_voice m = None \<and> msg_venue m = None \<and> msg_pinnedMessage m = None \<and>
     msg_caption m \<in> {[CHR 0x00], [CHR 0x01]} \<and>
     None \<notin> set (msg_entities m) \<and> None \<notin> set (msg_photo m) \<and> None \<notin> set (msg_newChatPhoto m) \<and>
     (case msg_replyToMessage m of None \<Rightarrow> True | Some r \<Rightarrow> message_shape r)"

declare message_shape.simps [simp del]

lemma try_Inr: "tryParseJson f t k = Inr x \<longleftrightarrow> (case pt_find t k of None \<Rightarrow> x = None | Some c \<Rightarrow> \<exists>y. f c = Inr y \<and> x = Some y)"
  by (auto simp: tryParseJson_def err_simps split: option.split)

lemma array_some: "parseJsonAndGetArrayAt f t k = Inr xs \<Longrightarrow> None \<notin> set xs"
proof -
  have "mapE (\<lambda>kv. bindE (f (snd kv)) (\<lambda>x. Inr (Some x))) kvs = Inr xs \<Longrightarrow> None \<notin> set xs" for kvs xs
    by (induction kvs arbitrary: xs) (auto simp: err_simps)
  thus "parseJsonAndGetArrayAt f t k = Inr xs \<Longrightarrow> ?thesis" by (auto simp: parseJsonAndGetArrayAt_def split: option.splits)
qed

lemma char_of_bool_cases: "[char_of_bool b] \<in> {[CHR 0x00], [CHR 0x01]}"
  by (cases b) (simp_all add: char_of_bool_def char_of_def)

lemma message_parts:
  assumes "parseJsonAndGetMessage L t = Inr m"
  shows "msg_chat m \<noteq> None \<and> msg_voice m = None \<and> msg_venue m = None \<and> msg_pinnedMessage m = None \<and>
    (\<exists>b. msg_caption m = [char_of_bool b]) \<and>
    tryParseJson (parseJsonAndGetUser L) t ''from'' = Inr (msg_from m) \<and>
    tryParseJson (parseJsonAndGetMessage L) t ''reply_to_message'' = Inr (msg_replyToMessage m) \<and>
    parseJsonAndGetArrayAt (parseJsonAndGetEntity L) t ''entities'' = Inr (msg_entities m) \<and>
    parseJsonAndGetArrayAt (parseJsonAndGetPhotoSize L) t ''photo'' = Inr (msg_photo m) \<and>
    parseJsonAndGetArrayAt (parseJsonAndGetPhotoSize L) t ''new_chat_photo'' = Inr (msg_newChatPhoto m)"
  using assms[unfolded parseJsonAndGetMessage.simps[of L t] bindE_eq_Inr]
  by (elim exE conjE) (simp only: sum.inject, elim subst, simp, blast)

text \<open>Property C30. A message that was read without an exception has a chat; its voice, venue and pinned message
  are null pointers, its caption is one character with the code 0 or 1, no element of its arrays is a
  null pointer, and so are the messages it replies to. It has a sender exactly if the JSON names one.\<close>

theorem message_reader_type:
  assumes "parseJsonAndGetMessage L t = Inr m"
  shows "message_shape m \<and> (msg_from m = None \<longleftrightarrow> \<not> pt_has t ''from'')"
  using assms
proof (induction "size t" arbitrary: t m rule: less_induct)
  case less
  note m = message_parts[OF less.prems]
  have "case msg_replyToMessage m of None \<Rightarrow> True | Some r \<Rightarrow> message_shape r"
  proof (cases "msg_replyToMessage m")
    case (Some r)
    then obtain c where "pt_find t ''reply_to_message'' = Some c" "parseJsonAndGetMessage L c = Inr r"
      using m by (auto simp: try_Inr split: option.splits)
    thus ?thesis using less.hyps[OF pt_find_smaller] Some by simp
  qed simp
  moreover have "None \<notin> set (msg_entities m)" "None \<notin> set (msg_photo m)" "None \<notin> set (msg_newChatPhoto m)"
    using m array_some by blast+
  moreover have "msg_caption m \<in> {[CHR 0x00], [CHR 0x01]}" using m char_of_bool_cases by metis
  moreover have "msg_from m = None \<longleftrightarrow> \<not> pt_has t ''from''"
    using m by (auto simp: try_Inr pt_has_def split: option.splits)
  ultimately show ?case using m by (simp add: message_shape.simps[of m])
qed


section \<open>Reading back\<close>

text \<open>
  The JSON of each object by the names the reader looks for: the required members always, the others
  unless they have the value that the reader gives to a missing one.
\<close>

definition array_member :: "('a \<Rightarrow> json) \<Rightarrow> 'a option list \<Rightarrow> json option" where
  "array_member f xs = (if xs = [] then None else Some (JArr (map (\<lambda>x. f (the x)) xs)))"

lemma try_members:
  "distinct (map fst kvs) \<Longrightarrow> tryParseJson f (tree_of_json (members kvs)) k =
     (case map_of kvs k of Some (Some v) \<Rightarrow> bindE (f (tree_of_json v)) (\<lambda>x. Inr (Some x)) | _ \<Rightarrow> Inr None)"
  by (simp add: tryParseJson_def find_members split: option.split)

lemma member_data:
  "(case str_member s of None \<Rightarrow> [] | Some v \<Rightarrow> pt_data (tree_of_json v)) = s"
  by (simp add: str_member_def)

lemma read_str_d:
  "distinct (map fst kvs) \<Longrightarrow> k \<noteq> [] \<Longrightarrow> CHR ''.'' \<notin> set k \<Longrightarrow> map_of kvs k = Some (str_member s) \<Longrightarrow>
    get_str_d (tree_of_json (members kvs)) k [] = s"
  by (simp add: get_members str_member_def)

lemma read_int32_d:
  "reads_scalars L \<Longrightarrow> distinct (map fst kvs) \<Longrightarrow> k \<noteq> [] \<Longrightarrow> CHR ''.'' \<notin> set k \<Longrightarrow> map_of kvs k = Some (int_member L i) \<Longrightarrow>
    get_int32_d L (tree_of_json (members kvs)) k 0 = i"
  by (simp add: get_members int_member_def reads_scalarsD)

lemma read_int64_d:
  "reads_scalars L \<Longrightarrow> distinct (map fst kvs) \<Longrightarrow> k \<noteq> [] \<Longrightarrow> CHR ''.'' \<notin> set k \<Longrightarrow> map_of kvs k = Some (int_member L i) \<Longrightarrow>
    get_int64_d L (tree_of_json (members kvs)) k 0 = i"
  by (simp add: get_members int_member_def reads_scalarsD)

lemma read_bool_d:
  "reads_scalars L \<Longrightarrow> distinct (map fst kvs) \<Longrightarrow> k \<noteq> [] \<Longrightarrow> CHR ''.'' \<notin> set k \<Longrightarrow> map_of kvs k = Some (bool_member b) \<Longrightarrow>
    get_bool_d L (tree_of_json (members kvs)) k False = b"
  by (simp add: get_members bool_member_def reads_scalarsD)

lemma read_try:
  assumes "distinct (map fst kvs)" and "map_of kvs k = Some (map_option j x)" and "\<And>y. x = Some y \<Longrightarrow> f (tree_of_json (j y)) = Inr y"
  shows "tryParseJson f (tree_of_json (members kvs)) k = Inr x"
  using assms(3) by (cases x) (simp_all add: try_members assms(1,2))

lemma read_array:
  assumes "distinct (map fst kvs)" and "map_of kvs k = Some (array_member j xs)" and "None \<notin> set xs"
    and "\<And>y. f (tree_of_json (j y)) = Inr y"
  shows "parseJsonAndGetArrayAt f (tree_of_json (members kvs)) k = Inr xs"
proof -
  have "mapE (\<lambda>kv. bindE (f (snd kv)) (\<lambda>x. Inr (Some x))) (map (\<lambda>x. ([] :: string, tree_of_json (j (the x)))) xs) = Inr xs"
  proof (rule mapE_map_Inr)
    fix x assume "x \<in> set xs"
    then obtain y where "x = Some y" using assms(3) by (metis option.exhaust)
    thus "bindE (f (snd ([], tree_of_json (j (the x))))) (\<lambda>x. Inr (Some x)) = Inr x" using assms(4) by simp
  qed
  thus ?thesis
    by (simp add: parseJsonAndGetArrayAt_def find_members assms(1,2) array_member_def comp_def)
qed

lemmas read_members = get_members(1) reads_scalarsD read_str_d read_int32_d read_int64_d read_bool_d read_try

definition user_json :: "('d, 'f) lib \<Rightarrow> tg_user \<Rightarrow> json" where
  "user_json L x = members [(''id'', Some (JNum (lc_int L (sint (usr_id x))))),
     (''first_name'', Some (JStr (usr_firstName x))),
     (''last_name'', str_member (usr_lastName x)),
     (''username'', str_member (usr_username x))]"

lemma read_user: "reads_scalars L \<Longrightarrow> parseJsonAndGetUser L (tree_of_json (user_json L x)) = Inr x"
  by (cases x) (simp add: parseJsonAndGetUser_def user_json_def read_members)

definition photo_json :: "('d, 'f) lib \<Rightarrow> photo_size \<Rightarrow> json" where
  "photo_json L x = members [(''file_id'', Some (JStr (ps_fileId x))),
     (''width'', Some (JNum (lc_int L (sint (ps_width x))))),
     (''height'', Some (JNum (lc_int L (sint (ps_height x))))),
     (''file_size'', int_member L (ps_fileSize x))]"

lemma read_photo: "reads_scalars L \<Longrightarrow> parseJsonAndGetPhotoSize L (tree_of_json (photo_json L x)) = Inr x"
  by (cases x) (simp add: parseJsonAndGetPhotoSize_def photo_json_def read_members)

definition audio_json :: "('d, 'f) lib \<Rightarrow> audio \<Rightarrow> json" where
  "audio_json L x = members [(''file_id'', Some (JStr (aud_fileId x))),
     (''duration'', Some (JNum (lc_int L (sint (aud_duration x))))),
     (''performer'', str_member (aud_performer x)),
     (''title'', str_member (aud_title x)),
     (''mime_type'', str_member (aud_mimeType x)),
     (''file_size'', int_member L (aud_fileSize x))]"

lemma read_audio: "reads_scalars L \<Longrightarrow> parseJsonAndGetAudio L (tree_of_json (audio_json L x)) = Inr x"
  by (cases x) (simp add: parseJsonAndGetAudio_def audio_json_def read_members)

definition document_json :: "('d, 'f) lib \<Rightarrow> document \<Rightarrow> json" where
  "document_json L x = members [(''file_id'', Some (JStr (doc_fileId x))),
     (''thumb'', map_option (photo_json L) (doc_thumb x)),
     (''file_name'', str_member (doc_fileName x)),
     (''mime_type'', str_member (doc_mimeType x)),
     (''file_size'', int_member L (doc_fileSize x))]"

lemma read_document: "reads_scalars L \<Longrightarrow> parseJsonAndGetDocument L (tree_of_json (document_json L x)) = Inr x"
  by (cases x) (simp add: parseJsonAndGetDocument_def document_json_def read_members read_photo)

definition sticker_json :: "('d, 'f) lib \<Rightarrow> sticker \<Rightarrow> json" where
  "sticker_json L x = members [(''file_id'', Some (JStr (stk_fileId x))),
     (''width'', Some (JNum (lc_int L (sint (stk_width x))))),
     (''height'', Some (JNum (lc_int L (sint (stk_height x))))),
     (''thumb'', map_option (photo_json L) (stk_thumb x)),
     (''emoji'', Some (JStr (stk_emoji x))),
     (''file_size'', int_member L (stk_fileSize x))]"

lemma read_sticker: "reads_scalars L \<Longrightarrow> parseJsonAndGetSticker L (tree_of_json (sticker_json L x)) = Inr x"
  by (cases x) (simp add: parseJsonAndGetSticker_def sticker_json_def read_members read_photo)

definition video_json :: "('d, 'f) lib \<Rightarrow> video \<Rightarrow> json" where
  "video_json L x = members [(''file_id'', Some (JStr (vid_fileId x))),
     (''width'', Some (JNum (lc_int L (sint (vid_width x))))),
     (''height'', Some (JNum (lc_int L (sint (vid_height x))))),
     (''duration'', Some (JNum (lc_int L (sint (vid_duration x))))),
     (''thumb'', map_option (photo_json L) (vid_thumb x)),
     (''mime_type'', str_member (vid_mimeType x)),
     (''file_size'', int_member L (vid_fileSize x))]"

lemma read_video: "reads_scalars L \<Longrightarrow> parseJsonAndGetVideo L (tree_of_json (video_json L x)) = Inr x"
  by (cases x) (simp add: parseJsonAndGetVideo_def video_json_def read_members read_photo)

definition contact_json :: "('d, 'f) lib \<Rightarrow> contact \<Rightarrow> json" where
  "contact_json L x = members [(''phone_number'', Some (JStr (con_phoneNumber x))),
     (''first_name'', Some (JStr (con_firstName x))),
     (''last_name'', str_member (con_lastName x)),
     (''user_id'', str_member (con_userId x))]"

lemma read_contact: "reads_scalars L \<Longrightarrow> parseJsonAndGetContact L (tree_of_json (contact_json L x)) = Inr x"
  by (cases x) (simp add: parseJsonAndGetContact_def contact_json_def read_members)

definition entity_json :: "('d, 'f) lib \<Rightarrow> message_entity \<Rightarrow> json" where
  "entity_json L x = members [(''type'', Some (JStr (ent_type x))),
     (''offset'', Some (JNum (lc_int L (sint (ent_offset x))))),
     (''length'', Some (JNum (lc_int L (sint (ent_length x))))),
     (''url'', str_member (ent_url x)),
     (''user'', map_option (user_json L) (ent_user x))]"

lemma read_entity: "reads_scalars L \<Longrightarrow> parseJsonAndGetEntity L (tree_of_json (entity_json L x)) = Inr x"
  by (cases x) (simp add: parseJsonAndGetEntity_def entity_json_def read_members read_user)


definition chat_type_text :: "chat_type \<Rightarrow> string" where
  "chat_type_text c = (case c of Private \<Rightarrow> ''private'' | Group \<Rightarrow> ''group'' | Supergroup \<Rightarrow> ''supergroup'' | Channel \<Rightarrow> ''channel'')"

definition chat_json :: "('d, 'f) lib \<Rightarrow> chat \<Rightarrow> json" where
  "chat_json L x = members [(''id'', Some (JNum (lc_int L (sint (chat_id x))))),
     (''type'', Some (JStr (chat_type_text (the (chat_type x))))),
     (''title'', str_member (chat_title x)),
     (''username'', str_member (chat_username x)),
     (''first_name'', str_member (chat_firstName x)),
     (''last_name'', str_member (chat_lastName x)),
     (''all_members_are_administrators'', bool_member (chat_allMembersAreAdministrators x))]"

lemma chat_type_read:
  "(if chat_type_text c = ''private'' then Some Private else if chat_type_text c = ''group'' then Some Group
    else if chat_type_text c = ''supergroup'' then Some Supergroup
    else if chat_type_text c = ''channel'' then Some Channel else None) = Some c"
  by (cases c) (simp_all add: chat_type_text_def)

lemma read_chat:
  assumes "reads_scalars L" and "chat_type x \<noteq> None"
  shows "parseJsonAndGetChat L (tree_of_json (chat_json L x)) = Inr x"
proof -
  obtain c where "chat_type x = Some c" using assms(2) by auto
  thus ?thesis using assms(1) chat_type_read[of c]
    by (cases x) (simp add: parseJsonAndGetChat_def chat_json_def read_members)
qed

definition location_json :: "('f \<Rightarrow> string) \<Rightarrow> 'f location \<Rightarrow> json" where
  "location_json fl x = members [(''longitude'', Some (JNum (fl (loc_longitude x)))), (''latitude'', Some (JNum (fl (loc_latitude x))))]"

lemma read_location: "reads_floats L fl \<Longrightarrow> parseJsonAndGetLocation L (tree_of_json (location_json fl x)) = Inr x"
  by (cases x) (simp add: parseJsonAndGetLocation_def location_json_def get_members reads_floats_def)


section \<open>Messages and updates\<close>

text \<open>The members of a message; \<open>reply\<close> is the JSON of the message it replies to.\<close>

definition message_members :: "('d, 'f) lib \<Rightarrow> ('f \<Rightarrow> string) \<Rightarrow> json option \<Rightarrow> 'f message \<Rightarrow> (string \<times> json option) list" where
  "message_members L fl reply x = [(''message_id'', Some (JNum (lc_int L (sint (msg_messageId x))))),
     (''from'', map_option (user_json L) (msg_from x)),
     (''date'', Some (JNum (lc_int L (sint (msg_date x))))),
     (''chat'', map_option (chat_json L) (msg_chat x)),
     (''forward_from'', map_option (user_json L) (msg_forwardFrom x)),
     (''forward_from_chat'', map_option (chat_json L) (msg_forwardFromChat x)),
     (''forward_from_message_id'', int_member L (msg_forwardFromMessageId x)),
     (''forward_date'', int_member L (msg_forwardDate x)),
     (''reply_to_message'', reply),
     (''edit_date'', int_member L (msg_editDate x)),
     (''text'', str_member (msg_text x)),
     (''entities'', array_member (entity_json L) (msg_entities x)),
     (''audio'', map_option (audio_json L) (msg_audio x)),
     (''document'', map_option (document_json L) (msg_document x)),
     (''photo'', array_member (photo_json L) (msg_photo x)),
     (''sticker'', map_option (sticker_json L) (msg_sticker x)),
     (''video'', map_option (video_json L) (msg_video x)),
     (''contact'', map_option (contact_json L) (msg_contact x)),
     (''location'', map_option (location_json fl) (msg_location x)),
     (''new_chat_participant'', map_option (user_json L) (msg_newChatMember x)),
     (''left_chat_participant'', map_option (user_json L) (msg_leftChatMember x)),
     (''new_chat_title'', str_member (msg_newChatTitle x)),
     (''new_chat_photo'', array_member (photo_json L) (msg_newChatPhoto x)),
     (''delete_chat_photo'', bool_member (msg_deleteChatPhoto x)),
     (''group_chat_created'', bool_member (msg_groupChatCreated x)),
     (''supergroup_chat_created'', bool_member (msg_supergroupChatCreated x)),
     (''channel_chat_created'', bool_member (msg_channelChatCreated x)),
     (''migrate_to_chat_id'', int_member L (msg_migrateToChatId x)),
     (''migrate_from_chat_id'', int_member L (msg_migrateFromChatId x))]"

fun message_json :: "('d, 'f) lib \<Rightarrow> ('f \<Rightarrow> string) \<Rightarrow> 'f message \<Rightarrow> json" where
  "message_json L fl x =
     members (message_members L fl (case msg_replyToMessage x of None \<Rightarrow> None | Some r \<Rightarrow> Some (message_json L fl r)) x)"

declare message_json.simps [simp del]

text \<open>
  A message that can be read back: it has the shape of every message that is read, and its chats have
  a known type. A caption is not among what is read back: the reader takes it for a truth value, so the
  message has the caption that stands for a missing one.
\<close>

fun readable :: "'f message \<Rightarrow> bool" where
  "readable m \<longleftrightarrow>
     msg_chat m \<noteq> None \<and> chat_type (the (msg_chat m)) \<noteq> None \<and>
     (msg_forwardFromChat m = None \<or> chat_type (the (msg_forwardFromChat m)) \<noteq> None) \<and>
     msg_voice m = None \<and> msg_venue m = None \<and> msg_pinnedMessage m = None \<and> msg_caption m = [CHR 0x00] \<and>
     None \<notin> set (msg_entities m) \<and> None \<notin> set (msg_photo m) \<and> None \<notin> set (msg_newChatPhoto m) \<and>
     (case msg_replyToMessage m of None \<Rightarrow> True | Some r \<Rightarrow> readable r)"

declare readable.simps [simp del]

lemma message_distinct: "distinct (map fst (message_members L fl reply x))"
  by (simp add: message_members_def)

lemma message_member:
  "map_of (message_members L fl reply x) ''message_id'' = Some (Some (JNum (lc_int L (sint (msg_messageId x)))))"
  "map_of (message_members L fl reply x) ''from'' = Some (map_option (user_json L) (msg_from x))"
  "map_of (message_members L fl reply x) ''date'' = Some (Some (JNum (lc_int L (sint (msg_date x)))))"
  "map_of (message_members L fl reply x) ''chat'' = Some (map_option (chat_json L) (msg_chat x))"
  "map_of (message_members L fl reply x) ''forward_from'' = Some (map_option (user_json L) (msg_forwardFrom x))"
  "map_of (message_members L fl reply x) ''forward_from_chat'' = Some (map_option (chat_json L) (msg_forwardFromChat x))"
  "map_of (message_members L fl reply x) ''forward_from_message_id'' = Some (int_member L (msg_forwardFromMessageId x))"
  "map_of (message_members L fl reply x) ''forward_date'' = Some (int_member L (msg_forwardDate x))"
  "map_of (message_members L fl reply x) ''reply_to_message'' = Some (reply)"
  "map_of (message_members L fl reply x) ''edit_date'' = Some (int_member L (msg_editDate x))"
  "map_of (message_members L fl reply x) ''text'' = Some (str_member (msg_text x))"
  "map_of (message_members L fl reply x) ''entities'' = Some (array_member (entity_json L) (msg_entities x))"
  "map_of (message_members L fl reply x) ''audio'' = Some (map_option (audio_json L) (msg_audio x))"
  "map_of (message_members L fl reply x) ''document'' = Some (map_option (document_json L) (msg_document x))"
  "map_of (message_members L fl reply x) ''photo'' = Some (array_member (photo_json L) (msg_photo x))"
  "map_of (message_members L fl reply x) ''sticker'' = Some (map_option (sticker_json L) (msg_sticker x))"
  "map_of (message_members L fl reply x) ''video'' = Some (map_option (video_json L) (msg_video x))"
  "map_of (message_members L fl reply x) ''contact'' = Some (map_option (contact_json L) (msg_contact x))"
  "map_of (message_members L fl reply x) ''location'' = Some (map_option (location_json fl) (msg_location x))"
  "map_of (message_members L fl reply x) ''new_chat_participant'' = Some (map_option (user_json L) (msg_newChatMember x))"
  "map_of (message_members L fl reply x) ''left_chat_participant'' = Some (map_option (user_json L) (msg_leftChatMember x))"
  "map_of (message_members L fl reply x) ''new_chat_title'' = Some (str_member (msg_newChatTitle x))"
  "map_of (message_members L fl reply x) ''new_chat_photo'' = Some (array_member (photo_json L) (msg_newChatPhoto x))"
  "map_of (message_members L fl reply x) ''delete_chat_photo'' = Some (bool_member (msg_deleteChatPhoto x))"
  "map_of (message_members L fl reply x) ''group_chat_created'' = Some (bool_member (msg_groupChatCreated x))"
  "map_of (message_members L fl reply x) ''supergroup_chat_created'' = Some (bool_member (msg_supergroupChatCreated x))"
  "map_of (message_members L fl reply x) ''channel_chat_created'' = Some (bool_member (msg_channelChatCreated x))"
  "map_of (message_members L fl reply x) ''migrate_to_chat_id'' = Some (int_member L (msg_migrateToChatId x))"
  "map_of (message_members L fl reply x) ''migrate_from_chat_id'' = Some (int_member L (msg_migrateFromChatId x))"
  "map_of (message_members L fl reply x) ''caption'' = None"
  by (simp_all add: message_members_def)

lemmas message_reads = read_str_d[OF message_distinct] read_int32_d[OF _ message_distinct] read_int64_d[OF _ message_distinct]
  read_bool_d[OF _ message_distinct] read_try[OF message_distinct] read_array[OF message_distinct]
  get_members(1)[OF message_distinct] find_members[OF message_distinct] message_member

lemma readable_parts:
  "readable m \<Longrightarrow> msg_chat m = Some c \<Longrightarrow> chat_type c \<noteq> None"
  "readable m \<Longrightarrow> msg_forwardFromChat m = Some c \<Longrightarrow> chat_type c \<noteq> None"
  "readable m \<Longrightarrow> msg_replyToMessage m = Some r \<Longrightarrow> readable r"
  by (simp_all add: readable.simps[of m])

lemma read_message_scalars:
  assumes "reads_scalars L"
  shows
    "get_int32 L (tree_of_json (members (message_members L fl reply x))) ''message_id'' = Inr (msg_messageId x)"
    "get_int32 L (tree_of_json (members (message_members L fl reply x))) ''date'' = Inr (msg_date x)"
    "get_int32_d L (tree_of_json (members (message_members L fl reply x))) ''forward_from_message_id'' 0 = msg_forwardFromMessageId x"
    "get_int32_d L (tree_of_json (members (message_members L fl reply x))) ''forward_date'' 0 = msg_forwardDate x"
    "get_int32_d L (tree_of_json (members (message_members L fl reply x))) ''edit_date'' 0 = msg_editDate x"
    "get_str_d (tree_of_json (members (message_members L fl reply x))) ''text'' [] = msg_text x"
    "get_str_d (tree_of_json (members (message_members L fl reply x))) ''new_chat_title'' [] = msg_newChatTitle x"
    "get_bool_d L (tree_of_json (members (message_members L fl reply x))) ''delete_chat_photo'' False = msg_deleteChatPhoto x"
    "get_bool_d L (tree_of_json (members (message_members L fl reply x))) ''group_chat_created'' False = msg_groupChatCreated x"
    "get_bool_d L (tree_of_json (members (message_members L fl reply x))) ''supergroup_chat_created'' False = msg_supergroupChatCreated x"
    "get_bool_d L (tree_of_json (members (message_members L fl reply x))) ''channel_chat_created'' False = msg_channelChatCreated x"
    "get_int64_d L (tree_of_json (members (message_members L fl reply x))) ''migrate_to_chat_id'' 0 = msg_migrateToChatId x"
    "get_int64_d L (tree_of_json (members (message_members L fl reply x))) ''migrate_from_chat_id'' 0 = msg_migrateFromChatId x"
    "get_bool_d L (tree_of_json (members (message_members L fl reply x))) ''caption'' False = False"
  by (simp_all add: message_reads reads_scalarsD[OF assms] assms)
    (simp add: get_conv_d_def get_child_plain message_reads)

lemma read_message_objects:
  assumes "reads_scalars L" and "reads_floats L fl" and "readable x"
  shows
    "tryParseJson (parseJsonAndGetUser L) (tree_of_json (members (message_members L fl reply x))) ''from'' = Inr (msg_from x)"
    "(case pt_find (tree_of_json (members (message_members L fl reply x))) ''chat'' of None \<Rightarrow> Inl (DerefEnd ''chat'') | Some c \<Rightarrow> parseJsonAndGetChat L c) = Inr (the (msg_chat x))"
    "tryParseJson (parseJsonAndGetUser L) (tree_of_json (members (message_members L fl reply x))) ''forward_from'' = Inr (msg_forwardFrom x)"
    "tryParseJson (parseJsonAndGetChat L) (tree_of_json (members (message_members L fl reply x))) ''forward_from_chat'' = Inr (msg_forwardFromChat x)"
    "parseJsonAndGetArrayAt (parseJsonAndGetEntity L) (tree_of_json (members (message_members L fl reply x))) ''entities'' = Inr (msg_entities x)"
    "tryParseJson (parseJsonAndGetAudio L) (tree_of_json (members (message_members L fl reply x))) ''audio'' = Inr (msg_audio x)"
    "tryParseJson (parseJsonAndGetDocument L) (tree_of_json (members (message_members L fl reply x))) ''document'' = Inr (msg_document x)"
    "parseJsonAndGetArrayAt (parseJsonAndGetPhotoSize L) (tree_of_json (members (message_members L fl reply x))) ''photo'' = Inr (msg_photo x)"
    "tryParseJson (parseJsonAndGetSticker L) (tree_of_json (members (message_members L fl reply x))) ''sticker'' = Inr (msg_sticker x)"
    "tryParseJson (parseJsonAndGetVideo L) (tree_of_json (members (message_members L fl reply x))) ''video'' = Inr (msg_video x)"
    "tryParseJson (parseJsonAndGetContact L) (tree_of_json (members (message_members L fl reply x))) ''contact'' = Inr (msg_contact x)"
    "tryParseJson (parseJsonAndGetLocation L) (tree_of_json (members (message_members L fl reply x))) ''location'' = Inr (msg_location x)"
    "tryParseJson (parseJsonAndGetUser L) (tree_of_json (members (message_members L fl reply x))) ''new_chat_participant'' = Inr (msg_newChatMember x)"
    "tryParseJson (parseJsonAndGetUser L) (tree_of_json (members (message_members L fl reply x))) ''left_chat_participant'' = Inr (msg_leftChatMember x)"
    "parseJsonAndGetArrayAt (parseJsonAndGetPhotoSize L) (tree_of_json (members (message_members L fl reply x))) ''new_chat_photo'' = Inr (msg_newChatPhoto x)"
proof -
  have c: "msg_chat x = Some (the (msg_chat x))" using assms(3) by (auto simp: readable.simps[of x])
  show chat: "(case pt_find (tree_of_json (members (message_members L fl reply x))) ''chat'' of
      None \<Rightarrow> Inl (DerefEnd ''chat'') | Some c \<Rightarrow> parseJsonAndGetChat L c) = Inr (the (msg_chat x))"
    by (subst find_members[OF message_distinct], subst message_member, subst c)
       (simp add: read_chat[OF assms(1)] readable_parts(1)[OF assms(3) c])
qed (use assms readable_parts(2)[OF assms(3)] in \<open>simp_all add: message_reads read_user read_photo read_audio read_document
  read_sticker read_video read_contact read_entity read_location read_chat readable.simps[of x]\<close>)

lemma read_message:
  "reads_scalars L \<Longrightarrow> reads_floats L fl \<Longrightarrow> readable m \<Longrightarrow> parseJsonAndGetMessage L (tree_of_json (message_json L fl m)) = Inr m"
proof (induction L fl m rule: message_json.induct)
  case (1 L fl x)
  let ?reply = "case msg_replyToMessage x of None \<Rightarrow> None | Some r \<Rightarrow> Some (message_json L fl r)"
  have reply: "tryParseJson (parseJsonAndGetMessage L) (tree_of_json (members (message_members L fl ?reply x))) ''reply_to_message'' =
      Inr (msg_replyToMessage x)"
    using "1.IH"[OF _ "1.prems"(1,2)] readable_parts(3)[OF "1.prems"(3)]
    by (simp add: try_members[OF message_distinct] message_member split: option.split)
  have rest: "msg_chat x = Some (the (msg_chat x))" "msg_voice x = None" "msg_venue x = None" "msg_pinnedMessage x = None"
    "msg_caption x = [CHR 0x00]" using "1.prems"(3) by (auto simp: readable.simps[of x])
  show ?case
    unfolding message_json.simps[of L fl x] parseJsonAndGetMessage.simps[of L "tree_of_json (members _)"]
    by (simp only: reply read_message_scalars[OF "1.prems"(1)] read_message_objects[OF "1.prems"] bindE_Inr)
       (use rest in \<open>cases x, simp add: char_of_bool_def char_of_def\<close>)
qed


definition inline_query_json :: "('d, 'f) lib \<Rightarrow> ('f \<Rightarrow> string) \<Rightarrow> 'f inline_query \<Rightarrow> json" where
  "inline_query_json L fl x = members [(''id'', Some (JStr (iq_id x))),
     (''from'', map_option (user_json L) (iq_from x)),
     (''location'', map_option (location_json fl) (iq_location x)),
     (''query'', Some (JStr (iq_query x))),
     (''offset'', Some (JStr (iq_offset x)))]"

lemma read_inline_query:
  "reads_scalars L \<Longrightarrow> reads_floats L fl \<Longrightarrow> parseJsonAndGetInlineQuery L (tree_of_json (inline_query_json L fl x)) = Inr x"
  by (cases x) (simp add: parseJsonAndGetInlineQuery_def inline_query_json_def read_members read_user read_location)

definition chosen_json :: "('d, 'f) lib \<Rightarrow> ('f \<Rightarrow> string) \<Rightarrow> 'f chosen_inline_result \<Rightarrow> json" where
  "chosen_json L fl x = members [(''result_id'', Some (JStr (cir_resultId x))),
     (''from'', map_option (user_json L) (cir_from x)),
     (''location'', map_option (location_json fl) (cir_location x)),
     (''inline_message_id'', str_member (cir_inlineMessageId x)),
     (''query'', Some (JStr (cir_query x)))]"

lemma read_chosen:
  "reads_scalars L \<Longrightarrow> reads_floats L fl \<Longrightarrow> parseJsonAndGetChosenInlineResult L (tree_of_json (chosen_json L fl x)) = Inr x"
  by (cases x) (simp add: parseJsonAndGetChosenInlineResult_def chosen_json_def read_members read_user read_location)

definition callback_json :: "('d, 'f) lib \<Rightarrow> ('f \<Rightarrow> string) \<Rightarrow> 'f callback_query \<Rightarrow> json" where
  "callback_json L fl x = members [(''id'', Some (JStr (cbq_id x))),
     (''from'', map_option (user_json L) (cbq_from x)),
     (''message'', map_option (message_json L fl) (cbq_message x)),
     (''inline_message_id'', str_member (cbq_inlineMessageId x)),
     (''chat_instance'', Some (JStr (cbq_chatInstance x))),
     (''data'', str_member (cbq_data x)),
     (''game_short_name'', str_member (cbq_gameShortName x))]"

definition all_readable :: "'f message option list \<Rightarrow> bool" where
  "all_readable ms \<longleftrightarrow> (\<forall>m. Some m \<in> set ms \<longrightarrow> readable m)"

lemma read_callback:
  "reads_scalars L \<Longrightarrow> reads_floats L fl \<Longrightarrow> all_readable [cbq_message x] \<Longrightarrow>
    parseJsonAndGetCallbackQuery L (tree_of_json (callback_json L fl x)) = Inr x"
  by (cases x) (simp add: parseJsonAndGetCallbackQuery_def callback_json_def read_members read_user read_message all_readable_def)

definition update_json :: "('d, 'f) lib \<Rightarrow> ('f \<Rightarrow> string) \<Rightarrow> 'f update \<Rightarrow> json" where
  "update_json L fl x = members [(''update_id'', Some (JNum (lc_int L (sint (upd_updateId x))))),
     (''message'', map_option (message_json L fl) (upd_message x)),
     (''edited_message'', map_option (message_json L fl) (upd_editedMessage x)),
     (''channel_post'', map_option (message_json L fl) (upd_channelPost x)),
     (''edited_channel_post'', map_option (message_json L fl) (upd_editedChannelPost x)),
     (''inline_query'', map_option (inline_query_json L fl) (upd_inlineQuery x)),
     (''chosen_inline_result'', map_option (chosen_json L fl) (upd_chosenInlineResult x)),
     (''callback_query'', map_option (callback_json L fl) (upd_callbackQuery x))]"

definition update_messages :: "'f update \<Rightarrow> 'f message option list" where
  "update_messages x =
     [upd_message x, upd_editedMessage x, upd_channelPost x, upd_editedChannelPost x,
      case upd_callbackQuery x of None \<Rightarrow> None | Some q \<Rightarrow> cbq_message q]"



section \<open>A concrete update\<close>

definition int_of_dec :: "string \<Rightarrow> int option" where
  "int_of_dec s =
     (case s of
        [] \<Rightarrow> None
      | c # t \<Rightarrow> if c = CHR ''-'' then map_option (\<lambda>n. - int n) (nat_of_dec t) else map_option int (nat_of_dec s))"

definition json_lib :: "(int, int) lib" where
  "json_lib = ref_lib\<lparr>tr_int32 := \<lambda>s. map_option word_of_int (int_of_dec s), tr_int64 := \<lambda>s. map_option word_of_int (int_of_dec s),
     tr_float := int_of_dec\<rparr>"

lemma dec_digit_value: "n < 10 \<Longrightarrow> of_char (dec_digit n) = 48 + n"
proof -
  assume "n < 10"
  hence "n \<in> {0, 1, 2, 3, 4, 5, 6, 7, 8, 9}" by auto
  thus ?thesis by (auto simp: dec_digit_def)
qed

lemma nat_of_dec_nat: "nat_of_dec (dec_nat n) = Some n"
proof -
  have "foldl (\<lambda>n c. 10 * n + (of_char c - 48)) 0 (dec_nat n) = n"
  proof (induction n rule: dec_nat.induct)
    case (1 n)
    show ?case
    proof (cases "n < 10")
      case True
      thus ?thesis by (simp add: dec_nat.simps[of n] dec_digit_value)
    next
      case False
      thus ?thesis using "1.IH" by (simp add: dec_nat.simps[of n] dec_digit_value)
    qed
  qed
  moreover have "dec_nat n \<noteq> []" by (simp add: dec_nat.simps[of n])
  moreover have "list_all (\<lambda>c. c \<in> set ''0123456789'') (dec_nat n)" using dec_nat_chars by (auto simp only: list_all_iff)
  ultimately show ?thesis by (simp only: nat_of_dec_def if_True simp_thms not_False_eq_True)
qed

lemma int_of_dec_int: "int_of_dec (ref_int i) = Some i"
proof (cases "i < 0")
  case False
  obtain c t where c: "dec_nat (nat i) = c # t" by (metis dec_nat.simps append_is_Nil_conv neq_Nil_conv)
  have "c \<in> set ''0123456789''" by (rule dec_nat_chars[of c "nat i"]) (simp add: c)
  hence "c \<noteq> CHR ''-''" by auto
  thus ?thesis using False c nat_of_dec_nat[of "nat i"] by (simp add: ref_int_def int_of_dec_def)
qed (simp add: ref_int_def int_of_dec_def nat_of_dec_nat)

lemma json_lib_reads [simp]: "reads_scalars json_lib" "reads_floats json_lib ref_int"
  by (simp_all add: reads_scalars_def reads_floats_def json_lib_def ref_lib_def int_of_dec_int)

definition demo_chat :: chat where
  "demo_chat = \<lparr>chat_id = - 7, chat_type = Some Group, chat_title = ''home'', chat_username = [], chat_firstName = [],
     chat_lastName = [], chat_allMembersAreAdministrators = True\<rparr>"

definition demo_message :: "int message" where
  "demo_message = Message 12 (Some \<lparr>usr_id = 8, usr_firstName = ''Bob'', usr_lastName = [], usr_username = ''bob''\<rparr>) 1500000000
     (Some demo_chat) None None 0 0 None 0 ''/where'' [] None None [Some \<lparr>ps_fileId = ''x'', ps_width = 4, ps_height = 3, ps_fileSize = 0\<rparr>]
     None None None [CHR 0x00] None (Some \<lparr>loc_longitude = - 3, loc_latitude = 50\<rparr>) None None None [] []
     False False False False 0 0 None"

lemma demo_readable [simp]: "readable demo_message"
  by (simp add: demo_message_def demo_chat_def readable.simps)

definition demo_update :: "int update" where
  "demo_update = \<lparr>upd_updateId = 5, upd_message = Some demo_message, upd_editedMessage = None, upd_channelPost = None,
     upd_editedChannelPost = None, upd_inlineQuery = None, upd_chosenInlineResult = None, upd_callbackQuery = None\<rparr>"


theorem message_reader_type_witness:
  "message_shape demo_message \<and> pt_has (tree_of_json (message_json json_lib ref_int demo_message)) ''from''"
  using message_reader_type[OF read_message[OF json_lib_reads demo_readable]]
  by (simp add: demo_message_def)

end
