(* ===== verification/Spec2Isabelle.thy ===== *)
theory Spec2Isabelle
  imports StartupModel LocationProps AccessProps QueueProps SettingsProps TransmitterProps TgProps TgReaderProps UrlParse HttpMessage UtilitiesModel
begin

text \<open>
  A verification development of gpsinformer: a daemon that takes the reports of a GPS tracker over TCP,
  stores them in SQLite, repeats them to a remote host, and tells them to the users of a Telegram bot,
  who arm and disarm the alarm by chat commands. All paths below are relative to \<open>src/src\<close>.

  \<^bold>\<open>The parts and how they interact.\<close> \<open>Application\<close> is one object with four roles. As the handler of its
  \<open>TcpServer\<close> it keeps a \<open>Device\<close> per tracker session, whose protocol turns packets into commands, commands into
  \<open>GpsMessage\<close>s, and these into events. An event is sent to the users whose mode asks for it (through
  \<open>TelegramBot\<close>, whose requests queue up in an \<open>HttpsClient\<close> over an \<open>SslClient\<close> over a \<open>TcpClient\<close>) and stored in
  the database. As the handler of a second \<open>TcpClient\<close>, the transmitter, it repeats the tracker's commands to a
  remote host and passes the host's commands on to the authorised tracker. As the handler of the bot it reads
  text messages as commands.

  \<^bold>\<open>State and steps.\<close> A component is a record of the members of its class. A callback gets and returns the client
  together with everything that is the handler's own, so a whole stack of clients is a nested pair:
  \<open>system\<close> = server \<open>\<times>\<close> (transmitter \<open>\<times>\<close> (link \<open>\<times>\<close> (TLS client \<open>\<times>\<close> (queue \<open>\<times>\<close> (bot \<open>\<times>\<close> application))))). Each
  asynchronous operation is a pending entry of its client; the event loop completes pending operations and
  timers in any order and with any result. Exceptions that nothing catches, null pointers and reads of an empty
  deque are values of a fault, which ends the run; every other error is a value.

  \<^bold>\<open>Theories.\<close>
  \<^item> \<open>Prelude\<close>: integers, strings and \<open>std::string\<close> searches, the error monad, the record \<open>lib\<close> of Boost's functions
    with their documented laws, and a concrete library for witnesses. \<open>Ptree\<close>: Boost's property tree.
  \<^item> \<open>TgTypes\<close>, \<open>TgReader\<close>, \<open>TgWriter\<close>: \<open>tgbot/types/*.h\<close> and \<open>tgbot/TgTypeParser.*\<close>, each class, reader and
    writer. \<open>JsonText\<close>: JSON values, their text and tree. \<open>TgReaderProps\<close>, \<open>TgProps\<close>: the shape of what is read,
    reading back, the reply markup as JSON, and how numbers are written.
  \<^item> \<open>UrlParse\<close> (\<open>Url.*\<close>), \<open>HttpMessage\<close> (\<open>HttpParser.*\<close>, \<open>HttpRequest.*\<close>, \<open>HttpReqArg.h\<close>): parsing and printing.
  \<^item> \<open>TcpClientModel\<close> (\<open>TcpClient.*\<close>), \<open>SslClientModel\<close> (\<open>SslClient.*\<close>), \<open>HttpsClientModel\<close> (\<open>HttpsClient.*\<close>),
    \<open>TelegramBotModel\<close> (\<open>TelegramBot.*\<close>): the client stack. Each states the contract of its user as a locale
    (\<open>tcp_user\<close>, \<open>ssl_user\<close> with \<open>ssl_session\<close>, \<open>http_user\<close>, \<open>telegram_user\<close>: a callback does no more than call
    public members), proves the invariant of every run inside it, and the next layer is shown to meet the
    contract by a sublocale.
  \<^item> \<open>TcpServerModel\<close> (\<open>TcpServer.*\<close>, \<open>TcpSession.*\<close>): sessions in a store, the contract \<open>session_user\<close>.
  \<^item> \<open>DatabaseModel\<close> (\<open>ApplicationDatabase.cpp\<close>, \<open>GpsMessage.h\<close>, \<open>User.h\<close>, \<open>UserSettings.h\<close>) over SQLite's C interface as
    a record of functions; \<open>SqliteReference\<close>: an executable reference of the documented behaviour of the statements used,
    and what it means that an SQLite refines it; \<open>DatabaseProps\<close>: settings and users that are stored are found
    again; \<open>GpsDataProps\<close>: the table of tracker data refines a log of messages.
  \<^item> \<open>UtilitiesModel\<close> (\<open>Utilities.cpp\<close>): wildcards against their meaning, the printer of the settings.
  \<^item> \<open>ApplicationModel\<close> (\<open>Application.h\<close>, \<open>ApplicationEvents.cpp\<close>, start-up and status messages of
    \<open>ApplicationTelegram.cpp\<close>), \<open>CommandsModel\<close> (\<open>ApplicationCommands.cpp\<close>, \<open>ChatCommand.h\<close>, \<open>handleMessage\<close>): who is told,
    who may do what, texts as commands; interprets \<open>telegram_user\<close> on the application. \<open>AccessProps\<close>: the
    table of users as a map to access levels, and how a code opens the alarm. \<open>SettingsProps\<close>: what \<open>/set\<close> does to the
    value of every key.
  \<^item> \<open>ReceiverModel\<close> (\<open>Device.*\<close>, \<open>ApplicationReceiver.cpp\<close>), \<open>ReceiverProps\<close>: the tracker's protocol; interprets
    \<open>session_user\<close>. \<open>LocationProps\<close>: a position on its way from a packet over the events and the database to the answer
    of \<open>/where\<close> and \<open>/status\<close>. \<open>TransmitterModel\<close> (\<open>ApplicationTransmitter.cpp\<close>), \<open>TransmitterProps\<close>; interprets \<open>tcp_user\<close>.
  \<^item> \<open>ProgramModel\<close>, \<open>ProgramProps\<close>: \<open>Application::main\<close> and the event loop over all components. Every run of the program
    is, seen from each component, a run of that component under its contract, so the invariants of the
    interpretations hold in it. \<open>QueueProps\<close>: the bot's requests are served in order.
  \<^item> \<open>StartupModel\<close> (\<open>Application.cpp\<close>, \<open>Main.cpp\<close>): the command line, the configuration file and the log, when a start
    is the start of a run, and that modes survive a restart.

  \<^bold>\<open>Bounds and fuel.\<close> All integers have the code's width (\<open>int32\<close>, \<open>int64\<close>, \<open>unsigned int\<close>). Loops over buffers
  and texts are total functions with a measure. The loop of TLS reads has fuel \<open>n\<close>, since mbedTLS decides when it
  ends; the property on it shows that one more than the number of records is enough. The loop over the rows
  of a query is bounded by the field \<open>sq_rows\<close> of the SQLite record; for the properties it has to be at least the
  number of rows. \<open>BUFFER_LIMIT\<close> is the 32768 of the code.

  \<^bold>\<open>Parameters.\<close> Boost's algorithms, conversions and times, its JSON reader, floating-point arithmetic, randomness, mbedTLS,
  SQLite, and the results of system calls are arguments of the definitions. What a property needs of them is a named
  hypothesis that states documented behaviour (\<open>split_ok\<close>, \<open>erase_all_ok\<close>, \<open>reads_scalars\<close>, \<open>reads_records\<close>,
  \<open>sqlite_refines\<close> and others), and its witness has a concrete function for it.

  \<^bold>\<open>Not modelled.\<close> \<open>StdAfx.*\<close> (included headers), the Windows branch of \<open>setApplicationPath\<close>, log messages with the
  texts of addresses, the verification result of a certificate (it is only logged), the lifetime of objects beyond
  their clients, and the vendored libraries under \<open>dep\<close>. Boost's program options, path extensions and
  XML reader and writer are parameters of \<open>StartupModel\<close>.
\<close>

end
